(* ===== verification/Go_Prelude.thy ===== *)
theory Go_Prelude
  imports
    Main
    "HOL-Library.AList"
    "HOL-Library.Word"
    "HOL-Library.Monad_Syntax"
    "HOL-Library.Char_ord"
    "HOL-Library.List_Lexorder"
    "HOL-Library.Multiset"
begin

text \<open>
  What the Go sources use of the language and of its standard library.

  \<^item> A computation that may panic (nil dereference, index out of range, division by zero, write to
    a nil map) has an \<open>option\<close> type and \<^term>\<open>None\<close> is the panic, so the do-notation of
    \<open>option\<close> reads like the Go code: every dereference is a bind. A Go \<open>error\<close> that is returned is
    an ordinary value and never \<^term>\<open>None\<close>.
  \<^item> A Go pointer is an \<open>option\<close>: \<^term>\<open>None\<close> is nil.
  \<^item> A Go map is an \<open>option\<close> of an association list: \<^term>\<open>None\<close> is the nil map, which reads like an
    empty one and panics on a write. Keys are distinct (\<open>gm_ok\<close>). A \<open>range\<close> over a map visits the
    list from left to right; Go leaves the order open, and so do the theorems, which hold for every
    list.
  \<^item> An \<open>int32\<close> is a 32-bit word read with \<^term>\<open>sint\<close>. A Go \<open>int\<close> is an \<^typ>\<open>int\<close> and its 64-bit
    wrap-around is written out (\<open>wrap64\<close>) where an operand is unbounded.
  \<^item> A Go string is a list of bytes. Case conversion is modelled on ASCII, which is all that the
    names of Kubernetes objects may hold.
\<close>

section \<open>Collections of facts\<close>

named_theorems go_consts \<open>definitions of the string constants of the program\<close>
named_theorems go_maps \<open>reading and writing Go maps\<close>
named_theorems go_run \<open>computations that may panic\<close>

section \<open>Machine integers\<close>

type_synonym int32 = "32 word"

definition wrap64 :: "int \<Rightarrow> int" where
  "wrap64 i = signed_take_bit 63 i"

section \<open>Maps\<close>

type_synonym ('k, 'v) gomap = "('k \<times> 'v) list option"

definition gm_entries :: "('k, 'v) gomap \<Rightarrow> ('k \<times> 'v) list" where
  "gm_entries m = (case m of None \<Rightarrow> [] | Some al \<Rightarrow> al)"

definition gm_keys :: "('k, 'v) gomap \<Rightarrow> 'k list" where
  "gm_keys m = map fst (gm_entries m)"

text \<open>\<open>v, ok := m[k]\<close>\<close>

definition gm_get :: "('k, 'v) gomap \<Rightarrow> 'k \<Rightarrow> 'v option" where
  "gm_get m k = map_of (gm_entries m) k"

text \<open>\<open>m[k]\<close> for a map of pointers: absent keys read as nil.\<close>

definition gm_ptr :: "('k, 'v option) gomap \<Rightarrow> 'k \<Rightarrow> 'v option" where
  "gm_ptr m k = (case gm_get m k of None \<Rightarrow> None | Some p \<Rightarrow> p)"

text \<open>\<open>m[k] = v\<close>, a panic on the nil map.\<close>

definition gm_put :: "('k, 'v) gomap \<Rightarrow> 'k \<Rightarrow> 'v \<Rightarrow> ('k, 'v) gomap option" where
  "gm_put m k v = (case m of None \<Rightarrow> None | Some al \<Rightarrow> Some (Some (AList.update k v al)))"

text \<open>\<open>if m == nil \{ m = map[K]V\{\} \}\<close>\<close>

definition gm_make :: "('k, 'v) gomap \<Rightarrow> ('k, 'v) gomap" where
  "gm_make m = (case m of None \<Rightarrow> Some [] | Some al \<Rightarrow> Some al)"

text \<open>\<open>delete(m, k)\<close>, which does nothing on the nil map.\<close>

definition gm_delete :: "('k, 'v) gomap \<Rightarrow> 'k \<Rightarrow> ('k, 'v) gomap" where
  "gm_delete m k = map_option (AList.delete k) m"

definition gm_len :: "('k, 'v) gomap \<Rightarrow> nat" where
  "gm_len m = length (gm_entries m)"

definition gm_ok :: "('k, 'v) gomap \<Rightarrow> bool" where
  "gm_ok m \<longleftrightarrow> distinct (gm_keys m)"

section \<open>Loops that may panic\<close>

text \<open>A loop that rewrites every element of a slice, or every value of a map in place.\<close>

fun mmap :: "('a \<Rightarrow> 'b option) \<Rightarrow> 'a list \<Rightarrow> 'b list option" where
  "mmap f [] = Some []"
| "mmap f (x # xs) = do { y \<leftarrow> f x; ys \<leftarrow> mmap f xs; Some (y # ys) }"

definition mmap_val :: "('v \<Rightarrow> 'w option) \<Rightarrow> ('k \<times> 'v) list \<Rightarrow> ('k \<times> 'w) list option" where
  "mmap_val f = mmap (\<lambda>(k, v). do { w \<leftarrow> f v; Some (k, w) })"

text \<open>A loop that threads a state through the elements.\<close>

fun mfold :: "('a \<Rightarrow> 's \<Rightarrow> 's option) \<Rightarrow> 'a list \<Rightarrow> 's \<Rightarrow> 's option" where
  "mfold f [] s = Some s"
| "mfold f (x # xs) s = do { s' \<leftarrow> f x s; mfold f xs s' }"

text \<open>A loop that returns \<open>true\<close> at the first element that satisfies a test which may panic.\<close>

fun mex :: "('a \<Rightarrow> bool option) \<Rightarrow> 'a list \<Rightarrow> bool option" where
  "mex p [] = Some False"
| "mex p (x # xs) = do { b \<leftarrow> p x; if b then Some True else mex p xs }"

text \<open>A loop that returns the first error; the outer option is the panic.\<close>

fun mfirst :: "('a \<Rightarrow> 'e option option) \<Rightarrow> 'a list \<Rightarrow> 'e option option" where
  "mfirst f [] = Some None"
| "mfirst f (x # xs) = do { e \<leftarrow> f x; case e of Some err \<Rightarrow> Some (Some err) | None \<Rightarrow> mfirst f xs }"

text \<open>\<open>xs[i]\<close> with Go's bounds check.\<close>

definition slice_at :: "'a list \<Rightarrow> int \<Rightarrow> 'a option" where
  "slice_at xs i = (if 0 \<le> i \<and> i < int (length xs) then Some (xs ! nat i) else None)"

text \<open>\<open>xs[lo:hi]\<close> on a slice whose capacity is its length.\<close>

definition subslice :: "'a list \<Rightarrow> int \<Rightarrow> int \<Rightarrow> 'a list option" where
  "subslice xs lo hi =
     (if 0 \<le> lo \<and> lo \<le> hi \<and> hi \<le> int (length xs)
      then Some (take (nat (hi - lo)) (drop (nat lo) xs)) else None)"

section \<open>Strings\<close>

fun nat_digits :: "nat \<Rightarrow> string" where
  "nat_digits n =
     (if n < 10 then [char_of (48 + n)]
      else nat_digits (n div 10) @ [char_of (48 + n mod 10)])"

declare nat_digits.simps [simp del]

text \<open>\<open>strconv.Itoa\<close>, \<open>strconv.FormatInt(i, 10)\<close> and the verb \<open>%d\<close>.\<close>

definition itoa :: "int \<Rightarrow> string" where
  "itoa i = (if i < 0 then CHR ''-'' # nat_digits (nat (- i)) else nat_digits (nat i))"

definition is_digit :: "char \<Rightarrow> bool" where
  "is_digit c \<longleftrightarrow> 48 \<le> (of_char c :: nat) \<and> (of_char c :: nat) \<le> 57"

fun digits_val :: "nat \<Rightarrow> string \<Rightarrow> nat" where
  "digits_val a [] = a"
| "digits_val a (c # cs) = digits_val (10 * a + (of_char c - 48)) cs"

datatype num_error = ErrSyntax | ErrRange

text \<open>
  \<open>strconv.Atoi\<close>: an optional sign and at least one decimal digit, in the range of a 64-bit int.
  The first component is what a caller that drops the error goes on with: 0 for a syntax error and
  the nearest bound for a value out of range.
\<close>

definition atoi :: "string \<Rightarrow> int \<times> num_error option" where
  "atoi s =
     (let neg = (case s of c # _ \<Rightarrow> c = CHR ''-'' | [] \<Rightarrow> False);
          ds = (case s of c # cs \<Rightarrow> if c = CHR ''-'' \<or> c = CHR ''+'' then cs else s | [] \<Rightarrow> [])
      in if ds = [] \<or> \<not> list_all is_digit ds then (0, Some ErrSyntax)
         else let v = (if neg then - int (digits_val 0 ds) else int (digits_val 0 ds))
              in if v < - (2 ^ 63) then (- (2 ^ 63), Some ErrRange)
                 else if 2 ^ 63 - 1 < v then (2 ^ 63 - 1, Some ErrRange)
                 else (v, None))"

text \<open>\<open>strings.Join\<close>\<close>

fun join :: "string list \<Rightarrow> string \<Rightarrow> string" where
  "join [] sep = []"
| "join [x] sep = x"
| "join (x # y # ys) sep = x @ sep @ join (y # ys) sep"

text \<open>\<open>strings.ToLower\<close>\<close>

definition lower_char :: "char \<Rightarrow> char" where
  "lower_char c =
     (if 65 \<le> (of_char c :: nat) \<and> (of_char c :: nat) \<le> 90 then char_of (of_char c + 32 :: nat) else c)"

definition ToLower :: "string \<Rightarrow> string" where
  "ToLower s = map lower_char s"

text \<open>\<open>strings.Replace(s, old, new, -1)\<close> for one-byte \<open>old\<close> and \<open>new\<close>.\<close>

definition replace_char :: "char \<Rightarrow> char \<Rightarrow> string \<Rightarrow> string" where
  "replace_char a b s = map (\<lambda>c. if c = a then b else c) s"

text \<open>\<open>strings.SplitN(s, sep, 2)\<close> for a one-byte separator.\<close>

definition split2 :: "char \<Rightarrow> string \<Rightarrow> string list" where
  "split2 sep s =
     (case dropWhile (\<lambda>c. c \<noteq> sep) s of
        [] \<Rightarrow> [s]
      | _ # rest \<Rightarrow> [takeWhile (\<lambda>c. c \<noteq> sep) s, rest])"

section \<open>Sorting\<close>

text \<open>
  The insertion sort that \<open>sort.Slice\<close> runs on short slices: each element moves to the left while
  it is less than its left neighbour. \<open>sort_slice_unique\<close> shows that, for a strict weak order, every
  other sort agrees with it as long as no two elements are equivalent.
\<close>

fun insert_left :: "('a \<Rightarrow> 'a \<Rightarrow> bool) \<Rightarrow> 'a \<Rightarrow> 'a list \<Rightarrow> 'a list" where
  "insert_left lt x [] = [x]"
| "insert_left lt x (y # ys) = (if lt x y then y # insert_left lt x ys else x # y # ys)"

definition sort_slice :: "('a \<Rightarrow> 'a \<Rightarrow> bool) \<Rightarrow> 'a list \<Rightarrow> 'a list" where
  "sort_slice lt xs = rev (foldl (\<lambda>acc x. insert_left lt x acc) [] xs)"

section \<open>Lemmas on maps\<close>

lemma gm_entries_simps [simp]:
  "gm_entries None = []" "gm_entries (Some al) = al"
  by (simp_all add: gm_entries_def)

lemma gm_make_Some [simp]: "gm_make (Some al) = Some al" "gm_make None = Some []"
  by (simp_all add: gm_make_def)

lemma gm_make_not_None [simp]: "gm_make m \<noteq> None"
  by (simp add: gm_make_def split: option.splits)

lemma gm_make_make [simp]: "gm_make (gm_make m) = gm_make m"
  by (cases m) simp_all

lemma gm_entries_make [simp]: "gm_entries (gm_make m) = gm_entries m"
  by (cases m) simp_all

lemma gm_keys_make [simp]: "gm_keys (gm_make m) = gm_keys m"
  by (simp add: gm_keys_def)

lemma gm_get_make [simp]: "gm_get (gm_make m) k = gm_get m k"
  by (simp add: gm_get_def)

lemma gm_ptr_make [simp]: "gm_ptr (gm_make m) k = gm_ptr m k"
  by (simp add: gm_ptr_def)

lemma gm_ok_make [simp]: "gm_ok (gm_make m) = gm_ok m"
  by (simp add: gm_ok_def)

lemma gm_put_Some_conv:
  "gm_put m k v = Some m' \<longleftrightarrow> (\<exists>al. m = Some al \<and> m' = Some (AList.update k v al))"
  by (auto simp: gm_put_def split: option.splits)

lemma gm_put_Some [simp]: "gm_put (Some al) k v = Some (Some (AList.update k v al))"
  by (simp add: gm_put_def)

lemma gm_put_nil [simp]: "gm_put None k v = None"
  by (simp add: gm_put_def)

lemma gm_get_put [go_maps]:
  "gm_put m k v = Some m' \<Longrightarrow> gm_get m' k' = (if k' = k then Some v else gm_get m k')"
  by (auto simp: gm_put_Some_conv gm_get_def update_conv')

lemma gm_ptr_put [go_maps]:
  "gm_put m k v = Some m' \<Longrightarrow> gm_ptr m' k' = (if k' = k then v else gm_ptr m k')"
  by (simp add: gm_ptr_def gm_get_put)

lemma gm_keys_put [go_maps]:
  "gm_put m k v = Some m' \<Longrightarrow> set (gm_keys m') = insert k (set (gm_keys m))"
  unfolding gm_put_Some_conv gm_keys_def
  using dom_update[of k v] by (auto simp: update_keys simp flip: set_map)

lemma gm_ok_put [go_maps]: "gm_put m k v = Some m' \<Longrightarrow> gm_ok m \<Longrightarrow> gm_ok m'"
  by (auto simp: gm_put_Some_conv gm_ok_def gm_keys_def distinct_update)

lemma gm_put_not_nil [go_maps]: "gm_put m k v = Some m' \<Longrightarrow> m' \<noteq> None"
  by (auto simp: gm_put_Some_conv)

lemma gm_get_delete [go_maps]: "gm_get (gm_delete m k) k' = (if k' = k then None else gm_get m k')"
  by (cases m) (auto simp: gm_get_def gm_delete_def delete_conv')

lemma gm_ok_delete [go_maps]: "gm_ok m \<Longrightarrow> gm_ok (gm_delete m k)"
  by (cases m) (auto simp: gm_ok_def gm_keys_def gm_delete_def distinct_delete)

lemma gm_get_None_iff: "gm_get m k = None \<longleftrightarrow> k \<notin> set (gm_keys m)"
  by (simp add: gm_get_def gm_keys_def map_of_eq_None_iff)

lemma gm_get_SomeD: "gm_get m k = Some v \<Longrightarrow> (k, v) \<in> set (gm_entries m)"
  by (auto simp: gm_get_def dest: map_of_SomeD)

lemma gm_get_entry: "gm_ok m \<Longrightarrow> (k, v) \<in> set (gm_entries m) \<Longrightarrow> gm_get m k = Some v"
  by (simp add: gm_ok_def gm_keys_def gm_get_def)

lemma gm_ptr_Some_iff: "gm_ptr m k = Some v \<longleftrightarrow> gm_get m k = Some (Some v)"
  by (simp add: gm_ptr_def split: option.splits)

lemma alist_update_same: "map_of al k = Some v \<Longrightarrow> AList.update k v al = al"
  by (induction al) (auto split: if_splits)

section \<open>Lemmas on loops\<close>

lemma mmap_Some_conv [go_run]:
  "mmap f xs = Some ys \<longleftrightarrow> list_all2 (\<lambda>x y. f x = Some y) xs ys"
proof (induction xs arbitrary: ys)
  case Nil
  then show ?case by auto
next
  case (Cons x xs)
  then show ?case
    by (cases ys) (auto simp: Option.bind_eq_Some_conv)
qed

lemma mmap_total: "(\<And>x. x \<in> set xs \<Longrightarrow> f x \<noteq> None) \<Longrightarrow> mmap f xs \<noteq> None"
proof (induction xs)
  case (Cons x xs)
  from Cons.prems[of x] obtain y where y: "f x = Some y" by auto
  have "mmap f xs \<noteq> None" using Cons.prems by (intro Cons.IH) auto
  with y show ?case by auto
qed simp

lemma mmap_None_iff: "mmap f xs = None \<longleftrightarrow> (\<exists>x \<in> set xs. f x = None)"
proof (induction xs)
  case (Cons x xs)
  then show ?case by (cases "f x"; cases "mmap f xs") auto
qed simp

lemma mmap_pure [simp]: "mmap (\<lambda>x. Some (f x)) xs = Some (map f xs)"
  by (induction xs) auto

lemma mmap_val_keys [go_run]: "mmap_val f al = Some bl \<Longrightarrow> map fst bl = map fst al"
  unfolding mmap_val_def
proof (induction al arbitrary: bl)
  case (Cons x al)
  then show ?case by (auto simp: Option.bind_eq_Some_conv split: prod.splits)
qed simp

lemma mmap_val_get:
  assumes "mmap_val f al = Some bl"
  shows "map_of bl k = (case map_of al k of None \<Rightarrow> None | Some v \<Rightarrow> f v)"
  using assms unfolding mmap_val_def
proof (induction al arbitrary: bl)
  case (Cons x al)
  then show ?case by (cases x) (auto simp: Option.bind_eq_Some_conv)
qed simp

lemma mmap_val_in:
  assumes "mmap_val f al = Some bl" "(k, w) \<in> set bl"
  shows "\<exists>v. (k, v) \<in> set al \<and> f v = Some w"
  using assms unfolding mmap_val_def
proof (induction al arbitrary: bl)
  case (Cons x al)
  then show ?case by (cases x) (fastforce simp: Option.bind_eq_Some_conv)
qed simp

lemma mmap_val_total:
  assumes "\<And>k v. (k, v) \<in> set al \<Longrightarrow> f v \<noteq> None"
  shows "mmap_val f al \<noteq> None"
  unfolding mmap_val_def
proof (rule mmap_total)
  fix x assume "x \<in> set al"
  with assms show "(case x of (k, v) \<Rightarrow> f v \<bind> (\<lambda>w. Some (k, w))) \<noteq> None"
    by (cases x) (fastforce simp: Option.bind_eq_None_conv)
qed

lemma mfold_append: "mfold f (xs @ ys) s = do { s' \<leftarrow> mfold f xs s; mfold f ys s' }"
proof (induction xs arbitrary: s)
  case (Cons x xs)
  then show ?case by (cases "f x s") simp_all
qed simp

text \<open>The loop rule: an invariant kept by every iteration holds at the end.\<close>

lemma mfold_invariant:
  assumes "mfold f xs s = Some s'" and "I s"
    and "\<And>x s s'. x \<in> set xs \<Longrightarrow> I s \<Longrightarrow> f x s = Some s' \<Longrightarrow> I s'"
  shows "I s'"
  using assms
proof (induction xs arbitrary: s)
  case (Cons x xs)
  from Cons.prems(1) obtain t where t: "f x s = Some t" "mfold f xs t = Some s'"
    by (auto simp: Option.bind_eq_Some_conv)
  have "I t" using t Cons.prems by auto
  with t Cons show ?case by (meson list.set_intros(2))
qed simp

text \<open>The loop does not panic when no iteration does under the invariant.\<close>

lemma mfold_total:
  assumes "I s"
    and "\<And>x s. x \<in> set xs \<Longrightarrow> I s \<Longrightarrow> \<exists>s'. f x s = Some s' \<and> I s'"
  shows "\<exists>s'. mfold f xs s = Some s' \<and> I s'"
  using assms
proof (induction xs arbitrary: s)
  case (Cons x xs)
  then obtain t where "f x s = Some t" "I t" by (meson list.set_intros(1))
  with Cons show ?case by auto
qed simp

lemma mfold_pure [simp]: "mfold (\<lambda>x s. Some (f x s)) xs s = Some (fold f xs s)"
  by (induction xs arbitrary: s) auto

lemma mex_True_iff:
  "(\<forall>x \<in> set xs. p x \<noteq> None) \<Longrightarrow> mex p xs = Some (\<exists>x \<in> set xs. p x = Some True)"
  by (induction xs) (auto split: if_splits)

lemma mex_NoneD: "mex p xs = None \<Longrightarrow> \<exists>x \<in> set xs. p x = None"
  by (induction xs) (auto simp: Option.bind_eq_None_conv split: if_splits)

lemma mfirst_ok_iff: "mfirst f xs = Some None \<longleftrightarrow> (\<forall>x \<in> set xs. f x = Some None)"
  by (induction xs) (auto simp: Option.bind_eq_Some_conv split: option.splits)

lemma mfirst_total: "\<forall>x \<in> set xs. f x \<noteq> None \<Longrightarrow> mfirst f xs \<noteq> None"
  by (induction xs) (auto split: option.splits)

lemma mfirst_SomeD:
  "mfirst f xs = Some (Some e) \<Longrightarrow> \<exists>x \<in> set xs. f x = Some (Some e)"
  by (induction xs) (auto simp: Option.bind_eq_Some_conv split: option.splits)

section \<open>Lemmas on machine integers\<close>

lemma sint_range32: "- (2 ^ 31) \<le> sint (x :: int32)" "sint (x :: int32) < 2 ^ 31"
  using sint_ge[of x] sint_lt[of x] by simp_all

lemma sint_of_nat32: "n < 2 ^ 31 \<Longrightarrow> sint (of_nat n :: int32) = int n"
  by (simp add: signed_of_nat signed_take_bit_int_eq_self)

lemma wrap64_id: "- (2 ^ 63) \<le> i \<Longrightarrow> i < 2 ^ 63 \<Longrightarrow> wrap64 i = i"
  by (simp add: wrap64_def signed_take_bit_int_eq_self)

section \<open>Lemmas on strings\<close>

lemma digits_val_append: "digits_val a (xs @ ys) = digits_val (digits_val a xs) ys"
  by (induction xs arbitrary: a) auto

lemma is_digit_char_of: "(k::nat) < 10 \<Longrightarrow> is_digit (char_of (48 + k))"
  by (simp add: is_digit_def)

lemma nat_digits_ne: "nat_digits n \<noteq> []"
  by (subst nat_digits.simps) simp

lemma nat_digits_all: "list_all is_digit (nat_digits n)"
proof (induction n rule: nat_digits.induct)
  case (1 n)
  show ?case
  proof (cases "n < 10")
    case True
    then show ?thesis by (subst nat_digits.simps) (simp add: is_digit_char_of)
  next
    case False
    with 1 have "list_all is_digit (nat_digits (n div 10))" by simp
    with False show ?thesis by (subst nat_digits.simps) (simp add: is_digit_char_of)
  qed
qed

lemma digits_val_nat_digits: "digits_val 0 (nat_digits n) = n"
proof (induction n rule: nat_digits.induct)
  case (1 n)
  show ?case
  proof (cases "n < 10")
    case True
    then show ?thesis by (subst nat_digits.simps) simp
  next
    case False
    with 1 have "digits_val 0 (nat_digits (n div 10)) = n div 10" by simp
    with False show ?thesis by (subst nat_digits.simps) (simp add: digits_val_append)
  qed
qed

lemma nat_digits_hd:
  "hd (nat_digits n) \<noteq> CHR ''-'' \<and> hd (nat_digits n) \<noteq> CHR ''+''"
proof -
  have "is_digit (hd (nat_digits n))"
    using nat_digits_all[of n] nat_digits_ne[of n] by (cases "nat_digits n") auto
  then show ?thesis by (auto simp: is_digit_def)
qed

text \<open>\<open>strconv.Atoi\<close> inverts \<open>strconv.Itoa\<close>.\<close>

lemma atoi_itoa_nat: "int n < 2 ^ 63 \<Longrightarrow> atoi (itoa (int n)) = (int n, None)"
proof -
  assume b: "int n < 2 ^ 63"
  obtain c cs where d: "nat_digits n = c # cs"
    using nat_digits_ne[of n] by (cases "nat_digits n") auto
  with nat_digits_hd[of n] nat_digits_all[of n] digits_val_nat_digits[of n]
  have "c \<noteq> CHR ''-''" "c \<noteq> CHR ''+''" "list_all is_digit (c # cs)" "digits_val 0 (c # cs) = n"
    by (simp_all del: digits_val.simps)
  with d b show ?thesis
    by (simp add: atoi_def itoa_def Let_def del: digits_val.simps)
qed

lemma itoa_inj_nat: "itoa (int m) = itoa (int n) \<longleftrightarrow> m = n"
  by (metis digits_val_nat_digits itoa_def nat_int of_nat_less_0_iff)

lemma itoa_small:
  "itoa 0 = ''0''" "itoa 1 = ''1''" "itoa 2 = ''2''" "itoa 3 = ''3''" "itoa 4 = ''4''"
  "itoa 9 = ''9''" "itoa 10 = ''10''"
  by code_simp+

lemma dropWhile_sep: "c \<notin> set a \<Longrightarrow> dropWhile (\<lambda>x. x \<noteq> c) (a @ c # b) = c # b"
  by (induction a) auto

lemma takeWhile_sep: "c \<notin> set a \<Longrightarrow> takeWhile (\<lambda>x. x \<noteq> c) (a @ c # b) = a"
  by (induction a) auto

lemma split2_join: "c \<notin> set a \<Longrightarrow> split2 c (a @ c # b) = [a, b]"
  by (simp add: split2_def dropWhile_sep takeWhile_sep)

lemma replace_char_absent: "a \<notin> set s \<Longrightarrow> replace_char a b s = s"
  unfolding replace_char_def by (rule map_idI) auto

section \<open>Lemmas on sorting\<close>

lemma mset_insert_left: "mset (insert_left lt x ys) = add_mset x (mset ys)"
  by (induction ys) auto

lemma mset_foldl_insert: "mset (foldl (\<lambda>acc x. insert_left lt x acc) a xs) = mset a + mset xs"
  by (induction xs arbitrary: a) (auto simp: mset_insert_left)

lemma mset_sort_slice [simp]: "mset (sort_slice lt xs) = mset xs"
  by (simp add: sort_slice_def mset_foldl_insert)

lemma set_sort_slice [simp]: "set (sort_slice lt xs) = set xs"
  by (metis mset_sort_slice set_mset_mset)

lemma length_sort_slice [simp]: "length (sort_slice lt xs) = length xs"
  by (metis mset_sort_slice size_mset)

lemma sorted_perm_unique:
  assumes "sorted_wrt R xs" "sorted_wrt R ys" "mset xs = mset ys"
    and "\<And>x y. x \<in> set xs \<Longrightarrow> y \<in> set xs \<Longrightarrow> R x y \<Longrightarrow> R y x \<Longrightarrow> x = y"
  shows "xs = ys"
  using assms
proof (induction xs arbitrary: ys)
  case (Cons x xs)
  obtain y ys' where ys: "ys = y # ys'" using Cons.prems(3) by (cases ys) auto
  have sets: "set (x # xs) = set ys" using Cons.prems(3) by (metis set_mset_mset)
  have "x = y"
  proof (rule ccontr)
    assume "x \<noteq> y"
    with sets ys have "y \<in> set xs" "x \<in> set ys'" by auto
    with Cons.prems(1,2) ys have "R x y" "R y x" by auto
    with Cons.prems(4)[of x y] \<open>y \<in> set xs\<close> \<open>x \<noteq> y\<close> show False by auto
  qed
  moreover have "xs = ys'"
    using Cons.prems ys \<open>x = y\<close> by (intro Cons.IH) auto
  ultimately show ?case using ys by simp
qed simp

text \<open>
  The contract of a comparison function for \<open>sort.Slice\<close>: a strict weak order on the elements that are
  sorted. Under it the result is sorted, and it is the only sorted arrangement when no two elements tie.
\<close>

locale slice_order =
  fixes lt :: "'a \<Rightarrow> 'a \<Rightarrow> bool" and A :: "'a set"
  assumes asym: "x \<in> A \<Longrightarrow> y \<in> A \<Longrightarrow> lt x y \<Longrightarrow> \<not> lt y x"
    and negtrans: "x \<in> A \<Longrightarrow> y \<in> A \<Longrightarrow> z \<in> A \<Longrightarrow> \<not> lt x y \<Longrightarrow> \<not> lt y z \<Longrightarrow> \<not> lt x z"
begin

lemma insert_left_sorted:
  assumes "sorted_wrt (\<lambda>x y. \<not> lt x y) ys" "set ys \<subseteq> A" "x \<in> A"
  shows "sorted_wrt (\<lambda>x y. \<not> lt x y) (insert_left lt x ys)"
  using assms
proof (induction ys)
  case (Cons y ys)
  show ?case
  proof (cases "lt x y")
    case True
    have "\<forall>z \<in> set (insert_left lt x ys). \<not> lt y z"
    proof
      fix z assume "z \<in> set (insert_left lt x ys)"
      then have "z = x \<or> z \<in> set ys"
        using mset_insert_left[of lt x ys] by (metis insert_iff set_mset_add_mset_insert set_mset_mset)
      then show "\<not> lt y z" using True Cons.prems asym by auto
    qed
    with True Cons show ?thesis by simp
  next
    case False
    have "\<forall>z \<in> set ys. \<not> lt x z"
    proof
      fix z assume "z \<in> set ys"
      with Cons.prems have "\<not> lt y z" "z \<in> A" "y \<in> A" by auto
      with False Cons.prems negtrans[of x y z] show "\<not> lt x z" by auto
    qed
    with False Cons show ?thesis by simp
  qed
qed simp

lemma foldl_insert_sorted:
  assumes "sorted_wrt (\<lambda>x y. \<not> lt x y) acc" "set acc \<subseteq> A" "set xs \<subseteq> A"
  shows "sorted_wrt (\<lambda>x y. \<not> lt x y) (foldl (\<lambda>acc x. insert_left lt x acc) acc xs)"
  using assms
proof (induction xs arbitrary: acc)
  case (Cons x xs)
  have "set (insert_left lt x acc) = insert x (set acc)"
    using mset_insert_left[of lt x acc] by (metis set_mset_add_mset_insert set_mset_mset)
  with Cons show ?case by (simp add: insert_left_sorted)
qed simp

lemma sort_slice_sorted: "set xs \<subseteq> A \<Longrightarrow> sorted_wrt (\<lambda>x y. \<not> lt y x) (sort_slice lt xs)"
  using foldl_insert_sorted[of "[]" xs] by (simp add: sort_slice_def sorted_wrt_rev)

lemma sort_slice_unique:
  assumes "set xs \<subseteq> A" "mset ys = mset xs" "sorted_wrt (\<lambda>x y. \<not> lt y x) ys"
    and "\<And>x y. x \<in> set xs \<Longrightarrow> y \<in> set xs \<Longrightarrow> \<not> lt x y \<Longrightarrow> \<not> lt y x \<Longrightarrow> x = y"
  shows "ys = sort_slice lt xs"
proof (rule sorted_perm_unique[OF assms(3) sort_slice_sorted[OF assms(1)]])
  show "mset ys = mset (sort_slice lt xs)" using assms(2) by simp
  have "set ys = set xs" using assms(2) by (metis set_mset_mset)
  then show "x = y" if "x \<in> set ys" "y \<in> set ys" "\<not> lt y x" "\<not> lt x y" for x y
    using that assms(4) by blast
qed

end

end
