(* ===== verification/Errors.thy ===== *)
theory Errors
  imports Go_Prelude
begin

text \<open>
  The error values of the operator. A Go \<open>error\<close> is a \<open>go_error option\<close>, nil being
  \<^term>\<open>None\<close>; a function that returns a value or an error returns a sum, \<^term>\<open>Inl\<close> the error.
  Errors of the Kubernetes API are classified by what the sources ask of them
  (\<open>IsNotFound\<close>, \<open>IsInvalid\<close>, \<open>IsTimeout\<close>). \<open>reconciler/errors.go\<close> is modelled in full.
\<close>

section \<open>reconciler/errors.go\<close>

record ReconcileError =
  Message :: string
  RetryAfter :: int
  ReRaise :: bool

datatype validation_error =
    RoleSpecsRequired
  | IllegalRoleName string
  | ReplicasNotPositive string int
  | TooFewContainers string
  | DependenceRolesRequired string
  | RolesNotExist "string list"
  | UnsupportedMPI string
  | DefaultContainerRequired string string
  | ReplicasTooMany string
  | ReplicasMustBeOne string
  | RoleRequired string
  | InsufficientPorts nat int
  | PortNumber string

datatype go_error =
    ApiNotFound
  | ApiInvalid string
  | ApiTimeout
  | ApiOther string
  | ReconcileErr ReconcileError
  | ErrValidation validation_error
  | ErrPortNotFound
  | ErrConfig string
  | ErrNum num_error
  | ErrClosed
  | Errorf string

type_synonym 'a result = "go_error + 'a"

text \<open>The method \<open>(e *ReconcileError) Error()\<close>.\<close>

definition ReconcileError_Error :: "ReconcileError \<Rightarrow> string" where
  "ReconcileError_Error e = Message e"

text \<open>The method \<open>(e *ReconcileError) Err()\<close>.\<close>

definition ReconcileError_Err :: "ReconcileError \<Rightarrow> go_error option" where
  "ReconcileError_Err e = (if ReRaise e then Some (ReconcileErr e) else None)"

type_synonym ErrorOptionFunc = "ReconcileError \<Rightarrow> ReconcileError"

definition WithRetryAfter :: "int \<Rightarrow> ErrorOptionFunc" where
  "WithRetryAfter d = (\<lambda>e. e\<lparr>RetryAfter := d\<rparr>)"

definition DisableReRaise :: ErrorOptionFunc where
  "DisableReRaise = (\<lambda>e. e\<lparr>ReRaise := False\<rparr>)"

definition NewReconcileError :: "string \<Rightarrow> ErrorOptionFunc list \<Rightarrow> ReconcileError" where
  "NewReconcileError msg opts =
     foldl (\<lambda>e opt. opt e) \<lparr>Message = msg, RetryAfter = 0, ReRaise = True\<rparr> opts"

definition IsReconcileError :: "go_error \<Rightarrow> ReconcileError option" where
  "IsReconcileError e = (case e of ReconcileErr r \<Rightarrow> Some r | _ \<Rightarrow> None)"

section \<open>What the sources ask of an API error\<close>

definition IsNotFound :: "go_error \<Rightarrow> bool" where
  "IsNotFound e \<longleftrightarrow> e = ApiNotFound"

definition IsInvalid :: "go_error \<Rightarrow> bool" where
  "IsInvalid e \<longleftrightarrow> (case e of ApiInvalid _ \<Rightarrow> True | _ \<Rightarrow> False)"

definition IsTimeout :: "go_error \<Rightarrow> bool" where
  "IsTimeout e \<longleftrightarrow> e = ApiTimeout"

section \<open>Lemmas\<close>

text \<open>
  The error of a pending pod group is built with both options: it asks for a retry and is not
  raised again.
\<close>

lemma NewReconcileError_silent:
  "ReconcileError_Err (NewReconcileError msg [WithRetryAfter d, DisableReRaise]) = None"
  "RetryAfter (NewReconcileError msg [WithRetryAfter d, DisableReRaise]) = d"
  by (simp_all add: NewReconcileError_def ReconcileError_Err_def WithRetryAfter_def DisableReRaise_def)

lemma NewReconcileError_plain:
  "ReconcileError_Err (NewReconcileError msg []) =
     Some (ReconcileErr \<lparr>Message = msg, RetryAfter = 0, ReRaise = True\<rparr>)"
  by (simp add: NewReconcileError_def ReconcileError_Err_def)

end
