(* ===== verification/Api_Types.thy ===== *)
theory Api_Types
  imports Errors
begin

text \<open>
  The API group of the operator (\<open>api/v1\<close>): the custom resource \<open>AresJob\<close> with its spec and
  status, the objects of Kubernetes and kubeflow that the sources read and write (only the fields
  they use), and the methods of the spec and of the status. Open string enumerations stay strings, as
  in the sources, since an API object may hold any value there.

  Third-party functions are the fields of \<^verbatim>\<open>ext\<close>, an argument of the definitions that call them.
\<close>

section \<open>String constants\<close>

type_synonym ReplicaType = string
type_synonym JobPhase = string
type_synonym RolePhase = string
type_synonym RolePhaseCondition = string
type_synonym JobConditionType = string
type_synonym labels = "(string, string) gomap"

definition JobPhasePending :: JobPhase where [go_consts]: "JobPhasePending = ''Pending''"
definition JobPhaseStarting :: JobPhase where [go_consts]: "JobPhaseStarting = ''Starting''"
definition JobPhaseRunning :: JobPhase where [go_consts]: "JobPhaseRunning = ''Running''"
definition JobPhaseFailed :: JobPhase where [go_consts]: "JobPhaseFailed = ''Failed''"
definition JobPhaseSucceeded :: JobPhase where [go_consts]: "JobPhaseSucceeded = ''Succeeded''"

definition RolePhasePending :: RolePhase where [go_consts]: "RolePhasePending = ''Pending''"
definition RolePhaseStarting :: RolePhase where [go_consts]: "RolePhaseStarting = ''Starting''"
definition RolePhaseRunning :: RolePhase where [go_consts]: "RolePhaseRunning = ''Running''"
definition RolePhaseFailed :: RolePhase where [go_consts]: "RolePhaseFailed = ''Failed''"
definition RolePhaseSucceeded :: RolePhase where [go_consts]: "RolePhaseSucceeded = ''Succeeded''"

definition RolePhaseConditionAnyPod :: RolePhaseCondition where
  [go_consts]: "RolePhaseConditionAnyPod = ''AnyPod''"
definition RolePhaseConditionAllPods :: RolePhaseCondition where
  [go_consts]: "RolePhaseConditionAllPods = ''AllPods''"

definition RoleLauncher :: ReplicaType where [go_consts]: "RoleLauncher = ''launcher''"
definition RoleWorker :: ReplicaType where [go_consts]: "RoleWorker = ''worker''"
definition RolePS :: ReplicaType where [go_consts]: "RolePS = ''ps''"
definition RoleEtcd :: ReplicaType where [go_consts]: "RoleEtcd = ''etcd''"
definition RoleMaster :: ReplicaType where [go_consts]: "RoleMaster = ''master''"
definition RoleScheduler :: ReplicaType where [go_consts]: "RoleScheduler = ''scheduler''"
definition RoleLeadWorker :: ReplicaType where [go_consts]: "RoleLeadWorker = ''leadworker''"
definition RoleChief :: ReplicaType where [go_consts]: "RoleChief = ''chief''"
definition RoleEvaluator :: ReplicaType where [go_consts]: "RoleEvaluator = ''evaluator''"

definition ControllerPod :: string where [go_consts]: "ControllerPod = ''Pod''"
definition AresJobFinalizer :: string where [go_consts]: "AresJobFinalizer = ''ares.io/ares-finalizer''"
definition GangSchedulerName :: string where [go_consts]: "GangSchedulerName = ''volcano''"
definition GangSchedulingPodGroupAnnotation :: string where
  [go_consts]: "GangSchedulingPodGroupAnnotation = ''scheduling.k8s.io/group-name''"
definition DefaultMPIHostFilePath :: string where
  [go_consts]: "DefaultMPIHostFilePath = ''/etc/mpi/hostfile''"
definition JobScheduled :: JobConditionType where [go_consts]: "JobScheduled = ''Scheduled''"
definition Evicted_reason :: string where [go_consts]: "Evicted_reason = ''Evicted''"
definition Preempted :: string where [go_consts]: "Preempted = ''Preempted''"
definition ErrInvalidDefinition :: string where
  [go_consts]: "ErrInvalidDefinition = ''InvalidDefinition''"

definition ReplicaIndexLabel :: string where [go_consts]: "ReplicaIndexLabel = ''ares.io/replica-index''"
definition ReplicaTypeLabel :: string where [go_consts]: "ReplicaTypeLabel = ''ares.io/replica-type''"
definition GroupNameLabel :: string where [go_consts]: "GroupNameLabel = ''ares.io/group-name''"
definition JobNameLabel :: string where [go_consts]: "JobNameLabel = ''ares.io/job-name''"
definition JobRoleLabel :: string where [go_consts]: "JobRoleLabel = ''ares.io/job-role''"

definition OMPI :: string where [go_consts]: "OMPI = ''ompi''"
definition MPICH :: string where [go_consts]: "MPICH = ''mpich''"

text \<open>Values of the Kubernetes and kubeflow APIs.\<close>

definition PodPending :: string where [go_consts]: "PodPending = ''Pending''"
definition PodRunning :: string where [go_consts]: "PodRunning = ''Running''"
definition PodSucceeded :: string where [go_consts]: "PodSucceeded = ''Succeeded''"
definition PodFailed :: string where [go_consts]: "PodFailed = ''Failed''"
definition PodUnknown :: string where [go_consts]: "PodUnknown = ''Unknown''"
definition ConditionTrue :: string where [go_consts]: "ConditionTrue = ''True''"
definition ConditionFalse :: string where [go_consts]: "ConditionFalse = ''False''"
definition ConditionUnknown :: string where [go_consts]: "ConditionUnknown = ''Unknown''"
definition RestartPolicyAlways :: string where [go_consts]: "RestartPolicyAlways = ''Always''"
definition RestartPolicyOnFailure :: string where [go_consts]: "RestartPolicyOnFailure = ''OnFailure''"
definition RestartPolicyNever :: string where [go_consts]: "RestartPolicyNever = ''Never''"
definition RestartPolicyExitCode :: string where [go_consts]: "RestartPolicyExitCode = ''ExitCode''"
definition CleanPodPolicyNone :: string where [go_consts]: "CleanPodPolicyNone = ''None''"
definition JobCreated :: JobConditionType where [go_consts]: "JobCreated = ''Created''"
definition JobRunning :: JobConditionType where [go_consts]: "JobRunning = ''Running''"
definition JobFailed :: JobConditionType where [go_consts]: "JobFailed = ''Failed''"
definition JobSucceeded :: JobConditionType where [go_consts]: "JobSucceeded = ''Succeeded''"

section \<open>Objects of Kubernetes and kubeflow\<close>

record OwnerReference =
  or_APIVersion :: string
  or_Kind :: string
  or_Name :: string
  or_UID :: string

record EnvVar =
  env_Name :: string
  env_Value :: string
  env_FieldPath :: "string option"

record ContainerPort =
  cp_Name :: string
  cp_ContainerPort :: int32

record VolumeMount =
  vm_Name :: string
  vm_MountPath :: string

datatype VolumeSource = EmptyDir | HostPath string | OtherVolumeSource string

record Volume =
  vol_Name :: string
  vol_Source :: VolumeSource

record Container =
  ctr_Name :: string
  ctr_Image :: string
  ctr_ImagePullPolicy :: string
  ctr_Command :: "string list"
  ctr_Env :: "EnvVar list"
  ctr_Ports :: "ContainerPort list"
  ctr_VolumeMounts :: "VolumeMount list"

record PodSpec =
  ps_NodeName :: string
  ps_HostNetwork :: bool
  ps_Hostname :: string
  ps_Subdomain :: string
  ps_RestartPolicy :: string
  ps_SchedulerName :: string
  ps_Containers :: "Container list"
  ps_InitContainers :: "Container list"
  ps_Volumes :: "Volume list"

record PodTemplateSpec =
  pt_Name :: string
  pt_GenerateName :: string
  pt_Labels :: labels
  pt_Annotations :: labels
  pt_Spec :: PodSpec

text \<open>The exit code of a terminated container and the JSON text of its state.\<close>

record ContainerStateTerminated =
  tm_ExitCode :: int32
  tm_Json :: string

record PodCondition =
  pc_Type :: string
  pc_Status :: string
  pc_Reason :: string
  pc_Message :: string

text \<open>
  A pod. \<open>pod_Controller\<close> is what \<open>metav1.GetControllerOf\<close> returns for it and
  \<open>pod_ContainerStatuses\<close> holds the \<open>State.Terminated\<close> pointers of its containers.
\<close>

record Pod =
  pod_Namespace :: string
  pod_Name :: string
  pod_Labels :: labels
  pod_Annotations :: labels
  pod_Controller :: "OwnerReference option"
  pod_DeletionTimestamp :: "int option"
  pod_NodeName :: string
  pod_Phase :: string
  pod_Reason :: string
  pod_Message :: string
  pod_Conditions :: "PodCondition list"
  pod_ContainerStatuses :: "ContainerStateTerminated option list"
  pod_HostIP :: string
  pod_PodIP :: string

record CommonReplicaStatus =
  Active :: int32
  Succeeded :: int32
  Failed :: int32

record JobCondition =
  jc_Type :: JobConditionType
  jc_Status :: string
  jc_Reason :: string
  jc_Message :: string
  jc_LastTransitionTime :: "int option"

record JobStatus =
  js_Conditions :: "JobCondition list"
  js_ReplicaStatuses :: "(ReplicaType, CommonReplicaStatus option) gomap"
  js_CompletionTime :: "int option"

record ReplicaSpec =
  rs_Replicas :: "int32 option"
  rs_Template :: PodTemplateSpec
  rs_RestartPolicy :: string

record SchedulingPolicy =
  sp_MinAvailable :: "int32 option"

record RunPolicy =
  rp_CleanPodPolicy :: "string option"
  rp_SchedulingPolicy :: "SchedulingPolicy option"

section \<open>api/v1: the custom resource\<close>

record BaguaSpec =
  EnableElastic :: bool
  MinReplicas :: "int32 option"
  MaxReplicas :: "int32 option"

record MPISpec =
  ReplicasPerNode :: int
  Implementation :: string

record TensorflowSpec =
  EnableDynamicWorker :: bool

record FrameworkSpec =
  fw_Bagua :: "BaguaSpec option"
  fw_MPI :: "MPISpec option"
  fw_Tensorflow :: "TensorflowSpec option"

record JobPhasePolicy =
  jpp_Failed :: "ReplicaType list list"
  jpp_Succeeded :: "ReplicaType list list"

record RolePhasePolicy =
  rpp_Failed :: "RolePhaseCondition option"
  rpp_Succeeded :: "RolePhaseCondition option"
  rpp_NodeDownAsFailed :: bool

record DependenceSpec =
  dep_RoleNames :: "ReplicaType list"
  dep_RolePhase :: RolePhase
  dep_MPIHostFile :: "string option"

record RoleSpec =
  role_ReplicaSpec :: "ReplicaSpec option"
  role_RolePhasePolicy :: RolePhasePolicy
  role_Controller :: string
  role_Dependence :: "DependenceSpec option"

record AresJobSpec =
  spec_TTLSecondsAfterFailed :: "int32 option"
  spec_RunPolicy :: RunPolicy
  spec_AvailablePorts :: "int32 list"
  spec_FrameworkType :: string
  spec_Framework :: FrameworkSpec
  spec_RoleSpecs :: "(ReplicaType, RoleSpec option) gomap"
  spec_JobPhasePolicy :: "JobPhasePolicy option"

record ReplicaStatus =
  rst_Common :: "CommonReplicaStatus option"
  rst_Pending :: int32
  rst_Unknown :: int32
  rst_Terminating :: int32

record RoleStatus =
  role_Phase :: RolePhase
  role_Reason :: string
  role_Message :: string
  role_LastTransitionTime :: "int option"
  role_ReplicaStatus :: ReplicaStatus

record AresJobStatus =
  st_JobStatus :: "JobStatus option"
  st_RoleStatuses :: "(ReplicaType, RoleStatus option) gomap"
  st_Phase :: JobPhase
  st_RunningTime :: "int option"

record AresJob =
  job_Name :: string
  job_Namespace :: string
  job_UID :: string
  job_Labels :: labels
  job_Annotations :: labels
  job_Finalizers :: "string list"
  job_DeletionTimestamp :: "int option"
  job_Spec :: AresJobSpec
  job_Status :: AresJobStatus

text \<open>Zero values of Go structs.\<close>

definition zero_ReplicaStatus :: ReplicaStatus where
  "zero_ReplicaStatus = \<lparr>rst_Common = None, rst_Pending = 0, rst_Unknown = 0, rst_Terminating = 0\<rparr>"

definition zero_CommonReplicaStatus :: CommonReplicaStatus where
  "zero_CommonReplicaStatus = \<lparr>Active = 0, Succeeded = 0, Failed = 0\<rparr>"

definition zero_JobStatus :: JobStatus where
  "zero_JobStatus = \<lparr>js_Conditions = [], js_ReplicaStatuses = None, js_CompletionTime = None\<rparr>"

definition zero_PodSpec :: PodSpec where
  "zero_PodSpec = \<lparr>ps_NodeName = [], ps_HostNetwork = False, ps_Hostname = [], ps_Subdomain = [],
     ps_RestartPolicy = [], ps_SchedulerName = [], ps_Containers = [], ps_InitContainers = [],
     ps_Volumes = []\<rparr>"

definition zero_PodTemplateSpec :: PodTemplateSpec where
  "zero_PodTemplateSpec = \<lparr>pt_Name = [], pt_GenerateName = [], pt_Labels = None,
     pt_Annotations = None, pt_Spec = zero_PodSpec\<rparr>"

definition zero_ReplicaSpec :: ReplicaSpec where
  "zero_ReplicaSpec = \<lparr>rs_Replicas = None, rs_Template = zero_PodTemplateSpec, rs_RestartPolicy = []\<rparr>"

definition zero_JobPhasePolicy :: JobPhasePolicy where
  "zero_JobPhasePolicy = \<lparr>jpp_Failed = [], jpp_Succeeded = []\<rparr>"

text \<open>\<open>&RoleStatus\{Phase: phase\}\<close>\<close>

definition new_RoleStatus :: "RolePhase \<Rightarrow> RoleStatus" where
  "new_RoleStatus phase = \<lparr>role_Phase = phase, role_Reason = [], role_Message = [],
     role_LastTransitionTime = None, role_ReplicaStatus = zero_ReplicaStatus\<rparr>"

section \<open>Third-party functions\<close>

text \<open>
  The functions of kubeflow and Kubernetes that the sources call for their result. Each is an
  unconstrained argument; a theorem that relies on the documented behaviour of one says so in a
  hypothesis. \<open>ErrorText\<close> is what an error prints as: errors are values here, with the arguments of
  their messages, and the wording of the messages is left open.
\<close>

text \<open>A pod object that is about to be created: its metadata and spec, and its controller.\<close>

record new_pod =
  np_Object :: PodTemplateSpec
  np_Controller :: "OwnerReference option"

record ext =
  x_ReplicaTypeLabel :: string
  x_ReplicaIndexLabel :: string
  MaxInt :: "int \<Rightarrow> int \<Rightarrow> int"
  GenGeneralName :: "string \<Rightarrow> string \<Rightarrow> string \<Rightarrow> string"
  SelectorMatches :: "string \<Rightarrow> string \<Rightarrow> labels \<Rightarrow> bool"
  UpdateJobConditions :: "JobStatus \<Rightarrow> JobConditionType \<Rightarrow> string \<Rightarrow> string \<Rightarrow> JobStatus"
  IsRetryableExitCode :: "int32 \<Rightarrow> bool"
  KeyFunc :: "string \<Rightarrow> string \<Rightarrow> string result"
  GenExpectationPodsKey :: "string \<Rightarrow> string \<Rightarrow> string"
  GenExpectationServicesKey :: "string \<Rightarrow> string \<Rightarrow> string"
  ContainsFinalizer :: "string list \<Rightarrow> string \<Rightarrow> bool"
  AddFinalizer :: "string list \<Rightarrow> string \<Rightarrow> string list"
  RemoveFinalizer :: "string list \<Rightarrow> string \<Rightarrow> string list"
  GenOwnerReference :: "AresJob \<Rightarrow> OwnerReference"
  ValidateControllerRef :: "OwnerReference option \<Rightarrow> go_error option"
  GetPodFromTemplate :: "PodTemplateSpec \<Rightarrow> AresJob \<Rightarrow> OwnerReference option \<Rightarrow> new_pod result"
  JobController_GetPortsFromJob :: "string \<Rightarrow> ReplicaSpec \<Rightarrow> (string, int32) gomap result"
  ErrorText :: "go_error \<Rightarrow> string"

section \<open>Methods of the spec\<close>

definition GetReplicaSpecs :: "AresJobSpec \<Rightarrow> (ReplicaType, ReplicaSpec option) gomap option" where
  "GetReplicaSpecs spec =
     mfold (\<lambda>(replicaType, roleSpec) replicaSpecs.
              do { rs \<leftarrow> roleSpec; gm_put replicaSpecs replicaType (role_ReplicaSpec rs) })
       (gm_entries (spec_RoleSpecs spec)) (Some [])"

definition GetTotalReplicas :: "AresJobSpec \<Rightarrow> int32 option" where
  "GetTotalReplicas s =
     mfold (\<lambda>(_, spec) count.
              case spec of
                None \<Rightarrow> Some count
              | Some sp \<Rightarrow> do {
                  rs \<leftarrow> role_ReplicaSpec sp;
                  Some (case rs_Replicas rs of None \<Rightarrow> count | Some n \<Rightarrow> count + n) })
       (gm_entries (spec_RoleSpecs s)) 0"

definition GetRoleReplicas :: "AresJobSpec \<Rightarrow> ReplicaType \<Rightarrow> int32 option" where
  "GetRoleReplicas s role =
     (case gm_ptr (spec_RoleSpecs s) role of
        None \<Rightarrow> Some 0
      | Some sp \<Rightarrow> do {
          rs \<leftarrow> role_ReplicaSpec sp;
          Some (case rs_Replicas rs of None \<Rightarrow> 0 | Some n \<Rightarrow> n) })"

definition GetRolesReplicas :: "AresJobSpec \<Rightarrow> ReplicaType list \<Rightarrow> int32 option" where
  "GetRolesReplicas s roles =
     mfold (\<lambda>role count. do { n \<leftarrow> GetRoleReplicas s role; Some (count + n) }) roles 0"

definition HasRoles :: "AresJobSpec \<Rightarrow> ReplicaType list \<Rightarrow> bool" where
  "HasRoles s roles = list_all (\<lambda>role. gm_get (spec_RoleSpecs s) role \<noteq> None) roles"

definition EnableGangScheduling :: "AresJobSpec \<Rightarrow> bool" where
  "EnableGangScheduling spec =
     (case rp_SchedulingPolicy (spec_RunPolicy spec) of
        None \<Rightarrow> False
      | Some sp \<Rightarrow> sp_MinAvailable sp \<noteq> None)"

definition HasDependence :: "AresJobSpec \<Rightarrow> bool option" where
  "HasDependence spec =
     mex (\<lambda>(_, roleSpec). do { rs \<leftarrow> roleSpec; Some (role_Dependence rs \<noteq> None) })
       (gm_entries (spec_RoleSpecs spec))"

definition CheckRolesExist :: "AresJobSpec \<Rightarrow> ReplicaType list \<Rightarrow> go_error option" where
  "CheckRolesExist spec roles =
     (if list_all (\<lambda>role. gm_ptr (spec_RoleSpecs spec) role \<noteq> None) roles then None
      else Some (ErrValidation (RolesNotExist roles)))"

definition GetRolesIntersection ::
  "(ReplicaType, RoleSpec option) gomap \<Rightarrow> ReplicaType list \<Rightarrow> ReplicaType list" where
  "GetRolesIntersection roleSpecs roles =
     (let allRoles = set (gm_keys roleSpecs) in filter (\<lambda>r. r \<in> allRoles) roles)"

definition MPISpec_Validate :: "MPISpec option \<Rightarrow> go_error option option" where
  "MPISpec_Validate p = do {
     spec \<leftarrow> p;
     Some (if Implementation spec \<noteq> OMPI \<and> Implementation spec \<noteq> MPICH
           then Some (ErrValidation (UnsupportedMPI (Implementation spec))) else None) }"

section \<open>Methods of the status\<close>

text \<open>The method \<open>(status AresJobStatus) RolePhase(rtype)\<close>.\<close>

definition Status_RolePhase :: "AresJobStatus \<Rightarrow> ReplicaType \<Rightarrow> RolePhase option" where
  "Status_RolePhase status rtype =
     (case gm_get (st_RoleStatuses status) rtype of
        Some p \<Rightarrow> do { s \<leftarrow> p; Some (role_Phase s) }
      | None \<Rightarrow> Some RolePhasePending)"

definition Evicted :: "AresJobStatus \<Rightarrow> bool option" where
  "Evicted status =
     (if st_Phase status \<noteq> JobPhaseFailed then Some False
      else do {
        js \<leftarrow> st_JobStatus status;
        Some (list_ex (\<lambda>cond. jc_Type cond = JobFailed \<and> jc_Status cond = ConditionTrue
                \<and> jc_Reason cond = Preempted) (js_Conditions js)) })"

definition JobPhaseToCondition :: "JobPhase \<Rightarrow> JobConditionType" where
  "JobPhaseToCondition phase =
     (if phase = JobPhasePending \<or> phase = JobPhaseStarting then JobCreated
      else if phase = JobPhaseRunning then JobRunning
      else if phase = JobPhaseFailed then JobFailed
      else if phase = JobPhaseSucceeded then JobSucceeded
      else JobCreated)"

section \<open>Keys and owners\<close>

definition MetaReplicaKeyFormat :: "string \<Rightarrow> ReplicaType \<Rightarrow> string" where
  "MetaReplicaKeyFormat jobName rtype = jobName @ ''/'' @ ToLower rtype"

definition GroupVersion :: string where [go_consts]: "GroupVersion = ''ares.io/v1''"
definition GroupVersionKind_Kind :: string where [go_consts]: "GroupVersionKind_Kind = ''AresJob''"

definition IsAresJob :: "OwnerReference option \<Rightarrow> bool" where
  "IsAresJob owner =
     (case owner of
        None \<Rightarrow> False
      | Some ow \<Rightarrow> \<not> (or_APIVersion ow \<noteq> GroupVersion \<or> or_Kind ow \<noteq> GroupVersionKind_Kind))"

section \<open>Well-formed specs\<close>

text \<open>
  What admission leaves of a spec: distinct keys, every role spec and replica spec present and a
  replica count given.
\<close>

definition roles_ok :: "(ReplicaType, RoleSpec option) gomap \<Rightarrow> bool" where
  "roles_ok m \<longleftrightarrow> gm_ok m \<and>
     (\<forall>(r, p) \<in> set (gm_entries m). \<exists>sp rs n. p = Some sp \<and> role_ReplicaSpec sp = Some rs
        \<and> rs_Replicas rs = Some n)"

definition replicas_of :: "RoleSpec option \<Rightarrow> int32" where
  "replicas_of p =
     (case p of None \<Rightarrow> 0
      | Some sp \<Rightarrow> (case role_ReplicaSpec sp of None \<Rightarrow> 0
                    | Some rs \<Rightarrow> (case rs_Replicas rs of None \<Rightarrow> 0 | Some n \<Rightarrow> n)))"

section \<open>Concrete objects for the witnesses\<close>

definition plain_container :: "string \<Rightarrow> ContainerPort list \<Rightarrow> Container" where
  "plain_container name ports = \<lparr>ctr_Name = name, ctr_Image = ''image'', ctr_ImagePullPolicy = [],
     ctr_Command = [], ctr_Env = [], ctr_Ports = ports, ctr_VolumeMounts = []\<rparr>"

definition plain_role :: "int32 \<Rightarrow> string \<Rightarrow> Container list \<Rightarrow> RoleSpec" where
  "plain_role n restart ctrs = \<lparr>
     role_ReplicaSpec = Some \<lparr>rs_Replicas = Some n,
       rs_Template = zero_PodTemplateSpec\<lparr>pt_Spec := zero_PodSpec\<lparr>ps_Containers := ctrs\<rparr>\<rparr>,
       rs_RestartPolicy = restart\<rparr>,
     role_RolePhasePolicy = \<lparr>rpp_Failed = None, rpp_Succeeded = None, rpp_NodeDownAsFailed = False\<rparr>,
     role_Controller = [], role_Dependence = None\<rparr>"

definition plain_spec :: "string \<Rightarrow> (ReplicaType \<times> RoleSpec option) list \<Rightarrow> AresJobSpec" where
  "plain_spec framework roles = \<lparr>spec_TTLSecondsAfterFailed = None,
     spec_RunPolicy = \<lparr>rp_CleanPodPolicy = None, rp_SchedulingPolicy = None\<rparr>, spec_AvailablePorts = [],
     spec_FrameworkType = framework,
     spec_Framework = \<lparr>fw_Bagua = None, fw_MPI = None, fw_Tensorflow = None\<rparr>,
     spec_RoleSpecs = Some roles, spec_JobPhasePolicy = None\<rparr>"

definition plain_job :: "string \<Rightarrow> (ReplicaType \<times> RoleSpec option) list \<Rightarrow> AresJob" where
  "plain_job framework roles = \<lparr>job_Name = ''job'', job_Namespace = ''ns'', job_UID = ''uid'',
     job_Labels = None, job_Annotations = None, job_Finalizers = [], job_DeletionTimestamp = None,
     job_Spec = plain_spec framework roles,
     job_Status = \<lparr>st_JobStatus = None, st_RoleStatuses = None, st_Phase = [], st_RunningTime = None\<rparr>\<rparr>"

definition plain_pod :: "string \<Rightarrow> string \<Rightarrow> string \<Rightarrow> string \<Rightarrow> Pod" where
  "plain_pod name rtype index phase = \<lparr>pod_Namespace = ''ns'', pod_Name = name,
     pod_Labels = Some [(ReplicaTypeLabel, rtype), (ReplicaIndexLabel, index)],
     pod_Annotations = None, pod_Controller = None, pod_DeletionTimestamp = None, pod_NodeName = [],
     pod_Phase = phase, pod_Reason = [], pod_Message = [], pod_Conditions = [],
     pod_ContainerStatuses = [], pod_HostIP = ''10.0.0.1'', pod_PodIP = ''10.1.0.1''\<rparr>"

text \<open>Stand-ins for the third-party functions that behave as their documentation says.\<close>

definition plain_ext :: ext where
  "plain_ext = \<lparr>x_ReplicaTypeLabel = ''replica-type'', x_ReplicaIndexLabel = ''replica-index'',
     MaxInt = max,
     GenGeneralName = (\<lambda>j r i. replace_char (CHR ''/'') (CHR ''-'') (j @ ''-'' @ r @ ''-'' @ i)),
     SelectorMatches = (\<lambda>k v ls. gm_get ls k = Some v),
     UpdateJobConditions = (\<lambda>s t r m. s\<lparr>js_Conditions := filter (\<lambda>c. jc_Type c \<noteq> t) (js_Conditions s) @
        [\<lparr>jc_Type = t, jc_Status = ConditionTrue, jc_Reason = r, jc_Message = m,
          jc_LastTransitionTime = None\<rparr>]\<rparr>),
     IsRetryableExitCode = (\<lambda>c. 128 < sint c),
     KeyFunc = (\<lambda>ns n. Inr (ns @ ''/'' @ n)),
     GenExpectationPodsKey = (\<lambda>k r. k @ ''/'' @ r @ ''/pods''),
     GenExpectationServicesKey = (\<lambda>k r. k @ ''/'' @ r @ ''/services''),
     ContainsFinalizer = (\<lambda>fs f. f \<in> set fs),
     AddFinalizer = (\<lambda>fs f. if f \<in> set fs then fs else fs @ [f]),
     RemoveFinalizer = (\<lambda>fs f. filter (\<lambda>g. g \<noteq> f) fs),
     GenOwnerReference = (\<lambda>job. \<lparr>or_APIVersion = GroupVersion, or_Kind = GroupVersionKind_Kind,
        or_Name = job_Name job, or_UID = job_UID job\<rparr>),
     ValidateControllerRef = (\<lambda>ref. if ref = None then Some (Errorf ''controllerRef is nil'') else None),
     GetPodFromTemplate = (\<lambda>t job ref. Inr \<lparr>np_Object = t, np_Controller = ref\<rparr>),
     JobController_GetPortsFromJob = (\<lambda>name spec.
        case find (\<lambda>c. ctr_Name c = name) (ps_Containers (pt_Spec (rs_Template spec))) of
          None \<Rightarrow> Inl (Errorf ''failed to find the port'')
        | Some c \<Rightarrow> Inr (Some (fold (\<lambda>p. AList.update (cp_Name p) (cp_ContainerPort p)) (ctr_Ports c) []))),
     ErrorText = (\<lambda>e. case e of Errorf s \<Rightarrow> s | ApiInvalid s \<Rightarrow> s | ApiOther s \<Rightarrow> s | _ \<Rightarrow> ''error'')\<rparr>"

lemmas plain_defs = plain_container_def plain_role_def plain_spec_def plain_job_def plain_pod_def
  plain_ext_def zero_PodTemplateSpec_def zero_PodSpec_def

section \<open>Lemmas\<close>

lemma roles_ok_ptr:
  assumes "roles_ok m" "gm_get m r = Some p"
  obtains sp rs n where "p = Some sp" "role_ReplicaSpec sp = Some rs" "rs_Replicas rs = Some n"
  using assms unfolding roles_ok_def by (fastforce dest: gm_get_SomeD)

lemma GetRoleReplicas_ok:
  assumes "roles_ok (spec_RoleSpecs s)"
  shows "GetRoleReplicas s r = Some (replicas_of (gm_ptr (spec_RoleSpecs s) r))"
proof (cases "gm_get (spec_RoleSpecs s) r")
  case None
  then show ?thesis by (simp add: GetRoleReplicas_def gm_ptr_def replicas_of_def)
next
  case (Some p)
  with assms obtain sp rs n where "p = Some sp" "role_ReplicaSpec sp = Some rs" "rs_Replicas rs = Some n"
    by (rule roles_ok_ptr)
  with Some show ?thesis by (simp add: GetRoleReplicas_def gm_ptr_def replicas_of_def)
qed

lemma fold_add_sum_list:
  "fold (\<lambda>x c. c + f x) xs a = a + sum_list (map f xs)" for a :: "'a::comm_monoid_add"
  by (induction xs arbitrary: a) (auto simp: add_ac)

lemma GetTotalReplicas_loop:
  assumes "\<forall>(r, p) \<in> set al. \<exists>sp rs n. p = Some sp \<and> role_ReplicaSpec sp = Some rs \<and> rs_Replicas rs = Some n"
  shows "mfold (\<lambda>(_, spec) count.
              case spec of
                None \<Rightarrow> Some count
              | Some sp \<Rightarrow> do {
                  rs \<leftarrow> role_ReplicaSpec sp;
                  Some (case rs_Replicas rs of None \<Rightarrow> count | Some n \<Rightarrow> count + n) }) al c
         = Some (c + sum_list (map (\<lambda>(_, p). replicas_of p) al))"
  using assms
  by (induction al arbitrary: c) (auto simp: replicas_of_def add_ac)

lemma GetTotalReplicas_ok:
  assumes "roles_ok (spec_RoleSpecs s)"
  shows "GetTotalReplicas s = Some (sum_list (map (\<lambda>(_, p). replicas_of p) (gm_entries (spec_RoleSpecs s))))"
  using assms GetTotalReplicas_loop[of "gm_entries (spec_RoleSpecs s)" 0]
  unfolding GetTotalReplicas_def roles_ok_def by simp

lemma GetRolesReplicas_ok:
  assumes "roles_ok (spec_RoleSpecs s)"
  shows "GetRolesReplicas s roles = Some (\<Sum>r\<leftarrow>roles. replicas_of (gm_ptr (spec_RoleSpecs s) r))"
  using fold_add_sum_list[of "\<lambda>r. replicas_of (gm_ptr (spec_RoleSpecs s) r)" roles 0]
  by (simp add: GetRolesReplicas_def GetRoleReplicas_ok[OF assms])

lemma IsAresJob_iff:
  "IsAresJob owner \<longleftrightarrow>
     (\<exists>o'. owner = Some o' \<and> or_APIVersion o' = GroupVersion \<and> or_Kind o' = GroupVersionKind_Kind)"
  by (auto simp: IsAresJob_def split: option.splits)

end
