(* ===== verification/Reconciler_Utils.thy ===== *)
theory Reconciler_Utils
  imports Api_Types
begin

text \<open>
  The helpers of the reconciler (\<open>reconciler/utils.go\<close>): finished phases, conditions, replica labels, pod
  filters, domain names, the invalid-definition marker, the failure text of a pod and the order in which pods
  are listed.
\<close>

section \<open>Phases and conditions\<close>

definition IsFinished :: "JobPhase \<Rightarrow> bool" where
  "IsFinished phase \<longleftrightarrow> phase = JobPhaseFailed \<or> phase = JobPhaseSucceeded"

definition IsRoleFinished :: "RolePhase \<Rightarrow> bool" where
  "IsRoleFinished phase \<longleftrightarrow> phase = RolePhaseFailed \<or> phase = RolePhaseSucceeded"

definition IsRoleStarted :: "RolePhase \<Rightarrow> bool" where
  "IsRoleStarted phase \<longleftrightarrow> phase = RolePhaseRunning \<or> IsRoleFinished phase"

definition GetCondition :: "AresJobStatus \<Rightarrow> JobConditionType \<Rightarrow> JobCondition option" where
  "GetCondition status conditionType =
     (case st_JobStatus status of
        None \<Rightarrow> None
      | Some js \<Rightarrow> find (\<lambda>cond. jc_Type cond = conditionType) (js_Conditions js))"

section \<open>Labels\<close>

fun GetLabelByName :: "labels \<Rightarrow> string list \<Rightarrow> string" where
  "GetLabelByName lbls [] = []"
| "GetLabelByName lbls (name # names) =
     (case lbls of
        None \<Rightarrow> []
      | Some _ \<Rightarrow> (case gm_get lbls name of Some value \<Rightarrow> value | None \<Rightarrow> GetLabelByName lbls names))"

definition GetReplicaType :: "ext \<Rightarrow> labels \<Rightarrow> string" where
  "GetReplicaType E lbls = GetLabelByName lbls [ReplicaTypeLabel, x_ReplicaTypeLabel E]"

definition GetReplicaIndex :: "ext \<Rightarrow> labels \<Rightarrow> string" where
  "GetReplicaIndex E lbls = GetLabelByName lbls [ReplicaIndexLabel, x_ReplicaIndexLabel E]"

section \<open>Filters\<close>

definition FilterPods :: "Pod list \<Rightarrow> (Pod \<Rightarrow> bool) \<Rightarrow> Pod list" where
  "FilterPods pods requires = filter requires pods"

definition FilterAlivePods :: "Pod list \<Rightarrow> Pod list" where
  "FilterAlivePods pods = FilterPods pods (\<lambda>p. pod_DeletionTimestamp p = None)"

definition FilterTerminatingPods :: "Pod list \<Rightarrow> Pod list" where
  "FilterTerminatingPods pods = FilterPods pods (\<lambda>p. pod_DeletionTimestamp p \<noteq> None)"

section \<open>Domain names\<close>

definition GetGeneralSharedName :: "string \<Rightarrow> string \<Rightarrow> string" where
  "GetGeneralSharedName jobName rtype = replace_char (CHR ''/'') (CHR ''-'') (jobName @ ''-'' @ rtype)"

definition GetServiceDomainName :: "string \<Rightarrow> string \<Rightarrow> ReplicaType \<Rightarrow> string" where
  "GetServiceDomainName jobName nameSpace role =
     GetGeneralSharedName jobName role @ ''.'' @ nameSpace @ ''.svc.cluster.local''"

definition GetPodDomainName :: "ext \<Rightarrow> string \<Rightarrow> string \<Rightarrow> ReplicaType \<Rightarrow> int \<Rightarrow> string" where
  "GetPodDomainName E jobName nameSpace role index =
     GenGeneralName E jobName role (itoa index) @ ''.'' @ GetServiceDomainName jobName nameSpace role"

definition GetRolesDomainNames :: "ext \<Rightarrow> AresJob \<Rightarrow> ReplicaType list \<Rightarrow> string list option" where
  "GetRolesDomainNames E job roles =
     mfold (\<lambda>role res. do {
         let serviceDomainName = GetServiceDomainName (job_Name job) (job_Namespace job) role;
         replicas \<leftarrow> GetRoleReplicas (job_Spec job) role;
         Some (res @ map (\<lambda>i. GenGeneralName E (job_Name job) role (itoa (int i)) @ ''.'' @ serviceDomainName)
                       [0..<nat (sint replicas)]) })
       roles []"

section \<open>The invalid-definition marker\<close>

definition SetInvalidDefinition :: "ext \<Rightarrow> AresJobStatus \<Rightarrow> string \<Rightarrow> AresJobStatus" where
  "SetInvalidDefinition E status msg =
     (let js = (case st_JobStatus status of None \<Rightarrow> zero_JobStatus | Some s \<Rightarrow> s)
      in status\<lparr>st_JobStatus := Some (UpdateJobConditions E js JobFailed ErrInvalidDefinition msg),
                st_Phase := JobPhaseFailed\<rparr>)"

definition IsInvalidDefinition :: "AresJobStatus \<Rightarrow> bool" where
  "IsInvalidDefinition status =
     (case GetCondition status JobFailed of
        None \<Rightarrow> False
      | Some cond \<Rightarrow> jc_Reason cond = ErrInvalidDefinition)"

section \<open>Why a pod failed\<close>

definition GetPodFailedInfo :: "Pod \<Rightarrow> string" where
  "GetPodFailedInfo pod =
     (let terminatedInfo = (case find (\<lambda>t. t \<noteq> None) (pod_ContainerStatuses pod) of
                              Some (Some terminated) \<Rightarrow> tm_Json terminated
                            | _ \<Rightarrow> []);
          info = (if terminatedInfo = [] \<and> pod_Reason pod \<noteq> []
                  then ''('' @ pod_Reason pod @ '')'' @ pod_Message pod else terminatedInfo)
      in join [''nodeName='' @ pod_NodeName pod, ''info='' @ info] ''; '')"

section \<open>The order of pods\<close>

text \<open>
  The comparison function of \<open>SortPodsByRoleAndIndex\<close>. For pods of the same role one of which has no index
  the code compares the positions \<open>i < j\<close>; the sort only ever asks whether an element is less than its left
  neighbour, and the answer is false.
\<close>

definition pod_less :: "ext \<Rightarrow> Pod \<Rightarrow> Pod \<Rightarrow> bool" where
  "pod_less E p q =
     (let tpi = GetReplicaType E (pod_Labels p); tpj = GetReplicaType E (pod_Labels q);
          idxi = GetReplicaIndex E (pod_Labels p); idxj = GetReplicaIndex E (pod_Labels q)
      in if tpi \<noteq> tpj then tpi < tpj
         else if idxi = [] \<or> idxj = [] then False
         else if length idxi = length idxj then idxi < idxj
         else length idxi < length idxj)"

definition SortPodsByRoleAndIndex :: "ext \<Rightarrow> Pod list \<Rightarrow> Pod list" where
  "SortPodsByRoleAndIndex E pods = sort_slice (pod_less E) pods"

section \<open>Documented behaviour of kubeflow\<close>

definition general_names_ok :: "ext \<Rightarrow> bool" where
  "general_names_ok E \<longleftrightarrow>
     (\<forall>j r i. GenGeneralName E j r i = replace_char (CHR ''/'') (CHR ''-'') (j @ ''-'' @ r @ ''-'' @ i))"

section \<open>Lemmas\<close>

lemma IsRoleStarted_iff:
  "IsRoleStarted p \<longleftrightarrow> p = RolePhaseRunning \<or> p = RolePhaseFailed \<or> p = RolePhaseSucceeded"
  by (auto simp: IsRoleStarted_def IsRoleFinished_def)

lemma filter_pods_partition:
  "mset (FilterAlivePods pods) + mset (FilterTerminatingPods pods) = mset pods"
  unfolding FilterAlivePods_def FilterTerminatingPods_def FilterPods_def
  by (induction pods) auto

text \<open>Comparing decimal numerals by length and then bytewise is comparing their values.\<close>

definition short_lex :: "string \<Rightarrow> string \<Rightarrow> bool" where
  "short_lex a b \<longleftrightarrow> (if length a = length b then a < b else length a < length b)"

lemma lex_snoc:
  "length a = length b \<Longrightarrow> a @ [c] < b @ [d] \<longleftrightarrow> a < b \<or> (a = b \<and> c < d)" for c d :: char
  by (induction a b rule: list_induct2) auto

lemma digit_less: "m < 10 \<Longrightarrow> n < 10 \<Longrightarrow> char_of (48 + m) < (char_of (48 + n) :: char) \<longleftrightarrow> m < n" for m n :: nat
  by (simp add: less_char_def)

lemma nat_digits_inj: "nat_digits m = nat_digits n \<longleftrightarrow> m = n"
  by (metis digits_val_nat_digits)

lemma short_lex_snoc:
  "short_lex (a @ [c]) (b @ [d]) \<longleftrightarrow> short_lex a b \<or> (a = b \<and> c < d)"
  using lex_snoc[of a b c d] by (auto simp: short_lex_def)

lemma less_div_mod10: "m < n \<longleftrightarrow> m div 10 < n div 10 \<or> (m div 10 = n div 10 \<and> m mod 10 < n mod 10)" for m n :: nat
proof -
  have e: "m = 10 * (m div 10) + m mod 10" "n = 10 * (n div 10) + n mod 10" by simp_all
  have b: "m mod 10 < 10" "n mod 10 < 10" by simp_all
  show ?thesis
  proof (cases "m div 10" "n div 10" rule: linorder_cases)
    case less with e b show ?thesis by linarith
  next
    case equal with e show ?thesis by linarith
  next
    case greater with e b show ?thesis by linarith
  qed
qed

lemma short_lex_nat_digits: "short_lex (nat_digits m) (nat_digits n) \<longleftrightarrow> m < n"
proof (induction n arbitrary: m rule: nat_digits.induct)
  case (1 n)
  have len: "k < 10 \<Longrightarrow> length (nat_digits k) = 1" "\<not> k < 10 \<Longrightarrow> 2 \<le> length (nat_digits k)" for k
    using nat_digits_ne[of "k div 10"]
    by (subst nat_digits.simps, simp)+
  show ?case
  proof (cases "m < 10"; cases "n < 10")
    assume "m < 10" "n < 10"
    then show ?thesis
      by (simp add: short_lex_def nat_digits.simps[of m] nat_digits.simps[of n] digit_less)
  next
    assume "\<not> m < 10" "\<not> n < 10"
    then show ?thesis
      using 1[of "m div 10"] digit_less[of "m mod 10" "n mod 10"] less_div_mod10[of m n]
      by (simp add: nat_digits.simps[of m] nat_digits.simps[of n] short_lex_snoc nat_digits_inj)
  qed (use len in \<open>fastforce simp: short_lex_def\<close>)+
qed

lemma short_lex_trans_neg: "\<not> short_lex a b \<Longrightarrow> \<not> short_lex b c \<Longrightarrow> \<not> short_lex a c"
  by (auto simp: short_lex_def split: if_splits)

lemma short_lex_asym: "short_lex a b \<Longrightarrow> \<not> short_lex b a"
  by (auto simp: short_lex_def split: if_splits)

lemma short_lex_total: "\<not> short_lex a b \<Longrightarrow> \<not> short_lex b a \<Longrightarrow> a = b"
  by (auto simp: short_lex_def split: if_splits)

text \<open>On pods that carry an index the comparison is a strict weak order.\<close>

definition indexed_pods :: "ext \<Rightarrow> Pod set" where
  "indexed_pods E = {p. GetReplicaIndex E (pod_Labels p) \<noteq> []}"

lemma pod_less_indexed:
  assumes "p \<in> indexed_pods E" "q \<in> indexed_pods E"
  shows "pod_less E p q \<longleftrightarrow>
     (if GetReplicaType E (pod_Labels p) = GetReplicaType E (pod_Labels q)
      then short_lex (GetReplicaIndex E (pod_Labels p)) (GetReplicaIndex E (pod_Labels q))
      else GetReplicaType E (pod_Labels p) < GetReplicaType E (pod_Labels q))"
  using assms by (simp add: pod_less_def Let_def short_lex_def indexed_pods_def)

interpretation pod_order: slice_order "pod_less E" "indexed_pods E" for E
proof unfold_locales
  fix x y assume "x \<in> indexed_pods E" "y \<in> indexed_pods E" "pod_less E x y"
  then show "\<not> pod_less E y x"
    using short_lex_asym by (auto simp: pod_less_indexed split: if_splits)
next
  fix x y z assume "x \<in> indexed_pods E" "y \<in> indexed_pods E" "z \<in> indexed_pods E"
    "\<not> pod_less E x y" "\<not> pod_less E y z"
  then show "\<not> pod_less E x z"
    using short_lex_trans_neg[of "GetReplicaIndex E (pod_Labels x)" "GetReplicaIndex E (pod_Labels y)"
        "GetReplicaIndex E (pod_Labels z)"]
    by (auto simp: pod_less_indexed split: if_splits)
qed

lemma GetRolesDomainNames_single:
  assumes "GetRoleReplicas (job_Spec job) role = Some n"
  shows "GetRolesDomainNames E job [role] =
     Some (map (\<lambda>i. GetPodDomainName E (job_Name job) (job_Namespace job) role (int i)) [0..<nat (sint n)])"
  using assms by (simp add: GetRolesDomainNames_def Let_def GetPodDomainName_def)

lemma nat_digits_no_slash: "CHR ''/'' \<notin> set (nat_digits n)"
proof
  assume "CHR ''/'' \<in> set (nat_digits n)"
  with nat_digits_all[of n] have "is_digit (CHR ''/'')" by (auto simp: list_all_iff)
  then show False by (simp add: is_digit_def)
qed

lemma GetPodDomainName_inj:
  assumes "general_names_ok E"
    and "GetPodDomainName E j ns role (int m) = GetPodDomainName E j ns role (int n)"
  shows "m = n"
proof -
  let ?r = "replace_char (CHR ''/'') (CHR ''-'')"
  from assms have "?r (itoa (int m)) = ?r (itoa (int n))"
    by (simp add: GetPodDomainName_def general_names_ok_def replace_char_def)
  then have "itoa (int m) = itoa (int n)"
    by (simp add: itoa_def replace_char_absent nat_digits_no_slash)
  then show ?thesis by (simp add: itoa_inj_nat)
qed

lemma plain_general_names: "general_names_ok plain_ext"
  by (simp add: general_names_ok_def plain_ext_def)

section \<open>Properties\<close>

text \<open>
  C40. \<open>SortPodsByRoleAndIndex\<close> lists the pods of a role by the numeric value of their index, although it only
  compares lengths and bytes: for pods of one role labelled with decimal indices the result is in increasing
  order of the index, and it holds the same pods.
\<close>

theorem SortPods_numeric:
  assumes "\<forall>p \<in> set pods. GetReplicaType E (pod_Labels p) = role \<and> GetReplicaIndex E (pod_Labels p) = itoa (int (idx p))"
  shows "mset (SortPodsByRoleAndIndex E pods) = mset pods \<and>
     sorted_wrt (\<lambda>p q. idx p \<le> idx q) (SortPodsByRoleAndIndex E pods)"
proof
  have sub: "set pods \<subseteq> indexed_pods E"
    using assms nat_digits_ne by (auto simp: indexed_pods_def itoa_def)
  have "sorted_wrt (\<lambda>p q. \<not> pod_less E q p) (SortPodsByRoleAndIndex E pods)"
    unfolding SortPodsByRoleAndIndex_def using sub by (rule pod_order.sort_slice_sorted)
  then show "sorted_wrt (\<lambda>p q. idx p \<le> idx q) (SortPodsByRoleAndIndex E pods)"
  proof (rule sorted_wrt_mono_rel[rotated])
    fix p q assume "p \<in> set (SortPodsByRoleAndIndex E pods)" "q \<in> set (SortPodsByRoleAndIndex E pods)"
      and less: "\<not> pod_less E q p"
    then have "p \<in> set pods" "q \<in> set pods" by (simp_all add: SortPodsByRoleAndIndex_def)
    with less assms sub have "\<not> short_lex (nat_digits (idx q)) (nat_digits (idx p))"
      by (auto simp: pod_less_indexed itoa_def subset_iff)
    then show "idx p \<le> idx q" by (simp add: short_lex_nat_digits)
  qed
  show "mset (SortPodsByRoleAndIndex E pods) = mset pods" by (simp add: SortPodsByRoleAndIndex_def)
qed

theorem SortPods_numeric_witness:
  "map pod_Name (SortPodsByRoleAndIndex plain_ext
     [plain_pod ''p10'' ''w'' ''10'' PodRunning, plain_pod ''p9'' ''w'' ''9'' PodRunning]) = [''p9'', ''p10''] \<and>
   sorted_wrt (\<lambda>p q. (if pod_Name p = ''p9'' then 9 else 10 :: nat) \<le> (if pod_Name q = ''p9'' then 9 else 10))
     (SortPodsByRoleAndIndex plain_ext
       [plain_pod ''p10'' ''w'' ''10'' PodRunning, plain_pod ''p9'' ''w'' ''9'' PodRunning])"
proof -
  let ?ps = "[plain_pod ''p10'' ''w'' ''10'' PodRunning, plain_pod ''p9'' ''w'' ''9'' PodRunning]"
  let ?idx = "\<lambda>p. if pod_Name p = ''p9'' then 9 else 10 :: nat"
  have lbl: "\<forall>p \<in> set ?ps. GetReplicaType plain_ext (pod_Labels p) = ''w'' \<and>
      GetReplicaIndex plain_ext (pod_Labels p) = itoa (int (?idx p))"
    by (simp add: GetReplicaType_def GetReplicaIndex_def plain_pod_def gm_get_def go_consts itoa_small)
  have run: "map pod_Name (SortPodsByRoleAndIndex plain_ext ?ps) = [''p9'', ''p10'']"
    by (simp add: SortPodsByRoleAndIndex_def sort_slice_def pod_less_def GetReplicaType_def
        GetReplicaIndex_def plain_pod_def gm_get_def go_consts)
  from SortPods_numeric[OF lbl] run show ?thesis by simp
qed

text \<open>
  The addresses handed to the pods of a role are as many as its replicas and pairwise different: the
  \<open>i\<close>-th one is the domain name of the pod with index \<open>i\<close>.
\<close>

lemma GetRolesDomainNames_addresses:
  assumes "general_names_ok E" and "GetRoleReplicas (job_Spec job) role = Some n"
  shows "\<exists>names. GetRolesDomainNames E job [role] = Some names \<and> length names = nat (sint n) \<and> distinct names \<and>
     (\<forall>i < nat (sint n). names ! i = GetPodDomainName E (job_Name job) (job_Namespace job) role (int i))"
  unfolding GetRolesDomainNames_single[OF assms(2)]
  by (auto simp: distinct_map inj_on_def dest: GetPodDomainName_inj[OF assms(1)])

end
