(* ===== verification/Node_Manager.thy ===== *)
theory Node_Manager
  imports Api_Types
begin

text \<open>
  The registry of unhealthy nodes (\<open>reconciler/node/manager.go\<close>). \<open>NewManager\<close> allocates the map and
  nothing reassigns it, so it is an association list here; every method holds the lock for its whole
  access to the map and is one step.

  The locale \<open>node_registry\<close> is the contract the phase computation relies on: which observations make a
  node count as down. It is interpreted on the manager's own operations, and the theorem on replayed
  observations comes from it.
\<close>

section \<open>The interface\<close>

locale node_registry =
  fixes empty :: 'm
    and down :: "'m \<Rightarrow> string \<Rightarrow> bool"
    and mark :: "'m \<Rightarrow> string \<Rightarrow> 'c \<Rightarrow> 'm"
    and clear :: "'m \<Rightarrow> string \<Rightarrow> 'm"
    and unhealthy :: "'c \<Rightarrow> bool"
    and invar :: "'m \<Rightarrow> bool"
  assumes invar_empty: "invar empty"
    and invar_mark: "invar m \<Longrightarrow> unhealthy c \<Longrightarrow> invar (mark m n c)"
    and invar_clear: "invar m \<Longrightarrow> invar (clear m n)"
    and down_empty: "\<not> down empty n"
    and down_mark: "invar m \<Longrightarrow> unhealthy c \<Longrightarrow> down (mark m n c) n' = (n' = n \<or> down m n')"
    and down_clear: "invar m \<Longrightarrow> down (clear m n) n' = (n' \<noteq> n \<and> down m n')"
begin

text \<open>An observation of a node marks or clears it.\<close>

definition observe :: "'m \<Rightarrow> string \<times> 'c \<Rightarrow> 'm" where
  "observe m ob = (if unhealthy (snd ob) then mark m (fst ob) (snd ob) else clear m (fst ob))"

lemma invar_observe: "invar m \<Longrightarrow> invar (observe m ob)"
  by (simp add: observe_def invar_mark invar_clear)

lemma invar_replay: "invar m \<Longrightarrow> invar (foldl observe m obs)"
  by (induction obs arbitrary: m) (simp_all add: invar_observe)

lemma down_observe:
  "invar m \<Longrightarrow> down (observe m ob) n = (if n = fst ob then unhealthy (snd ob) else down m n)"
  by (auto simp: observe_def down_mark down_clear)

text \<open>A node is down after a history exactly when its last observation was unhealthy.\<close>

lemma down_replay:
  assumes "invar m"
  shows "down (foldl observe m obs) n =
     (case filter (\<lambda>ob. fst ob = n) (rev obs) of [] \<Rightarrow> down m n | ob # _ \<Rightarrow> unhealthy (snd ob))"
  using assms
proof (induction obs rule: rev_induct)
  case (snoc ob obs)
  then show ?case by (simp add: down_observe invar_replay)
qed simp

end

section \<open>reconciler/node/manager.go\<close>

record NodeCondition =
  nc_Type :: string
  nc_Status :: string
  nc_Message :: string

record Node =
  node_Name :: string
  node_Conditions :: "NodeCondition list"

definition NodeReady :: string where [go_consts]: "NodeReady = ''Ready''"

type_synonym Conditions = "(string \<times> NodeCondition) list"

definition cond_text :: "string \<Rightarrow> NodeCondition \<Rightarrow> string" where
  "cond_text ctypes cond = ctypes @ ''('' @ nc_Status cond @ ''): '' @ nc_Message cond"

text \<open>The method \<open>(conds Conditions) String()\<close>.\<close>

definition Conditions_String :: "Conditions \<Rightarrow> string" where
  "Conditions_String conds =
     (case map_of conds NodeReady of
        Some cond \<Rightarrow> cond_text (nc_Type cond) cond
      | None \<Rightarrow>
          let ctypes = map fst conds
          in case conds of
               (_, cond) # _ \<Rightarrow> cond_text (join ctypes ''/'') cond
             | [] \<Rightarrow> itoa (int (length conds)) @ '' unhealthy conditions'')"

record Manager =
  unhealthyNodes :: "(string \<times> Conditions) list"

definition NewManager :: Manager where
  "NewManager = \<lparr>unhealthyNodes = []\<rparr>"

definition IsNodeDown :: "Manager \<Rightarrow> string \<Rightarrow> bool \<times> string" where
  "IsNodeDown m name =
     (let conds = (case map_of (unhealthyNodes m) name of None \<Rightarrow> [] | Some c \<Rightarrow> c)
      in if length conds = 0 then (False, []) else (True, Conditions_String conds))"

definition RemoveNode :: "Manager \<Rightarrow> string \<Rightarrow> Manager \<times> bool" where
  "RemoveNode m name =
     (if map_of (unhealthyNodes m) name \<noteq> None
      then (m\<lparr>unhealthyNodes := AList.delete name (unhealthyNodes m)\<rparr>, True)
      else (m, False))"

definition SetNode :: "Manager \<Rightarrow> string \<Rightarrow> Conditions \<Rightarrow> Manager \<times> bool" where
  "SetNode m name conds =
     (let exists = (map_of (unhealthyNodes m) name \<noteq> None)
      in (m\<lparr>unhealthyNodes := AList.update name conds (unhealthyNodes m)\<rparr>, \<not> exists))"

text \<open>The conditions of a node whose status is unknown.\<close>

definition unknown_conds :: "Node \<Rightarrow> Conditions" where
  "unknown_conds node =
     foldl (\<lambda>conds cond. if nc_Status cond = ConditionUnknown then AList.update (nc_Type cond) cond conds
              else conds) [] (node_Conditions node)"

definition HandleGeneric :: "Manager \<Rightarrow> Node \<Rightarrow> Manager \<times> bool" where
  "HandleGeneric m node =
     (let conds = unknown_conds node
      in if 0 < length conds then SetNode m (node_Name node) conds
         else (fst (RemoveNode m (node_Name node)), False))"

definition HandleUpdate :: "Manager \<Rightarrow> Node \<Rightarrow> Node \<Rightarrow> Manager \<times> bool" where
  "HandleUpdate m old node = HandleGeneric m node"

section \<open>Invariant and specification\<close>

text \<open>Every recorded node has a condition, so being recorded and being down are the same.\<close>

definition manager_ok :: "Manager \<Rightarrow> bool" where
  "manager_ok m \<longleftrightarrow> list_all (\<lambda>(_, conds). conds \<noteq> []) (unhealthyNodes m) \<and> distinct (map fst (unhealthyNodes m))"

definition node_unhealthy :: "Node \<Rightarrow> bool" where
  "node_unhealthy node \<longleftrightarrow> (\<exists>cond \<in> set (node_Conditions node). nc_Status cond = ConditionUnknown)"

section \<open>Lemmas\<close>

lemma update_not_nil [simp]: "AList.update k v al \<noteq> []"
  by (cases al) auto

lemma IsNodeDown_iff: "fst (IsNodeDown m n) \<longleftrightarrow> (\<exists>c. map_of (unhealthyNodes m) n = Some c \<and> c \<noteq> [])"
  by (auto simp: IsNodeDown_def Let_def split: option.splits)

lemma list_all_update:
  "list_all P al \<Longrightarrow> P (k, v) \<Longrightarrow> list_all P (AList.update k v al)"
  by (induction al) auto

lemma list_all_delete: "list_all P al \<Longrightarrow> list_all P (AList.delete k al)"
  by (induction al) auto

lemma manager_ok_NewManager: "manager_ok NewManager"
  by (simp add: manager_ok_def NewManager_def)

lemma manager_ok_SetNode: "manager_ok m \<Longrightarrow> c \<noteq> [] \<Longrightarrow> manager_ok (fst (SetNode m n c))"
  by (simp add: manager_ok_def SetNode_def Let_def list_all_update distinct_update)

lemma manager_ok_RemoveNode: "manager_ok m \<Longrightarrow> manager_ok (fst (RemoveNode m n))"
  by (auto simp: manager_ok_def RemoveNode_def list_all_delete distinct_delete)

lemma manager_ok_lookup: "manager_ok m \<Longrightarrow> map_of (unhealthyNodes m) n \<noteq> Some []"
  by (auto simp: manager_ok_def list_all_iff dest: map_of_SomeD)

lemma IsNodeDown_SetNode:
  "c \<noteq> [] \<Longrightarrow> fst (IsNodeDown (fst (SetNode m n c)) n') = (n' = n \<or> fst (IsNodeDown m n'))"
  by (auto simp: IsNodeDown_iff SetNode_def Let_def update_conv')

lemma IsNodeDown_RemoveNode:
  "fst (IsNodeDown (fst (RemoveNode m n)) n') = (n' \<noteq> n \<and> fst (IsNodeDown m n'))"
  by (auto simp: IsNodeDown_iff RemoveNode_def delete_conv' split: option.splits)

lemma unknown_conds_nil_iff: "unknown_conds node = [] \<longleftrightarrow> \<not> node_unhealthy node"
proof -
  let ?step = "\<lambda>conds cond. if nc_Status cond = ConditionUnknown then AList.update (nc_Type cond) cond conds
              else conds"
  have "foldl ?step acc cs = [] \<longleftrightarrow> acc = [] \<and> (\<forall>c \<in> set cs. nc_Status c \<noteq> ConditionUnknown)" for acc :: Conditions and cs
    by (induction cs arbitrary: acc) auto
  then show ?thesis by (simp add: unknown_conds_def node_unhealthy_def)
qed

lemma manager_ok_HandleGeneric: "manager_ok m \<Longrightarrow> manager_ok (fst (HandleGeneric m node))"
  by (simp add: HandleGeneric_def Let_def manager_ok_SetNode manager_ok_RemoveNode)

interpretation nm: node_registry NewManager "\<lambda>m n. fst (IsNodeDown m n)"
  "\<lambda>m n c. fst (SetNode m n c)" "\<lambda>m n. fst (RemoveNode m n)" "\<lambda>c. c \<noteq> []" manager_ok
proof unfold_locales
  show "\<not> fst (IsNodeDown NewManager n)" for n by (simp add: IsNodeDown_def NewManager_def)
qed (simp_all add: manager_ok_NewManager manager_ok_SetNode manager_ok_RemoveNode
    IsNodeDown_SetNode IsNodeDown_RemoveNode)

text \<open>\<open>HandleGeneric\<close> is the registry's observation of a node.\<close>

lemma HandleGeneric_observe:
  "fst (HandleGeneric m node) = nm.observe m (node_Name node, unknown_conds node)"
  by (simp add: HandleGeneric_def Let_def nm.observe_def)

lemma HandleGeneric_replay:
  "foldl (\<lambda>m node. fst (HandleGeneric m node)) m nodes =
     foldl nm.observe m (map (\<lambda>node. (node_Name node, unknown_conds node)) nodes)"
  by (induction nodes arbitrary: m) (simp_all add: HandleGeneric_observe)

section \<open>Properties\<close>

text \<open>
  The registry reflects the last report of every node: after any sequence of node events, a node is down
  exactly when its latest event carried a condition of unknown status.
\<close>

lemma IsNodeDown_latest:
  "fst (IsNodeDown (foldl (\<lambda>m node. fst (HandleGeneric m node)) NewManager nodes) name) =
     (case filter (\<lambda>node. node_Name node = name) (rev nodes) of
        [] \<Rightarrow> False
      | node # _ \<Rightarrow> node_unhealthy node)"
proof -
  have "filter (\<lambda>ob. fst ob = name) (rev (map (\<lambda>node. (node_Name node, unknown_conds node)) nodes)) =
      map (\<lambda>node. (node_Name node, unknown_conds node)) (filter (\<lambda>node. node_Name node = name) (rev nodes))"
    by (simp add: rev_map filter_map comp_def)
  then show ?thesis
    using nm.down_replay[OF manager_ok_NewManager] nm.down_empty
    by (simp add: HandleGeneric_replay unknown_conds_nil_iff split: list.splits)
qed

text \<open>
  A node event is reported as going down exactly once: \<open>HandleGeneric\<close> returns true precisely when the
  node was not down before the event and is down after it, so the jobs of a node are requeued on the edge and
  not on every heartbeat.
\<close>

lemma HandleGeneric_edge:
  assumes "manager_ok m"
  shows "snd (HandleGeneric m node) \<longleftrightarrow>
     \<not> fst (IsNodeDown m (node_Name node)) \<and> fst (IsNodeDown (fst (HandleGeneric m node)) (node_Name node))"
  using assms manager_ok_lookup[OF assms, of "node_Name node"]
  by (cases "map_of (unhealthyNodes m) (node_Name node)")
    (auto simp: HandleGeneric_def Let_def SetNode_def IsNodeDown_iff update_conv' RemoveNode_def
      split: option.splits)

end
