(* ===== verification/Role_Cache.thy ===== *)
theory Role_Cache
  imports Api_Types
begin

text \<open>
  The cache of role phases that waiting pods poll (\<open>cache/\<close>): the keys of jobs, the in-memory backend and
  the wrapper that delegates to a backend. \<open>cache.Interface\<close> is the locale \<open>role_cache\<close>; its laws describe
  a cache by the data it holds for a job and a role, and it is interpreted on \<open>MemoryCache\<close> and on the
  wrapper \<open>Cache\<close>.

  The operations are modelled as they run one after the other. The Go map has no lock, and the controller runs several rounds at a time:
  what the Go runtime does when two of them touch the map at once (it may stop the process) is outside this model.
\<close>

section \<open>cache/type.go\<close>

record RoleCache =
  rc_Phase :: RolePhase
  rc_Running :: bool
  rc_IPs :: "string list"

type_synonym RoleCacheOptionFunc = "RoleCache \<Rightarrow> RoleCache"

definition WithIPs :: "string list \<Rightarrow> RoleCacheOptionFunc" where
  "WithIPs ips = (\<lambda>c. c\<lparr>rc_IPs := ips\<rparr>)"

definition NewRoleCache :: "RolePhase \<Rightarrow> RoleCacheOptionFunc list \<Rightarrow> RoleCache" where
  "NewRoleCache phase opts =
     foldl (\<lambda>c opt. opt c) \<lparr>rc_Phase = phase, rc_Running = (phase = RolePhaseRunning), rc_IPs = []\<rparr> opts"

type_synonym JobCache = "(ReplicaType \<times> RoleCache option) list"

definition NamespacedNameToKey :: "string \<Rightarrow> string \<Rightarrow> string" where
  "NamespacedNameToKey ns name = ns @ ''.'' @ name"

definition KeyToNamespacedName :: "string \<Rightarrow> (string \<times> string) result" where
  "KeyToNamespacedName key =
     (case split2 (CHR ''.'') key of
        [ns, name] \<Rightarrow> Inr (ns, name)
      | _ \<Rightarrow> Inl (Errorf (''failed to split '' @ CHR 0x27 # key @ CHR 0x27 # '' to 2 parts: ['' @ key @ '']'')))"

section \<open>The interface\<close>

text \<open>A call of the interface, for histories.\<close>

datatype cache_op = OpSet string ReplicaType "RoleCache option" | OpDelete string

locale role_cache =
  fixes set_role :: "'c \<Rightarrow> string \<Rightarrow> ReplicaType \<Rightarrow> RoleCache option \<Rightarrow> go_error option \<times> 'c"
    and get_role :: "'c \<Rightarrow> string \<Rightarrow> ReplicaType \<Rightarrow> RoleCache option result \<times> 'c"
    and get_job :: "'c \<Rightarrow> string \<Rightarrow> JobCache result \<times> 'c"
    and delete_job :: "'c \<Rightarrow> string \<Rightarrow> go_error option \<times> 'c"
    and is_open :: "'c \<Rightarrow> bool"
    and view :: "'c \<Rightarrow> string \<Rightarrow> ReplicaType \<Rightarrow> RoleCache option"
  assumes set_ok: "is_open c \<Longrightarrow> fst (set_role c k r d) = None \<and> is_open (snd (set_role c k r d))"
    and set_view: "is_open c \<Longrightarrow> view (snd (set_role c k r d)) k' r' = (if k' = k \<and> r' = r then d else view c k' r')"
    and get_ok: "is_open c \<Longrightarrow> fst (get_role c k r) = Inr (view c k r) \<and> is_open (snd (get_role c k r))"
    and get_view: "is_open c \<Longrightarrow> view (snd (get_role c k r)) = view c"
    and job_ok: "is_open c \<Longrightarrow> \<exists>jc. fst (get_job c k) = Inr jc \<and> (\<forall>r. gm_ptr (Some jc) r = view c k r)"
    and job_view: "is_open c \<Longrightarrow> view (snd (get_job c k)) = view c \<and> is_open (snd (get_job c k))"
    and delete_ok: "is_open c \<Longrightarrow> fst (delete_job c k) = None \<and> is_open (snd (delete_job c k))"
    and delete_view: "is_open c \<Longrightarrow> view (snd (delete_job c k)) k' r' = (if k' = k then None else view c k' r')"
    and set_closed: "\<not> is_open c \<Longrightarrow> fst (set_role c k r d) \<noteq> None"
begin

definition run_op :: "'c \<Rightarrow> cache_op \<Rightarrow> 'c" where
  "run_op c p = (case p of OpSet k r d \<Rightarrow> snd (set_role c k r d) | OpDelete k \<Rightarrow> snd (delete_job c k))"

text \<open>The abstract cache: a function from jobs and roles to data.\<close>

definition spec_op :: "(string \<Rightarrow> ReplicaType \<Rightarrow> RoleCache option) \<Rightarrow> cache_op \<Rightarrow> string \<Rightarrow> ReplicaType \<Rightarrow> RoleCache option" where
  "spec_op v p = (case p of
     OpSet k r d \<Rightarrow> (\<lambda>k' r'. if k' = k \<and> r' = r then d else v k' r')
   | OpDelete k \<Rightarrow> (\<lambda>k' r'. if k' = k then None else v k' r'))"

lemma open_run_op: "is_open c \<Longrightarrow> is_open (run_op c p)"
  by (cases p) (simp_all add: run_op_def set_ok delete_ok)

lemma view_run_op: "is_open c \<Longrightarrow> view (run_op c p) = spec_op (view c) p"
  by (cases p) (simp_all add: run_op_def spec_op_def set_view delete_view fun_eq_iff)

lemma open_run: "is_open c \<Longrightarrow> is_open (foldl run_op c ps)"
  by (induction ps arbitrary: c) (simp_all add: open_run_op)

text \<open>Histories refine the abstract cache.\<close>

lemma view_run: "is_open c \<Longrightarrow> view (foldl run_op c ps) = foldl spec_op (view c) ps"
  by (induction ps arbitrary: c) (simp_all add: open_run_op view_run_op)

lemma get_run:
  "is_open c \<Longrightarrow> fst (get_role (foldl run_op c ps) k r) = Inr (foldl spec_op (view c) ps k r)"
  by (simp add: get_ok open_run view_run)

end

section \<open>cache/memory.go\<close>

text \<open>The map of the cache; nil after \<open>Close\<close>.\<close>

type_synonym MemoryCache = "(string, JobCache) gomap"

definition NewMemoryCache :: MemoryCache where
  "NewMemoryCache = Some []"

definition Memory_Close :: "MemoryCache \<Rightarrow> MemoryCache" where
  "Memory_Close c = None"

definition getSubCache :: "MemoryCache \<Rightarrow> string \<Rightarrow> JobCache result \<times> MemoryCache" where
  "getSubCache c key =
     (case c of
        None \<Rightarrow> (Inl ErrClosed, c)
      | Some al \<Rightarrow>
          (case map_of al key of
             Some sub \<Rightarrow> (Inr sub, c)
           | None \<Rightarrow> (Inr [], Some (AList.update key [] al))))"

definition Memory_SetRoleCache ::
  "MemoryCache \<Rightarrow> string \<Rightarrow> ReplicaType \<Rightarrow> RoleCache option \<Rightarrow> go_error option \<times> MemoryCache" where
  "Memory_SetRoleCache c jobKey roleName data =
     (case getSubCache c jobKey of
        (Inl err, c') \<Rightarrow> (Some err, c')
      | (Inr sc, c') \<Rightarrow> (None, map_option (AList.update jobKey (AList.update roleName data sc)) c'))"

definition Memory_GetRoleCache ::
  "MemoryCache \<Rightarrow> string \<Rightarrow> ReplicaType \<Rightarrow> RoleCache option result \<times> MemoryCache" where
  "Memory_GetRoleCache c jobKey roleName =
     (case getSubCache c jobKey of
        (Inl err, c') \<Rightarrow> (Inl err, c')
      | (Inr sc, c') \<Rightarrow> (Inr (gm_ptr (Some sc) roleName), c'))"

definition Memory_GetJobCache :: "MemoryCache \<Rightarrow> string \<Rightarrow> JobCache result \<times> MemoryCache" where
  "Memory_GetJobCache c jobKey = getSubCache c jobKey"

definition Memory_DeleteJobCache :: "MemoryCache \<Rightarrow> string \<Rightarrow> go_error option \<times> MemoryCache" where
  "Memory_DeleteJobCache c jobKey =
     (if gm_get c jobKey \<noteq> None then (None, gm_delete c jobKey) else (None, c))"

section \<open>cache/cache.go\<close>

text \<open>\<open>New\<close> accepts the scheme \<open>memory\<close> only; the wrapper delegates every call to its backend.\<close>

record Cache =
  backend :: MemoryCache

definition New :: "string \<Rightarrow> Cache result" where
  "New scheme = (if scheme = ''memory'' then Inr \<lparr>backend = NewMemoryCache\<rparr>
     else Inl (Errorf (''unknown cache backend: '' @ scheme)))"

definition SetRoleCache :: "Cache \<Rightarrow> string \<Rightarrow> ReplicaType \<Rightarrow> RoleCache option \<Rightarrow> go_error option \<times> Cache" where
  "SetRoleCache c jobKey roleName data =
     (let (err, b) = Memory_SetRoleCache (backend c) jobKey roleName data in (err, c\<lparr>backend := b\<rparr>))"

definition GetRoleCache :: "Cache \<Rightarrow> string \<Rightarrow> ReplicaType \<Rightarrow> RoleCache option result \<times> Cache" where
  "GetRoleCache c jobKey roleName =
     (let (res, b) = Memory_GetRoleCache (backend c) jobKey roleName in (res, c\<lparr>backend := b\<rparr>))"

definition GetJobCache :: "Cache \<Rightarrow> string \<Rightarrow> JobCache result \<times> Cache" where
  "GetJobCache c jobKey = (let (res, b) = Memory_GetJobCache (backend c) jobKey in (res, c\<lparr>backend := b\<rparr>))"

definition DeleteJobCache :: "Cache \<Rightarrow> string \<Rightarrow> go_error option \<times> Cache" where
  "DeleteJobCache c jobKey = (let (err, b) = Memory_DeleteJobCache (backend c) jobKey in (err, c\<lparr>backend := b\<rparr>))"

definition Close :: "Cache \<Rightarrow> Cache" where
  "Close c = c\<lparr>backend := Memory_Close (backend c)\<rparr>"

section \<open>What a cache holds\<close>

definition cache_view :: "MemoryCache \<Rightarrow> string \<Rightarrow> ReplicaType \<Rightarrow> RoleCache option" where
  "cache_view c k r = (case gm_get c k of None \<Rightarrow> None | Some sub \<Rightarrow> gm_ptr (Some sub) r)"

section \<open>Lemmas\<close>

lemma gm_ptr_update: "gm_ptr (Some (AList.update r d sub)) r' = (if r' = r then d else gm_ptr (Some sub) r')"
  by (simp add: gm_ptr_def gm_get_def update_conv')

lemma gm_ptr_empty [simp]: "gm_ptr (Some []) r = None"
  by (simp add: gm_ptr_def gm_get_def)

lemma cache_view_update:
  "cache_view (Some (AList.update k sub al)) k' r =
     (if k' = k then gm_ptr (Some sub) r else cache_view (Some al) k' r)"
  by (simp add: cache_view_def gm_get_def update_conv')

lemma getSubCache_open:
  assumes "getSubCache (Some al) k = (res, c')"
  shows "\<exists>sub al'. res = Inr sub \<and> c' = Some al' \<and> (\<forall>r. gm_ptr (Some sub) r = cache_view (Some al) k r)
     \<and> cache_view c' = cache_view (Some al)"
  using assms
  by (auto simp: getSubCache_def cache_view_def gm_get_def update_conv' fun_eq_iff split: option.splits)

lemma Memory_Set_open:
  "\<exists>al'. Memory_SetRoleCache (Some al) k r d = (None, Some al')
     \<and> (\<forall>k' r'. cache_view (Some al') k' r' = (if k' = k \<and> r' = r then d else cache_view (Some al) k' r'))"
proof -
  obtain res c' where g: "getSubCache (Some al) k = (res, c')" by fastforce
  from getSubCache_open[OF g] obtain sub al' where s: "res = Inr sub" "c' = Some al'"
    "\<forall>r. gm_ptr (Some sub) r = cache_view (Some al) k r" "cache_view c' = cache_view (Some al)" by blast
  then show ?thesis
    by (auto simp: Memory_SetRoleCache_def g cache_view_update gm_ptr_update)
qed

lemma Memory_Delete_view:
  "cache_view (snd (Memory_DeleteJobCache c k)) k' r = (if k' = k then None else cache_view c k' r)"
  by (auto simp: Memory_DeleteJobCache_def cache_view_def gm_get_delete split: option.splits)

lemma Memory_Delete_open: "c \<noteq> None \<Longrightarrow> fst (Memory_DeleteJobCache c k) = None \<and> snd (Memory_DeleteJobCache c k) \<noteq> None"
  by (auto simp: Memory_DeleteJobCache_def gm_delete_def)

lemma Memory_closed: "fst (Memory_SetRoleCache None k r d) = Some ErrClosed"
  by (simp add: Memory_SetRoleCache_def getSubCache_def)

interpretation mc: role_cache Memory_SetRoleCache Memory_GetRoleCache Memory_GetJobCache Memory_DeleteJobCache
  "\<lambda>c. c \<noteq> None" cache_view
proof unfold_locales
  fix c :: MemoryCache and k r d k' r'
  assume "c \<noteq> None"
  then obtain al where al: "c = Some al" by blast
  obtain res c' where g: "getSubCache c k = (res, c')" by fastforce
  from getSubCache_open[OF g[unfolded al]] obtain sub al' where s: "res = Inr sub" "c' = Some al'"
    "\<forall>r. gm_ptr (Some sub) r = cache_view c k r" "cache_view c' = cache_view c" unfolding al by blast
  show "fst (Memory_SetRoleCache c k r d) = None \<and> snd (Memory_SetRoleCache c k r d) \<noteq> None"
    "cache_view (snd (Memory_SetRoleCache c k r d)) k' r' = (if k' = k \<and> r' = r then d else cache_view c k' r')"
    using Memory_Set_open[of al k r d] by (auto simp: al)
  show "fst (Memory_GetRoleCache c k r) = Inr (cache_view c k r) \<and> snd (Memory_GetRoleCache c k r) \<noteq> None"
    "cache_view (snd (Memory_GetRoleCache c k r)) = cache_view c"
    using s by (simp_all add: Memory_GetRoleCache_def g)
  show "\<exists>jc. fst (Memory_GetJobCache c k) = Inr jc \<and> (\<forall>r. gm_ptr (Some jc) r = cache_view c k r)"
    "cache_view (snd (Memory_GetJobCache c k)) = cache_view c \<and> snd (Memory_GetJobCache c k) \<noteq> None"
    using s by (simp_all add: Memory_GetJobCache_def g)
qed (simp_all add: Memory_Delete_open Memory_Delete_view Memory_closed)

lemma wrapper_snd:
  "backend (snd (SetRoleCache c k r d)) = snd (Memory_SetRoleCache (backend c) k r d)"
  "backend (snd (GetRoleCache c k r)) = snd (Memory_GetRoleCache (backend c) k r)"
  "backend (snd (GetJobCache c k)) = snd (Memory_GetJobCache (backend c) k)"
  "backend (snd (DeleteJobCache c k)) = snd (Memory_DeleteJobCache (backend c) k)"
  "fst (SetRoleCache c k r d) = fst (Memory_SetRoleCache (backend c) k r d)"
  "fst (GetRoleCache c k r) = fst (Memory_GetRoleCache (backend c) k r)"
  "fst (GetJobCache c k) = fst (Memory_GetJobCache (backend c) k)"
  "fst (DeleteJobCache c k) = fst (Memory_DeleteJobCache (backend c) k)"
  by (simp_all add: SetRoleCache_def GetRoleCache_def GetJobCache_def DeleteJobCache_def case_prod_beta)

interpretation rc: role_cache SetRoleCache GetRoleCache GetJobCache DeleteJobCache
  "\<lambda>c. backend c \<noteq> None" "\<lambda>c. cache_view (backend c)"
  by unfold_locales
    (simp_all only: wrapper_snd mc.set_ok mc.set_view mc.get_ok mc.get_view mc.job_ok mc.job_view
      mc.delete_ok mc.delete_view mc.set_closed simp_thms not_False_eq_True)

section \<open>Properties\<close>

text \<open>
  C39. The cache is a map from jobs and roles to role data: after any history of writes and deletions, a read
  returns what the history leaves for that job and role under the obvious reading of a map, nil where nothing
  was written or the job was deleted.
\<close>

theorem cache_history:
  assumes "backend c \<noteq> None"
  shows "fst (GetRoleCache (foldl rc.run_op c ops) k r) = Inr (foldl rc.spec_op (cache_view (backend c)) ops k r)"
  using assms by (rule rc.get_run)

theorem cache_history_witness:
  "fst (GetRoleCache (foldl rc.run_op \<lparr>backend = NewMemoryCache\<rparr>
      [OpSet ''ns.j'' RoleWorker (Some (NewRoleCache RolePhaseRunning [])), OpDelete ''ns.j'']) ''ns.j'' RoleWorker)
   = Inr None"
proof -
  have h: "backend \<lparr>backend = NewMemoryCache\<rparr> \<noteq> None" by (simp add: NewMemoryCache_def)
  show ?thesis
    using cache_history[OF h, of "[OpSet ''ns.j'' RoleWorker (Some (NewRoleCache RolePhaseRunning [])), OpDelete ''ns.j'']"
        "''ns.j''" RoleWorker]
    by (simp add: rc.spec_op_def)
qed

text \<open>
  Job keys round-trip: the observer recovers exactly the namespace and the name that the operator joined
  with a dot whenever the namespace holds no dot, and never otherwise.
\<close>

lemma job_key_roundtrip:
  "KeyToNamespacedName (NamespacedNameToKey ns name) = Inr (ns, name) \<longleftrightarrow> CHR ''.'' \<notin> set ns"
proof
  assume "CHR ''.'' \<notin> set ns"
  then show "KeyToNamespacedName (NamespacedNameToKey ns name) = Inr (ns, name)"
    using split2_join[of "CHR ''.''" ns name] by (simp add: KeyToNamespacedName_def NamespacedNameToKey_def)
next
  assume a: "KeyToNamespacedName (NamespacedNameToKey ns name) = Inr (ns, name)"
  then have "takeWhile (\<lambda>c. c \<noteq> CHR ''.'') (NamespacedNameToKey ns name) = ns"
    by (auto simp: KeyToNamespacedName_def split2_def split: list.splits)
  then show "CHR ''.'' \<notin> set ns" by (metis set_takeWhileD)
qed

end
