(* ===== verification/Phases.thy ===== *)
theory Phases
  imports Reconciler_Utils Node_Manager Role_Cache
begin

text \<open>
  Phase deduction (\<open>reconciler/phase.go\<close>): counting the pods of a role, deducing the phase of the role from
  the counts and its policy, deducing the phase of the job from the phases of its roles, and publishing role
  data to the cache. Time is the argument \<open>now\<close>; the events given to the recorder are part of the results.
\<close>

section \<open>Events\<close>

record event =
  ev_Type :: string
  ev_Reason :: string
  ev_Message :: string

definition EventTypeNormal :: string where [go_consts]: "EventTypeNormal = ''Normal''"
definition EventTypeWarning :: string where [go_consts]: "EventTypeWarning = ''Warning''"
definition RolePhaseTransitionReason :: string where
  [go_consts]: "RolePhaseTransitionReason = ''RolePhaseTransition''"
definition JobPhaseTransitionReason :: string where
  [go_consts]: "JobPhaseTransitionReason = ''JobPhaseTransition''"
definition podFailedReason :: string where [go_consts]: "podFailedReason = ''PodFailed''"
definition podMissingReason :: string where [go_consts]: "podMissingReason = ''PodMissing''"
definition nodeDownReason :: string where [go_consts]: "nodeDownReason = ''PossibleNodeDown''"

section \<open>Counting the pods of a role\<close>

text \<open>A write through the pointer \<open>status.RoleStatuses[rtype]\<close>.\<close>

definition modify_role ::
  "AresJobStatus \<Rightarrow> ReplicaType \<Rightarrow> (RoleStatus \<Rightarrow> RoleStatus option) \<Rightarrow> AresJobStatus option" where
  "modify_role status rtype f = do {
     rs \<leftarrow> gm_ptr (st_RoleStatuses status) rtype;
     rs' \<leftarrow> f rs;
     m \<leftarrow> gm_put (st_RoleStatuses status) rtype (Some rs');
     Some (status\<lparr>st_RoleStatuses := m\<rparr>) }"

definition bump_common :: "(CommonReplicaStatus \<Rightarrow> CommonReplicaStatus) \<Rightarrow> RoleStatus \<Rightarrow> RoleStatus option" where
  "bump_common f rs = do {
     c \<leftarrow> rst_Common (role_ReplicaStatus rs);
     Some (rs\<lparr>role_ReplicaStatus := (role_ReplicaStatus rs)\<lparr>rst_Common := Some (f c)\<rparr>\<rparr>) }"

definition initializeReplicaStatuses :: "AresJobStatus \<Rightarrow> ReplicaType \<Rightarrow> AresJobStatus option" where
  "initializeReplicaStatuses status rtype = do {
     let m = gm_make (st_RoleStatuses status);
     m1 \<leftarrow> (if gm_ptr m rtype = None then gm_put m rtype (Some (new_RoleStatus RolePhasePending)) else Some m);
     modify_role (status\<lparr>st_RoleStatuses := m1\<rparr>) rtype
       (\<lambda>rs. Some (rs\<lparr>role_ReplicaStatus := zero_ReplicaStatus\<lparr>rst_Common := Some zero_CommonReplicaStatus\<rparr>\<rparr>)) }"

definition updateRoleReplicaStatuses :: "AresJobStatus \<Rightarrow> ReplicaType \<Rightarrow> Pod \<Rightarrow> AresJobStatus option" where
  "updateRoleReplicaStatuses status rtype pod =
     (if pod_Phase pod = [] \<or> pod_Phase pod = PodPending then
        modify_role status rtype (\<lambda>rs. Some (rs\<lparr>role_ReplicaStatus :=
          (role_ReplicaStatus rs)\<lparr>rst_Pending := rst_Pending (role_ReplicaStatus rs) + 1\<rparr>\<rparr>))
      else if pod_Phase pod = PodRunning then
        modify_role status rtype (bump_common (\<lambda>c. c\<lparr>Active := Active c + 1\<rparr>))
      else if pod_Phase pod = PodSucceeded then
        modify_role status rtype (bump_common (\<lambda>c. c\<lparr>Succeeded := Succeeded c + 1\<rparr>))
      else if pod_Phase pod = PodFailed then
        modify_role status rtype (bump_common (\<lambda>c. c\<lparr>Failed := Failed c + 1\<rparr>))
      else if pod_Phase pod = PodUnknown then
        modify_role status rtype (\<lambda>rs. Some (rs\<lparr>role_ReplicaStatus :=
          (role_ReplicaStatus rs)\<lparr>rst_Unknown := rst_Unknown (role_ReplicaStatus rs) + 1\<rparr>\<rparr>))
      else Some status)"

definition updateReplicaStatus :: "Manager \<Rightarrow> AresJob \<Rightarrow> ReplicaType \<Rightarrow> Pod \<Rightarrow> AresJob option" where
  "updateReplicaStatus m job roleName pod = do {
     status \<leftarrow>
       (if pod_DeletionTimestamp pod \<noteq> None then
          modify_role (job_Status job) roleName (\<lambda>rs. Some (rs\<lparr>role_ReplicaStatus :=
            (role_ReplicaStatus rs)\<lparr>rst_Terminating := rst_Terminating (role_ReplicaStatus rs) + 1\<rparr>\<rparr>))
        else do {
          nodeDown \<leftarrow>
            (if pod_NodeName pod = [] then Some False
             else do {
               roleSpec \<leftarrow> gm_ptr (spec_RoleSpecs (job_Spec job)) roleName;
               Some (rpp_NodeDownAsFailed (role_RolePhasePolicy roleSpec) \<and> fst (IsNodeDown m (pod_NodeName pod))) });
          if nodeDown then modify_role (job_Status job) roleName (bump_common (\<lambda>c. c\<lparr>Failed := Failed c + 1\<rparr>))
          else updateRoleReplicaStatuses (job_Status job) roleName pod });
     Some (job\<lparr>job_Status := status\<rparr>) }"

definition UpdateRoleReplicas :: "Manager \<Rightarrow> AresJob \<Rightarrow> ReplicaType \<Rightarrow> Pod list \<Rightarrow> AresJob option" where
  "UpdateRoleReplicas m job roleName pods = do {
     status0 \<leftarrow> initializeReplicaStatuses (job_Status job) roleName;
     job1 \<leftarrow> mfold (\<lambda>pod job. updateReplicaStatus m job roleName pod) pods (job\<lparr>job_Status := status0\<rparr>);
     let status = job_Status job1;
     js \<leftarrow> st_JobStatus status;
     rs \<leftarrow> gm_ptr (st_RoleStatuses status) roleName;
     reps \<leftarrow> gm_put (gm_make (js_ReplicaStatuses js)) roleName (rst_Common (role_ReplicaStatus rs));
     Some (job1\<lparr>job_Status := status\<lparr>st_JobStatus := Some (js\<lparr>js_ReplicaStatuses := reps\<rparr>)\<rparr>\<rparr>) }"

section \<open>The phase of a role\<close>

definition GetRolePhase :: "ReplicaType \<Rightarrow> RoleSpec \<Rightarrow> AresJobStatus \<Rightarrow> RolePhase option" where
  "GetRolePhase rtype spec aresStatus = do {
     let policy = role_RolePhasePolicy spec;
     rspec \<leftarrow> role_ReplicaSpec spec;
     replicas \<leftarrow> rs_Replicas rspec;
     roleStatus \<leftarrow> gm_ptr (st_RoleStatuses aresStatus) rtype;
     let lastPhase = role_Phase roleStatus;
     let rst = role_ReplicaStatus roleStatus;
     status \<leftarrow> rst_Common rst;
     if (case rpp_Failed policy of
           None \<Rightarrow> False
         | Some c \<Rightarrow> if c = RolePhaseConditionAnyPod then 0 < sint (Failed status)
                    else if c = RolePhaseConditionAllPods then sint replicas \<le> sint (Failed status)
                    else False)
     then Some RolePhaseFailed
     else if (case rpp_Succeeded policy of
           None \<Rightarrow> False
         | Some c \<Rightarrow> if c = RolePhaseConditionAnyPod then 0 < sint (Succeeded status)
                    else if c = RolePhaseConditionAllPods then sint replicas \<le> sint (Succeeded status)
                    else False)
     then Some RolePhaseSucceeded
     else if sint replicas \<le> sint (Active status) then Some RolePhaseRunning
     else if lastPhase = RolePhasePending then Some RolePhaseStarting
     else
       let actual = Active status + Succeeded status + Failed status + rst_Unknown rst + rst_Pending rst
       in if rs_RestartPolicy rspec = RestartPolicyNever \<and> lastPhase = RolePhaseRunning
             \<and> sint actual < sint replicas
          then Some RolePhaseFailed
          else Some lastPhase }"

text \<open>
  \<open>extractFailedReason\<close>: a failed pod that is still alive, else a pod on a node that is down, else pods that
  are terminating, else indices with no pod.
\<close>

definition extractFailedReason :: "ext \<Rightarrow> Manager \<Rightarrow> Pod list \<Rightarrow> int \<Rightarrow> string \<times> string" where
  "extractFailedReason E m pods expected =
     (let alivePods = FilterAlivePods pods in
      case find (\<lambda>pod. pod_Phase pod = PodFailed) alivePods of
        Some pod \<Rightarrow> (podFailedReason, ''pod='' @ pod_Name pod @ ''; '' @ GetPodFailedInfo pod)
      | None \<Rightarrow>
          (case find (\<lambda>pod. pod_NodeName pod \<noteq> [] \<and> fst (IsNodeDown m (pod_NodeName pod))) alivePods of
             Some pod \<Rightarrow> (nodeDownReason, ''pod='' @ pod_Name pod @ '', node='' @ pod_NodeName pod @ '': ''
                                          @ snd (IsNodeDown m (pod_NodeName pod)))
           | None \<Rightarrow>
               let indexSet = map (\<lambda>pod. GetReplicaIndex E (pod_Labels pod)) pods;
                   dying = filter (\<lambda>pod. pod_DeletionTimestamp pod \<noteq> None) pods;
                   terminating = map (\<lambda>pod. GetReplicaIndex E (pod_Labels pod)) dying;
                   terminatingDetail = map (\<lambda>pod. pod_Name pod @ ''('' @ pod_NodeName pod @ '')'') (take 3 dying)
               in if 0 < length terminating
                  then (podMissingReason, ''total '' @ itoa (int (length terminating)) @ '' pods were terminating: ''
                          @ join (sort terminating) '','' @ ''; '' @ join terminatingDetail '','' @ ''...'')
                  else let missing = filter (\<lambda>i. i \<notin> set indexSet) (map (\<lambda>i. itoa (int i)) [0..<nat expected])
                       in if 0 < length missing
                          then (podMissingReason, ''total '' @ itoa (int (length missing)) @ '' pods were missing: ''
                                  @ join missing '','')
                          else ([], [])))"

text \<open>The writes of \<open>UpdateRolePhase\<close> to the status of the role.\<close>

definition setRolePhase ::
  "ext \<Rightarrow> Manager \<Rightarrow> int \<Rightarrow> RoleSpec \<Rightarrow> Pod list \<Rightarrow> RolePhase \<Rightarrow> RoleStatus \<Rightarrow> RoleStatus option" where
  "setRolePhase E m now roleSpec pods rolePhase rs = do {
     let rs1 = rs\<lparr>role_Phase := rolePhase, role_LastTransitionTime := Some now\<rparr>;
     if rolePhase = RolePhaseFailed then do {
       rspec \<leftarrow> role_ReplicaSpec roleSpec;
       replicas \<leftarrow> rs_Replicas rspec;
       let (reason, message) = extractFailedReason E m pods (sint replicas);
       Some (rs1\<lparr>role_Reason := reason, role_Message := message\<rparr>) }
     else Some rs1 }"

definition UpdateRolePhase ::
  "ext \<Rightarrow> Manager \<Rightarrow> int \<Rightarrow> AresJob \<Rightarrow> ReplicaType \<Rightarrow> Pod list \<Rightarrow> (AresJob \<times> event list) option" where
  "UpdateRolePhase E m now job roleName pods = do {
     roleSpec \<leftarrow> gm_ptr (spec_RoleSpecs (job_Spec job)) roleName;
     rolePhase \<leftarrow> GetRolePhase roleName roleSpec (job_Status job);
     roleStatus \<leftarrow> gm_ptr (st_RoleStatuses (job_Status job)) roleName;
     if rolePhase \<noteq> role_Phase roleStatus then do {
       let msg = ''Phase of role '' @ roleName @ '' of AresJob('' @ spec_FrameworkType (job_Spec job) @ '') ''
                 @ job_Name job @ '' has changed: '' @ role_Phase roleStatus @ '' -> '' @ rolePhase;
       status \<leftarrow> modify_role (job_Status job) roleName (setRolePhase E m now roleSpec pods rolePhase);
       Some (job\<lparr>job_Status := status\<rparr>,
             [\<lparr>ev_Type = EventTypeNormal, ev_Reason = RolePhaseTransitionReason, ev_Message = msg\<rparr>]) }
     else Some (job, []) }"

section \<open>The phase of a job\<close>

text \<open>The inner loop of \<open>satisfyPolicy\<close>: are all the named roles at the phase?\<close>

fun roles_at :: "(ReplicaType, RoleStatus option) gomap \<Rightarrow> RolePhase \<Rightarrow> ReplicaType list \<Rightarrow> bool option" where
  "roles_at roleStatuses rolePhase [] = Some True"
| "roles_at roleStatuses rolePhase (roleName # roleNames) = do {
     s \<leftarrow> gm_ptr roleStatuses roleName;
     if role_Phase s \<noteq> rolePhase then Some False else roles_at roleStatuses rolePhase roleNames }"

definition satisfyPolicy ::
  "(ReplicaType, RoleStatus option) gomap \<Rightarrow> ReplicaType list list \<Rightarrow> RolePhase \<Rightarrow> bool option" where
  "satisfyPolicy roleStatuses conds rolePhase = mex (roles_at roleStatuses rolePhase) conds"

definition GetJobPhase ::
  "JobPhase \<Rightarrow> JobPhasePolicy \<Rightarrow> (ReplicaType, RoleStatus option) gomap \<Rightarrow> JobPhase option" where
  "GetJobPhase lastPhase policy roleStatuses = do {
     failed \<leftarrow> satisfyPolicy roleStatuses (jpp_Failed policy) RolePhaseFailed;
     if failed then Some JobPhaseFailed
     else do {
       succeeded \<leftarrow> satisfyPolicy roleStatuses (jpp_Succeeded policy) RolePhaseSucceeded;
       if succeeded then Some JobPhaseSucceeded
       else do {
         let roleNames = gm_keys roleStatuses;
         running \<leftarrow> satisfyPolicy roleStatuses [roleNames] RolePhaseRunning;
         if running then Some JobPhaseRunning
         else if lastPhase = JobPhasePending then Some JobPhaseStarting
         else Some lastPhase } } }"

text \<open>
  \<open>SetJobPhase\<close>. The message is built after the phase has been written, so it names the new phase on both
  sides of the arrow.
\<close>

definition SetJobPhase :: "int \<Rightarrow> AresJob \<Rightarrow> JobPhase \<Rightarrow> (AresJob \<times> event list) option" where
  "SetJobPhase now job phase = do {
     let status = job_Status job;
     js \<leftarrow> (if IsFinished phase then do {
              s \<leftarrow> st_JobStatus status;
              Some (Some (if js_CompletionTime s = None then s\<lparr>js_CompletionTime := Some now\<rparr> else s)) }
            else Some (st_JobStatus status));
     let status1 = status\<lparr>st_JobStatus := js,
           st_RunningTime := (if phase = JobPhaseRunning \<and> st_RunningTime status = None then Some now
                              else st_RunningTime status),
           st_Phase := phase\<rparr>;
     let msg = ''Phase of AresJob('' @ spec_FrameworkType (job_Spec job) @ '') '' @ job_Name job
               @ '' has changed: '' @ st_Phase status1 @ '' -> '' @ phase;
     Some (job\<lparr>job_Status := status1\<rparr>,
           [\<lparr>ev_Type = EventTypeNormal, ev_Reason = JobPhaseTransitionReason, ev_Message = msg\<rparr>]) }"

definition UpdatePhases :: "ext \<Rightarrow> int \<Rightarrow> AresJob \<Rightarrow> (AresJob \<times> event list) option" where
  "UpdatePhases E now job = do {
     let status = job_Status job;
     let status1 = (if st_Phase status = [] then status\<lparr>st_Phase := JobPhasePending\<rparr> else status);
     let policy = (case spec_JobPhasePolicy (job_Spec job) of None \<Rightarrow> zero_JobPhasePolicy | Some p \<Rightarrow> p);
     let job1 = job\<lparr>job_Status := status1, job_Spec := (job_Spec job)\<lparr>spec_JobPhasePolicy := Some policy\<rparr>\<rparr>;
     phase \<leftarrow> GetJobPhase (st_Phase status1) policy (st_RoleStatuses status1);
     if phase \<noteq> st_Phase status1 then do {
       js \<leftarrow> st_JobStatus status1;
       let msg = ''AresJob '' @ job_Name job @ '' is '' @ phase @ ''.'';
       let js1 = UpdateJobConditions E js (JobPhaseToCondition phase) phase msg;
       SetJobPhase now (job1\<lparr>job_Status := status1\<lparr>st_JobStatus := Some js1\<rparr>\<rparr>) phase }
     else Some (job1, []) }"

section \<open>Publishing role data\<close>

definition BuildRoleCache :: "ext \<Rightarrow> AresJob \<Rightarrow> ReplicaType \<Rightarrow> RolePhase \<Rightarrow> Pod list \<Rightarrow> RoleCache option" where
  "BuildRoleCache E job rtype phase pods = do {
     let alive = FilterAlivePods pods;
     roleSpec \<leftarrow> gm_ptr (spec_RoleSpecs (job_Spec job)) rtype;
     rspec \<leftarrow> role_ReplicaSpec roleSpec;
     let fn = (if ps_HostNetwork (pt_Spec (rs_Template rspec)) then pod_HostIP else pod_PodIP);
     let sorted_pods = SortPodsByRoleAndIndex E alive;
     let ips = map fn (filter (\<lambda>pod. GetReplicaType E (pod_Labels pod) = rtype \<and> fn pod \<noteq> []) sorted_pods);
     Some (NewRoleCache phase [WithIPs ips]) }"

text \<open>\<open>OnRolePhaseChanged\<close>: \<open>listed\<close> is the answer to the list of the role's pods.\<close>

definition OnRolePhaseChanged ::
  "ext \<Rightarrow> Cache option \<Rightarrow> Pod list result \<Rightarrow> AresJob \<Rightarrow> ReplicaType \<Rightarrow> RolePhase
     \<Rightarrow> (go_error option \<times> Cache option) option" where
  "OnRolePhaseChanged E c listed job rtype phase =
     (case c of
        None \<Rightarrow> Some (None, None)
      | Some ch \<Rightarrow>
          (case listed of
             Inl err \<Rightarrow> Some (Some err, c)
           | Inr pods \<Rightarrow> do {
               let key = NamespacedNameToKey (job_Namespace job) (job_Name job);
               data \<leftarrow> BuildRoleCache E job rtype phase pods;
               let (err, ch') = SetRoleCache ch key rtype (Some data);
               Some (err, Some ch') }))"

section \<open>What the counters count\<close>

datatype pod_class = Terminating_pod | Pending_pod | Active_pod | Succeeded_pod | Failed_pod | Unknown_pod | Uncounted_pod

text \<open>
  The counter a pod goes to. A pod that is being deleted only counts as terminating; a pod on a node that is
  down counts as failed when the role asks for it; a pod with any other phase text is not counted.
\<close>

definition class_of :: "Manager \<Rightarrow> bool \<Rightarrow> Pod \<Rightarrow> pod_class" where
  "class_of m nodeDownAsFailed pod =
     (if pod_DeletionTimestamp pod \<noteq> None then Terminating_pod
      else if pod_NodeName pod \<noteq> [] \<and> nodeDownAsFailed \<and> fst (IsNodeDown m (pod_NodeName pod)) then Failed_pod
      else if pod_Phase pod = [] \<or> pod_Phase pod = PodPending then Pending_pod
      else if pod_Phase pod = PodRunning then Active_pod
      else if pod_Phase pod = PodSucceeded then Succeeded_pod
      else if pod_Phase pod = PodFailed then Failed_pod
      else if pod_Phase pod = PodUnknown then Unknown_pod
      else Uncounted_pod)"

definition class_count :: "Manager \<Rightarrow> bool \<Rightarrow> Pod list \<Rightarrow> pod_class \<Rightarrow> nat" where
  "class_count m b pods k = length (filter (\<lambda>p. class_of m b p = k) pods)"

text \<open>A replica status that shows the given counters.\<close>

definition show_counts :: "(pod_class \<Rightarrow> int32) \<Rightarrow> ReplicaStatus" where
  "show_counts n = \<lparr>rst_Common = Some \<lparr>Active = n Active_pod, Succeeded = n Succeeded_pod, Failed = n Failed_pod\<rparr>,
     rst_Pending = n Pending_pod, rst_Unknown = n Unknown_pod, rst_Terminating = n Terminating_pod\<rparr>"

definition with_counts :: "RoleStatus \<Rightarrow> (pod_class \<Rightarrow> int32) \<Rightarrow> RoleStatus" where
  "with_counts rs n = rs\<lparr>role_ReplicaStatus := show_counts n\<rparr>"

text \<open>The status a role starts from: the recorded one, else a new one that is pending.\<close>

definition old_role :: "AresJobStatus \<Rightarrow> ReplicaType \<Rightarrow> RoleStatus" where
  "old_role status r = (case gm_ptr (st_RoleStatuses status) r of None \<Rightarrow> new_RoleStatus RolePhasePending | Some rs \<Rightarrow> rs)"

definition put_role :: "AresJobStatus \<Rightarrow> ReplicaType \<Rightarrow> RoleStatus \<Rightarrow> AresJobStatus" where
  "put_role status r rs =
     status\<lparr>st_RoleStatuses := Some (AList.update r (Some rs) (gm_entries (st_RoleStatuses status)))\<rparr>"

lemma modify_role_run:
  assumes "gm_ptr (st_RoleStatuses status) r = Some rs" "f rs = Some rs'"
  shows "modify_role status r f = Some (put_role status r rs')"
proof -
  from assms(1) obtain al where "st_RoleStatuses status = Some al"
    by (cases "st_RoleStatuses status") (auto simp: gm_ptr_def gm_get_def)
  with assms show ?thesis by (simp add: modify_role_def put_role_def)
qed

lemma put_role_ptr [simp]:
  "gm_ptr (st_RoleStatuses (put_role status r rs)) r' = (if r' = r then Some rs else gm_ptr (st_RoleStatuses status) r')"
  by (simp add: put_role_def gm_ptr_def gm_get_def update_conv')

lemma put_role_twice [simp]: "put_role (put_role status r rs) r rs' = put_role status r rs'"
  by (simp add: put_role_def)

lemma put_role_fields [simp]:
  "st_JobStatus (put_role status r rs) = st_JobStatus status"
  "st_Phase (put_role status r rs) = st_Phase status"
  "st_RunningTime (put_role status r rs) = st_RunningTime status"
  by (simp_all add: put_role_def)

lemma initialize_run: "initializeReplicaStatuses status r = Some (put_role status r (with_counts (old_role status r) (\<lambda>_. 0)))"
proof -
  obtain al where al: "gm_make (st_RoleStatuses status) = Some al" "gm_entries (st_RoleStatuses status) = al"
    by (cases "st_RoleStatuses status") simp_all
  have ptr: "gm_ptr (st_RoleStatuses status) r = gm_ptr (Some al) r"
    by (simp add: gm_ptr_def gm_get_def al)
  show ?thesis
    by (cases "gm_ptr (Some al) r")
      (simp_all add: initializeReplicaStatuses_def al ptr old_role_def modify_role_def put_role_def with_counts_def
        show_counts_def zero_ReplicaStatus_def zero_CommonReplicaStatus_def gm_ptr_def gm_get_def update_conv' Let_def)
qed

lemmas counter_defs = bump_common_def with_counts_def show_counts_def class_of_def

lemma put_role_same: "gm_ptr (st_RoleStatuses status) r = Some rs \<Longrightarrow> put_role status r rs = status"
  by (cases "st_RoleStatuses status")
    (simp_all add: gm_ptr_Some_iff put_role_def gm_get_def alist_update_same)

lemma updateReplicaStatus_run:
  assumes spec: "gm_ptr (spec_RoleSpecs (job_Spec job)) r = Some sp"
    and rs: "gm_ptr (st_RoleStatuses (job_Status job)) r = Some (with_counts rs n)"
    and k: "k = class_of m (rpp_NodeDownAsFailed (role_RolePhasePolicy sp)) pod"
  shows "updateReplicaStatus m job r pod =
     Some (job\<lparr>job_Status := put_role (job_Status job) r (with_counts rs (n(k := n k + 1)))\<rparr>)"
proof -
  let ?b = "rpp_NodeDownAsFailed (role_RolePhasePolicy sp)"
  let ?ph = "pod_Phase pod"
  note run = modify_role_run[OF rs]
  have down: "(if pod_NodeName pod = [] then Some False
       else do { roleSpec \<leftarrow> gm_ptr (spec_RoleSpecs (job_Spec job)) r;
                 Some (rpp_NodeDownAsFailed (role_RolePhasePolicy roleSpec) \<and> fst (IsNodeDown m (pod_NodeName pod))) })
     = Some (pod_NodeName pod \<noteq> [] \<and> ?b \<and> fst (IsNodeDown m (pod_NodeName pod)))"
    by (simp add: spec)
  have phase: "updateRoleReplicaStatuses (job_Status job) r pod =
      Some (put_role (job_Status job) r (with_counts rs (n(k' := n k' + 1))))"
    if "k' = (if ?ph = [] \<or> ?ph = PodPending then Pending_pod else if ?ph = PodRunning then Active_pod
      else if ?ph = PodSucceeded then Succeeded_pod else if ?ph = PodFailed then Failed_pod
      else if ?ph = PodUnknown then Unknown_pod else Uncounted_pod)" for k'
  proof -
    have "with_counts rs (n(Uncounted_pod := n Uncounted_pod + 1)) = with_counts rs n"
      by (simp add: with_counts_def show_counts_def)
    with that show ?thesis
      by (simp add: updateRoleReplicaStatuses_def run bump_common_def
        put_role_same[OF rs, unfolded with_counts_def show_counts_def] with_counts_def show_counts_def)
  qed
  show ?thesis
  proof (cases "pod_DeletionTimestamp pod \<noteq> None")
    case True
    with k have "k = Terminating_pod" by (simp add: class_of_def)
    with True show ?thesis by (simp add: updateReplicaStatus_def run with_counts_def show_counts_def)
  next
    case alive: False
    show ?thesis
    proof (cases "pod_NodeName pod \<noteq> [] \<and> ?b \<and> fst (IsNodeDown m (pod_NodeName pod))")
      case True
      with alive k have "k = Failed_pod" by (simp add: class_of_def)
      with alive True show ?thesis
        by (simp add: updateReplicaStatus_def spec run bump_common_def with_counts_def show_counts_def)
    next
      case False
      with alive k show ?thesis
        by (simp only: updateReplicaStatus_def down phase[of k] class_of_def if_False simp_thms Option.bind.simps)
    qed
  qed
qed

lemma class_count_Cons:
  "class_count m b (p # ps) = (class_count m b ps)(class_of m b p := Suc (class_count m b ps (class_of m b p)))"
  by (auto simp: class_count_def)

lemma count_loop:
  assumes "gm_ptr (spec_RoleSpecs (job_Spec job)) r = Some sp"
    and "gm_ptr (st_RoleStatuses (job_Status job)) r = Some (with_counts rs n)"
    and "b = rpp_NodeDownAsFailed (role_RolePhasePolicy sp)"
  shows "mfold (\<lambda>pod job. updateReplicaStatus m job r pod) pods job =
     Some (job\<lparr>job_Status := put_role (job_Status job) r (with_counts rs (\<lambda>k. n k + of_nat (class_count m b pods k)))\<rparr>)"
  using assms
proof (induction pods arbitrary: job n)
  case Nil
  then show ?case by (simp add: class_count_def put_role_same)
next
  case (Cons pod pods)
  let ?k = "class_of m b pod"
  let ?n = "n(?k := n ?k + 1)"
  have eq: "(\<lambda>k. ?n k + of_nat (class_count m b pods k)) = (\<lambda>k. n k + of_nat (class_count m b (pod # pods) k))"
    by (auto simp: class_count_Cons fun_eq_iff)
  let ?job = "job\<lparr>job_Status := put_role (job_Status job) r (with_counts rs ?n)\<rparr>"
  have step: "updateReplicaStatus m job r pod = Some ?job"
    using Cons.prems by (intro updateReplicaStatus_run) simp_all
  have "mfold (\<lambda>pod job. updateReplicaStatus m job r pod) pods ?job =
     Some (?job\<lparr>job_Status := put_role (job_Status ?job) r (with_counts rs (\<lambda>k. ?n k + of_nat (class_count m b pods k)))\<rparr>)"
    by (rule Cons.IH) (use Cons.prems in \<open>simp_all del: fun_upd_apply\<close>)
  with step show ?case by (simp del: fun_upd_apply add: eq)
qed

text \<open>The closed form of \<open>UpdateRoleReplicas\<close>.\<close>

definition counted_job :: "Manager \<Rightarrow> AresJob \<Rightarrow> ReplicaType \<Rightarrow> bool \<Rightarrow> Pod list \<Rightarrow> AresJob" where
  "counted_job m job r b pods =
     (let rs = with_counts (old_role (job_Status job) r) (\<lambda>k. of_nat (class_count m b pods k))
      in job\<lparr>job_Status := (put_role (job_Status job) r rs)\<lparr>st_JobStatus :=
           map_option (\<lambda>js. js\<lparr>js_ReplicaStatuses :=
             Some (AList.update r (rst_Common (role_ReplicaStatus rs)) (gm_entries (js_ReplicaStatuses js)))\<rparr>)
             (st_JobStatus (job_Status job))\<rparr>\<rparr>)"

lemma UpdateRoleReplicas_run:
  assumes spec: "gm_ptr (spec_RoleSpecs (job_Spec job)) r = Some sp"
    and js: "st_JobStatus (job_Status job) = Some js"
  shows "UpdateRoleReplicas m job r pods =
     Some (counted_job m job r (rpp_NodeDownAsFailed (role_RolePhasePolicy sp)) pods)"
proof -
  let ?job = "job\<lparr>job_Status := put_role (job_Status job) r (with_counts (old_role (job_Status job) r) (\<lambda>_. 0))\<rparr>"
  obtain al where al: "gm_make (js_ReplicaStatuses js) = Some al" "gm_entries (js_ReplicaStatuses js) = al"
    by (cases "js_ReplicaStatuses js") simp_all
  have loop: "mfold (\<lambda>pod job. updateReplicaStatus m job r pod) pods ?job =
     Some (?job\<lparr>job_Status := put_role (job_Status ?job) r (with_counts (old_role (job_Status job) r)
       (\<lambda>k. 0 + of_nat (class_count m (rpp_NodeDownAsFailed (role_RolePhasePolicy sp)) pods k)))\<rparr>)"
    by (rule count_loop) (simp_all add: spec)
  show ?thesis
    by (simp add: UpdateRoleReplicas_def initialize_run loop js al counted_job_def Let_def)
qed

section \<open>The phase of a role as a function of its pods\<close>

text \<open>
  The specification: a condition of the policy over the number of pods in a class, and the phase deduced from
  the numbers of pods, with no machine integers.
\<close>

definition cond_met :: "RolePhaseCondition option \<Rightarrow> int \<Rightarrow> int \<Rightarrow> bool" where
  "cond_met c replicas k \<longleftrightarrow>
     c = Some RolePhaseConditionAnyPod \<and> 0 < k \<or> c = Some RolePhaseConditionAllPods \<and> replicas \<le> k"

definition role_phase_spec :: "RolePhasePolicy \<Rightarrow> string \<Rightarrow> int \<Rightarrow> RolePhase \<Rightarrow> (pod_class \<Rightarrow> nat) \<Rightarrow> RolePhase" where
  "role_phase_spec policy restart replicas prev n =
     (if cond_met (rpp_Failed policy) replicas (int (n Failed_pod)) then RolePhaseFailed
      else if cond_met (rpp_Succeeded policy) replicas (int (n Succeeded_pod)) then RolePhaseSucceeded
      else if replicas \<le> int (n Active_pod) then RolePhaseRunning
      else if prev = RolePhasePending then RolePhaseStarting
      else if restart = RestartPolicyNever \<and> prev = RolePhaseRunning
              \<and> int (n Active_pod + n Succeeded_pod + n Failed_pod + n Unknown_pod + n Pending_pod) < replicas
           then RolePhaseFailed
      else prev)"

lemma cond_met_case:
  "(case c of None \<Rightarrow> False
    | Some c \<Rightarrow> if c = RolePhaseConditionAnyPod then 0 < k
               else if c = RolePhaseConditionAllPods then reps \<le> k else False) \<longleftrightarrow> cond_met c reps k"
  by (cases c) (auto simp: cond_met_def go_consts)

lemma with_counts_fields [simp]:
  "role_Phase (with_counts rs n) = role_Phase rs"
  "role_ReplicaStatus (with_counts rs n) = show_counts n"
  "rst_Common (show_counts n) =
     Some \<lparr>Active = n Active_pod, Succeeded = n Succeeded_pod, Failed = n Failed_pod\<rparr>"
  "rst_Pending (show_counts n) = n Pending_pod"
  "rst_Unknown (show_counts n) = n Unknown_pod"
  "rst_Terminating (show_counts n) = n Terminating_pod"
  by (simp_all add: with_counts_def show_counts_def)

lemma sum_classes_le:
  "class_count m b pods Active_pod + class_count m b pods Succeeded_pod + class_count m b pods Failed_pod
     + class_count m b pods Unknown_pod + class_count m b pods Pending_pod \<le> length pods"
proof (induction pods)
  case (Cons p ps)
  then show ?case by (cases "class_of m b p") (simp_all add: class_count_Cons)
qed (simp add: class_count_def)

lemma GetRolePhase_counts:
  assumes "role_ReplicaSpec sp = Some rspec" "rs_Replicas rspec = Some replicas"
    and rs: "gm_ptr (st_RoleStatuses status) r = Some (with_counts rs (\<lambda>k. of_nat (class_count m b pods k)))"
    and len: "length pods < 2 ^ 31"
  shows "GetRolePhase r sp status =
     Some (role_phase_spec (role_RolePhasePolicy sp) (rs_RestartPolicy rspec) (sint replicas) (role_Phase rs)
             (class_count m b pods))"
proof -
  let ?n = "class_count m b pods"
  have bound: "?n k < 2 ^ 31" for k
    using len unfolding class_count_def by (meson le_less_trans length_filter_le)
  have one: "sint (of_nat (?n k) :: int32) = int (?n k)" for k
    by (rule sint_of_nat32[OF bound])
  have sum: "sint (of_nat (?n Active_pod) + of_nat (?n Succeeded_pod) + of_nat (?n Failed_pod)
       + of_nat (?n Unknown_pod) + of_nat (?n Pending_pod) :: int32)
     = int (?n Active_pod + ?n Succeeded_pod + ?n Failed_pod + ?n Unknown_pod + ?n Pending_pod)"
    unfolding of_nat_add[symmetric]
    by (rule sint_of_nat32) (use sum_classes_le[of m b pods] len in linarith)
  show ?thesis
    unfolding GetRolePhase_def role_phase_spec_def Let_def
    by (simp only: assms(1,2) rs with_counts_fields Option.bind.simps CommonReplicaStatus.simps one sum cond_met_case if_distrib[of Some])
qed

section \<open>The phases as a state machine\<close>

text \<open>
  One step of the machine is the bookkeeping of one role for an arbitrary list of pods, at any time and for any
  state of the nodes, or the deduction of the job's phase.
\<close>

inductive sync_step :: "ext \<Rightarrow> AresJob \<Rightarrow> AresJob \<Rightarrow> bool" for E :: ext where
  sync_role: "UpdateRoleReplicas m job r pods = Some job1 \<Longrightarrow> UpdateRolePhase E m now job1 r pods = Some (job2, evs)
     \<Longrightarrow> sync_step E job job2"
| sync_job: "UpdatePhases E now job = Some (job2, evs) \<Longrightarrow> sync_step E job job2"

inductive_cases sync_stepE: "sync_step E job job'"

text \<open>What \<open>UpdateJobConditions\<close> is documented to change: the conditions only.\<close>

definition conditions_only :: "ext \<Rightarrow> bool" where
  "conditions_only E \<longleftrightarrow> (\<forall>js t reason msg.
     js_CompletionTime (UpdateJobConditions E js t reason msg) = js_CompletionTime js
     \<and> js_ReplicaStatuses (UpdateJobConditions E js t reason msg) = js_ReplicaStatuses js)"

definition completion_time :: "AresJobStatus \<Rightarrow> int option" where
  "completion_time status = Option.bind (st_JobStatus status) js_CompletionTime"

text \<open>
  The order of progress: a role that has started stays started, a role or a job that has left Pending does not
  return there, and a recorded time is final.
\<close>

definition role_progress :: "RoleStatus \<Rightarrow> RoleStatus \<Rightarrow> bool" where
  "role_progress rs rs' \<longleftrightarrow>
     (IsRoleStarted (role_Phase rs) \<longrightarrow> IsRoleStarted (role_Phase rs'))
     \<and> (role_Phase rs' = RolePhasePending \<longrightarrow> role_Phase rs = RolePhasePending)"

definition progress :: "AresJobStatus \<Rightarrow> AresJobStatus \<Rightarrow> bool" where
  "progress s s' \<longleftrightarrow>
     (\<forall>r rs. gm_ptr (st_RoleStatuses s) r = Some rs \<longrightarrow>
        (\<exists>rs'. gm_ptr (st_RoleStatuses s') r = Some rs' \<and> role_progress rs rs'))
     \<and> (st_Phase s' = JobPhasePending \<longrightarrow> st_Phase s = JobPhasePending)
     \<and> (\<forall>t. st_RunningTime s = Some t \<longrightarrow> st_RunningTime s' = Some t)
     \<and> (\<forall>t. completion_time s = Some t \<longrightarrow> completion_time s' = Some t)"

lemma role_progress_refl [simp]: "role_progress rs rs"
  by (simp add: role_progress_def)

lemma progress_refl [simp]: "progress s s"
  by (simp add: progress_def)

lemma progress_trans: "progress s t \<Longrightarrow> progress t u \<Longrightarrow> progress s u"
  unfolding progress_def role_progress_def by meson

lemma progress_put_role:
  assumes "\<And>rs0. gm_ptr (st_RoleStatuses s) r = Some rs0 \<Longrightarrow> role_progress rs0 rs"
  shows "progress s (put_role s r rs)"
  using assms by (simp add: progress_def completion_time_def)

lemma GetRolePhase_cases:
  assumes "GetRolePhase r sp status = Some p" "gm_ptr (st_RoleStatuses status) r = Some rs"
  shows "p \<in> {RolePhaseStarting, RolePhaseRunning, RolePhaseFailed, RolePhaseSucceeded} \<or> p = role_Phase rs"
    and "p = RolePhaseStarting \<Longrightarrow> role_Phase rs = RolePhasePending \<or> role_Phase rs = RolePhaseStarting"
    and "p \<noteq> RolePhasePending"
  using assms unfolding GetRolePhase_def
  by (auto simp: Option.bind_eq_Some_conv Let_def go_consts split: if_splits)

lemma GetRolePhase_progress:
  assumes "GetRolePhase r sp status = Some p" "gm_ptr (st_RoleStatuses status) r = Some rs" "role_Phase rs' = p"
  shows "role_progress rs rs'"
  using GetRolePhase_cases[OF assms(1,2)] assms(3)
  by (auto simp: role_progress_def IsRoleStarted_iff go_consts)

lemma UpdateRolePhase_run:
  assumes "UpdateRolePhase E m now job r pods = Some (job', evs)"
  obtains sp rs rs' where "gm_ptr (spec_RoleSpecs (job_Spec job)) r = Some sp"
    "gm_ptr (st_RoleStatuses (job_Status job)) r = Some rs"
    "GetRolePhase r sp (job_Status job) = Some (role_Phase rs')"
    "job' = job\<lparr>job_Status := put_role (job_Status job) r rs'\<rparr>"
    "role_ReplicaStatus rs' = role_ReplicaStatus rs"
    "evs = [] \<longleftrightarrow> role_Phase rs' = role_Phase rs"
    "evs \<noteq> [] \<Longrightarrow> setRolePhase E m now sp pods (role_Phase rs') rs = Some rs'"
proof -
  from assms obtain sp p rs where h: "gm_ptr (spec_RoleSpecs (job_Spec job)) r = Some sp"
    "GetRolePhase r sp (job_Status job) = Some p" "gm_ptr (st_RoleStatuses (job_Status job)) r = Some rs"
    by (auto simp: UpdateRolePhase_def Option.bind_eq_Some_conv)
  show thesis
  proof (cases "p = role_Phase rs")
    case True
    with h assms show thesis
      by (intro that[of sp rs rs]) (auto simp: UpdateRolePhase_def put_role_same)
  next
    case False
    let ?f = "setRolePhase E m now sp pods p"
    from h False assms obtain st where st: "modify_role (job_Status job) r ?f = Some st"
      "job' = job\<lparr>job_Status := st\<rparr>" "evs \<noteq> []"
      by (auto simp: UpdateRolePhase_def Option.bind_eq_Some_conv)
    from st(1) h(3) obtain rs' where f: "?f rs = Some rs'" by (auto simp: modify_role_def Option.bind_eq_Some_conv)
    then have "role_Phase rs' = p" "role_ReplicaStatus rs' = role_ReplicaStatus rs"
      by (auto simp: setRolePhase_def Let_def Option.bind_eq_Some_conv case_prod_beta split: if_splits)
    with h st modify_role_run[OF h(3), of ?f rs'] f False show thesis
      by (intro that[of sp rs rs']) auto
  qed
qed

lemma progress_counted: "progress (job_Status job) (job_Status (counted_job m job r b pods))"
  by (cases "st_JobStatus (job_Status job)")
    (auto simp: progress_def counted_job_def Let_def old_role_def role_progress_def completion_time_def)

lemma modify_role_frame: "modify_role status r f = Some status' \<Longrightarrow> st_JobStatus status' = st_JobStatus status"
  by (auto simp: modify_role_def Option.bind_eq_Some_conv)

lemma updateReplicaStatus_frame:
  assumes "updateReplicaStatus m job r pod = Some job'"
  shows "job_Spec job' = job_Spec job \<and> st_JobStatus (job_Status job') = st_JobStatus (job_Status job)"
  using assms unfolding updateReplicaStatus_def updateRoleReplicaStatuses_def
  by (auto simp: Option.bind_eq_Some_conv dest: modify_role_frame split: if_splits)

lemma UpdateRoleReplicas_frame:
  assumes "UpdateRoleReplicas m job r pods = Some job'"
  shows "job_Spec job' = job_Spec job" "st_JobStatus (job_Status job) \<noteq> None"
proof -
  let ?job = "job\<lparr>job_Status := put_role (job_Status job) r (with_counts (old_role (job_Status job) r) (\<lambda>_. 0))\<rparr>"
  from assms obtain job1 where loop: "mfold (\<lambda>pod job. updateReplicaStatus m job r pod) pods ?job = Some job1"
    and js: "st_JobStatus (job_Status job1) \<noteq> None" and sp: "job_Spec job' = job_Spec job1"
    by (auto simp: UpdateRoleReplicas_def initialize_run Option.bind_eq_Some_conv Let_def)
  have "job_Spec job1 = job_Spec job \<and> st_JobStatus (job_Status job1) = st_JobStatus (job_Status job)"
    by (rule mfold_invariant[OF loop, where I = "\<lambda>x. job_Spec x = job_Spec job \<and>
          st_JobStatus (job_Status x) = st_JobStatus (job_Status job)"])
      (auto dest: updateReplicaStatus_frame)
  with js sp show "job_Spec job' = job_Spec job" "st_JobStatus (job_Status job) \<noteq> None" by auto
qed

lemma role_step_progress:
  assumes "UpdateRoleReplicas m job r pods = Some job1" "UpdateRolePhase E m now job1 r pods = Some (job2, evs)"
  shows "progress (job_Status job) (job_Status job2)"
proof -
  from UpdateRolePhase_run[OF assms(2)] obtain sp rs rs' where
    u: "gm_ptr (spec_RoleSpecs (job_Spec job1)) r = Some sp" "gm_ptr (st_RoleStatuses (job_Status job1)) r = Some rs"
      "GetRolePhase r sp (job_Status job1) = Some (role_Phase rs')"
      "job2 = job1\<lparr>job_Status := put_role (job_Status job1) r rs'\<rparr>" by metis
  from UpdateRoleReplicas_frame[OF assms(1)] u(1)
  obtain js where js: "gm_ptr (spec_RoleSpecs (job_Spec job)) r = Some sp" "st_JobStatus (job_Status job) = Some js"
    by auto
  have "progress (job_Status job) (job_Status job1)"
    using UpdateRoleReplicas_run[OF js, of m pods] assms(1) progress_counted by (metis option.inject)
  moreover have "progress (job_Status job1) (job_Status job2)"
    using GetRolePhase_progress[OF u(3,2) refl] u(2,4) by (auto intro!: progress_put_role)
  ultimately show ?thesis by (rule progress_trans)
qed

lemma GetJobPhase_not_Pending: "GetJobPhase p policy m = Some p' \<Longrightarrow> p' \<noteq> JobPhasePending"
  by (auto simp: GetJobPhase_def Option.bind_eq_Some_conv Let_def go_consts split: if_splits)

lemma SetJobPhase_progress:
  assumes "SetJobPhase now job p = Some (job', evs)" "p \<noteq> JobPhasePending"
    and "st_RoleStatuses (job_Status job) = st_RoleStatuses s" "st_RunningTime (job_Status job) = st_RunningTime s"
      "completion_time (job_Status job) = completion_time s"
  shows "progress s (job_Status job')"
  using assms
  by (auto simp: SetJobPhase_def progress_def completion_time_def Option.bind_eq_Some_conv Let_def split: if_splits)

lemma UpdatePhases_progress:
  assumes E: "conditions_only E" and run: "UpdatePhases E now job = Some (job', evs)"
  shows "progress (job_Status job) (job_Status job')"
proof -
  let ?s = "job_Status job"
  let ?s1 = "if st_Phase ?s = [] then ?s\<lparr>st_Phase := JobPhasePending\<rparr> else ?s"
  let ?policy = "case spec_JobPhasePolicy (job_Spec job) of None \<Rightarrow> zero_JobPhasePolicy | Some p \<Rightarrow> p"
  let ?job1 = "job\<lparr>job_Status := ?s1, job_Spec := (job_Spec job)\<lparr>spec_JobPhasePolicy := Some ?policy\<rparr>\<rparr>"
  from run obtain p where p: "GetJobPhase (st_Phase ?s1) ?policy (st_RoleStatuses ?s1) = Some p"
    unfolding UpdatePhases_def Let_def by (auto simp: Option.bind_eq_Some_conv)
  note np = GetJobPhase_not_Pending[OF p]
  show ?thesis
  proof (cases "p = st_Phase ?s1")
    case True
    with run p have "job' = ?job1" unfolding UpdatePhases_def Let_def by simp
    with True np show ?thesis by (auto simp: progress_def completion_time_def split: if_splits)
  next
    case False
    with run p obtain js msg where js: "st_JobStatus ?s1 = Some js" and
      set: "SetJobPhase now (?job1\<lparr>job_Status := ?s1\<lparr>st_JobStatus :=
        Some (UpdateJobConditions E js (JobPhaseToCondition p) p msg)\<rparr>\<rparr>) p = Some (job', evs)"
      unfolding UpdatePhases_def Let_def by (auto simp: Option.bind_eq_Some_conv simp del: split_paired_Ex)
    have "st_JobStatus ?s = Some js" using js by (simp split: if_splits)
    with E show ?thesis
      by (intro SetJobPhase_progress[OF set np]) (auto simp: completion_time_def conditions_only_def)
  qed
qed

lemma sync_step_progress: "conditions_only E \<Longrightarrow> sync_step E job job' \<Longrightarrow> progress (job_Status job) (job_Status job')"
  by (erule sync_stepE) (auto intro: role_step_progress UpdatePhases_progress)

lemma counted_job_simps:
  "job_Spec (counted_job m job r b pods) = job_Spec job"
  "gm_ptr (st_RoleStatuses (job_Status (counted_job m job r b pods))) r' =
     (if r' = r then Some (with_counts (old_role (job_Status job) r) (\<lambda>k. of_nat (class_count m b pods k)))
      else gm_ptr (st_RoleStatuses (job_Status job)) r')"
  by (simp_all add: counted_job_def Let_def)

lemma UpdateRolePhase_total:
  assumes "gm_ptr (spec_RoleSpecs (job_Spec job)) r = Some sp" "role_ReplicaSpec sp = Some rspec"
    "rs_Replicas rspec = Some n" "gm_ptr (st_RoleStatuses (job_Status job)) r = Some rs"
    "GetRolePhase r sp (job_Status job) = Some p"
  shows "\<exists>job' evs. UpdateRolePhase E m now job r pods = Some (job', evs)"
proof (cases "p = role_Phase rs")
  case True
  with assms show ?thesis by (simp add: UpdateRolePhase_def)
next
  case False
  have "setRolePhase E m now sp pods p rs \<noteq> None"
    using assms(2,3) by (simp add: setRolePhase_def Let_def case_prod_beta)
  then obtain rs' where "setRolePhase E m now sp pods p rs = Some rs'" by blast
  with False assms modify_role_run[OF assms(4)] show ?thesis
    by (simp add: UpdateRolePhase_def del: append_Cons append_Nil)
qed

section \<open>The failure of a role has a reason\<close>

lemma class_count_pos: "0 < class_count m b pods k \<longleftrightarrow> (\<exists>p \<in> set pods. class_of m b p = k)"
  by (auto simp: class_count_def filter_empty_conv)

lemma failed_class:
  assumes "class_of m b p = Failed_pod"
  shows "pod_DeletionTimestamp p = None"
    and "pod_Phase p = PodFailed \<or> pod_NodeName p \<noteq> [] \<and> fst (IsNodeDown m (pod_NodeName p))"
  using assms by (auto simp: class_of_def split: if_splits)

lemma reason_of_failed_pod:
  assumes "0 < class_count m b pods Failed_pod"
  shows "fst (extractFailedReason E m pods n) \<in> {podFailedReason, nodeDownReason}"
proof -
  from assms obtain p where p: "p \<in> set pods" "class_of m b p = Failed_pod" by (auto simp: class_count_pos)
  note f = failed_class[OF p(2)]
  with p have alive: "p \<in> set (FilterAlivePods pods)" by (simp add: FilterAlivePods_def FilterPods_def)
  show ?thesis
  proof (cases "find (\<lambda>pod. pod_Phase pod = PodFailed) (FilterAlivePods pods)")
    case None
    with alive f(2) have "find (\<lambda>pod. pod_NodeName pod \<noteq> [] \<and> fst (IsNodeDown m (pod_NodeName pod))) (FilterAlivePods pods) \<noteq> None"
      by (auto simp: find_None_iff)
    with None show ?thesis by (auto simp: extractFailedReason_def)
  qed (simp add: extractFailedReason_def)
qed

lemma missing_index:
  assumes "length (xs :: string list) < n"
  shows "filter (\<lambda>i. i \<notin> set xs) (map (\<lambda>i. itoa (int i)) [0..<n]) \<noteq> []"
proof
  assume "filter (\<lambda>i. i \<notin> set xs) (map (\<lambda>i. itoa (int i)) [0..<n]) = []"
  then have "(\<lambda>i. itoa (int i)) ` {0..<n} \<subseteq> set xs" by (auto simp: filter_empty_conv)
  then have "card ((\<lambda>i. itoa (int i)) ` {0..<n}) \<le> card (set xs)" by (intro card_mono) auto
  moreover have "card ((\<lambda>i. itoa (int i)) ` {0..<n}) = n"
    by (subst card_image) (auto simp: inj_on_def itoa_inj_nat)
  moreover have "card (set xs) \<le> length xs" by (rule card_length)
  ultimately show False using assms by linarith
qed

lemma reason_of_missing_pod:
  assumes "length (FilterAlivePods pods) < nat n"
  shows "fst (extractFailedReason E m pods n) \<in> {podFailedReason, nodeDownReason, podMissingReason}"
proof -
  let ?dying = "filter (\<lambda>pod. pod_DeletionTimestamp pod \<noteq> None) pods"
  have "?dying \<noteq> [] \<or> length pods < nat n"
  proof (rule disjCI)
    assume "\<not> length pods < nat n"
    with assms have "filter (\<lambda>p. pod_DeletionTimestamp p = None) pods \<noteq> pods"
      by (metis FilterAlivePods_def FilterPods_def)
    then show "?dying \<noteq> []" by (auto simp: filter_id_conv filter_empty_conv)
  qed
  moreover have "filter (\<lambda>i. i \<notin> set (map (\<lambda>pod. GetReplicaIndex E (pod_Labels pod)) pods))
      (map (\<lambda>i. itoa (int i)) [0..<nat n]) \<noteq> []" if "length pods < nat n"
    using missing_index[of "map (\<lambda>pod. GetReplicaIndex E (pod_Labels pod)) pods" "nat n"] that by simp
  ultimately show ?thesis
    unfolding extractFailedReason_def Let_def by (auto simp: filter_map split: option.splits)
qed

lemma classes_partition_alive:
  assumes "\<forall>p \<in> set pods. class_of m b p \<noteq> Uncounted_pod"
  shows "class_count m b pods Active_pod + class_count m b pods Succeeded_pod + class_count m b pods Failed_pod
     + class_count m b pods Unknown_pod + class_count m b pods Pending_pod = length (FilterAlivePods pods)"
  using assms
proof (induction pods)
  case (Cons p ps)
  have "class_of m b p = Terminating_pod \<longleftrightarrow> pod_DeletionTimestamp p \<noteq> None"
    by (auto simp: class_of_def)
  with Cons show ?case
    by (cases "class_of m b p") (simp_all add: class_count_Cons FilterAlivePods_def FilterPods_def)
qed (simp add: class_count_def FilterAlivePods_def FilterPods_def)

lemma role_phase_spec_Failed:
  assumes "role_phase_spec policy restart replicas prev n = RolePhaseFailed" "prev \<noteq> RolePhaseFailed" "0 < replicas"
  shows "0 < n Failed_pod \<or>
     int (n Active_pod + n Succeeded_pod + n Failed_pod + n Unknown_pod + n Pending_pod) < replicas"
proof (cases "cond_met (rpp_Failed policy) replicas (int (n Failed_pod))")
  case True
  with assms(3) show ?thesis by (auto simp: cond_met_def)
next
  case False
  have ne: "RolePhaseSucceeded \<noteq> RolePhaseFailed" "RolePhaseRunning \<noteq> RolePhaseFailed" "RolePhaseStarting \<noteq> RolePhaseFailed"
    by (simp_all add: go_consts)
  show ?thesis
  proof (rule disjI2, rule ccontr)
    assume "\<not> int (n Active_pod + n Succeeded_pod + n Failed_pod + n Unknown_pod + n Pending_pod) < replicas"
    with False assms(1,2) ne show False unfolding role_phase_spec_def by (metis (full_types))
  qed
qed

section \<open>The phase of the job as a function of the phases of its roles\<close>

text \<open>Every role of the list is recorded at the phase.\<close>

definition all_at :: "(ReplicaType, RoleStatus option) gomap \<Rightarrow> RolePhase \<Rightarrow> ReplicaType list \<Rightarrow> bool" where
  "all_at m p roles \<longleftrightarrow> (\<forall>r \<in> set roles. \<exists>rs. gm_ptr m r = Some rs \<and> role_Phase rs = p)"

lemma roles_at_run:
  "\<forall>r \<in> set roles. gm_ptr m r \<noteq> None \<Longrightarrow> roles_at m p roles = Some (all_at m p roles)"
  by (induction roles) (auto simp: all_at_def)

lemma satisfyPolicy_run:
  assumes "\<forall>c \<in> set conds. \<forall>r \<in> set c. gm_ptr m r \<noteq> None"
  shows "satisfyPolicy m conds p = Some (\<exists>c \<in> set conds. all_at m p c)"
  unfolding satisfyPolicy_def
  using assms by (subst mex_True_iff) (auto simp: roles_at_run)

lemma satisfyPolicy_all:
  assumes "\<forall>(r, p) \<in> set (gm_entries m). p \<noteq> None" "gm_ok m"
  shows "satisfyPolicy m [gm_keys m] p = Some (all_at m p (gm_keys m))"
proof -
  have "\<forall>r \<in> set (gm_keys m). gm_ptr m r \<noteq> None"
  proof
    fix r assume "r \<in> set (gm_keys m)"
    then obtain q where q: "(r, q) \<in> set (gm_entries m)" by (auto simp: gm_keys_def)
    with assms show "gm_ptr m r \<noteq> None" using gm_get_entry[OF assms(2) q] by (auto simp: gm_ptr_def)
  qed
  then show ?thesis by (subst satisfyPolicy_run) auto
qed

text \<open>Without a status for a named role the test is a nil dereference.\<close>

lemma satisfyPolicy_panics:
  "gm_ptr m r = None \<Longrightarrow> satisfyPolicy m ((r # rs) # cs) p = None"
  by (simp add: satisfyPolicy_def)

lemma GetJobPhase_panics:
  "gm_ptr m r = None \<Longrightarrow> GetJobPhase prev \<lparr>jpp_Failed = (r # rs) # cs, jpp_Succeeded = ss\<rparr> m = None"
  by (simp add: GetJobPhase_def satisfyPolicy_panics)

text \<open>Counting and deducing in one go.\<close>

lemma role_sync_run:
  assumes spec: "gm_ptr (spec_RoleSpecs (job_Spec job)) r = Some sp"
    and rspec: "role_ReplicaSpec sp = Some rspec" "rs_Replicas rspec = Some replicas"
    and js: "st_JobStatus (job_Status job) = Some js"
    and len: "length pods < 2 ^ 31"
    and b: "b = rpp_NodeDownAsFailed (role_RolePhasePolicy sp)"
  shows "\<exists>job1 job2 evs rs. UpdateRoleReplicas m job r pods = Some job1 \<and>
     UpdateRolePhase E m now job1 r pods = Some (job2, evs) \<and>
     gm_ptr (st_RoleStatuses (job_Status job2)) r = Some rs \<and>
     role_ReplicaStatus rs = show_counts (\<lambda>k. of_nat (class_count m b pods k)) \<and>
     role_Phase rs = role_phase_spec (role_RolePhasePolicy sp) (rs_RestartPolicy rspec) (sint replicas)
       (role_Phase (old_role (job_Status job) r)) (class_count m b pods) \<and>
     (evs = [] \<longleftrightarrow> role_Phase rs = role_Phase (old_role (job_Status job) r)) \<and>
     (\<forall>r'. r' \<noteq> r \<longrightarrow> gm_ptr (st_RoleStatuses (job_Status job2)) r' = gm_ptr (st_RoleStatuses (job_Status job)) r')"
proof -
  let ?job1 = "counted_job m job r b pods"
  note ptr = counted_job_simps(2)[of m job r b pods r, simplified]
  note phase = GetRolePhase_counts[OF rspec ptr len]
  have sp1: "gm_ptr (spec_RoleSpecs (job_Spec ?job1)) r = Some sp" by (simp add: counted_job_simps spec)
  from UpdateRolePhase_total[OF sp1 rspec ptr phase]
  obtain job2 evs where u: "UpdateRolePhase E m now ?job1 r pods = Some (job2, evs)" by blast
  from UpdateRolePhase_run[OF u] obtain sp' rs0 rs' where run:
    "gm_ptr (spec_RoleSpecs (job_Spec ?job1)) r = Some sp'" "gm_ptr (st_RoleStatuses (job_Status ?job1)) r = Some rs0"
    "GetRolePhase r sp' (job_Status ?job1) = Some (role_Phase rs')"
    "job2 = ?job1\<lparr>job_Status := put_role (job_Status ?job1) r rs'\<rparr>"
    "role_ReplicaStatus rs' = role_ReplicaStatus rs0" "evs = [] \<longleftrightarrow> role_Phase rs' = role_Phase rs0" by metis
  have eq: "sp' = sp" "rs0 = with_counts (old_role (job_Status job) r) (\<lambda>k. of_nat (class_count m b pods k))"
    using run(1,2) sp1 ptr by simp_all
  show ?thesis
  proof (intro exI conjI)
    show "UpdateRoleReplicas m job r pods = Some ?job1" using UpdateRoleReplicas_run[OF spec js] b by simp
    show "UpdateRolePhase E m now ?job1 r pods = Some (job2, evs)" by (rule u)
    show "role_Phase rs' = role_phase_spec (role_RolePhasePolicy sp) (rs_RestartPolicy rspec) (sint replicas)
       (role_Phase (old_role (job_Status job) r)) (class_count m b pods)"
      using run(3) phase eq by simp
  qed (simp_all add: run(4-6) eq counted_job_simps)
qed

section \<open>A job for the witnesses\<close>

definition two_workers :: AresJob where
  "two_workers =
     (let job = plain_job ''standalone'' [(RoleWorker, Some (plain_role 2 RestartPolicyNever []))]
      in job\<lparr>job_Status := (job_Status job)\<lparr>st_JobStatus := Some zero_JobStatus\<rparr>\<rparr>)"

lemma two_workers_facts:
  "gm_ptr (spec_RoleSpecs (job_Spec two_workers)) RoleWorker = Some (plain_role 2 RestartPolicyNever [])"
  "st_JobStatus (job_Status two_workers) = Some zero_JobStatus"
  "st_RoleStatuses (job_Status two_workers) = None"
  by (simp_all add: two_workers_def plain_defs gm_ptr_def gm_get_def)

lemma plain_conditions_only: "conditions_only plain_ext"
  by (simp add: conditions_only_def plain_ext_def)

section \<open>Properties\<close>

text \<open>
  C3. The bookkeeping of a role refines its specification. For a role that has a replica count, and any list of
  fewer than \<open>2 ^ 31\<close> pods, counting the pods and deducing the phase do not panic; the counters of the role are
  the numbers of pods in each class; the phase is the one that the policy and the previous phase give for these
  numbers, with no wrap-around; an event is recorded exactly when the phase changes; and no other role is touched.
\<close>

theorem role_phase_of_pods:
  assumes spec: "gm_ptr (spec_RoleSpecs (job_Spec job)) r = Some sp"
    and rspec: "role_ReplicaSpec sp = Some rspec" "rs_Replicas rspec = Some replicas"
    and js: "st_JobStatus (job_Status job) = Some js"
    and len: "length pods < 2 ^ 31"
    and b: "b = rpp_NodeDownAsFailed (role_RolePhasePolicy sp)"
  shows "\<exists>job1 job2 evs rs. UpdateRoleReplicas m job r pods = Some job1 \<and>
     UpdateRolePhase E m now job1 r pods = Some (job2, evs) \<and>
     gm_ptr (st_RoleStatuses (job_Status job2)) r = Some rs \<and>
     role_ReplicaStatus rs = show_counts (\<lambda>k. of_nat (class_count m b pods k)) \<and>
     role_Phase rs = role_phase_spec (role_RolePhasePolicy sp) (rs_RestartPolicy rspec) (sint replicas)
       (role_Phase (old_role (job_Status job) r)) (class_count m b pods) \<and>
     (evs = [] \<longleftrightarrow> role_Phase rs = role_Phase (old_role (job_Status job) r)) \<and>
     (\<forall>r'. r' \<noteq> r \<longrightarrow> gm_ptr (st_RoleStatuses (job_Status job2)) r' = gm_ptr (st_RoleStatuses (job_Status job)) r')"
  using assms by (rule role_sync_run)

theorem role_phase_of_pods_witness:
  "\<exists>job1 job2 evs rs.
     UpdateRoleReplicas NewManager two_workers RoleWorker
       [plain_pod ''p0'' ''worker'' ''0'' PodRunning, plain_pod ''p1'' ''worker'' ''1'' PodRunning] = Some job1 \<and>
     UpdateRolePhase plain_ext NewManager 7 job1 RoleWorker
       [plain_pod ''p0'' ''worker'' ''0'' PodRunning, plain_pod ''p1'' ''worker'' ''1'' PodRunning] = Some (job2, evs) \<and>
     gm_ptr (st_RoleStatuses (job_Status job2)) RoleWorker = Some rs \<and> role_Phase rs = RolePhaseRunning"
proof -
  let ?pods = "[plain_pod ''p0'' ''worker'' ''0'' PodRunning, plain_pod ''p1'' ''worker'' ''1'' PodRunning]"
  let ?sp = "plain_role 2 RestartPolicyNever []"
  have r: "role_ReplicaSpec ?sp = Some (the (role_ReplicaSpec ?sp))" "rs_Replicas (the (role_ReplicaSpec ?sp)) = Some 2"
    by (simp_all add: plain_defs)
  have len: "length ?pods < 2 ^ 31" by simp
  have cls: "class_of NewManager False p = Active_pod" if "p \<in> set ?pods" for p
    using that by (auto simp: class_of_def plain_defs go_consts)
  then have n: "class_count NewManager False ?pods = (\<lambda>k. if k = Active_pod then 2 else 0)"
    by (auto simp: class_count_def)
  have spec: "role_phase_spec (role_RolePhasePolicy ?sp) x 2 RolePhasePending
      (class_count NewManager False ?pods) = RolePhaseRunning" for x
    unfolding n by (simp add: role_phase_spec_def cond_met_def plain_defs)
  have b: "rpp_NodeDownAsFailed (role_RolePhasePolicy ?sp) = False" by (simp add: plain_defs)
  have old: "role_Phase (old_role (job_Status two_workers) RoleWorker) = RolePhasePending"
    by (simp add: old_role_def two_workers_facts gm_ptr_def gm_get_def new_RoleStatus_def)
  from role_phase_of_pods[OF two_workers_facts(1) r two_workers_facts(2) len b[symmetric], of NewManager plain_ext 7]
  show ?thesis unfolding old by (auto simp: spec)
qed

text \<open>
  C8. Phases only move forward. Along any sequence of bookkeeping steps, with any pods and nodes at each step: a
  role that has started (running, failed or succeeded) stays started, a role that has left Pending never returns
  to it and neither does the job, and the times of the first run and of completion are written once.
\<close>

theorem phases_progress:
  assumes "conditions_only E" "(sync_step E)\<^sup>*\<^sup>* job job'"
  shows "progress (job_Status job) (job_Status job')"
  using assms(2)
proof (induction rule: rtranclp_induct)
  case (step y z)
  from sync_step_progress[OF assms(1) step(2)] step(3) show ?case by (blast intro: progress_trans)
qed simp

theorem phases_progress_witness:
  "\<exists>job'. (sync_step plain_ext)\<^sup>*\<^sup>* two_workers job' \<and> job' \<noteq> two_workers \<and> progress (job_Status two_workers) (job_Status job')"
proof -
  have "GetJobPhase JobPhasePending zero_JobPhasePolicy None = Some JobPhaseRunning"
    by (simp add: GetJobPhase_def satisfyPolicy_def zero_JobPhasePolicy_def gm_keys_def)
  then obtain job' evs where u: "UpdatePhases plain_ext 5 two_workers = Some (job', evs)"
    and ph: "st_Phase (job_Status job') = JobPhaseRunning"
    by (simp add: UpdatePhases_def two_workers_def plain_job_def plain_spec_def SetJobPhase_def IsFinished_def
        go_consts Let_def)
  have step: "(sync_step plain_ext)\<^sup>*\<^sup>* two_workers job'" using u by (blast intro: sync_job)
  have "st_Phase (job_Status two_workers) = []" by (simp add: two_workers_def plain_defs)
  with ph have "job' \<noteq> two_workers" by (auto simp: go_consts)
  with step phases_progress[OF plain_conditions_only step] show ?thesis by blast
qed

text \<open>
  A role that turns Failed says why. When the bookkeeping moves a role with at least one replica into Failed,
  and every pod has one of the phases of the API, the recorded reason is one of PodFailed, PossibleNodeDown and
  PodMissing, and in particular not empty.
\<close>

lemma failed_role_has_reason:
  assumes spec: "gm_ptr (spec_RoleSpecs (job_Spec job)) r = Some sp"
    and rspec: "role_ReplicaSpec sp = Some rspec" "rs_Replicas rspec = Some replicas" "0 < sint replicas"
    and js: "st_JobStatus (job_Status job) = Some js"
    and pods: "length pods < 2 ^ 31"
      "\<forall>p \<in> set pods. pod_Phase p \<in> {[], PodPending, PodRunning, PodSucceeded, PodFailed, PodUnknown}"
    and old: "role_Phase (old_role (job_Status job) r) \<noteq> RolePhaseFailed"
    and run: "UpdateRoleReplicas m job r pods = Some job1" "UpdateRolePhase E m now job1 r pods = Some (job2, evs)"
    and failed: "gm_ptr (st_RoleStatuses (job_Status job2)) r = Some rs" "role_Phase rs = RolePhaseFailed"
  shows "role_Reason rs \<in> {podFailedReason, nodeDownReason, podMissingReason}"
proof -
  let ?b = "rpp_NodeDownAsFailed (role_RolePhasePolicy sp)"
  let ?n = "class_count m ?b pods"
  have job1: "job1 = counted_job m job r ?b pods" using UpdateRoleReplicas_run[OF spec js] run(1) by simp
  note ptr = counted_job_simps(2)[of m job r ?b pods r, simplified]
  note phase = GetRolePhase_counts[OF rspec(1,2) ptr pods(1)]
  from UpdateRolePhase_run[OF run(2)] obtain sp' rs0 rs' where u:
    "gm_ptr (spec_RoleSpecs (job_Spec job1)) r = Some sp'" "gm_ptr (st_RoleStatuses (job_Status job1)) r = Some rs0"
    "GetRolePhase r sp' (job_Status job1) = Some (role_Phase rs')"
    "job2 = job1\<lparr>job_Status := put_role (job_Status job1) r rs'\<rparr>" "evs = [] \<longleftrightarrow> role_Phase rs' = role_Phase rs0"
    "evs \<noteq> [] \<Longrightarrow> setRolePhase E m now sp' pods (role_Phase rs') rs0 = Some rs'" by metis
  have eq: "sp' = sp" "rs' = rs" "role_Phase rs0 = role_Phase (old_role (job_Status job) r)"
    using u(1,2,4) failed(1) spec ptr by (auto simp: job1 counted_job_simps)
  have "setRolePhase E m now sp pods RolePhaseFailed rs0 = Some rs" using u(5,6) eq failed(2) old by auto
  then have reason: "role_Reason rs = fst (extractFailedReason E m pods (sint replicas))"
    by (auto simp: setRolePhase_def rspec Let_def case_prod_beta)
  have "role_phase_spec (role_RolePhasePolicy sp) (rs_RestartPolicy rspec) (sint replicas)
      (role_Phase (old_role (job_Status job) r)) ?n = RolePhaseFailed"
    using u(3) eq phase failed(2) job1 by simp
  from role_phase_spec_Failed[OF this old rspec(3)] consider "0 < ?n Failed_pod"
    | "int (length (FilterAlivePods pods)) < sint replicas"
  proof (rule disjE)
    assume "int (?n Active_pod + ?n Succeeded_pod + ?n Failed_pod + ?n Unknown_pod + ?n Pending_pod) < sint replicas"
    moreover have "\<forall>p \<in> set pods. class_of m ?b p \<noteq> Uncounted_pod"
      using pods(2) by (auto simp: class_of_def)
    ultimately show thesis using that(2) by (simp add: classes_partition_alive)
  qed (rule that(1))
  then show ?thesis
  proof cases
    case 1
    from reason_of_failed_pod[OF this, of E "sint replicas"] show ?thesis unfolding reason by blast
  next
    case 2
    then have "length (FilterAlivePods pods) < nat (sint replicas)" by linarith
    from reason_of_missing_pod[OF this, of E m] show ?thesis unfolding reason by blast
  qed
qed

text \<open>
  C19. The phase of a job. When every role that the policy names and every recorded role has a status, deducing
  the phase does not panic, and the job fails when some entry of the failure policy has all its roles failed,
  else succeeds when some entry of the success policy has all its roles succeeded, else runs when every recorded
  role runs, else leaves Pending for Starting, else keeps its phase.
\<close>

theorem GetJobPhase_of_roles:
  assumes "\<forall>c \<in> set (jpp_Failed policy) \<union> set (jpp_Succeeded policy). \<forall>r \<in> set c. gm_ptr m r \<noteq> None"
    and "\<forall>(r, p) \<in> set (gm_entries m). p \<noteq> None" "gm_ok m"
  shows "GetJobPhase prev policy m = Some
     (if \<exists>c \<in> set (jpp_Failed policy). all_at m RolePhaseFailed c then JobPhaseFailed
      else if \<exists>c \<in> set (jpp_Succeeded policy). all_at m RolePhaseSucceeded c then JobPhaseSucceeded
      else if all_at m RolePhaseRunning (gm_keys m) then JobPhaseRunning
      else if prev = JobPhasePending then JobPhaseStarting else prev)"
proof -
  have "satisfyPolicy m (jpp_Failed policy) RolePhaseFailed = Some (\<exists>c \<in> set (jpp_Failed policy). all_at m RolePhaseFailed c)"
    "satisfyPolicy m (jpp_Succeeded policy) RolePhaseSucceeded = Some (\<exists>c \<in> set (jpp_Succeeded policy). all_at m RolePhaseSucceeded c)"
    using assms(1) by (intro satisfyPolicy_run; blast)+
  with satisfyPolicy_all[OF assms(2,3)] show ?thesis by (simp add: GetJobPhase_def Let_def)
qed

theorem GetJobPhase_of_roles_witness:
  "GetJobPhase JobPhaseRunning \<lparr>jpp_Failed = [[RoleWorker]], jpp_Succeeded = []\<rparr>
     (Some [(RoleWorker, Some (new_RoleStatus RolePhaseFailed))]) = Some JobPhaseFailed"
proof -
  let ?m = "Some [(RoleWorker, Some (new_RoleStatus RolePhaseFailed))]"
  let ?policy = "\<lparr>jpp_Failed = [[RoleWorker]], jpp_Succeeded = []\<rparr>"
  have h: "\<forall>c \<in> set (jpp_Failed ?policy) \<union> set (jpp_Succeeded ?policy). \<forall>r \<in> set c. gm_ptr ?m r \<noteq> None"
    "\<forall>(r, p) \<in> set (gm_entries ?m). p \<noteq> None" "gm_ok ?m"
    by (simp_all add: gm_ptr_def gm_get_def gm_ok_def gm_keys_def)
  have "all_at ?m RolePhaseFailed [RoleWorker]"
    by (simp add: all_at_def gm_ptr_def gm_get_def new_RoleStatus_def)
  with GetJobPhase_of_roles[OF h, of JobPhaseRunning] show ?thesis by simp
qed

text \<open>
  What is published of a role. For alive pods that carry decimal indices, the published addresses are those of
  the alive pods of the role that have one (host addresses under host networking), in the order of the indices,
  each with the phase of the role; \<open>Running\<close> is set exactly when that phase is Running.
\<close>

lemma BuildRoleCache_addresses:
  assumes spec: "gm_ptr (spec_RoleSpecs (job_Spec job)) r = Some sp" "role_ReplicaSpec sp = Some rspec"
    and fn: "ip = (if ps_HostNetwork (pt_Spec (rs_Template rspec)) then pod_HostIP else pod_PodIP)"
    and lbl: "\<forall>p \<in> set (FilterAlivePods pods). GetReplicaIndex E (pod_Labels p) = itoa (int (idx p))"
  shows "\<exists>ps. BuildRoleCache E job r phase pods =
       Some \<lparr>rc_Phase = phase, rc_Running = (phase = RolePhaseRunning), rc_IPs = map ip ps\<rparr> \<and>
     mset ps = filter_mset (\<lambda>p. GetReplicaType E (pod_Labels p) = r \<and> ip p \<noteq> []) (mset (FilterAlivePods pods)) \<and>
     sorted_wrt (\<lambda>p q. idx p \<le> idx q) ps"
proof -
  let ?alive = "FilterAlivePods pods"
  let ?keep = "\<lambda>p. GetReplicaType E (pod_Labels p) = r \<and> ip p \<noteq> []"
  let ?sorted = "SortPodsByRoleAndIndex E ?alive"
  have sub: "set ?alive \<subseteq> indexed_pods E"
    using lbl nat_digits_ne by (auto simp: indexed_pods_def itoa_def)
  have "sorted_wrt (\<lambda>p q. \<not> pod_less E q p) ?sorted"
    unfolding SortPodsByRoleAndIndex_def using sub by (rule pod_order.sort_slice_sorted)
  then have "sorted_wrt (\<lambda>p q. \<not> pod_less E q p) (filter ?keep ?sorted)" by (rule sorted_wrt_filter)
  then have "sorted_wrt (\<lambda>p q. idx p \<le> idx q) (filter ?keep ?sorted)"
  proof (rule sorted_wrt_mono_rel[rotated])
    fix p q assume "p \<in> set (filter ?keep ?sorted)" "q \<in> set (filter ?keep ?sorted)" and le: "\<not> pod_less E q p"
    then have pq: "p \<in> set ?alive" "q \<in> set ?alive" "GetReplicaType E (pod_Labels p) = GetReplicaType E (pod_Labels q)"
      by (auto simp: SortPodsByRoleAndIndex_def)
    with le lbl sub have "\<not> short_lex (nat_digits (idx q)) (nat_digits (idx p))"
      by (auto simp: pod_less_indexed itoa_def subset_iff)
    then show "idx p \<le> idx q" by (simp add: short_lex_nat_digits)
  qed
  moreover have "mset (filter ?keep ?sorted) = filter_mset ?keep (mset ?alive)"
    by (simp add: SortPodsByRoleAndIndex_def)
  moreover have "BuildRoleCache E job r phase pods =
     Some \<lparr>rc_Phase = phase, rc_Running = (phase = RolePhaseRunning), rc_IPs = map ip (filter ?keep ?sorted)\<rparr>"
    by (simp add: BuildRoleCache_def spec Let_def NewRoleCache_def WithIPs_def fn)
  ultimately show ?thesis by blast
qed

text \<open>
  The transition message of a job does not depend on the phase the job had: the arrow in it always joins the new
  phase to itself, unlike the message of a role.
\<close>

lemma SetJobPhase_message_hides_old:
  assumes "SetJobPhase now job p = Some (job', [ev])"
  shows "ev_Message ev = ''Phase of AresJob('' @ spec_FrameworkType (job_Spec job) @ '') '' @ job_Name job
     @ '' has changed: '' @ p @ '' -> '' @ p"
  using assms unfolding SetJobPhase_def Let_def
  by (cases "IsFinished p"; cases "st_JobStatus (job_Status job)")
    (auto simp del: append_Cons append_Nil)

end
