(* ===== verification/Conf.thy ===== *)
theory Conf
  imports Complex_Main Api_Types
begin

text \<open>
  The configuration of the operator (\<open>conf/type.go\<close>, in full) and the address of the role cache that pods are
  given (\<open>reconciler/cache.go\<close>). Reading the file and decoding YAML are third-party: \<open>Load\<close> takes the decoded
  value. A parsed command template is the function that executes it; parsing is the argument \<open>parse\<close>.
\<close>

section \<open>Types\<close>

record CmdConfig =
  cmd_Name :: string
  cmd_Namespace :: string
  cmd_CacheURI :: string
  cmd_Key :: string
  cmd_Roles :: string
  cmd_MPIHostFile :: string
  cmd_ReplicasPerNode :: int
  cmd_MPIImplementation :: string

definition zero_CmdConfig :: CmdConfig where
  "zero_CmdConfig = \<lparr>cmd_Name = [], cmd_Namespace = [], cmd_CacheURI = [], cmd_Key = [], cmd_Roles = [],
     cmd_MPIHostFile = [], cmd_ReplicasPerNode = 0, cmd_MPIImplementation = []\<rparr>"

type_synonym cmd_template = "CmdConfig \<Rightarrow> string result"

record VolumeConfig =
  vc_Name :: string
  vc_HostPath :: string

record InitializerConfig =
  ic_Image :: string
  ic_Cmd :: string
  ic_CmdTemplate :: "cmd_template option"
  ic_Envs :: "(string, string) gomap"
  ic_Volumes :: "VolumeConfig list"

text \<open>A \<open>float32\<close>: \<^term>\<open>None\<close> is NaN, which is not below anything.\<close>

record RestConfig =
  QPS :: "rat option"
  Burst :: int

record ObserverConfig =
  obs_Enabled :: bool
  obs_Service :: string
  obs_NodePort :: int
  obs_Namespace :: string
  obs_Labels :: labels

record CacheConfig =
  cc_URI :: string
  cc_Observer :: ObserverConfig

record AresJobConfig =
  ajc_TTLSecondsAfterSucceeded :: "int32 option"

record OperatorConfig =
  oc_Rest :: RestConfig
  oc_AresJob :: AresJobConfig

record Configuration =
  cf_Operator :: OperatorConfig
  cf_Cache :: CacheConfig
  cf_Initializers :: "(string, InitializerConfig option) gomap"

section \<open>Observer and cache\<close>

definition Observer_NodePortEnabled :: "ObserverConfig \<Rightarrow> bool" where
  "Observer_NodePortEnabled c \<longleftrightarrow> 0 < obs_NodePort c"

definition Observer_Validate :: "string \<Rightarrow> ObserverConfig \<Rightarrow> go_error option" where
  "Observer_Validate prefix c =
     (if Observer_NodePortEnabled c then
        if length (obs_Namespace c) = 0 then Some (ErrConfig (prefix @ ''.namespace is required''))
        else if gm_len (obs_Labels c) = 0 then Some (ErrConfig (prefix @ ''.labels is required''))
        else None
      else None)"

definition NodePortURI :: "ObserverConfig \<Rightarrow> string list \<Rightarrow> string" where
  "NodePortURI c ips =
     (let ip = join ips '','';
          ip' = (if 0 < length ip then ip @ '':'' @ itoa (obs_NodePort c) else itoa (obs_NodePort c))
      in ''nodePort://'' @ ip')"

definition Observer_URI :: "ObserverConfig \<Rightarrow> string" where
  "Observer_URI c = (if Observer_NodePortEnabled c then NodePortURI c [] else ''http://'' @ obs_Service c)"

definition Cache_Validate :: "string \<Rightarrow> CacheConfig \<Rightarrow> go_error option" where
  "Cache_Validate prefix c = Observer_Validate (prefix @ ''.observer'') (cc_Observer c)"

definition Cache_NodePortEnabled :: "CacheConfig \<Rightarrow> bool" where
  "Cache_NodePortEnabled c \<longleftrightarrow> obs_Enabled (cc_Observer c) \<and> Observer_NodePortEnabled (cc_Observer c)"

definition GetURI :: "CacheConfig \<Rightarrow> string" where
  "GetURI c = (if obs_Enabled (cc_Observer c) then Observer_URI (cc_Observer c) else cc_URI c)"

section \<open>Operator\<close>

definition Rest_Validate :: "string \<Rightarrow> RestConfig \<Rightarrow> go_error option" where
  "Rest_Validate prefix c =
     (if (case QPS c of None \<Rightarrow> False | Some q \<Rightarrow> q \<le> 0) \<or> Burst c \<le> 0
      then Some (ErrConfig (prefix @ ''.qps and '' @ prefix @ ''.burst must be positive'')) else None)"

definition Operator_Validate :: "string \<Rightarrow> OperatorConfig \<Rightarrow> go_error option" where
  "Operator_Validate prefix c = Rest_Validate (prefix @ ''.restConfig'') (oc_Rest c)"

section \<open>Initializers\<close>

text \<open>The index of the first element that satisfies a test.\<close>

fun first_index :: "('a \<Rightarrow> bool) \<Rightarrow> nat \<Rightarrow> 'a list \<Rightarrow> nat option" where
  "first_index p i [] = None"
| "first_index p i (x # xs) = (if p x then Some i else first_index p (Suc i) xs)"

definition Initializer_Validate ::
  "(string \<Rightarrow> cmd_template result) \<Rightarrow> string \<Rightarrow> InitializerConfig \<Rightarrow> go_error option \<times> InitializerConfig" where
  "Initializer_Validate parse prefix c =
     (if length (ic_Image c) = 0 then (Some (ErrConfig (prefix @ ''.image is required'')), c)
      else case parse (ic_Cmd c) of
        Inl err \<Rightarrow> (Some (ErrConfig (prefix @ ''.cmd parse failed'')), c)
      | Inr t \<Rightarrow>
          let c' = c\<lparr>ic_CmdTemplate := Some t\<rparr> in
          (case first_index (\<lambda>v. length (vc_Name v) = 0 \<or> length (vc_HostPath v) = 0) 0 (ic_Volumes c) of
             Some i \<Rightarrow> (Some (ErrConfig (prefix @ ''.volumes['' @ itoa (int i) @ ''] is not completed'')), c')
           | None \<Rightarrow> (None, c')))"

text \<open>The loop of \<open>Configuration.Validate\<close> over the initializers; each is written through its pointer.\<close>

fun validate_initializers ::
  "(string \<Rightarrow> cmd_template result) \<Rightarrow> (string \<times> InitializerConfig option) list
     \<Rightarrow> (go_error option \<times> (string \<times> InitializerConfig option) list) option" where
  "validate_initializers parse [] = Some (None, [])"
| "validate_initializers parse ((t, p) # rest) = do {
     initConfig \<leftarrow> p;
     let (err, c') = Initializer_Validate parse (''$.'' @ t) initConfig;
     if err \<noteq> None then Some (err, (t, Some c') # rest)
     else do {
       (err', rest') \<leftarrow> validate_initializers parse rest;
       Some (err', (t, Some c') # rest') } }"

section \<open>Configuration\<close>

definition Configuration_Validate ::
  "(string \<Rightarrow> cmd_template result) \<Rightarrow> Configuration \<Rightarrow> (go_error option \<times> Configuration) option" where
  "Configuration_Validate parse c =
     (case Cache_Validate ''$.cache'' (cf_Cache c) of
        Some err \<Rightarrow> Some (Some err, c)
      | None \<Rightarrow>
          (case Operator_Validate ''$.operator'' (cf_Operator c) of
             Some err \<Rightarrow> Some (Some err, c)
           | None \<Rightarrow> do {
               (err, inits) \<leftarrow> validate_initializers parse (gm_entries (cf_Initializers c));
               Some (err, c\<lparr>cf_Initializers := map_option (\<lambda>_. inits) (cf_Initializers c)\<rparr>) }))"

definition Load ::
  "(string \<Rightarrow> cmd_template result) \<Rightarrow> Configuration result \<Rightarrow> (Configuration result) option" where
  "Load parse decoded =
     (case decoded of
        Inl err \<Rightarrow> Some (Inl err)
      | Inr c \<Rightarrow> do {
          (err, c') \<leftarrow> Configuration_Validate parse c;
          Some (case err of Some e \<Rightarrow> Inl e | None \<Rightarrow> Inr c') })"

definition GetCommonConfig :: "Configuration \<Rightarrow> InitializerConfig option result" where
  "GetCommonConfig c =
     (case gm_get (cf_Initializers c) ''common'' of
        None \<Rightarrow> Inl (Errorf ''common initializer config is not found'')
      | Some p \<Rightarrow> Inr p)"

text \<open>Durations are nanoseconds in 64 bits; a 32-bit number of seconds always fits.\<close>

definition Second :: int where "Second = 1000000000"

definition TTLSecondsAfterSucceeded :: "Configuration \<Rightarrow> int option" where
  "TTLSecondsAfterSucceeded c =
     (case ajc_TTLSecondsAfterSucceeded (oc_AresJob (cf_Operator c)) of
        None \<Rightarrow> None
      | Some seconds \<Rightarrow> Some (wrap64 (sint seconds * Second)))"

definition GetRestConfig :: "Configuration \<Rightarrow> RestConfig" where
  "GetRestConfig c = oc_Rest (cf_Operator c)"

section \<open>reconciler/cache.go\<close>

text \<open>The string set of the host addresses is listed in order; \<open>listed\<close> answers the list of the observer's pods.\<close>

definition getObserverHostIPs :: "Pod list result \<Rightarrow> string list result" where
  "getObserverHostIPs listed =
     (case listed of
        Inl err \<Rightarrow> Inl err
      | Inr pods \<Rightarrow> Inr (sort (remdups (filter (\<lambda>ip. 0 < length ip) (map pod_HostIP pods)))))"

definition getCacheURI :: "Configuration \<Rightarrow> Pod list result \<Rightarrow> string" where
  "getCacheURI config listed =
     (let c = cf_Cache config in
      if \<not> Cache_NodePortEnabled c then GetURI c
      else case getObserverHostIPs listed of
        Inl err \<Rightarrow> NodePortURI (cc_Observer c) []
      | Inr ips \<Rightarrow> NodePortURI (cc_Observer c) ips)"

section \<open>What a loaded configuration guarantees\<close>

text \<open>An initializer that can be executed.\<close>

definition initializer_ready :: "InitializerConfig \<Rightarrow> bool" where
  "initializer_ready c \<longleftrightarrow> ic_Image c \<noteq> [] \<and> ic_CmdTemplate c \<noteq> None
     \<and> list_all (\<lambda>v. vc_Name v \<noteq> [] \<and> vc_HostPath v \<noteq> []) (ic_Volumes c)"

lemma first_index_None: "first_index p i xs = None \<longleftrightarrow> list_all (\<lambda>x. \<not> p x) xs"
  by (induction xs arbitrary: i) auto

lemma Initializer_Validate_ok:
  "fst (Initializer_Validate parse prefix c) = None \<Longrightarrow> initializer_ready (snd (Initializer_Validate parse prefix c))"
  by (auto simp: Initializer_Validate_def initializer_ready_def first_index_None Let_def list_all_iff
      split: if_splits sum.splits option.splits)

lemma validate_initializers_keys:
  "validate_initializers parse al = Some (err, bl) \<Longrightarrow> map fst bl = map fst al"
proof (induction al arbitrary: err bl)
  case (Cons x al)
  then show ?case
    by (cases x) (auto simp: Option.bind_eq_Some_conv case_prod_beta Let_def split: if_splits)
qed simp

lemma validate_initializers_ok:
  assumes "validate_initializers parse al = Some (None, bl)" "(t, p) \<in> set bl"
  shows "\<exists>c. p = Some c \<and> initializer_ready c"
  using assms
proof (induction al arbitrary: bl)
  case (Cons x al)
  obtain k q where x: "x = (k, q)" by fastforce
  from Cons.prems(1) obtain c where q: "q = Some c" by (auto simp: x Option.bind_eq_Some_conv)
  let ?v = "Initializer_Validate parse (''$.'' @ k) c"
  from Cons.prems(1) obtain rest where r: "fst ?v = None" "validate_initializers parse al = Some (None, rest)"
    "bl = (k, Some (snd ?v)) # rest"
    by (auto simp: x q Option.bind_eq_Some_conv case_prod_beta Let_def simp del: append_Cons split: if_splits)
  from Initializer_Validate_ok[OF r(1)] Cons.IH[OF r(2)] Cons.prems(2) r(3) show ?case by auto
qed simp

lemma sorted_set_unique: "set xs = set ys \<Longrightarrow> sort (remdups xs) = sort (remdups ys)" for xs ys :: "'a::linorder list"
  by (rule sorted_distinct_set_unique) simp_all

section \<open>Properties\<close>

text \<open>
  A configuration that loads is usable: every initializer has an image, an executable command template and
  complete volumes; the burst is positive and so is the rate unless it is not a number; and an observer that is
  reached over a node port has a namespace and labels to find its pods by.
\<close>

lemma Load_usable:
  assumes "Load parse decoded = Some (Inr c)"
  shows "(\<forall>(t, p) \<in> set (gm_entries (cf_Initializers c)). \<exists>ic. p = Some ic \<and> initializer_ready ic)
     \<and> 0 < Burst (GetRestConfig c) \<and> (\<forall>q. QPS (GetRestConfig c) = Some q \<longrightarrow> 0 < q)
     \<and> (Cache_NodePortEnabled (cf_Cache c) \<longrightarrow>
          obs_Namespace (cc_Observer (cf_Cache c)) \<noteq> [] \<and> 0 < gm_len (obs_Labels (cc_Observer (cf_Cache c))))"
proof -
  from assms obtain d where d: "decoded = Inr d" "Configuration_Validate parse d = Some (None, c)"
    by (auto simp: Load_def Option.bind_eq_Some_conv split: sum.splits option.splits)
  then obtain inits where v: "Cache_Validate ''$.cache'' (cf_Cache d) = None"
    "Operator_Validate ''$.operator'' (cf_Operator d) = None"
    "validate_initializers parse (gm_entries (cf_Initializers d)) = Some (None, inits)"
    "c = d\<lparr>cf_Initializers := map_option (\<lambda>_. inits) (cf_Initializers d)\<rparr>"
    by (auto simp: Configuration_Validate_def Option.bind_eq_Some_conv split: option.splits)
  have "set (gm_entries (cf_Initializers c)) \<subseteq> set inits"
    by (cases "cf_Initializers d") (simp_all add: v(4))
  then have "\<forall>(t, p) \<in> set (gm_entries (cf_Initializers c)). \<exists>ic. p = Some ic \<and> initializer_ready ic"
    using validate_initializers_ok[OF v(3)] by blast
  moreover have "0 < Burst (GetRestConfig c)" "\<forall>q. QPS (GetRestConfig c) = Some q \<longrightarrow> 0 < q"
    using v(2) by (auto simp: v(4) GetRestConfig_def Operator_Validate_def Rest_Validate_def split: if_splits)
  moreover have "Cache_NodePortEnabled (cf_Cache c) \<longrightarrow>
      obs_Namespace (cc_Observer (cf_Cache c)) \<noteq> [] \<and> 0 < gm_len (obs_Labels (cc_Observer (cf_Cache c)))"
    using v(1) by (auto simp: v(4) Cache_Validate_def Observer_Validate_def Cache_NodePortEnabled_def split: if_splits)
  ultimately show ?thesis by blast
qed

definition sample_conf :: Configuration where
  "sample_conf = \<lparr>
     cf_Operator = \<lparr>oc_Rest = \<lparr>QPS = Some 20, Burst = 30\<rparr>, oc_AresJob = \<lparr>ajc_TTLSecondsAfterSucceeded = Some 60\<rparr>\<rparr>,
     cf_Cache = \<lparr>cc_URI = ''memory://'', cc_Observer = \<lparr>obs_Enabled = True, obs_Service = ''observer'', obs_NodePort = 30080,
        obs_Namespace = ''ares'', obs_Labels = Some [(''app'', ''observer'')]\<rparr>\<rparr>,
     cf_Initializers = Some [(''common'', Some \<lparr>ic_Image = ''init:1'', ic_Cmd = ''wait'', ic_CmdTemplate = None,
        ic_Envs = None, ic_Volumes = []\<rparr>)]\<rparr>"

definition plain_parse :: "string \<Rightarrow> cmd_template result" where
  "plain_parse cmd = Inr (\<lambda>c. Inr (cmd @ '' '' @ cmd_Roles c))"

text \<open>
  The time to live after success never overflows: it is the configured number of seconds, exactly, in
  nanoseconds.
\<close>

lemma TTL_exact:
  "TTLSecondsAfterSucceeded c =
     map_option (\<lambda>s. sint s * Second) (ajc_TTLSecondsAfterSucceeded (oc_AresJob (cf_Operator c)))"
proof (cases "ajc_TTLSecondsAfterSucceeded (oc_AresJob (cf_Operator c))")
  case (Some s)
  from sint_range32[of s] have "wrap64 (sint s * Second) = sint s * Second"
    by (intro wrap64_id) (simp_all add: Second_def)
  with Some show ?thesis by (simp add: TTLSecondsAfterSucceeded_def)
qed (simp add: TTLSecondsAfterSucceeded_def)

text \<open>
  The address of the cache given to pods depends only on the set of hosts the observer runs on: not on the
  order in which its pods are listed, on how many share a host, or on pods that have no host yet.
\<close>

lemma getCacheURI_of_host_set:
  assumes "pod_HostIP ` set pods - {[]} = pod_HostIP ` set pods' - {[]}"
  shows "getCacheURI config (Inr pods) = getCacheURI config (Inr pods')"
proof -
  have hosts: "pod_HostIP ` set ps - {[]} = set (filter (\<lambda>ip. ip \<noteq> []) (map pod_HostIP ps))"
    for ps :: "Pod list" by auto
  from assms have "sort (remdups (filter (\<lambda>ip. ip \<noteq> []) (map pod_HostIP pods)))
      = sort (remdups (filter (\<lambda>ip. ip \<noteq> []) (map pod_HostIP pods')))"
    unfolding hosts by (rule sorted_set_unique)
  then have "getObserverHostIPs (Inr pods) = getObserverHostIPs (Inr pods')"
    by (simp add: getObserverHostIPs_def)
  then show ?thesis by (simp add: getCacheURI_def Let_def)
qed

end
