(* ===== verification/Metadata.thy ===== *)
theory Metadata
  imports Api_Types
begin

text \<open>
  Job-level metadata (\<open>metadata/\<close>) and its propagation from a job to the objects it owns
  (\<open>reconciler/metadata.go\<close>): \<open>diff\<close> computes a merge patch and \<open>patchMetadata\<close> sends it. The
  abstract side is \<open>merge_patch\<close>, the JSON merge patch of RFC 7386 on a flat object, which is what
  the API server applies; the lemmas show that the patch brings the object in line with the job on
  job-level keys, leaves the others alone, and that a second run sends nothing.
\<close>

section \<open>metadata/\<close>

definition AresQueueAnnotationKey :: string where
  [go_consts]: "AresQueueAnnotationKey = ''ares.io/ares-queue''"
definition PreemptableAnnotationKey :: string where
  [go_consts]: "PreemptableAnnotationKey = ''ares.io/preemptable''"
definition JobPriorityAnnotationKey :: string where
  [go_consts]: "JobPriorityAnnotationKey = ''ares.io/job-priority''"

definition IsJobLevelKey :: "string \<Rightarrow> bool" where
  "IsJobLevelKey key \<longleftrightarrow> key = AresQueueAnnotationKey \<or> key = PreemptableAnnotationKey
     \<or> key = JobPriorityAnnotationKey"

section \<open>reconciler/metadata.go\<close>

text \<open>A patch maps a key to its new value, or to null (\<^term>\<open>None\<close>) for a deletion.\<close>

type_synonym patch = "(string, string option) gomap"

text \<open>One iteration of each of the two loops of \<open>diff\<close>.\<close>

definition diff_add ::
  "(string \<Rightarrow> bool) \<Rightarrow> labels \<Rightarrow> string \<times> string \<Rightarrow> (string \<times> string option) list
     \<Rightarrow> (string \<times> string option) list" where
  "diff_add filt current kv result =
     (let (key, val) = kv in
      if \<not> filt key then result
      else case gm_get current key of
             None \<Rightarrow> AList.update key (Some val) result
           | Some oldVal \<Rightarrow> if oldVal \<noteq> val then AList.update key (Some val) result else result)"

definition diff_del ::
  "(string \<Rightarrow> bool) \<Rightarrow> labels \<Rightarrow> string \<times> string \<Rightarrow> (string \<times> string option) list
     \<Rightarrow> (string \<times> string option) list" where
  "diff_del filt expected kv result =
     (let key = fst kv in
      if \<not> filt key then result
      else if gm_get expected key = None then AList.update key None result else result)"

definition diff :: "labels \<Rightarrow> labels \<Rightarrow> (string \<Rightarrow> bool) \<Rightarrow> patch" where
  "diff current expected filt =
     (let current' = gm_make current;
          expected' = gm_make expected;
          added = fold (diff_add filt current') (gm_entries expected') [];
          result = fold (diff_del filt expected') (gm_entries current') added
      in if result = [] then None else Some result)"

record meta_patch =
  mp_annotations :: patch
  mp_labels :: patch

text \<open>
  \<open>patchMetadata(cli, expected, object)\<close>: the error it returns and the patch it sent, if any.
  \<open>cli\<close> is the answer of the API server to a patch. Only the annotations of \<open>expected\<close> are read:
  they rule the labels of the object as well.
\<close>

definition patchMetadata ::
  "(meta_patch \<Rightarrow> go_error option) \<Rightarrow> labels \<Rightarrow> labels \<Rightarrow> labels \<Rightarrow> go_error option \<times> meta_patch option" where
  "patchMetadata cli expected_annotations object_annotations object_labels =
     (let annotations = diff object_annotations expected_annotations IsJobLevelKey;
          lbls = diff object_labels expected_annotations IsJobLevelKey
      in if gm_len annotations = 0 \<and> gm_len lbls = 0 then (None, None)
         else let p = \<lparr>mp_annotations = annotations, mp_labels = lbls\<rparr> in (cli p, Some p))"

section \<open>Merge patches\<close>

definition merge_key :: "string \<times> string option \<Rightarrow> labels \<Rightarrow> labels" where
  "merge_key kv m =
     (case snd kv of
        Some v \<Rightarrow> Some (AList.update (fst kv) v (gm_entries m))
      | None \<Rightarrow> gm_delete m (fst kv))"

definition merge_patch :: "patch \<Rightarrow> labels \<Rightarrow> labels" where
  "merge_patch p m = fold merge_key (gm_entries p) m"

section \<open>Lemmas\<close>

lemma gm_get_merge_key:
  "gm_get (merge_key kv m) k = (if k = fst kv then snd kv else gm_get m k)"
  by (cases m)
    (auto simp: merge_key_def gm_get_def gm_delete_def update_conv' delete_conv' split: option.splits)

text \<open>What a merge patch with distinct keys does to one key.\<close>

lemma gm_get_merge_patch:
  assumes "distinct (map fst p)"
  shows "gm_get (merge_patch (Some p) m) k = (case map_of p k of None \<Rightarrow> gm_get m k | Some v \<Rightarrow> v)"
  using assms unfolding merge_patch_def
proof (induction p arbitrary: m)
  case (Cons kv p)
  show ?case
  proof (cases "k = fst kv")
    case True
    with Cons.prems have "map_of p k = None" by (simp add: map_of_eq_None_iff)
    with Cons True show ?thesis by (cases kv) (simp add: gm_get_merge_key)
  next
    case False
    with Cons show ?thesis by (cases kv) (simp add: gm_get_merge_key split: option.splits)
  qed
qed simp

lemma merge_patch_nil [simp]: "merge_patch None m = m"
  by (simp add: merge_patch_def)

lemma distinct_diff_add:
  "distinct (map fst r) \<Longrightarrow> distinct (map fst (fold (diff_add f c) al r))"
  by (induction al arbitrary: r)
    (auto simp: diff_add_def distinct_update split: option.splits prod.splits)

lemma distinct_diff_del:
  "distinct (map fst r) \<Longrightarrow> distinct (map fst (fold (diff_del f c) al r))"
  by (induction al arbitrary: r) (auto simp: diff_del_def distinct_update Let_def)

lemma map_of_diff_add:
  assumes "distinct (map fst al)"
  shows "map_of (fold (diff_add f c) al r) k =
     (case map_of al k of
        None \<Rightarrow> map_of r k
      | Some v \<Rightarrow> if f k \<and> gm_get c k \<noteq> Some v then Some (Some v) else map_of r k)"
  using assms
proof (induction al arbitrary: r)
  case (Cons kv al)
  obtain a b where kv: "kv = (a, b)" by (cases kv)
  with Cons.prems have "map_of al a = None" by (auto simp: map_of_eq_None_iff)
  with Cons kv show ?case
    by (auto simp: diff_add_def update_conv' split: option.splits)
qed simp

lemma map_of_diff_del:
  "map_of (fold (diff_del f e) al r) k =
     (if k \<in> set (map fst al) \<and> f k \<and> gm_get e k = None then Some None else map_of r k)"
  by (induction al arbitrary: r) (auto simp: diff_del_def Let_def update_conv' split: if_splits)

lemma gm_ok_diff: "gm_ok (diff c e f)"
  by (simp add: diff_def Let_def gm_ok_def gm_keys_def distinct_diff_add distinct_diff_del)

lemma gm_get_diff:
  assumes "gm_ok e"
  shows "gm_get (diff c e f) k =
     (if \<not> f k \<or> gm_get c k = gm_get e k then None else Some (gm_get e k))"
proof -
  let ?r = "fold (diff_del f (gm_make e)) (gm_entries c) (fold (diff_add f (gm_make c)) (gm_entries e) [])"
  have "gm_get (diff c e f) k = map_of ?r k"
    by (simp add: diff_def Let_def gm_get_def)
  also have "\<dots> = (if \<not> f k \<or> gm_get c k = gm_get e k then None else Some (gm_get e k))"
    using assms gm_get_None_iff[of c k]
    by (auto simp: map_of_diff_del map_of_diff_add gm_ok_def gm_keys_def gm_get_def
        split: option.splits)
  finally show ?thesis .
qed

lemma merge_diff:
  assumes "gm_ok e"
  shows "gm_get (merge_patch (diff c e f) c) k = (if f k then gm_get e k else gm_get c k)"
proof (cases "diff c e f")
  case None
  then have "gm_get (diff c e f) k = None" by (simp add: gm_get_def)
  then have "f k \<longrightarrow> gm_get c k = gm_get e k" by (auto simp: gm_get_diff[OF assms] split: if_splits)
  with None show ?thesis by simp
next
  case (Some p)
  have "distinct (map fst p)" using gm_ok_diff[of c e f] Some by (simp add: gm_ok_def gm_keys_def)
  moreover have "map_of p k = (if \<not> f k \<or> gm_get c k = gm_get e k then None else Some (gm_get e k))"
    using gm_get_diff[OF assms, of c f k, unfolded Some] by (simp only: gm_get_def gm_entries_simps)
  ultimately show ?thesis
    using Some by (auto simp: gm_get_merge_patch)
qed

lemma gm_entries_nil_iff: "gm_entries m = [] \<longleftrightarrow> (\<forall>k. gm_get m k = None)"
proof
  assume "\<forall>k. gm_get m k = None"
  then show "gm_entries m = []"
    by (cases "gm_entries m") (auto simp: gm_get_def split: if_splits)
qed (simp add: gm_get_def)

lemma diff_empty_iff:
  assumes "gm_ok e"
  shows "gm_len (diff c e f) = 0 \<longleftrightarrow> (\<forall>k. f k \<longrightarrow> gm_get c k = gm_get e k)"
  unfolding gm_len_def length_0_conv gm_entries_nil_iff by (auto simp: gm_get_diff[OF assms])

section \<open>Properties\<close>

text \<open>
  The patch that \<open>diff\<close> computes is right: merged into the current metadata by the API server
  it makes every key that passes the filter equal to the expected one (present, changed or removed)
  and keeps every other key of the object.
\<close>

lemma diff_patch_correct:
  assumes "gm_ok expected"
  shows "gm_get (merge_patch (diff current expected filt) current) k =
     (if filt k then gm_get expected k else gm_get current k)"
  using assms by (rule merge_diff)

text \<open>
  Propagation converges: once the patch of \<open>patchMetadata\<close> has been merged into the object's
  annotations and labels, the next call finds nothing to do and sends no request.
\<close>

lemma patchMetadata_converges:
  assumes "gm_ok annotations"
    and "patchMetadata cli annotations obj_ann obj_lbl = (err, Some p)"
  shows "patchMetadata cli annotations
           (merge_patch (mp_annotations p) obj_ann) (merge_patch (mp_labels p) obj_lbl) = (None, None)"
proof -
  from assms(2) have "mp_annotations p = diff obj_ann annotations IsJobLevelKey"
    "mp_labels p = diff obj_lbl annotations IsJobLevelKey"
    by (auto simp: patchMetadata_def Let_def split: if_splits)
  then show ?thesis
    by (simp add: patchMetadata_def Let_def diff_empty_iff[OF assms(1)] merge_diff[OF assms(1)])
qed

end
