(* ===== verification/Cluster.thy ===== *)
theory Cluster
  imports Phases Conf Metadata
begin

text \<open>
  What a reconciliation does to the world. The calls that change something outside the job object (the API server,
  kubeflow's expectations, the event recorder) are recorded as \<open>effect\<close>s in the order of the calls; the API server
  is a function from the calls made so far and the next call to its answer, so a theorem over all servers covers
  every failure at every call. The environment of a reconciler (\<open>Reconciler\<close> of \<open>reconciler/reconciler.go\<close>) holds
  the third-party functions, the framework controller, the configuration, the node registry and the server; the
  theory also models \<open>reconciler/control/pod.go\<close>.
\<close>

section \<open>Services\<close>

record ServicePort =
  sport_Name :: string
  sport_Port :: int32
  sport_TargetPort :: "int option"

record Service =
  svc_Namespace :: string
  svc_Name :: string
  svc_Labels :: labels
  svc_ClusterIP :: string
  svc_Selector :: labels
  svc_Ports :: "ServicePort list"

section \<open>Effects\<close>

datatype effect =
    PodsCreate string new_pod
  | DeletePod string string
  | CreateService string Service OwnerReference
  | DeleteService string string
  | DeletePodGroup string string
  | RaiseExpectations string int int
  | CreationObserved string
  | DeletionObserved string
  | SetExpectations string int int
  | DeleteExpectations string
  | RecordEvent event
  | PatchObject string string meta_patch
  | UpdateStatus AresJob
  | UpdateJob AresJob
  | DeleteJob string string
  | SyncPodGroup string string int32
  | CleanUpAddAfter string string int
  | CleanUpAddRateLimited string string
  | CleanUpForget string string
  | CleanUpDone string string

text \<open>
  The last five are the calls to kubeflow's \<open>SyncPodGroup\<close> and to the clean-up queue of the controller. The answer to a
  call is an error, or the name of the object.
\<close>

type_synonym server = "effect list \<Rightarrow> effect \<Rightarrow> string result"

definition answer_err :: "string result \<Rightarrow> go_error option" where
  "answer_err a = (case a of Inl e \<Rightarrow> Some e | Inr _ \<Rightarrow> None)"

section \<open>The environment of a reconciler\<close>

text \<open>
  The methods a framework may override (\<open>api/v1/interface.go\<close> and kubeflow's controller interface), as far as the
  reconciler calls them. \<open>SetClusterSpec\<close> returns its error and the template it has written to.
\<close>

record controller =
  GetDefaultContainerName :: string
  GetDefaultContainerPortName :: string
  GetGroupNameLabelValue :: string
  IsMasterRole :: "(ReplicaType, ReplicaSpec option) gomap \<Rightarrow> ReplicaType \<Rightarrow> int \<Rightarrow> bool"
  SetClusterSpec :: "AresJob \<Rightarrow> PodTemplateSpec \<Rightarrow> string \<Rightarrow> string \<Rightarrow> (go_error option \<times> PodTemplateSpec) option"
  GeneratePodName :: "string \<Rightarrow> string \<Rightarrow> string \<Rightarrow> string"
  GenerateServiceName :: "string \<Rightarrow> string \<Rightarrow> string"

record Reconciler =
  r_ext :: ext
  r_ctl :: controller
  r_conf :: Configuration
  r_nodes :: Manager
  r_observers :: "Pod list result"
  r_server :: server

text \<open>The defaults that \<open>Reconciler\<close> provides and frameworks inherit.\<close>

definition base_controller :: "ext \<Rightarrow> controller" where
  "base_controller E = \<lparr>
     GetDefaultContainerName = [],
     GetDefaultContainerPortName = [],
     GetGroupNameLabelValue = ''ares.io'',
     IsMasterRole = (\<lambda>replicas rtype index. False),
     SetClusterSpec = (\<lambda>job podTemplate rtype index. Some (None, podTemplate)),
     GeneratePodName = GenGeneralName E,
     GenerateServiceName = GetGeneralSharedName\<rparr>"

definition GenLabels :: "controller \<Rightarrow> string \<Rightarrow> (string \<times> string) list" where
  "GenLabels ctl jobName =
     [(GroupNameLabel, GetGroupNameLabelValue ctl), (JobNameLabel, replace_char (CHR ''/'') (CHR ''-'') jobName)]"

text \<open>A range loop that writes every entry into a map that is not nil.\<close>

definition write_all :: "(string \<times> string) list \<Rightarrow> labels \<Rightarrow> labels" where
  "write_all kvs m = Some (fold (\<lambda>(k, v) al. AList.update k v al) kvs (gm_entries m))"

section \<open>reconciler/control/pod.go\<close>

definition FailedCreatePodReason :: string where [go_consts]: "FailedCreatePodReason = ''FailedCreatePod''"
definition SuccessfulCreatePodReason :: string where [go_consts]: "SuccessfulCreatePodReason = ''SuccessfulCreatePod''"

definition createPods ::
  "Reconciler \<Rightarrow> string \<Rightarrow> string \<Rightarrow> PodTemplateSpec \<Rightarrow> AresJob \<Rightarrow> OwnerReference option \<Rightarrow> effect list
     \<Rightarrow> go_error option \<times> effect list" where
  "createPods R nodeName ns template object controllerRef tr =
     (case GetPodFromTemplate (r_ext R) template object controllerRef of
        Inl err \<Rightarrow> (Some err, tr)
      | Inr pod0 \<Rightarrow>
          let obj1 = (np_Object pod0)\<lparr>pt_GenerateName := pt_GenerateName template\<rparr>;
              obj2 = (if length nodeName \<noteq> 0 then obj1\<lparr>pt_Spec := (pt_Spec obj1)\<lparr>ps_NodeName := nodeName\<rparr>\<rparr> else obj1);
              pod = pod0\<lparr>np_Object := obj2\<rparr>
          in if gm_len (pt_Labels (np_Object pod)) = 0 then (Some (Errorf ''unable to create pods, no labels''), tr)
             else let call = PodsCreate ns pod; tr1 = tr @ [call]
                  in case r_server R tr call of
                       Inl err \<Rightarrow> (Some err, tr1 @ [RecordEvent \<lparr>ev_Type = EventTypeWarning, ev_Reason = FailedCreatePodReason,
                                     ev_Message = ''Error creating: '' @ ErrorText (r_ext R) err\<rparr>])
                     | Inr name \<Rightarrow> (None, tr1 @ [RecordEvent \<lparr>ev_Type = EventTypeNormal, ev_Reason = SuccessfulCreatePodReason,
                                     ev_Message = ''Created pod: '' @ name\<rparr>]))"

definition CreatePodsWithControllerRef ::
  "Reconciler \<Rightarrow> string \<Rightarrow> PodTemplateSpec \<Rightarrow> AresJob \<Rightarrow> OwnerReference option \<Rightarrow> effect list
     \<Rightarrow> go_error option \<times> effect list" where
  "CreatePodsWithControllerRef R ns template controllerObject controllerRef tr =
     (case ValidateControllerRef (r_ext R) controllerRef of
        Some err \<Rightarrow> (Some err, tr)
      | None \<Rightarrow> createPods R [] ns template controllerObject controllerRef tr)"

definition CreatePods ::
  "Reconciler \<Rightarrow> string \<Rightarrow> PodTemplateSpec \<Rightarrow> AresJob \<Rightarrow> effect list \<Rightarrow> go_error option \<times> effect list" where
  "CreatePods R ns template object tr = createPods R [] ns template object None tr"

definition CreatePodsOnNode ::
  "Reconciler \<Rightarrow> string \<Rightarrow> string \<Rightarrow> PodTemplateSpec \<Rightarrow> AresJob \<Rightarrow> OwnerReference option \<Rightarrow> effect list
     \<Rightarrow> go_error option \<times> effect list" where
  "CreatePodsOnNode R nodeName ns template object controllerRef tr =
     (case ValidateControllerRef (r_ext R) controllerRef of
        Some err \<Rightarrow> (Some err, tr)
      | None \<Rightarrow> createPods R nodeName ns template object controllerRef tr)"

section \<open>Reading effects\<close>

fun is_create :: "effect \<Rightarrow> bool" where
  "is_create (PodsCreate ns p) = True"
| "is_create _ = False"

fun is_delete :: "effect \<Rightarrow> bool" where
  "is_delete (DeletePod ns n) = True"
| "is_delete _ = False"

text \<open>The deletions raised and the deletions requested.\<close>

fun raised_dels :: "effect \<Rightarrow> int" where
  "raised_dels (RaiseExpectations k a d) = d"
| "raised_dels _ = 0"

fun raised_adds :: "effect \<Rightarrow> int" where
  "raised_adds (RaiseExpectations k a d) = a"
| "raised_adds _ = 0"

section \<open>Lemmas\<close>

text \<open>What is documented of \<open>GetPodFromTemplate\<close>: labels, annotations, name and spec are those of the template.\<close>

definition pods_from_templates :: "ext \<Rightarrow> bool" where
  "pods_from_templates E \<longleftrightarrow> (\<forall>t job ref p. GetPodFromTemplate E t job ref = Inr p \<longrightarrow>
     np_Controller p = ref \<and> pt_Labels (np_Object p) = pt_Labels t \<and> pt_Annotations (np_Object p) = pt_Annotations t
     \<and> pt_Name (np_Object p) = pt_Name t \<and> pt_Spec (np_Object p) = pt_Spec t)"

lemma plain_pods_from_templates: "pods_from_templates plain_ext"
  by (simp add: pods_from_templates_def plain_ext_def)

text \<open>A trace is extended by effects that satisfy a predicate.\<close>

definition grows :: "(effect \<Rightarrow> bool) \<Rightarrow> effect list \<Rightarrow> effect list \<Rightarrow> bool" where
  "grows P tr tr' \<longleftrightarrow> (\<exists>es. tr' = tr @ es \<and> (\<forall>e \<in> set es. P e))"

lemma grows_refl [simp, intro]: "grows P tr tr"
  by (simp add: grows_def)

lemma grows_append: "\<forall>e \<in> set es. P e \<Longrightarrow> grows P tr (tr @ es)"
  by (auto simp: grows_def)

lemma grows_trans [trans]: "grows P tr tr' \<Longrightarrow> grows P tr' tr'' \<Longrightarrow> grows P tr tr''"
  by (force simp: grows_def)

lemma grows_snoc: "grows P tr tr' \<Longrightarrow> P e \<Longrightarrow> grows P tr (tr' @ [e])"
  by (force simp: grows_def)

lemma grows_mono: "grows P tr tr' \<Longrightarrow> (\<And>e. P e \<Longrightarrow> Q e) \<Longrightarrow> grows Q tr tr'"
  by (auto simp: grows_def)

text \<open>At most one pod is requested, with the labels and the spec of the template and the given controller.\<close>

definition pod_request :: "string \<Rightarrow> PodTemplateSpec \<Rightarrow> OwnerReference option \<Rightarrow> effect \<Rightarrow> bool" where
  "pod_request ns t ref e \<longleftrightarrow> (\<exists>ev. e = RecordEvent ev) \<or>
     (\<exists>p. e = PodsCreate ns p \<and> np_Controller p = ref \<and> pt_Labels (np_Object p) = pt_Labels t
        \<and> pt_Name (np_Object p) = pt_Name t \<and> pt_GenerateName (np_Object p) = pt_GenerateName t
        \<and> pt_Spec (np_Object p) = pt_Spec t)"

lemma createPods_effects:
  assumes "pods_from_templates (r_ext R)" "createPods R [] ns t job ref tr = (err, tr')"
  shows "grows (pod_request ns t ref) tr tr'"
    and "GetPodFromTemplate (r_ext R) t job ref = Inr p0 \<Longrightarrow> gm_len (pt_Labels t) \<noteq> 0 \<Longrightarrow>
      \<exists>p es. tr' = tr @ PodsCreate ns p # es"
proof -
  have "grows (pod_request ns t ref) tr tr' \<and>
     (\<forall>p0. GetPodFromTemplate (r_ext R) t job ref = Inr p0 \<longrightarrow> gm_len (pt_Labels t) \<noteq> 0 \<longrightarrow> (\<exists>p es. tr' = tr @ PodsCreate ns p # es))"
  proof (cases "GetPodFromTemplate (r_ext R) t job ref")
    case (Inl e)
    with assms(2) show ?thesis by (auto simp: createPods_def)
  next
    case (Inr p0)
    let ?p = "p0\<lparr>np_Object := (np_Object p0)\<lparr>pt_GenerateName := pt_GenerateName t\<rparr>\<rparr>"
    have p: "np_Controller ?p = ref" "pt_Labels (np_Object ?p) = pt_Labels t" "pt_Name (np_Object ?p) = pt_Name t"
      "pt_GenerateName (np_Object ?p) = pt_GenerateName t" "pt_Spec (np_Object ?p) = pt_Spec t"
      using assms(1) Inr unfolding pods_from_templates_def by auto
    show ?thesis
    proof (cases "gm_len (pt_Labels (np_Object ?p)) = 0")
      case True
      with assms(2) Inr p show ?thesis by (auto simp: createPods_def Let_def)
    next
      case False
      with assms(2) Inr obtain ev where "tr' = tr @ [PodsCreate ns ?p, RecordEvent ev]"
        by (cases "r_server R tr (PodsCreate ns ?p)") (auto simp: createPods_def Let_def)
      with p show ?thesis by (auto simp: pod_request_def intro!: grows_append)
    qed
  qed
  then show "grows (pod_request ns t ref) tr tr'"
    and "GetPodFromTemplate (r_ext R) t job ref = Inr p0 \<Longrightarrow> gm_len (pt_Labels t) \<noteq> 0 \<Longrightarrow>
      \<exists>p es. tr' = tr @ PodsCreate ns p # es" by blast+
qed

lemma CreatePodsWithControllerRef_effects:
  assumes "pods_from_templates (r_ext R)" "CreatePodsWithControllerRef R ns t job ref tr = (err, tr')"
  shows "grows (pod_request ns t ref) tr tr'"
    and "ValidateControllerRef (r_ext R) ref = None \<Longrightarrow> GetPodFromTemplate (r_ext R) t job ref = Inr p0 \<Longrightarrow>
      gm_len (pt_Labels t) \<noteq> 0 \<Longrightarrow> \<exists>p es. tr' = tr @ PodsCreate ns p # es"
  using assms createPods_effects[OF assms(1), of ns t job ref tr err tr']
  by (auto simp: CreatePodsWithControllerRef_def split: option.splits)

lemma write_all_get:
  "gm_get (write_all kvs m) k = (case map_of (rev kvs) k of None \<Rightarrow> gm_get m k | Some v \<Rightarrow> Some v)"
proof (induction kvs rule: rev_induct)
  case (snoc kv kvs)
  then show ?case by (cases kv) (simp add: write_all_def gm_get_def update_conv')
qed (simp add: write_all_def gm_get_def)

end
