(* ===== verification/Dependence.thy ===== *)
theory Dependence
  imports Conf Role_Cache
begin

text \<open>
  Start-up dependences between roles (\<open>reconciler/dependence.go\<close> and \<open>SetDependence\<close> of \<open>reconciler/pod.go\<close>): a
  role that depends on others gets an init container that waits for them, and writes the MPI host file when one is
  asked for. \<open>listed\<close> is the answer to the list of the observer's pods.
\<close>

section \<open>Package path\<close>

text \<open>\<open>strings.Split(s, "/")\<close>\<close>

fun split_slash :: "string \<Rightarrow> string list" where
  "split_slash [] = [[]]"
| "split_slash (c # cs) =
     (if c = CHR ''/'' then [] # split_slash cs
      else case split_slash cs of [] \<Rightarrow> [[c]] | w # ws \<Rightarrow> (c # w) # ws)"

text \<open>
  One path element of \<open>path.Clean\<close> on the reversed stack of kept elements: empty elements and \<open>.\<close> are dropped, and
  \<open>..\<close> drops the last kept element, is dropped at the root, and is kept at the front of a relative path.
\<close>

fun clean_step :: "bool \<Rightarrow> string list \<Rightarrow> string \<Rightarrow> string list" where
  "clean_step rooted st w =
     (if w = [] \<or> w = ''.'' then st
      else if w = ''..'' then
        (case st of
           [] \<Rightarrow> if rooted then [] else [w]
         | v # vs \<Rightarrow> if v = ''..'' then w # st else vs)
      else w # st)"

definition path_Clean :: "string \<Rightarrow> string" where
  "path_Clean p =
     (let rooted = (p \<noteq> [] \<and> hd p = CHR ''/'');
          kept = rev (foldl (clean_step rooted) [] (split_slash p));
          body = join kept ''/''
      in if rooted then CHR ''/'' # body else if body = [] then ''.'' else body)"

text \<open>\<open>path.Dir\<close>: everything up to the last slash, cleaned.\<close>

definition path_Dir :: "string \<Rightarrow> string" where
  "path_Dir p = path_Clean (rev (dropWhile (\<lambda>c. c \<noteq> CHR ''/'') (rev p)))"

section \<open>Init containers\<close>

definition PullIfNotPresent :: string where [go_consts]: "PullIfNotPresent = ''IfNotPresent''"

text \<open>The shell word that two single quotes make.\<close>

definition empty_quotes :: string where
  "empty_quotes = [CHR 0x27, CHR 0x27]"

definition GetConfigurationVolume :: Volume where
  "GetConfigurationVolume = \<lparr>vol_Name = ''configurations'', vol_Source = EmptyDir\<rparr>"

definition GetInitContainer :: "InitializerConfig option \<Rightarrow> CmdConfig \<Rightarrow> bool \<Rightarrow> Container result option" where
  "GetInitContainer initConfig cmdConfig setLocalIPEnv = do {
     let cmdConfig = (if cmd_Roles cmdConfig = [] then cmdConfig\<lparr>cmd_Roles := empty_quotes\<rparr> else cmdConfig);
     ic \<leftarrow> initConfig;
     execute \<leftarrow> ic_CmdTemplate ic;
     Some (case execute cmdConfig of
       Inl err \<Rightarrow> Inl err
     | Inr buffer \<Rightarrow> Inr \<lparr>ctr_Name = ''initializer'', ctr_Image = ic_Image ic,
         ctr_ImagePullPolicy = PullIfNotPresent,
         ctr_Command = [''/bin/bash'', ''-c'', replace_char (CHR 0x0A) (CHR '' '') buffer],
         ctr_Env = [\<lparr>env_Name = ''KS_KUBE_HOST_IP'', env_Value = [], env_FieldPath = Some ''status.hostIP''\<rparr>]
           @ (if setLocalIPEnv then [\<lparr>env_Name = ''LOCAL_IP'', env_Value = [], env_FieldPath = Some ''status.hostIP''\<rparr>] else [])
           @ map (\<lambda>(name, val). \<lparr>env_Name = name, env_Value = val, env_FieldPath = None\<rparr>) (gm_entries (ic_Envs ic)),
         ctr_Ports = [],
         ctr_VolumeMounts = map (\<lambda>volume. \<lparr>vm_Name = vc_Name volume, vm_MountPath = vc_HostPath volume\<rparr>) (ic_Volumes ic)\<rparr>) }"

definition addInitContainer ::
  "Configuration \<Rightarrow> Pod list result \<Rightarrow> AresJob \<Rightarrow> PodTemplateSpec \<Rightarrow> string \<Rightarrow> CmdConfig
     \<Rightarrow> (Container result \<times> PodTemplateSpec) option" where
  "addInitContainer config listed job podTemplate rtype cmdConfig = do {
     roleSpec \<leftarrow> gm_ptr (spec_RoleSpecs (job_Spec job)) rtype;
     dependence \<leftarrow> role_Dependence roleSpec;
     let cmdConfig = cmdConfig\<lparr>cmd_Name := job_Name job, cmd_Namespace := job_Namespace job,
           cmd_CacheURI := getCacheURI config listed,
           cmd_Key := NamespacedNameToKey (job_Namespace job) (job_Name job),
           cmd_Roles := join (dep_RoleNames dependence) '',''\<rparr>;
     case GetCommonConfig config of
       Inl err \<Rightarrow> Some (Inl err, podTemplate)
     | Inr initConfig \<Rightarrow> do {
         res \<leftarrow> GetInitContainer initConfig cmdConfig True;
         case res of
           Inl err \<Rightarrow> Some (Inl err, podTemplate)
         | Inr initContainer \<Rightarrow> do {
             ic \<leftarrow> initConfig;
             Some (Inr initContainer, podTemplate\<lparr>pt_Spec := (pt_Spec podTemplate)\<lparr>ps_Volumes :=
               ps_Volumes (pt_Spec podTemplate)
               @ map (\<lambda>volume. \<lparr>vol_Name = vc_Name volume, vol_Source = HostPath (vc_HostPath volume)\<rparr>) (ic_Volumes ic)\<rparr>\<rparr>) } } }"

definition prependInitContainer :: "Container \<Rightarrow> PodTemplateSpec \<Rightarrow> PodTemplateSpec" where
  "prependInitContainer c t =
     t\<lparr>pt_Spec := (pt_Spec t)\<lparr>ps_InitContainers := c # ps_InitContainers (pt_Spec t)\<rparr>\<rparr>"

definition AddMPIInitializer ::
  "Configuration \<Rightarrow> Pod list result \<Rightarrow> AresJob \<Rightarrow> PodTemplateSpec \<Rightarrow> string
     \<Rightarrow> (go_error option \<times> PodTemplateSpec) option" where
  "AddMPIInitializer config listed job podTemplate rtype = do {
     roleSpec \<leftarrow> gm_ptr (spec_RoleSpecs (job_Spec job)) rtype;
     dependence \<leftarrow> role_Dependence roleSpec;
     filepaths \<leftarrow> dep_MPIHostFile dependence;
     let volume = GetConfigurationVolume;
     let mountPath = path_Dir (takeWhile (\<lambda>c. c \<noteq> CHR '','') filepaths);
     let mount = \<lparr>vm_Name = vol_Name volume, vm_MountPath = mountPath\<rparr>;
     let t1 = podTemplate\<lparr>pt_Spec := (pt_Spec podTemplate)\<lparr>ps_Volumes := ps_Volumes (pt_Spec podTemplate) @ [volume]\<rparr>\<rparr>;
     c0 \<leftarrow> slice_at (ps_Containers (pt_Spec t1)) 0;
     let c0' = c0\<lparr>ctr_VolumeMounts := ctr_VolumeMounts c0 @ [mount]\<rparr>;
     let t2 = t1\<lparr>pt_Spec := (pt_Spec t1)\<lparr>ps_Containers := (ps_Containers (pt_Spec t1))[0 := c0']\<rparr>\<rparr>;
     mpi \<leftarrow> fw_MPI (spec_Framework (job_Spec job));
     let cmdConfig = zero_CmdConfig\<lparr>cmd_ReplicasPerNode := ReplicasPerNode mpi, cmd_MPIHostFile := filepaths,
           cmd_MPIImplementation := Implementation mpi\<rparr>;
     (res, t3) \<leftarrow> addInitContainer config listed job t2 rtype cmdConfig;
     Some (case res of
       Inl err \<Rightarrow> (Some err, t3)
     | Inr c \<Rightarrow> (None, prependInitContainer (c\<lparr>ctr_VolumeMounts := mount # ctr_VolumeMounts c\<rparr>) t3)) }"

definition AddWaiter ::
  "Configuration \<Rightarrow> Pod list result \<Rightarrow> AresJob \<Rightarrow> PodTemplateSpec \<Rightarrow> string
     \<Rightarrow> (go_error option \<times> PodTemplateSpec) option" where
  "AddWaiter config listed job podTemplate rtype = do {
     let cmdConfig = zero_CmdConfig\<lparr>cmd_MPIHostFile := empty_quotes, cmd_MPIImplementation := empty_quotes\<rparr>;
     (res, t1) \<leftarrow> addInitContainer config listed job podTemplate rtype cmdConfig;
     Some (case res of
       Inl err \<Rightarrow> (Some err, t1)
     | Inr c \<Rightarrow> (None, prependInitContainer c t1)) }"

definition SetDependence ::
  "Configuration \<Rightarrow> Pod list result \<Rightarrow> AresJob \<Rightarrow> PodTemplateSpec \<Rightarrow> string
     \<Rightarrow> (go_error option \<times> PodTemplateSpec) option" where
  "SetDependence config listed job podTemplate rtype =
     (case gm_ptr (spec_RoleSpecs (job_Spec job)) rtype of
        None \<Rightarrow> Some (None, podTemplate)
      | Some spec \<Rightarrow>
          (case role_Dependence spec of
             None \<Rightarrow> Some (None, podTemplate)
           | Some dependence \<Rightarrow>
               if dep_MPIHostFile dependence = None then AddWaiter config listed job podTemplate rtype
               else AddMPIInitializer config listed job podTemplate rtype))"

section \<open>Lemmas\<close>

text \<open>
  What a dependence changes of a template: it appends volumes, puts one init container in front, and mounts what the MPI host file needs
  in the first container. Everything else, the other fields of the containers included, is as it was.
\<close>

definition dependence_mounts :: "DependenceSpec \<Rightarrow> VolumeMount list" where
  "dependence_mounts dep = (case dep_MPIHostFile dep of
     None \<Rightarrow> []
   | Some filepaths \<Rightarrow>
       [\<lparr>vm_Name = vol_Name GetConfigurationVolume, vm_MountPath = path_Dir (takeWhile (\<lambda>c. c \<noteq> CHR '','') filepaths)\<rparr>])"

definition mount_first :: "VolumeMount list \<Rightarrow> Container list \<Rightarrow> Container list" where
  "mount_first mounts ctrs = (case ctrs of
     [] \<Rightarrow> [] | c # cs \<Rightarrow> c\<lparr>ctr_VolumeMounts := ctr_VolumeMounts c @ mounts\<rparr> # cs)"

definition dependence_frame :: "VolumeMount list \<Rightarrow> PodTemplateSpec \<Rightarrow> PodTemplateSpec \<Rightarrow> bool" where
  "dependence_frame mounts t t' \<longleftrightarrow>
     (\<exists>vols c. t' = t\<lparr>pt_Spec := (pt_Spec t)\<lparr>ps_Volumes := ps_Volumes (pt_Spec t) @ vols,
        ps_InitContainers := c # ps_InitContainers (pt_Spec t), ps_Containers := mount_first mounts (ps_Containers (pt_Spec t))\<rparr>\<rparr>
      \<and> ctr_Name c = ''initializer'')"

lemma mount_first_none [simp]: "mount_first [] ctrs = ctrs"
  by (simp add: mount_first_def split: list.split)

lemma dependence_frameI:
  assumes "t' = t\<lparr>pt_Spec := (pt_Spec t)\<lparr>ps_Volumes := ps_Volumes (pt_Spec t) @ vols,
        ps_InitContainers := c # ps_InitContainers (pt_Spec t), ps_Containers := mount_first mounts (ps_Containers (pt_Spec t))\<rparr>\<rparr>"
    and "ctr_Name c = ''initializer''"
  shows "dependence_frame mounts t t'"
  using assms unfolding dependence_frame_def by blast

lemma AddMPIInitializer_no_mpi:
  "fw_MPI (spec_Framework (job_Spec job)) = None \<Longrightarrow> AddMPIInitializer config listed job t rtype = None"
  by (simp add: AddMPIInitializer_def Let_def Option.bind_eq_None_conv)

lemma GetInitContainer_total:
  "initializer_ready ic \<Longrightarrow> GetInitContainer (Some ic) cmd b \<noteq> None"
  by (auto simp: GetInitContainer_def initializer_ready_def Let_def split: sum.splits)

lemma GetInitContainer_name:
  "GetInitContainer p cmd b = Some (Inr c) \<Longrightarrow> ctr_Name c = ''initializer''"
proof -
  assume a: "GetInitContainer p cmd b = Some (Inr c)"
  let ?cmd = "if cmd_Roles cmd = [] then cmd\<lparr>cmd_Roles := empty_quotes\<rparr> else cmd"
  from a obtain ic execute where ic: "p = Some ic" "ic_CmdTemplate ic = Some execute"
    unfolding GetInitContainer_def Let_def by (auto simp: Option.bind_eq_Some_conv simp del: append_Cons)
  from a ic show ?thesis
    unfolding GetInitContainer_def Let_def by (cases "execute ?cmd") auto
qed

text \<open>Every initializer of the configuration is ready, as after \<open>Load\<close>.\<close>

definition config_ready :: "Configuration \<Rightarrow> bool" where
  "config_ready c \<longleftrightarrow> (\<forall>(t, p) \<in> set (gm_entries (cf_Initializers c)). \<exists>ic. p = Some ic \<and> initializer_ready ic)"

lemma config_ready_common:
  "config_ready config \<Longrightarrow> GetCommonConfig config = Inr p \<Longrightarrow> \<exists>ic. p = Some ic \<and> initializer_ready ic"
  by (auto simp: config_ready_def GetCommonConfig_def split: option.splits dest!: gm_get_SomeD)

lemma addInitContainer_total:
  assumes "config_ready config" "gm_ptr (spec_RoleSpecs (job_Spec job)) r = Some spec" "role_Dependence spec = Some dep"
  shows "\<exists>res t'. addInitContainer config listed job t r cmd = Some (res, t')"
proof (cases "GetCommonConfig config")
  case (Inl e)
  with assms show ?thesis by (simp add: addInitContainer_def)
next
  case (Inr p)
  with config_ready_common[OF assms(1)] obtain ic where ic: "p = Some ic" "initializer_ready ic" by blast
  define cmd' where "cmd' = cmd\<lparr>cmd_Name := job_Name job, cmd_Namespace := job_Namespace job,
           cmd_CacheURI := getCacheURI config listed,
           cmd_Key := NamespacedNameToKey (job_Namespace job) (job_Name job),
           cmd_Roles := join (dep_RoleNames dep) '',''\<rparr>"
  from GetInitContainer_total[OF ic(2)] obtain res where "GetInitContainer (Some ic) cmd' True = Some res" by blast
  with assms Inr ic show ?thesis
    by (cases res) (simp_all add: addInitContainer_def Let_def cmd'_def)
qed

lemma addInitContainer_effect:
  assumes "addInitContainer config listed job t r cmd = Some (res, t')"
  shows "\<exists>vols. t' = t\<lparr>pt_Spec := (pt_Spec t)\<lparr>ps_Volumes := ps_Volumes (pt_Spec t) @ vols\<rparr>\<rparr>"
    and "res = Inr c \<Longrightarrow> ctr_Name c = ''initializer''"
proof -
  from assms obtain spec dep where d: "gm_ptr (spec_RoleSpecs (job_Spec job)) r = Some spec" "role_Dependence spec = Some dep"
    unfolding addInitContainer_def by (auto simp: Option.bind_eq_Some_conv)
  let ?cmd = "cmd\<lparr>cmd_Name := job_Name job, cmd_Namespace := job_Namespace job,
           cmd_CacheURI := getCacheURI config listed,
           cmd_Key := NamespacedNameToKey (job_Namespace job) (job_Name job),
           cmd_Roles := join (dep_RoleNames dep) '',''\<rparr>"
  have same: "\<exists>vols. t = t\<lparr>pt_Spec := (pt_Spec t)\<lparr>ps_Volumes := ps_Volumes (pt_Spec t) @ vols\<rparr>\<rparr>"
    by (rule exI[of _ "[]"]) simp
  have "(\<exists>vols. t' = t\<lparr>pt_Spec := (pt_Spec t)\<lparr>ps_Volumes := ps_Volumes (pt_Spec t) @ vols\<rparr>\<rparr>)
     \<and> (\<forall>c. res = Inr c \<longrightarrow> ctr_Name c = ''initializer'')"
  proof (cases "GetCommonConfig config")
    case (Inl e)
    with assms d same show ?thesis by (auto simp: addInitContainer_def)
  next
    case (Inr p)
    with assms d obtain q where q: "GetInitContainer p ?cmd True = Some q"
      unfolding addInitContainer_def Let_def by (auto simp: Option.bind_eq_Some_conv)
    show ?thesis
    proof (cases q)
      case (Inl e)
      with Inr assms d q same show ?thesis by (auto simp: addInitContainer_def Let_def)
    next
      case ok: (Inr c)
      then obtain ic where "p = Some ic" using Inr assms d q
        by (auto simp: addInitContainer_def Let_def Option.bind_eq_Some_conv)
      with Inr assms d q ok GetInitContainer_name[of p ?cmd True c] show ?thesis
        by (auto simp: addInitContainer_def Let_def)
    qed
  qed
  then show "\<exists>vols. t' = t\<lparr>pt_Spec := (pt_Spec t)\<lparr>ps_Volumes := ps_Volumes (pt_Spec t) @ vols\<rparr>\<rparr>"
    and "res = Inr c \<Longrightarrow> ctr_Name c = ''initializer''" by blast+
qed

section \<open>Properties\<close>

text \<open>
  C36. Setting up the dependence of a role does not panic under a loaded configuration, for a template with a
  container, provided that a role that asks for an MPI host file belongs to a job with an MPI section. On success
  the waiting container is the new first init container, the first container has one more mount when a host file is asked for and is
  otherwise as it was, volumes are only appended, and all other containers and all other parts of the template are left as they were.
\<close>

theorem SetDependence_sound:
  assumes "config_ready config" "gm_ptr (spec_RoleSpecs (job_Spec job)) r = Some spec" "role_Dependence spec = Some dep"
    and mpi: "dep_MPIHostFile dep \<noteq> None \<Longrightarrow> fw_MPI (spec_Framework (job_Spec job)) \<noteq> None"
    and ctr: "ps_Containers (pt_Spec t) \<noteq> []"
  shows "\<exists>err t'. SetDependence config listed job t r = Some (err, t') \<and>
     (err = None \<longrightarrow> dependence_frame (dependence_mounts dep) t t')"
proof (cases "dep_MPIHostFile dep")
  case None
  let ?cmd = "zero_CmdConfig\<lparr>cmd_MPIHostFile := empty_quotes, cmd_MPIImplementation := empty_quotes\<rparr>"
  from addInitContainer_total[OF assms(1-3)] obtain res t1 where
    a: "addInitContainer config listed job t r ?cmd = Some (res, t1)" by blast
  note eff = addInitContainer_effect[OF a]
  from None assms a have run: "SetDependence config listed job t r =
      Some (case res of Inl err \<Rightarrow> (Some err, t1) | Inr c \<Rightarrow> (None, prependInitContainer c t1))"
    by (simp add: SetDependence_def AddWaiter_def Let_def)
  show ?thesis
  proof (cases res)
    case (Inr c)
    from eff(1) obtain vols where "t1 = t\<lparr>pt_Spec := (pt_Spec t)\<lparr>ps_Volumes := ps_Volumes (pt_Spec t) @ vols\<rparr>\<rparr>" by blast
    with Inr eff(2) run None show ?thesis
      by (auto simp: prependInitContainer_def dependence_mounts_def intro!: dependence_frameI[where vols = vols and c = c])
  qed (simp add: run)
next
  case (Some filepaths)
  with mpi obtain m where m: "fw_MPI (spec_Framework (job_Spec job)) = Some m" by auto
  from ctr obtain c0 cs where c0: "ps_Containers (pt_Spec t) = c0 # cs" by (cases "ps_Containers (pt_Spec t)") auto
  let ?mount = "\<lparr>vm_Name = vol_Name GetConfigurationVolume, vm_MountPath = path_Dir (takeWhile (\<lambda>c. c \<noteq> CHR '','') filepaths)\<rparr>"
  let ?ctrs = "c0\<lparr>ctr_VolumeMounts := ctr_VolumeMounts c0 @ [?mount]\<rparr> # cs"
  let ?t2 = "t\<lparr>pt_Spec := (pt_Spec t)\<lparr>ps_Volumes := ps_Volumes (pt_Spec t) @ [GetConfigurationVolume], ps_Containers := ?ctrs\<rparr>\<rparr>"
  let ?cmd = "zero_CmdConfig\<lparr>cmd_ReplicasPerNode := ReplicasPerNode m, cmd_MPIHostFile := filepaths,
           cmd_MPIImplementation := Implementation m\<rparr>"
  from addInitContainer_total[OF assms(1-3)] obtain res t3 where
    a: "addInitContainer config listed job ?t2 r ?cmd = Some (res, t3)" by blast
  note eff = addInitContainer_effect[OF a]
  from Some assms(2,3) m c0 a have run: "SetDependence config listed job t r =
      Some (case res of Inl err \<Rightarrow> (Some err, t3)
        | Inr c \<Rightarrow> (None, prependInitContainer (c\<lparr>ctr_VolumeMounts := ?mount # ctr_VolumeMounts c\<rparr>) t3))"
    by (simp add: SetDependence_def AddMPIInitializer_def Let_def slice_at_def)
  show ?thesis
  proof (cases res)
    case (Inr c)
    from eff(1) obtain vols where "t3 = ?t2\<lparr>pt_Spec := (pt_Spec ?t2)\<lparr>ps_Volumes := ps_Volumes (pt_Spec ?t2) @ vols\<rparr>\<rparr>" by blast
    with Inr eff(2) run c0 Some show ?thesis
      by (auto simp: prependInitContainer_def dependence_mounts_def mount_first_def
          intro!: dependence_frameI[where vols = "GetConfigurationVolume # vols" and
            c = "c\<lparr>ctr_VolumeMounts := ?mount # ctr_VolumeMounts c\<rparr>"])
  qed (simp add: run)
qed

definition host_file_dependence :: DependenceSpec where
  "host_file_dependence = \<lparr>dep_RoleNames = [RoleWorker], dep_RolePhase = RolePhaseRunning, dep_MPIHostFile = Some ''/etc/mpi/hosts''\<rparr>"

definition waiting_role :: RoleSpec where
  "waiting_role = (plain_role 1 RestartPolicyNever [plain_container ''main'' []])\<lparr>role_Dependence := Some host_file_dependence\<rparr>"

definition waiting_job :: AresJob where
  "waiting_job = (let job = plain_job ''mpi'' [(RoleLauncher, Some waiting_role)] in
     job\<lparr>job_Spec := (job_Spec job)\<lparr>spec_Framework := (spec_Framework (job_Spec job))\<lparr>fw_MPI :=
       Some \<lparr>ReplicasPerNode = 2, Implementation = ''OpenMPI''\<rparr>\<rparr>\<rparr>\<rparr>)"

definition ready_conf :: Configuration where
  "ready_conf = sample_conf\<lparr>cf_Initializers := Some [(''common'', Some \<lparr>ic_Image = ''init:1'', ic_Cmd = ''wait'',
     ic_CmdTemplate = Some (\<lambda>c. Inr (''wait '' @ cmd_Roles c)), ic_Envs = None, ic_Volumes = []\<rparr>)]\<rparr>"

theorem SetDependence_sound_witness:
  "\<exists>t'. SetDependence ready_conf (Inr []) waiting_job (rs_Template (the (role_ReplicaSpec waiting_role))) RoleLauncher = Some (None, t') \<and>
     dependence_frame [\<lparr>vm_Name = vol_Name GetConfigurationVolume, vm_MountPath = ''/etc/mpi''\<rparr>]
       (rs_Template (the (role_ReplicaSpec waiting_role))) t'"
proof -
  let ?t = "rs_Template (the (role_ReplicaSpec waiting_role))"
  have c: "config_ready ready_conf" by (simp add: config_ready_def ready_conf_def initializer_ready_def)
  have r: "gm_ptr (spec_RoleSpecs (job_Spec waiting_job)) RoleLauncher = Some waiting_role"
    by (simp add: waiting_job_def plain_job_def plain_spec_def gm_ptr_def gm_get_def)
  have d: "role_Dependence waiting_role = Some host_file_dependence" by (simp add: waiting_role_def)
  have m: "fw_MPI (spec_Framework (job_Spec waiting_job)) \<noteq> None" by (simp add: waiting_job_def Let_def)
  have t: "ps_Containers (pt_Spec ?t) \<noteq> []" by (simp add: waiting_role_def plain_defs)
  from SetDependence_sound[OF c r d _ t, of "Inr []"] m obtain err t' where
    run: "SetDependence ready_conf (Inr []) waiting_job ?t RoleLauncher = Some (err, t')" and
    frame: "err = None \<longrightarrow> dependence_frame (dependence_mounts host_file_dependence) ?t t'" by blast
  have "map_option fst (SetDependence ready_conf (Inr []) waiting_job ?t RoleLauncher) = Some None"
    by (simp add: SetDependence_def AddMPIInitializer_def addInitContainer_def GetInitContainer_def GetCommonConfig_def ready_conf_def r d
        host_file_dependence_def waiting_role_def waiting_job_def Let_def plain_defs slice_at_def gm_get_def gm_ptr_def)
  with run have "err = None" by simp
  moreover have "dependence_mounts host_file_dependence = [\<lparr>vm_Name = vol_Name GetConfigurationVolume, vm_MountPath = ''/etc/mpi''\<rparr>]" by code_simp
  ultimately show ?thesis using run frame by simp
qed

text \<open>
  A role that asks for an MPI host file in a job without an MPI section makes the operator panic: no validation
  asks for the section outside the MPI framework.
\<close>

lemma SetDependence_panics:
  assumes "gm_ptr (spec_RoleSpecs (job_Spec job)) r = Some spec" "role_Dependence spec = Some dep"
    "dep_MPIHostFile dep = Some f" "fw_MPI (spec_Framework (job_Spec job)) = None"
  shows "SetDependence config listed job t r = None"
  using assms by (simp add: SetDependence_def AddMPIInitializer_no_mpi)

end
