(* ===== verification/Pods.thy ===== *)
theory Pods
  imports Cluster Dependence
begin

text \<open>
  Reconciling the pods of a role (\<open>reconciler/pod.go\<close>): sorting the pods into slices by their index, creating the
  missing ones, deleting those out of range and those that failed and may be restarted, and then the bookkeeping of
  the phase. The loop over the slices threads its counters and the trace of calls, and stops at the first error.
\<close>

section \<open>Selecting pods\<close>

definition FilterPodsForReplicaType :: "ext \<Rightarrow> Pod list \<Rightarrow> string \<Rightarrow> Pod list" where
  "FilterPodsForReplicaType E pods replicaType =
     filter (\<lambda>pod. \<not> (\<not> SelectorMatches E (x_ReplicaTypeLabel E) replicaType (pod_Labels pod)
                     \<and> \<not> SelectorMatches E ReplicaTypeLabel replicaType (pod_Labels pod))) pods"

text \<open>The index a pod is filed under: its label, when that is a number.\<close>

definition pod_index :: "ext \<Rightarrow> Pod \<Rightarrow> int option" where
  "pod_index E pod =
     (let replicaIndex = GetReplicaIndex E (pod_Labels pod) in
      if length replicaIndex = 0 then None
      else case atoi replicaIndex of
        (index, None) \<Rightarrow> Some index
      | (_, Some err) \<Rightarrow> None)"

definition calculatePodSliceSize :: "ext \<Rightarrow> Pod list \<Rightarrow> int \<Rightarrow> int" where
  "calculatePodSliceSize E pods replicas =
     (let size = foldl (\<lambda>size pod. case pod_index E pod of None \<Rightarrow> size | Some index \<Rightarrow> MaxInt E size index) 0 pods
      in MaxInt E (wrap64 (size + 1)) replicas)"

text \<open>
  \<open>make([][]*Pod, n)\<close> panics for a negative length; so does the write \<open>podSlices[index]\<close> for an index that is out of
  range, in particular for a negative one, which the code only warns about.
\<close>

definition GetPodSlices :: "ext \<Rightarrow> Pod list \<Rightarrow> int \<Rightarrow> Pod list list option" where
  "GetPodSlices E pods replicas = do {
     let size = calculatePodSliceSize E pods replicas;
     podSlices \<leftarrow> (if size < 0 then None else Some (replicate (nat size) []));
     mfold (\<lambda>pod slices.
              case pod_index E pod of
                None \<Rightarrow> Some slices
              | Some index \<Rightarrow> do {
                  slice \<leftarrow> slice_at slices index;
                  Some (slices[nat index := slice @ [pod]]) })
       pods podSlices }"

section \<open>Creating a pod\<close>

definition restartPolicyOverwrittenReason :: string where
  [go_consts]: "restartPolicyOverwrittenReason = ''RestartPolicyOverwritten''"

definition setRestartPolicy :: "string \<Rightarrow> PodTemplateSpec \<Rightarrow> ReplicaSpec \<Rightarrow> effect list \<Rightarrow> PodTemplateSpec \<times> effect list" where
  "setRestartPolicy rt podTemplateSpec spec tr =
     (let restartPolicy = (if rs_RestartPolicy spec = RestartPolicyExitCode then RestartPolicyNever else rs_RestartPolicy spec);
          original = ps_RestartPolicy (pt_Spec podTemplateSpec);
          tr' = (if 0 < length original \<and> original \<noteq> restartPolicy
                 then tr @ [RecordEvent \<lparr>ev_Type = EventTypeWarning, ev_Reason = restartPolicyOverwrittenReason,
                        ev_Message = ''Restart policy for '' @ rt @ '' is overwritten: '' @ original @ '' -> '' @ restartPolicy\<rparr>]
                 else tr)
      in (podTemplateSpec\<lparr>pt_Spec := (pt_Spec podTemplateSpec)\<lparr>ps_RestartPolicy := restartPolicy\<rparr>\<rparr>, tr'))"

definition SetScheduler :: "AresJob \<Rightarrow> PodTemplateSpec \<Rightarrow> PodTemplateSpec" where
  "SetScheduler job podTemplate =
     (if EnableGangScheduling (job_Spec job) then
        podTemplate\<lparr>pt_Spec := (pt_Spec podTemplate)\<lparr>ps_SchedulerName := GangSchedulerName\<rparr>,
          pt_Annotations := Some (AList.update GangSchedulingPodGroupAnnotation (job_Name job) (gm_entries (pt_Annotations podTemplate)))\<rparr>
      else podTemplate)"

text \<open>The name, the labels and the annotations that \<open>CreateNewPod\<close> writes before it asks the framework.\<close>

definition pod_labels :: "controller \<Rightarrow> AresJob \<Rightarrow> string \<Rightarrow> string \<Rightarrow> bool \<Rightarrow> (string \<times> string) list" where
  "pod_labels ctl job rt index masterRole =
     (let l1 = AList.update ReplicaTypeLabel rt (GenLabels ctl (job_Name job));
          l2 = AList.update ReplicaIndexLabel index l1
      in if masterRole then AList.update JobRoleLabel RoleMaster l2 else l2)"

definition new_template :: "controller \<Rightarrow> AresJob \<Rightarrow> string \<Rightarrow> string \<Rightarrow> ReplicaSpec \<Rightarrow> bool \<Rightarrow> PodTemplateSpec" where
  "new_template ctl job rt index spec masterRole =
     (let podTemplate = rs_Template spec;
          name = GeneratePodName ctl (job_Name job) rt index;
          t1 = (if rs_RestartPolicy spec = RestartPolicyNever then podTemplate\<lparr>pt_Name := name\<rparr>
                else podTemplate\<lparr>pt_GenerateName := name @ ''-''\<rparr>);
          jobLevel = filter (\<lambda>(key, value). IsJobLevelKey key) (gm_entries (job_Annotations job));
          t2 = t1\<lparr>pt_Labels := write_all jobLevel (write_all (pod_labels ctl job rt index masterRole) (pt_Labels t1)),
                  pt_Annotations := write_all jobLevel (pt_Annotations t1)\<rparr>
      in t2\<lparr>pt_Spec := (pt_Spec t2)\<lparr>ps_Hostname := name, ps_Subdomain := GetGeneralSharedName (job_Name job) rt\<rparr>\<rparr>)"

definition CreateNewPod ::
  "Reconciler \<Rightarrow> AresJob \<Rightarrow> string \<Rightarrow> string \<Rightarrow> ReplicaSpec \<Rightarrow> bool \<Rightarrow> effect list
     \<Rightarrow> (go_error option \<times> effect list) option" where
  "CreateNewPod R job rt index spec masterRole tr =
     (case KeyFunc (r_ext R) (job_Namespace job) (job_Name job) of
        Inl err \<Rightarrow> Some (Some err, tr)
      | Inr jobKey \<Rightarrow> do {
          let t0 = new_template (r_ctl R) job rt index spec masterRole;
          (err1, t1) \<leftarrow> SetClusterSpec (r_ctl R) job t0 rt index;
          if err1 \<noteq> None then Some (err1, tr)
          else do {
            let (t2, tr1) = setRestartPolicy rt t1 spec tr;
            let t3 = SetScheduler job t2;
            (err2, t4) \<leftarrow> SetDependence (r_conf R) (r_observers R) job t3 rt;
            if err2 \<noteq> None then Some (err2, tr1)
            else
              let key = GenExpectationPodsKey (r_ext R) jobKey rt;
                  tr2 = tr1 @ [RaiseExpectations key 1 0];
                  controllerRef = GenOwnerReference (r_ext R) job;
                  (err3, tr3) = CreatePodsWithControllerRef R (job_Namespace job) t4 job (Some controllerRef) tr2
              in Some (case err3 of
                   None \<Rightarrow> (None, tr3)
                 | Some err \<Rightarrow> if IsTimeout err then (None, tr3) else (Some err, tr3 @ [CreationObserved key])) } })"

section \<open>The loop over the slices\<close>

record slice_loop =
  expectedCreation :: int
  expectedDeletion :: int
  validatedPods :: "Pod list"
  loop_trace :: "effect list"

text \<open>\<open>DeletePod\<close> of kubeflow's pod control followed by raising the expectation of one deletion.\<close>

definition delete_and_expect ::
  "Reconciler \<Rightarrow> string \<Rightarrow> Pod \<Rightarrow> slice_loop \<Rightarrow> go_error option \<times> slice_loop" where
  "delete_and_expect R key pod s =
     (let call = DeletePod (pod_Namespace pod) (pod_Name pod);
          s1 = s\<lparr>loop_trace := loop_trace s @ [call]\<rparr>
      in case answer_err (r_server R (loop_trace s) call) of
           Some err \<Rightarrow> (Some err, s1)
         | None \<Rightarrow> (None, s1\<lparr>loop_trace := loop_trace s1 @ [RaiseExpectations key 0 1],
                           expectedDeletion := expectedDeletion s1 + 1\<rparr>))"

text \<open>The exit code of the first terminated container; the magic number stands for none.\<close>

definition pod_exit_code :: "Pod \<Rightarrow> int32" where
  "pod_exit_code pod =
     (case find (\<lambda>t. t \<noteq> None) (pod_ContainerStatuses pod) of
        Some (Some terminated) \<Rightarrow> tm_ExitCode terminated
      | _ \<Rightarrow> 0xbeef)"

definition pod_restartable :: "ext \<Rightarrow> ReplicaSpec \<Rightarrow> Pod \<Rightarrow> bool" where
  "pod_restartable E spec pod \<longleftrightarrow>
     rs_RestartPolicy spec = RestartPolicyAlways \<or> rs_RestartPolicy spec = RestartPolicyOnFailure
     \<or> rs_RestartPolicy spec = RestartPolicyExitCode \<and> IsRetryableExitCode E (pod_exit_code pod)"

text \<open>The branch of a slice that holds exactly one pod.\<close>

definition reconcile_one ::
  "Reconciler \<Rightarrow> string \<Rightarrow> ReplicaSpec \<Rightarrow> int \<Rightarrow> int \<Rightarrow> Pod \<Rightarrow> slice_loop \<Rightarrow> go_error option \<times> slice_loop" where
  "reconcile_one R key spec numReplicas index pod s0 =
     (let (err, s1) = (if index < 0 \<or> numReplicas \<le> index then delete_and_expect R key pod s0 else (None, s0))
      in if err \<noteq> None then (err, s1)
         else if pod_Phase pod = PodFailed then
           let s2 = s1\<lparr>loop_trace := loop_trace s1 @ [RecordEvent \<lparr>ev_Type = EventTypeNormal, ev_Reason = podFailedReason,
                  ev_Message = ''Pod '' @ pod_Name pod @ '' is failed: '' @ GetPodFailedInfo pod\<rparr>]\<rparr>
           in if pod_restartable (r_ext R) spec pod then delete_and_expect R key pod s2
              else (None, s2\<lparr>validatedPods := validatedPods s2 @ [pod]\<rparr>)
         else (None, s1\<lparr>validatedPods := validatedPods s1 @ [pod]\<rparr>))"

definition reconcile_slice ::
  "Reconciler \<Rightarrow> AresJob \<Rightarrow> string \<Rightarrow> ReplicaType \<Rightarrow> ReplicaSpec \<Rightarrow> (ReplicaType, ReplicaSpec option) gomap \<Rightarrow> int \<Rightarrow> int
     \<Rightarrow> Pod list \<Rightarrow> slice_loop \<Rightarrow> (go_error option \<times> slice_loop) option" where
  "reconcile_slice R job key rtype spec replicas numReplicas index podSlice s =
     (case podSlice of
        [] \<Rightarrow> do {
          rolePhase \<leftarrow> Status_RolePhase (job_Status job) rtype;
          if rs_RestartPolicy spec = RestartPolicyNever \<and> IsRoleStarted rolePhase then Some (None, s)
          else do {
            let masterRole = IsMasterRole (r_ctl R) replicas rtype index;
            (err, tr) \<leftarrow> CreateNewPod R job (ToLower rtype) (itoa index) spec masterRole (loop_trace s);
            Some (if err \<noteq> None then (err, s\<lparr>loop_trace := tr\<rparr>)
                  else (None, s\<lparr>loop_trace := tr, expectedCreation := expectedCreation s + 1\<rparr>)) } }
      | [pod] \<Rightarrow> Some (reconcile_one R key spec numReplicas index pod s)
      | _ \<Rightarrow> Some (None, s))"

fun reconcile_slices ::
  "Reconciler \<Rightarrow> AresJob \<Rightarrow> string \<Rightarrow> ReplicaType \<Rightarrow> ReplicaSpec \<Rightarrow> (ReplicaType, ReplicaSpec option) gomap \<Rightarrow> int \<Rightarrow> int
     \<Rightarrow> Pod list list \<Rightarrow> slice_loop \<Rightarrow> (go_error option \<times> slice_loop) option" where
  "reconcile_slices R job key rtype spec replicas numReplicas index [] s = Some (None, s)"
| "reconcile_slices R job key rtype spec replicas numReplicas index (podSlice # podSlices) s = do {
     (err, s') \<leftarrow> reconcile_slice R job key rtype spec replicas numReplicas index podSlice s;
     if err \<noteq> None then Some (err, s')
     else reconcile_slices R job key rtype spec replicas numReplicas (index + 1) podSlices s' }"

text \<open>The end of \<open>ReconcilePods\<close>: the phase is left alone when pods were created or deleted.\<close>

definition finish_pods ::
  "Reconciler \<Rightarrow> int \<Rightarrow> AresJob \<Rightarrow> JobStatus option \<Rightarrow> ReplicaType \<Rightarrow> go_error option \<Rightarrow> slice_loop
     \<Rightarrow> (go_error option \<times> AresJob \<times> effect list) option" where
  "finish_pods R now aresjob jobStatus rtype err s =
     (if err \<noteq> None then Some (err, aresjob, loop_trace s)
      else do {
        let job1 = aresjob\<lparr>job_Status := (job_Status aresjob)\<lparr>st_JobStatus := jobStatus\<rparr>\<rparr>;
        job2 \<leftarrow> UpdateRoleReplicas (r_nodes R) job1 rtype (validatedPods s);
        if expectedCreation s = 0 \<and> expectedDeletion s = 0 then do {
          (job3, evs) \<leftarrow> UpdateRolePhase (r_ext R) (r_nodes R) now job2 rtype (validatedPods s);
          Some (None, job3, loop_trace s @ map RecordEvent evs) }
        else Some (None, job2, loop_trace s) })"

definition ReconcilePods ::
  "Reconciler \<Rightarrow> int \<Rightarrow> AresJob \<Rightarrow> JobStatus option \<Rightarrow> Pod list \<Rightarrow> ReplicaType \<Rightarrow> ReplicaSpec option
     \<Rightarrow> (ReplicaType, ReplicaSpec option) gomap \<Rightarrow> effect list \<Rightarrow> (go_error option \<times> AresJob \<times> effect list) option" where
  "ReconcilePods R now aresjob jobStatus pods rtype specp replicas tr =
     (case KeyFunc (r_ext R) (job_Namespace aresjob) (job_Name aresjob) of
        Inl err \<Rightarrow> Some (Some err, aresjob, tr)
      | Inr jobKey \<Rightarrow> do {
          let key = GenExpectationPodsKey (r_ext R) jobKey rtype;
          let rt = ToLower rtype;
          let pods = FilterPodsForReplicaType (r_ext R) pods rt;
          spec \<leftarrow> specp;
          n \<leftarrow> rs_Replicas spec;
          let numReplicas = sint n;
          let never = (rs_RestartPolicy spec = RestartPolicyNever);
          let reconcilingPods = (if never then pods else FilterAlivePods pods);
          let validated0 = (if never then [] else FilterTerminatingPods pods);
          podSlices \<leftarrow> GetPodSlices (r_ext R) reconcilingPods numReplicas;
          (err, s) \<leftarrow> reconcile_slices R aresjob key rtype spec replicas numReplicas 0 podSlices
             \<lparr>expectedCreation = 0, expectedDeletion = 0, validatedPods = validated0, loop_trace = tr\<rparr>;
          finish_pods R now aresjob jobStatus rtype err s })"

section \<open>Ports and metadata\<close>

definition GetPort :: "controller \<Rightarrow> AresJob \<Rightarrow> ReplicaType \<Rightarrow> int32 result option" where
  "GetPort ctl job rtype = do {
     roleSpec \<leftarrow> gm_ptr (spec_RoleSpecs (job_Spec job)) rtype;
     rspec \<leftarrow> role_ReplicaSpec roleSpec;
     let containers = ps_Containers (pt_Spec (rs_Template rspec));
     let ports = concat (map ctr_Ports (filter (\<lambda>container. ctr_Name container = GetDefaultContainerName ctl) containers));
     Some (case find (\<lambda>port. cp_Name port = GetDefaultContainerPortName ctl) ports of
       Some port \<Rightarrow> Inr (cp_ContainerPort port)
     | None \<Rightarrow> Inl ErrPortNotFound) }"

text \<open>\<open>SyncToPod\<close>: \<open>listed\<close> answers the list of the pods of the job.\<close>

fun sync_pods :: "server \<Rightarrow> labels \<Rightarrow> Pod list \<Rightarrow> effect list \<Rightarrow> go_error option \<times> effect list" where
  "sync_pods srv ann [] tr = (None, tr)"
| "sync_pods srv ann (pod # pods) tr =
     (let call = (\<lambda>p. PatchObject (pod_Namespace pod) (pod_Name pod) p);
          (err, sent) = patchMetadata (\<lambda>p. answer_err (srv tr (call p))) ann (pod_Annotations pod) (pod_Labels pod);
          tr' = (case sent of None \<Rightarrow> tr | Some p \<Rightarrow> tr @ [call p])
      in if err \<noteq> None then (err, tr') else sync_pods srv ann pods tr')"

definition SyncToPod :: "Reconciler \<Rightarrow> AresJob \<Rightarrow> Pod list result \<Rightarrow> effect list \<Rightarrow> go_error option \<times> effect list" where
  "SyncToPod R job listed tr =
     (case listed of
        Inl err \<Rightarrow> (Some err, tr)
      | Inr pods \<Rightarrow> sync_pods (r_server R) (job_Annotations job) pods tr)"

section \<open>Slices\<close>

text \<open>What kubeflow's \<open>MaxInt\<close> is documented to compute.\<close>

definition max_int_ok :: "ext \<Rightarrow> bool" where
  "max_int_ok E \<longleftrightarrow> MaxInt E = max"

abbreviation slice_step :: "ext \<Rightarrow> Pod \<Rightarrow> Pod list list \<Rightarrow> Pod list list option" where
  "slice_step E \<equiv> (\<lambda>pod slices.
      case pod_index E pod of
        None \<Rightarrow> Some slices
      | Some index \<Rightarrow> do {
          slice \<leftarrow> slice_at slices index;
          Some (slices[nat index := slice @ [pod]]) })"

definition pods_at :: "ext \<Rightarrow> Pod list \<Rightarrow> nat \<Rightarrow> Pod list" where
  "pods_at E pods i = filter (\<lambda>p. pod_index E p = Some (int i)) pods"

lemma slice_loop_run:
  assumes "\<forall>p \<in> set pods. \<forall>i. pod_index E p = Some i \<longrightarrow> 0 \<le> i \<and> i < int (length slices)"
  shows "mfold (slice_step E) pods slices = Some (map (\<lambda>i. slices ! i @ pods_at E pods i) [0..<length slices])"
  using assms
proof (induction pods arbitrary: slices)
  case Nil
  then show ?case by (simp add: pods_at_def map_nth)
next
  case (Cons p pods)
  show ?case
  proof (cases "pod_index E p")
    case None
    with Cons show ?thesis by (simp add: pods_at_def)
  next
    case (Some j)
    with Cons.prems have j: "0 \<le> j" "j < int (length slices)" by auto
    then have nj: "nat j < length slices" "int (nat j) = j" by simp_all
    let ?slices = "slices[nat j := slices ! nat j @ [p]]"
    have "mfold (slice_step E) pods ?slices = Some (map (\<lambda>i. ?slices ! i @ pods_at E pods i) [0..<length ?slices])"
      using Cons.prems by (intro Cons.IH) auto
    moreover have "map (\<lambda>i. ?slices ! i @ pods_at E pods i) [0..<length ?slices]
        = map (\<lambda>i. slices ! i @ pods_at E (p # pods) i) [0..<length slices]"
      using Some nj by (auto simp: pods_at_def nth_list_update)
    ultimately show ?thesis using Some j by (simp add: slice_at_def)
  qed
qed

lemma slice_size_bounds:
  assumes "max_int_ok E" "\<forall>p \<in> set pods. \<forall>i. pod_index E p = Some i \<longrightarrow> i < 2 ^ 63 - 1"
  shows "\<forall>p \<in> set pods. \<forall>i. pod_index E p = Some i \<longrightarrow> i < calculatePodSliceSize E pods n"
    and "n \<le> calculatePodSliceSize E pods n" "1 \<le> calculatePodSliceSize E pods n"
proof -
  let ?f = "\<lambda>size pod. case pod_index E pod of None \<Rightarrow> size | Some index \<Rightarrow> MaxInt E size index"
  have loop: "a \<le> foldl ?f a ps \<and> (a < 2 ^ 63 - 1 \<longrightarrow> foldl ?f a ps < 2 ^ 63 - 1)
      \<and> (\<forall>p \<in> set ps. \<forall>i. pod_index E p = Some i \<longrightarrow> i \<le> foldl ?f a ps)"
    if "\<forall>p \<in> set ps. \<forall>i. pod_index E p = Some i \<longrightarrow> i < 2 ^ 63 - 1" for a ps
    using that
  proof (induction ps arbitrary: a)
    case (Cons p ps)
    have "\<forall>q \<in> set ps. \<forall>i. pod_index E q = Some i \<longrightarrow> i < 2 ^ 63 - 1" using Cons.prems by auto
    note IH = Cons.IH[OF this, of "?f a p"]
    show ?case
    proof (cases "pod_index E p")
      case (Some i)
      with Cons.prems assms(1) have f: "?f a p = max a i" "i < 2 ^ 63 - 1" by (auto simp: max_int_ok_def)
      with IH Some show ?thesis by auto
    qed (use IH in auto)
  qed simp
  have l: "0 \<le> foldl ?f 0 pods" "foldl ?f 0 pods < 2 ^ 63 - 1"
    "\<forall>p \<in> set pods. \<forall>i. pod_index E p = Some i \<longrightarrow> i \<le> foldl ?f 0 pods"
    using loop[OF assms(2), of 0] by auto
  have size: "calculatePodSliceSize E pods n = max (foldl ?f 0 pods + 1) n"
    using assms(1) l by (simp add: calculatePodSliceSize_def Let_def max_int_ok_def wrap64_id)
  show "\<forall>p \<in> set pods. \<forall>i. pod_index E p = Some i \<longrightarrow> i < calculatePodSliceSize E pods n"
    unfolding size using l(3) by force
  show "n \<le> calculatePodSliceSize E pods n" "1 \<le> calculatePodSliceSize E pods n"
    unfolding size using l(1) by auto
qed

lemma GetPodSlices_run:
  assumes "max_int_ok E"
    and "\<forall>p \<in> set pods. \<forall>i. pod_index E p = Some i \<longrightarrow> 0 \<le> i \<and> i < 2 ^ 63 - 1"
  shows "GetPodSlices E pods n = Some (map (pods_at E pods) [0..<nat (calculatePodSliceSize E pods n)])"
proof -
  let ?size = "calculatePodSliceSize E pods n"
  have b: "\<forall>p \<in> set pods. \<forall>i. pod_index E p = Some i \<longrightarrow> i < 2 ^ 63 - 1" using assms(2) by blast
  note size = slice_size_bounds[OF assms(1) b, of n]
  have "mfold (slice_step E) pods (replicate (nat ?size) []) =
      Some (map (\<lambda>i. replicate (nat ?size) [] ! i @ pods_at E pods i) [0..<length (replicate (nat ?size) ([] :: Pod list))])"
    using assms(2) size by (intro slice_loop_run) auto
  with size(3) show ?thesis by (simp add: GetPodSlices_def Let_def)
qed

lemma slice_size_exact:
  assumes "max_int_ok E" "0 < n" "n < 2 ^ 63" "\<forall>p \<in> set pods. \<forall>i. pod_index E p = Some i \<longrightarrow> 0 \<le> i \<and> i < n"
  shows "calculatePodSliceSize E pods n = n"
proof -
  let ?f = "\<lambda>size pod. case pod_index E pod of None \<Rightarrow> size | Some index \<Rightarrow> MaxInt E size index"
  have "0 \<le> foldl ?f a ps \<and> foldl ?f a ps < n"
    if "0 \<le> a" "a < n" "\<forall>p \<in> set ps. \<forall>i. pod_index E p = Some i \<longrightarrow> 0 \<le> i \<and> i < n" for a ps
    using that
  proof (induction ps arbitrary: a)
    case (Cons p ps)
    then have "0 \<le> ?f a p" "?f a p < n"
      using assms(1) by (auto simp: max_int_ok_def split: option.splits)
    with Cons show ?case by simp
  qed simp
  from this[of 0 pods] assms(2,4) have l: "0 \<le> foldl ?f 0 pods" "foldl ?f 0 pods < n" by auto
  then have "wrap64 (foldl ?f 0 pods + 1) = foldl ?f 0 pods + 1" using assms(3) by (intro wrap64_id) auto
  with l assms(1) show ?thesis by (simp add: calculatePodSliceSize_def Let_def max_int_ok_def)
qed

text \<open>A pod whose index label is a negative number makes the operator panic.\<close>

lemma slice_loop_panics:
  "\<exists>p \<in> set pods. \<exists>i < 0. pod_index E p = Some i \<Longrightarrow> mfold (slice_step E) pods slices = None"
  by (induction pods arbitrary: slices) (auto simp: slice_at_def Option.bind_eq_None_conv split: option.splits)

lemma GetPodSlices_panics:
  "\<exists>p \<in> set pods. \<exists>i < 0. pod_index E p = Some i \<Longrightarrow> GetPodSlices E pods n = None"
  by (simp add: GetPodSlices_def Let_def slice_loop_panics)

section \<open>The identity of a pod\<close>

text \<open>
  Labels, names and host names make up the identity of a pod in its job. The contract of a framework's
  \<open>SetClusterSpec\<close> is that it configures containers and leaves the identity alone; it is what the reconciler relies
  on to find its pods again.
\<close>

definition same_identity :: "PodTemplateSpec \<Rightarrow> PodTemplateSpec \<Rightarrow> bool" where
  "same_identity t t' \<longleftrightarrow> pt_Labels t' = pt_Labels t \<and> pt_Name t' = pt_Name t \<and> pt_GenerateName t' = pt_GenerateName t
     \<and> ps_Hostname (pt_Spec t') = ps_Hostname (pt_Spec t) \<and> ps_Subdomain (pt_Spec t') = ps_Subdomain (pt_Spec t)"

lemma same_identity_refl [simp]: "same_identity t t"
  by (simp add: same_identity_def)

lemma same_identity_trans: "same_identity t u \<Longrightarrow> same_identity u v \<Longrightarrow> same_identity t v"
  by (simp add: same_identity_def)

lemma setRestartPolicy_identity: "setRestartPolicy rt t spec tr = (t', tr') \<Longrightarrow> same_identity t t'"
  by (auto simp: setRestartPolicy_def Let_def same_identity_def)

lemma setRestartPolicy_effects:
  "setRestartPolicy rt t spec tr = (t', tr') \<Longrightarrow> \<exists>evs. tr' = tr @ map RecordEvent evs"
  by (auto simp: setRestartPolicy_def Let_def split: if_splits intro: exI[of _ "[]"] exI[of _ "[_]"])

lemma SetScheduler_identity: "same_identity t (SetScheduler job t)"
  by (simp add: SetScheduler_def same_identity_def)

lemma AddWaiter_identity:
  assumes "AddWaiter config listed job t r = Some (err, t')"
  shows "same_identity t t'"
proof -
  from assms obtain res t1 cmd where a: "addInitContainer config listed job t r cmd = Some (res, t1)"
    and t': "(case res of Inl e \<Rightarrow> (Some e, t1) | Inr c \<Rightarrow> (None, prependInitContainer c t1)) = (err, t')"
    unfolding AddWaiter_def Let_def by (auto simp: Option.bind_eq_Some_conv)
  from addInitContainer_effect(1)[OF a] t' show ?thesis
    by (auto simp: same_identity_def prependInitContainer_def split: sum.splits)
qed

lemma AddMPIInitializer_identity:
  assumes "AddMPIInitializer config listed job t r = Some (err, t')"
  shows "same_identity t t'"
proof -
  from assms obtain vols ctrs res t1 cmd m where
    a: "addInitContainer config listed job (t\<lparr>pt_Spec := (pt_Spec t)\<lparr>ps_Volumes := vols, ps_Containers := ctrs\<rparr>\<rparr>) r cmd = Some (res, t1)"
    and t': "(case res of Inl e \<Rightarrow> (Some e, t1)
        | Inr c \<Rightarrow> (None, prependInitContainer (c\<lparr>ctr_VolumeMounts := m # ctr_VolumeMounts c\<rparr>) t1)) = (err, t')"
    unfolding AddMPIInitializer_def Let_def by (auto simp: Option.bind_eq_Some_conv)
  from addInitContainer_effect(1)[OF a] t' show ?thesis
    by (auto simp: same_identity_def prependInitContainer_def split: sum.splits)
qed

lemma SetDependence_identity: "SetDependence config listed job t r = Some (err, t') \<Longrightarrow> same_identity t t'"
  by (auto simp: SetDependence_def dest: AddWaiter_identity AddMPIInitializer_identity split: option.splits if_splits)

lemma new_template_labels:
  "gm_get (pt_Labels (new_template ctl job rt index spec b)) ReplicaTypeLabel = Some rt"
  "gm_get (pt_Labels (new_template ctl job rt index spec b)) ReplicaIndexLabel = Some index"
  "\<forall>(k, v) \<in> set (GenLabels ctl (job_Name job)). gm_get (pt_Labels (new_template ctl job rt index spec b)) k = Some v"
proof -
  have level: "map_of (rev (filter (\<lambda>(key, value). IsJobLevelKey key) al)) k = None" if "\<not> IsJobLevelKey k" for al k
    using that by (auto simp: map_of_eq_None_iff)
  have nl: "\<not> IsJobLevelKey ReplicaTypeLabel" "\<not> IsJobLevelKey ReplicaIndexLabel"
    "\<not> IsJobLevelKey GroupNameLabel" "\<not> IsJobLevelKey JobNameLabel"
    by (simp_all add: IsJobLevelKey_def go_consts)
  have "map_of (rev (pod_labels ctl job rt index b)) ReplicaTypeLabel = Some rt"
    "map_of (rev (pod_labels ctl job rt index b)) ReplicaIndexLabel = Some index"
    "map_of (rev (pod_labels ctl job rt index b)) GroupNameLabel = Some (GetGroupNameLabelValue ctl)"
    "map_of (rev (pod_labels ctl job rt index b)) JobNameLabel = Some (replace_char (CHR ''/'') (CHR ''-'') (job_Name job))"
    by (simp_all add: pod_labels_def GenLabels_def Let_def go_consts)
  then show "gm_get (pt_Labels (new_template ctl job rt index spec b)) ReplicaTypeLabel = Some rt"
    "gm_get (pt_Labels (new_template ctl job rt index spec b)) ReplicaIndexLabel = Some index"
    "\<forall>(k, v) \<in> set (GenLabels ctl (job_Name job)). gm_get (pt_Labels (new_template ctl job rt index spec b)) k = Some v"
    by (simp_all add: new_template_def Let_def write_all_get level nl GenLabels_def)
qed

text \<open>The pod of an index, as far as the reconciler cares: its controller, its labels and its host name.\<close>

definition wanted_pod :: "controller \<Rightarrow> ext \<Rightarrow> AresJob \<Rightarrow> string \<Rightarrow> string \<Rightarrow> new_pod \<Rightarrow> bool" where
  "wanted_pod ctl E job rt index p \<longleftrightarrow>
     np_Controller p = Some (GenOwnerReference E job)
     \<and> gm_get (pt_Labels (np_Object p)) ReplicaTypeLabel = Some rt
     \<and> gm_get (pt_Labels (np_Object p)) ReplicaIndexLabel = Some index
     \<and> (\<forall>(k, v) \<in> set (GenLabels ctl (job_Name job)). gm_get (pt_Labels (np_Object p)) k = Some v)
     \<and> ps_Hostname (pt_Spec (np_Object p)) = GeneratePodName ctl (job_Name job) rt index
     \<and> ps_Subdomain (pt_Spec (np_Object p)) = GetGeneralSharedName (job_Name job) rt"

lemma wanted_podI:
  assumes "same_identity (new_template ctl job rt index spec b) t" "np_Controller p = Some (GenOwnerReference E job)"
    "pt_Labels (np_Object p) = pt_Labels t" "pt_Spec (np_Object p) = pt_Spec t"
  shows "wanted_pod ctl E job rt index p"
  using assms new_template_labels[of ctl job rt index spec b]
  by (simp add: wanted_pod_def same_identity_def new_template_def Let_def)

fun bookkeeping :: "effect \<Rightarrow> bool" where
  "bookkeeping (RecordEvent ev) = True"
| "bookkeeping (RaiseExpectations k a d) = True"
| "bookkeeping (CreationObserved k) = True"
| "bookkeeping _ = False"

text \<open>What the reconciler needs of kubeflow's pod control for its own jobs: it builds pods and accepts the owner.\<close>

definition pod_control_ok :: "ext \<Rightarrow> bool" where
  "pod_control_ok E \<longleftrightarrow> pods_from_templates E
     \<and> (\<forall>t job ref. \<exists>p. GetPodFromTemplate E t job ref = Inr p)
     \<and> (\<forall>job. ValidateControllerRef E (Some (GenOwnerReference E job)) = None)"

lemma plain_pod_control: "pod_control_ok plain_ext"
  using plain_pods_from_templates by (simp add: pod_control_ok_def plain_ext_def)

locale pod_identity =
  fixes ctl :: controller
  assumes keeps_identity: "SetClusterSpec ctl job t rt index = Some (None, t') \<Longrightarrow> same_identity t t'"
begin

text \<open>The steps of \<open>CreateNewPod\<close> up to the call of the pod control, when none of them fails.\<close>

lemma CreateNewPod_prepared:
  assumes "r_ctl R = ctl" "CreateNewPod R job rt index spec b tr = Some (err, tr')"
  shows "grows bookkeeping tr tr' \<and> err \<noteq> None \<or>
     (\<exists>evs t key err3 tr3. same_identity (new_template ctl job rt index spec b) t \<and>
        CreatePodsWithControllerRef R (job_Namespace job) t job (Some (GenOwnerReference (r_ext R) job))
          (tr @ map RecordEvent evs @ [RaiseExpectations key 1 0]) = (err3, tr3) \<and>
        (err, tr') = (case err3 of None \<Rightarrow> (None, tr3)
           | Some e \<Rightarrow> if IsTimeout e then (None, tr3) else (Some e, tr3 @ [CreationObserved key])))"
proof (cases "KeyFunc (r_ext R) (job_Namespace job) (job_Name job)")
  case (Inl e)
  with assms show ?thesis by (auto simp: CreateNewPod_def)
next
  case (Inr jobKey)
  let ?t0 = "new_template ctl job rt index spec b"
  from assms Inr obtain err1 t1 where c: "SetClusterSpec ctl job ?t0 rt index = Some (err1, t1)"
    by (auto simp: CreateNewPod_def Let_def Option.bind_eq_Some_conv)
  show ?thesis
  proof (cases err1)
    case (Some e)
    with assms Inr c show ?thesis by (auto simp: CreateNewPod_def Let_def)
  next
    case None
    obtain t2 tr1 where rp: "setRestartPolicy rt t1 spec tr = (t2, tr1)" by fastforce
    with assms Inr c None obtain err2 t4 where d: "SetDependence (r_conf R) (r_observers R) job (SetScheduler job t2) rt = Some (err2, t4)"
      by (auto simp: CreateNewPod_def Let_def Option.bind_eq_Some_conv)
    from setRestartPolicy_effects[OF rp] obtain evs where evs: "tr1 = tr @ map RecordEvent evs" by blast
    have id: "same_identity ?t0 t4"
      using keeps_identity[OF c[unfolded None]] setRestartPolicy_identity[OF rp] SetScheduler_identity[of t2 job]
        SetDependence_identity[OF d] same_identity_trans by blast
    show ?thesis
    proof (cases err2)
      case (Some e)
      with assms Inr c None rp d evs show ?thesis by (auto simp: CreateNewPod_def Let_def intro!: grows_append)
    next
      case ok: None
      define key where "key = GenExpectationPodsKey (r_ext R) jobKey rt"
      obtain err3 tr3 where p: "CreatePodsWithControllerRef R (job_Namespace job) t4 job
          (Some (GenOwnerReference (r_ext R) job)) (tr1 @ [RaiseExpectations key 1 0]) = (err3, tr3)" by fastforce
      let ?res = "case err3 of None \<Rightarrow> (None, tr3)
           | Some e \<Rightarrow> if IsTimeout e then (None, tr3) else (Some e, tr3 @ [CreationObserved key])"
      have "CreateNewPod R job rt index spec b tr = Some ?res"
        using assms(1) Inr c None rp d ok p unfolding key_def by (simp add: CreateNewPod_def Let_def)
      with assms(2) have "(err, tr') = ?res" by simp
      moreover have "CreatePodsWithControllerRef R (job_Namespace job) t4 job (Some (GenOwnerReference (r_ext R) job))
          (tr @ map RecordEvent evs @ [RaiseExpectations key 1 0]) = (err3, tr3)"
        using p evs by simp
      ultimately show ?thesis using id by blast
    qed
  qed
qed

lemma CreateNewPod_effects:
  assumes "pods_from_templates (r_ext R)" "r_ctl R = ctl" "CreateNewPod R job rt index spec b tr = Some (err, tr')"
  shows "grows (\<lambda>e. bookkeeping e \<or> (\<exists>p. e = PodsCreate (job_Namespace job) p \<and> wanted_pod ctl (r_ext R) job rt index p)) tr tr'"
    (is "grows ?P tr tr'")
  using CreateNewPod_prepared[OF assms(2,3)]
proof (elim disjE exE conjE)
  fix evs t key err3 tr3
  assume id: "same_identity (new_template ctl job rt index spec b) t"
    and c: "CreatePodsWithControllerRef R (job_Namespace job) t job (Some (GenOwnerReference (r_ext R) job))
          (tr @ map RecordEvent evs @ [RaiseExpectations key 1 0]) = (err3, tr3)"
    and res: "(err, tr') = (case err3 of None \<Rightarrow> (None, tr3)
           | Some e \<Rightarrow> if IsTimeout e then (None, tr3) else (Some e, tr3 @ [CreationObserved key]))"
  have "grows ?P tr (tr @ map RecordEvent evs @ [RaiseExpectations key 1 0])" by (auto intro!: grows_append)
  also have "grows ?P \<dots> tr3"
    using CreatePodsWithControllerRef_effects(1)[OF assms(1) c]
    by (rule grows_mono) (auto simp: pod_request_def intro!: wanted_podI[OF id])
  also have "grows ?P tr3 tr'"
    using res by (auto split: option.splits if_splits intro!: grows_append)
  finally show ?thesis .
qed (auto elim: grows_mono)

text \<open>When it reports no error it has asked for the pod.\<close>

lemma CreateNewPod_issues:
  assumes "pod_control_ok (r_ext R)" "r_ctl R = ctl" "CreateNewPod R job rt index spec b tr = Some (None, tr')"
  shows "\<exists>p \<in> {p. wanted_pod ctl (r_ext R) job rt index p}. PodsCreate (job_Namespace job) p \<in> set (drop (length tr) tr')"
proof -
  have E: "pods_from_templates (r_ext R)" using assms(1) by (simp add: pod_control_ok_def)
  from CreateNewPod_prepared[OF assms(2,3)] obtain evs t key err3 tr3 where
    id: "same_identity (new_template ctl job rt index spec b) t"
    and c: "CreatePodsWithControllerRef R (job_Namespace job) t job (Some (GenOwnerReference (r_ext R) job))
          (tr @ map RecordEvent evs @ [RaiseExpectations key 1 0]) = (err3, tr3)"
    and res: "(None, tr') = (case err3 of None \<Rightarrow> (None, tr3)
           | Some e \<Rightarrow> if IsTimeout e then (None, tr3) else (Some e, tr3 @ [CreationObserved key]))" by blast
  have "gm_get (pt_Labels t) ReplicaTypeLabel = Some rt"
    using id new_template_labels(1)[of ctl job rt index spec b] by (simp add: same_identity_def)
  then have len: "gm_len (pt_Labels t) \<noteq> 0" by (auto simp: gm_get_def gm_len_def)
  have v: "ValidateControllerRef (r_ext R) (Some (GenOwnerReference (r_ext R) job)) = None"
    using assms(1) by (simp add: pod_control_ok_def)
  obtain p0 where g: "GetPodFromTemplate (r_ext R) t job (Some (GenOwnerReference (r_ext R) job)) = Inr p0"
    using assms(1) unfolding pod_control_ok_def by blast
  from CreatePodsWithControllerRef_effects(2)[OF E c v g len] obtain p es where
    tr3: "tr3 = (tr @ map RecordEvent evs @ [RaiseExpectations key 1 0]) @ PodsCreate (job_Namespace job) p # es" by blast
  have "tr' = tr3" using res by (auto split: option.splits if_splits)
  with tr3 have mem: "PodsCreate (job_Namespace job) p \<in> set (drop (length tr) tr')" by simp
  from CreateNewPod_effects[OF E assms(2,3)] mem have "wanted_pod ctl (r_ext R) job rt index p"
    unfolding grows_def by fastforce
  with mem show ?thesis by blast
qed

end

interpretation base: pod_identity "base_controller E" for E
  by unfold_locales (simp add: base_controller_def)

section \<open>The effects of the loop\<close>

definition role_started :: "AresJob \<Rightarrow> ReplicaType \<Rightarrow> bool" where
  "role_started job rtype \<longleftrightarrow> (\<exists>p. Status_RolePhase (job_Status job) rtype = Some p \<and> IsRoleStarted p)"

text \<open>What may happen at an index: a pod is asked for where there is none, the only pod is deleted for a reason.\<close>

definition slice_effect ::
  "Reconciler \<Rightarrow> AresJob \<Rightarrow> ReplicaType \<Rightarrow> ReplicaSpec \<Rightarrow> int \<Rightarrow> int \<Rightarrow> Pod list \<Rightarrow> effect \<Rightarrow> bool" where
  "slice_effect R job rtype spec n i sl e \<longleftrightarrow> bookkeeping e
     \<or> (\<exists>p. e = PodsCreate (job_Namespace job) p \<and> sl = []
          \<and> wanted_pod (r_ctl R) (r_ext R) job (ToLower rtype) (itoa i) p
          \<and> \<not> (rs_RestartPolicy spec = RestartPolicyNever \<and> role_started job rtype))
     \<or> (\<exists>pod. e = DeletePod (pod_Namespace pod) (pod_Name pod) \<and> sl = [pod]
          \<and> (i < 0 \<or> n \<le> i \<or> pod_Phase pod = PodFailed \<and> pod_restartable (r_ext R) spec pod))"

lemma delete_and_expect_run:
  assumes "delete_and_expect R key pod s = (err, s')"
  shows "grows (\<lambda>e. bookkeeping e \<or> e = DeletePod (pod_Namespace pod) (pod_Name pod)) (loop_trace s) (loop_trace s')"
    and "validatedPods s' = validatedPods s" "expectedCreation s' = expectedCreation s"
    and "err = None \<Longrightarrow> expectedDeletion s' = expectedDeletion s + 1"
  using assms by (auto simp: delete_and_expect_def Let_def split: option.splits intro!: grows_append)

lemma reconcile_one_effects:
  assumes "reconcile_one R key spec n i pod s = (err, s')"
  shows "grows (slice_effect R job rtype spec n i [pod]) (loop_trace s) (loop_trace s')"
    (is "grows ?P _ _")
proof -
  have del: "grows ?P (loop_trace a) (loop_trace b)"
    if "delete_and_expect R key pod a = (e, b)" "i < 0 \<or> n \<le> i \<or> pod_Phase pod = PodFailed \<and> pod_restartable (r_ext R) spec pod"
    for a b e
    using delete_and_expect_run(1)[OF that(1)] by (rule grows_mono) (use that(2) in \<open>auto simp: slice_effect_def\<close>)
  have ev: "grows ?P tr (tr @ [RecordEvent x])" for tr x
    by (rule grows_append) (simp add: slice_effect_def)
  obtain e1 s1 where d: "(if i < 0 \<or> n \<le> i then delete_and_expect R key pod s else (None, s)) = (e1, s1)" by fastforce
  then have g1: "grows ?P (loop_trace s) (loop_trace s1)" using del by (auto split: if_splits)
  show ?thesis
  proof (cases "e1 = None \<and> pod_Phase pod = PodFailed")
    case False
    then show ?thesis using assms d g1 by (auto simp: reconcile_one_def split: if_splits)
  next
    case True
    let ?s2 = "s1\<lparr>loop_trace := loop_trace s1 @ [RecordEvent \<lparr>ev_Type = EventTypeNormal, ev_Reason = podFailedReason,
                  ev_Message = ''Pod '' @ pod_Name pod @ '' is failed: '' @ GetPodFailedInfo pod\<rparr>]\<rparr>"
    have g2: "grows ?P (loop_trace s) (loop_trace ?s2)" using g1 ev grows_trans by fastforce
    show ?thesis
    proof (cases "pod_restartable (r_ext R) spec pod")
      case r: True
      with True assms d have "delete_and_expect R key pod ?s2 = (err, s')" by (simp add: reconcile_one_def)
      with del True r g2 grows_trans show ?thesis by blast
    next
      case False
      with True assms d have "loop_trace s' = loop_trace ?s2" by (auto simp: reconcile_one_def)
      with g2 show ?thesis by simp
    qed
  qed
qed

lemma Status_RolePhase_started:
  "Status_RolePhase (job_Status job) rtype = Some p \<Longrightarrow> role_started job rtype \<longleftrightarrow> IsRoleStarted p"
  by (simp add: role_started_def)

text \<open>The three shapes of a slice.\<close>

lemma reconcile_slice_cases:
  assumes "reconcile_slice R job key rtype spec replicas n i sl s = Some (err, s')"
  obtains (many) "2 \<le> length sl" "err = None" "s' = s"
    | (kept) "sl = []" "rs_RestartPolicy spec = RestartPolicyNever" "role_started job rtype" "err = None" "s' = s"
    | (create) b tr where "sl = []" "\<not> (rs_RestartPolicy spec = RestartPolicyNever \<and> role_started job rtype)"
        "CreateNewPod R job (ToLower rtype) (itoa i) spec b (loop_trace s) = Some (err, tr)"
        "s' = (if err = None then s\<lparr>loop_trace := tr, expectedCreation := expectedCreation s + 1\<rparr> else s\<lparr>loop_trace := tr\<rparr>)"
    | (one) pod where "sl = [pod]" "reconcile_one R key spec n i pod s = (err, s')"
proof -
  consider "sl = []" | pod where "sl = [pod]" | "2 \<le> length sl" by (cases sl rule: list.exhaust[of _ thesis]; cases "tl sl") auto
  then show thesis
  proof cases
    case 1
    with assms obtain p where p: "Status_RolePhase (job_Status job) rtype = Some p"
      by (auto simp: reconcile_slice_def Option.bind_eq_Some_conv)
    note st = Status_RolePhase_started[OF p]
    show thesis
    proof (cases "rs_RestartPolicy spec = RestartPolicyNever \<and> IsRoleStarted p")
      case True
      with 1 assms p st show thesis by (intro kept) (auto simp: reconcile_slice_def)
    next
      case False
      with 1 assms p obtain e tr where c:
        "CreateNewPod R job (ToLower rtype) (itoa i) spec (IsMasterRole (r_ctl R) replicas rtype i) (loop_trace s) = Some (e, tr)"
        "(if e \<noteq> None then (e, s\<lparr>loop_trace := tr\<rparr>) else (None, s\<lparr>loop_trace := tr, expectedCreation := expectedCreation s + 1\<rparr>)) = (err, s')"
        by (auto simp: reconcile_slice_def Let_def Option.bind_eq_Some_conv)
      from c(2) have "e = err" "s' = (if err = None then s\<lparr>loop_trace := tr, expectedCreation := expectedCreation s + 1\<rparr> else s\<lparr>loop_trace := tr\<rparr>)"
        by (auto split: if_splits)
      with 1 False st c(1) show thesis by (intro create) auto
    qed
  next
    case (2 pod)
    with assms show thesis by (intro one) (auto simp: reconcile_slice_def)
  next
    case 3
    then obtain a b cs where "sl = a # b # cs" by (auto simp: Suc_le_length_iff numeral_2_eq_2)
    with assms show thesis by (intro many) (auto simp: reconcile_slice_def)
  qed
qed

context pod_identity
begin

lemma reconcile_slice_effects:
  assumes "pods_from_templates (r_ext R)" "r_ctl R = ctl"
    and "reconcile_slice R job key rtype spec replicas n i sl s = Some (err, s')"
  shows "grows (slice_effect R job rtype spec n i sl) (loop_trace s) (loop_trace s')"
  using assms(3)
proof (cases rule: reconcile_slice_cases)
  case (create b tr)
  from CreateNewPod_effects[OF assms(1,2) create(3)] have "grows (slice_effect R job rtype spec n i sl) (loop_trace s) tr"
    by (rule grows_mono) (use create assms(2) in \<open>auto simp: slice_effect_def\<close>)
  then show ?thesis using create(4) by simp
qed (auto intro: reconcile_one_effects)

lemma reconcile_slices_effects:
  assumes "pods_from_templates (r_ext R)" "r_ctl R = ctl"
    and "reconcile_slices R job key rtype spec replicas n i slices s = Some (err, s')"
  shows "grows (\<lambda>e. \<exists>k < length slices. slice_effect R job rtype spec n (i + int k) (slices ! k) e) (loop_trace s) (loop_trace s')"
  using assms(3)
proof (induction slices arbitrary: i s)
  case (Cons sl slices)
  from Cons.prems obtain e t where t: "reconcile_slice R job key rtype spec replicas n i sl s = Some (e, t)"
    by (auto simp: Option.bind_eq_Some_conv)
  have g1: "grows (\<lambda>e. \<exists>k < length (sl # slices). slice_effect R job rtype spec n (i + int k) ((sl # slices) ! k) e) (loop_trace s) (loop_trace t)"
    using reconcile_slice_effects[OF assms(1,2) t] by (rule grows_mono) (auto intro!: exI[of _ 0])
  show ?case
  proof (cases e)
    case None
    with Cons.prems t have "reconcile_slices R job key rtype spec replicas n (i + 1) slices t = Some (err, s')" by simp
    from Cons.IH[OF this]
    have "grows (\<lambda>e. \<exists>k < length (sl # slices). slice_effect R job rtype spec n (i + int k) ((sl # slices) ! k) e) (loop_trace t) (loop_trace s')"
    proof (rule grows_mono)
      fix e assume "\<exists>k<length slices. slice_effect R job rtype spec n (i + 1 + int k) (slices ! k) e"
      then obtain k where "k < length slices" "slice_effect R job rtype spec n (i + 1 + int k) (slices ! k) e" by blast
      then show "\<exists>k < length (sl # slices). slice_effect R job rtype spec n (i + int k) ((sl # slices) ! k) e"
        by (intro exI[of _ "Suc k"]) (simp add: add_ac)
    qed
    with g1 show ?thesis by (rule grows_trans)
  next
    case (Some x)
    with Cons.prems t g1 show ?thesis by simp
  qed
qed simp

text \<open>Every index without a pod gets one when the loop reports no error.\<close>

lemma reconcile_slices_creates:
  assumes "pod_control_ok (r_ext R)" "r_ctl R = ctl"
    and "reconcile_slices R job key rtype spec replicas n i slices s = Some (None, s')"
    and "\<not> (rs_RestartPolicy spec = RestartPolicyNever \<and> role_started job rtype)"
    and "k < length slices" "slices ! k = []"
  shows "\<exists>p. PodsCreate (job_Namespace job) p \<in> set (drop (length (loop_trace s)) (loop_trace s'))
     \<and> wanted_pod ctl (r_ext R) job (ToLower rtype) (itoa (i + int k)) p"
  using assms(3,5,6)
proof (induction slices arbitrary: i s k)
  case (Cons sl slices)
  have E: "pods_from_templates (r_ext R)" using assms(1) by (simp add: pod_control_ok_def)
  from Cons.prems(1) obtain t where t: "reconcile_slice R job key rtype spec replicas n i sl s = Some (None, t)"
    and rest: "reconcile_slices R job key rtype spec replicas n (i + 1) slices t = Some (None, s')"
    by (auto simp: Option.bind_eq_Some_conv split: if_splits)
  from reconcile_slice_effects[OF E assms(2) t] obtain es where es: "loop_trace t = loop_trace s @ es"
    by (auto simp: grows_def)
  from reconcile_slices_effects[OF E assms(2) rest] obtain fs where fs: "loop_trace s' = loop_trace t @ fs"
    by (auto simp: grows_def)
  show ?case
  proof (cases k)
    case (Suc j)
    with Cons.IH[OF rest, of j] Cons.prems(2,3) es fs show ?thesis by (auto simp: add_ac)
  next
    case 0
    with Cons.prems have "sl = []" by simp
    with t assms(4) obtain b tr where c: "CreateNewPod R job (ToLower rtype) (itoa i) spec b (loop_trace s) = Some (None, tr)"
      "loop_trace t = tr"
      by (cases rule: reconcile_slice_cases) auto
    from CreateNewPod_issues[OF assms(1,2) c(1)] c(2) es fs 0 show ?thesis by auto
  qed
qed simp

end

text \<open>When neither counter moves, nothing was created or deleted.\<close>

lemma reconcile_slice_counters:
  assumes "reconcile_slice R job key rtype spec replicas n i sl s = Some (None, s')"
  shows "expectedCreation s \<le> expectedCreation s' \<and> expectedDeletion s \<le> expectedDeletion s' \<and>
      (expectedCreation s' = expectedCreation s \<longrightarrow> expectedDeletion s' = expectedDeletion s \<longrightarrow>
         grows bookkeeping (loop_trace s) (loop_trace s')
         \<and> validatedPods s' = validatedPods s @ (if length sl = 1 then sl else []))"
  using assms
proof (cases rule: reconcile_slice_cases)
  case (one pod)
  let ?del = "delete_and_expect R key pod"
  obtain e1 s1 where d: "(if i < 0 \<or> n \<le> i then ?del s else (None, s)) = (e1, s1)" by fastforce
  with one(2) have e1: "e1 = None" by (auto simp: reconcile_one_def split: if_splits)
  from d e1 have s1: "s1 = s \<or> expectedDeletion s1 = expectedDeletion s + 1" "expectedCreation s1 = expectedCreation s"
    using delete_and_expect_run(3,4) by (auto split: if_splits)
  let ?s2 = "s1\<lparr>loop_trace := loop_trace s1 @ [RecordEvent \<lparr>ev_Type = EventTypeNormal, ev_Reason = podFailedReason,
                  ev_Message = ''Pod '' @ pod_Name pod @ '' is failed: '' @ GetPodFailedInfo pod\<rparr>]\<rparr>"
  have r: "(if pod_Phase pod = PodFailed then
      if pod_restartable (r_ext R) spec pod then ?del ?s2 else (None, ?s2\<lparr>validatedPods := validatedPods ?s2 @ [pod]\<rparr>)
      else (None, s1\<lparr>validatedPods := validatedPods s1 @ [pod]\<rparr>)) = (None, s')"
    using one(2) d e1 unfolding reconcile_one_def Let_def by simp
  consider "s' = s1\<lparr>validatedPods := validatedPods s1 @ [pod]\<rparr>"
    | "s' = ?s2\<lparr>validatedPods := validatedPods ?s2 @ [pod]\<rparr>" | "?del ?s2 = (None, s')"
    using r by (metis prod.inject)
  then show ?thesis
  proof cases
    case 1
    with s1 one(1) show ?thesis by auto
  next
    case 2
    with s1 one(1) show ?thesis by (auto intro!: grows_append)
  next
    case 3
    from delete_and_expect_run(3,4)[OF this] s1 show ?thesis by auto
  qed
qed auto

lemma reconcile_slices_counters:
  assumes "reconcile_slices R job key rtype spec replicas n i slices s = Some (None, s')"
  shows "expectedCreation s \<le> expectedCreation s' \<and> expectedDeletion s \<le> expectedDeletion s' \<and>
      (expectedCreation s' = expectedCreation s \<longrightarrow> expectedDeletion s' = expectedDeletion s \<longrightarrow>
         grows bookkeeping (loop_trace s) (loop_trace s')
         \<and> validatedPods s' = validatedPods s @ concat (filter (\<lambda>sl. length sl = 1) slices))"
  using assms
proof (induction slices arbitrary: i s)
  case (Cons sl slices)
  from Cons.prems(1) obtain t where t: "reconcile_slice R job key rtype spec replicas n i sl s = Some (None, t)"
    and rest: "reconcile_slices R job key rtype spec replicas n (i + 1) slices t = Some (None, s')"
    by (auto simp: Option.bind_eq_Some_conv split: if_splits)
  note a = reconcile_slice_counters[OF t] and b = Cons.IH[OF rest]
  show ?case
  proof (intro conjI impI)
    show "expectedCreation s \<le> expectedCreation s'" "expectedDeletion s \<le> expectedDeletion s'"
      using a b by linarith+
    assume eq: "expectedCreation s' = expectedCreation s" "expectedDeletion s' = expectedDeletion s"
    with a b have e: "expectedCreation t = expectedCreation s" "expectedDeletion t = expectedDeletion s"
      "expectedCreation s' = expectedCreation t" "expectedDeletion s' = expectedDeletion t" by linarith+
    with a b show "grows bookkeeping (loop_trace s) (loop_trace s')" by (blast intro: grows_trans)
    from a b e show "validatedPods s' = validatedPods s @ concat (filter (\<lambda>sl. length sl = 1) (sl # slices))" by simp
  qed
qed simp

section \<open>The pods that are reconciled\<close>

text \<open>
  The pods of the role that are filed into slices: all of them for a role that never restarts, the ones that are not
  being deleted otherwise.
\<close>

definition reconciled_pods :: "ext \<Rightarrow> ReplicaSpec \<Rightarrow> ReplicaType \<Rightarrow> Pod list \<Rightarrow> Pod list" where
  "reconciled_pods E spec rtype pods =
     (let ps = FilterPodsForReplicaType E pods (ToLower rtype)
      in if rs_RestartPolicy spec = RestartPolicyNever then ps else FilterAlivePods ps)"

definition left_pods :: "ext \<Rightarrow> ReplicaSpec \<Rightarrow> ReplicaType \<Rightarrow> Pod list \<Rightarrow> Pod list" where
  "left_pods E spec rtype pods =
     (let ps = FilterPodsForReplicaType E pods (ToLower rtype)
      in if rs_RestartPolicy spec = RestartPolicyNever then [] else FilterTerminatingPods ps)"

text \<open>Index labels that fit the slice count.\<close>

definition indices_ok :: "ext \<Rightarrow> Pod list \<Rightarrow> bool" where
  "indices_ok E pods \<longleftrightarrow> (\<forall>p \<in> set pods. \<forall>i. pod_index E p = Some i \<longrightarrow> i < 2 ^ 63 - 1)"

lemma ReconcilePods_run:
  assumes E: "max_int_ok (r_ext R)" and n: "rs_Replicas spec = Some n"
    and idx: "indices_ok (r_ext R) (reconciled_pods (r_ext R) spec rtype pods)"
    and run: "ReconcilePods R now job js pods rtype (Some spec) replicas tr = Some (err, job', tr')"
  obtains (key) e where "err = Some e" "job' = job" "tr' = tr"
  | (loop) key slices s where
    "slices = map (pods_at (r_ext R) (reconciled_pods (r_ext R) spec rtype pods))
       [0..<nat (calculatePodSliceSize (r_ext R) (reconciled_pods (r_ext R) spec rtype pods) (sint n))]"
    "reconcile_slices R job key rtype spec replicas (sint n) 0 slices
       \<lparr>expectedCreation = 0, expectedDeletion = 0, validatedPods = left_pods (r_ext R) spec rtype pods, loop_trace = tr\<rparr> = Some (err, s)"
    "finish_pods R now job js rtype err s = Some (err, job', tr')"
proof (cases "KeyFunc (r_ext R) (job_Namespace job) (job_Name job)")
  case (Inl e)
  with run show thesis by (intro key) (auto simp: ReconcilePods_def)
next
  case (Inr jobKey)
  let ?mine = "reconciled_pods (r_ext R) spec rtype pods"
  let ?key = "GenExpectationPodsKey (r_ext R) jobKey rtype"
  let ?s0 = "\<lparr>expectedCreation = 0, expectedDeletion = 0, validatedPods = left_pods (r_ext R) spec rtype pods, loop_trace = tr\<rparr>"
  note defs = reconciled_pods_def left_pods_def ReconcilePods_def Let_def
  from run Inr n obtain slices where sl: "GetPodSlices (r_ext R) ?mine (sint n) = Some slices"
    by (auto simp: defs Option.bind_eq_Some_conv)
  have "\<forall>p \<in> set ?mine. \<forall>i. pod_index (r_ext R) p = Some i \<longrightarrow> 0 \<le> i \<and> i < 2 ^ 63 - 1"
    using idx sl GetPodSlices_panics[of ?mine "r_ext R" "sint n"] by (force simp: indices_ok_def)
  from GetPodSlices_run[OF E this, of "sint n"] sl
  have slices: "slices = map (pods_at (r_ext R) ?mine) [0..<nat (calculatePodSliceSize (r_ext R) ?mine (sint n))]" by simp
  from run Inr n sl obtain err0 s where
    s: "reconcile_slices R job ?key rtype spec replicas (sint n) 0 slices ?s0 = Some (err0, s)" and
    f: "finish_pods R now job js rtype err0 s = Some (err, job', tr')"
    by (auto simp: defs Option.bind_eq_Some_conv)
  have "err0 = err"
    using f by (auto simp: finish_pods_def Let_def Option.bind_eq_Some_conv split: if_splits)
  with s f slices show thesis by (intro loop) auto
qed

lemma finish_pods_trace:
  assumes "finish_pods R now job js rtype err s = Some (err', job', tr')"
  shows "grows (\<lambda>e. \<exists>ev. e = RecordEvent ev) (loop_trace s) tr'"
  using assms
  by (auto simp: finish_pods_def Let_def Option.bind_eq_Some_conv split: if_splits intro!: grows_append)

lemma loop_bound:
  assumes "max_int_ok E" "indices_ok E pods"
  shows "n \<le> calculatePodSliceSize E pods n"
  using slice_size_bounds(2)[OF assms(1)] assms(2) by (simp add: indices_ok_def)

text \<open>A slice with one healthy pod in range is left alone.\<close>

lemma reconcile_slices_steady:
  assumes "\<forall>k < length slices. \<exists>pod. slices ! k = [pod] \<and> pod_Phase pod \<noteq> PodFailed" "0 \<le> i" "i + int (length slices) \<le> n"
  shows "reconcile_slices R job key rtype spec replicas n i slices s = Some (None, s\<lparr>validatedPods := validatedPods s @ concat slices\<rparr>)"
  using assms
proof (induction slices arbitrary: i s)
  case (Cons sl slices)
  from Cons.prems(1)[rule_format, of 0] obtain pod where pod: "sl = [pod]" "pod_Phase pod \<noteq> PodFailed" by auto
  have step: "reconcile_slice R job key rtype spec replicas n i sl s = Some (None, s\<lparr>validatedPods := validatedPods s @ sl\<rparr>)"
    using Cons.prems(2,3) pod by (simp add: reconcile_slice_def reconcile_one_def)
  have "\<forall>k < length slices. \<exists>pod. slices ! k = [pod] \<and> pod_Phase pod \<noteq> PodFailed"
    using Cons.prems(1) by auto
  with Cons.IH[of "i + 1" "s\<lparr>validatedPods := validatedPods s @ sl\<rparr>"] Cons.prems(2,3) step show ?case by simp
qed simp

section \<open>Properties\<close>

definition plain_reconciler :: Reconciler where
  "plain_reconciler = \<lparr>r_ext = plain_ext, r_ctl = base_controller plain_ext, r_conf = ready_conf, r_nodes = NewManager,
     r_observers = Inr [], r_server = (\<lambda>tr e. Inr ''pod-x'')\<rparr>"

definition worker_spec :: ReplicaSpec where
  "worker_spec = the (role_ReplicaSpec (plain_role 2 RestartPolicyNever []))"

definition worker :: "nat \<Rightarrow> Pod" where
  "worker i = plain_pod (''p'' @ itoa (int i)) ''worker'' (itoa (int i)) PodRunning"

text \<open>The run of a role of two workers of which the second has no pod yet: one pod is created.\<close>

lemma gap_run:
  "\<exists>job' tr'. ReconcilePods plain_reconciler 7 two_workers (Some zero_JobStatus) [worker 0] RoleWorker (Some worker_spec) None []
     = Some (None, job', tr') \<and> list_ex is_create tr'"
proof -
  let ?run = "ReconcilePods plain_reconciler 7 two_workers (Some zero_JobStatus) [worker 0] RoleWorker (Some worker_spec) None []"
  have "case ?run of Some (None, job', tr') \<Rightarrow> list_ex is_create tr' | _ \<Rightarrow> False" by code_simp
  then show ?thesis by (auto split: option.splits)
qed

lemma gap_facts:
  "rs_Replicas worker_spec = Some 2" "sint (2 :: int32) = 2"
  "r_ext plain_reconciler = plain_ext" "r_ctl plain_reconciler = base_controller plain_ext"
  "reconciled_pods plain_ext worker_spec RoleWorker [worker 0] = [worker 0]"
  "pods_at plain_ext [worker 0] 1 = []"
  "\<not> role_started two_workers RoleWorker"
proof -
  have "rs_Replicas worker_spec = Some 2 \<and> sint (2 :: int32) = 2" by code_simp
  then show "rs_Replicas worker_spec = Some 2" "sint (2 :: int32) = 2" by simp_all
  show "r_ext plain_reconciler = plain_ext" "r_ctl plain_reconciler = base_controller plain_ext"
    by (simp_all add: plain_reconciler_def)
  have "reconciled_pods plain_ext worker_spec RoleWorker [worker 0] = [worker 0]" by code_simp
  then show "reconciled_pods plain_ext worker_spec RoleWorker [worker 0] = [worker 0]" .
  have "pods_at plain_ext [worker 0] 1 = []" by code_simp
  then show "pods_at plain_ext [worker 0] 1 = []" .
  have "Status_RolePhase (job_Status two_workers) RoleWorker = Some RolePhasePending" by code_simp
  then show "\<not> role_started two_workers RoleWorker"
    by (simp add: role_started_def IsRoleStarted_iff go_consts)
qed

lemma worker_index: "pod_index plain_ext (worker 0) = Some 0" "pod_index plain_ext (worker 1) = Some 1"
  by code_simp+

lemma plain_max: "max_int_ok plain_ext"
  by (simp add: max_int_ok_def plain_ext_def)

text \<open>
  C1. Reconciling the pods of a role creates and deletes only what it should, whatever the server answers: a pod is
  asked for only at an index that has none, in the namespace of the job, owned by the job and labelled with the role
  and that index, and never for a role that must not restart and has already started; a pod is deleted only when it
  is the only pod of an index and the index is out of range, or the pod has failed and may be restarted.
\<close>

theorem ReconcilePods_effects:
  assumes ctl: "pod_identity (r_ctl R)" and E: "pods_from_templates (r_ext R)" "max_int_ok (r_ext R)"
    and n: "rs_Replicas spec = Some n"
    and mine: "mine = reconciled_pods (r_ext R) spec rtype pods" "indices_ok (r_ext R) mine"
    and run: "ReconcilePods R now job js pods rtype (Some spec) replicas tr = Some (err, job', tr')"
  shows "\<exists>es. tr' = tr @ es
    \<and> (\<forall>ns p. PodsCreate ns p \<in> set es \<longrightarrow> ns = job_Namespace job
         \<and> \<not> (rs_RestartPolicy spec = RestartPolicyNever \<and> role_started job rtype)
         \<and> (\<exists>i. pods_at (r_ext R) mine i = [] \<and> wanted_pod (r_ctl R) (r_ext R) job (ToLower rtype) (itoa (int i)) p))
    \<and> (\<forall>ns name. DeletePod ns name \<in> set es \<longrightarrow>
         (\<exists>i pod. pods_at (r_ext R) mine i = [pod] \<and> ns = pod_Namespace pod \<and> name = pod_Name pod
            \<and> (sint n \<le> int i \<or> pod_Phase pod = PodFailed \<and> pod_restartable (r_ext R) spec pod)))"
proof -
  have "grows (\<lambda>e. \<exists>i. slice_effect R job rtype spec (sint n) (int i) (pods_at (r_ext R) mine i) e) tr tr'"
    (is "grows ?P tr tr'")
    using E(2) n mine(2)[unfolded mine(1)] run
  proof (cases rule: ReconcilePods_run)
    case (loop key slices s)
    from pod_identity.reconcile_slices_effects[OF ctl E(1) refl loop(2)]
    have "grows ?P tr (loop_trace s)"
      unfolding slice_loop.simps
      by (rule grows_mono) (auto simp: loop(1) mine(1))
    also have "grows ?P \<dots> tr'"
      using finish_pods_trace[OF loop(3)] by (rule grows_mono) (auto simp: slice_effect_def)
    finally show ?thesis .
  qed simp
  then obtain es where es: "tr' = tr @ es" "\<forall>e \<in> set es. ?P e" by (auto simp: grows_def)
  then show ?thesis
    by (intro exI[of _ es] conjI allI impI) (fastforce simp: slice_effect_def)+
qed

theorem ReconcilePods_effects_witness:
  "\<exists>job' es. ReconcilePods plain_reconciler 7 two_workers (Some zero_JobStatus) [worker 0] RoleWorker (Some worker_spec) None []
       = Some (None, job', es) \<and> list_ex is_create es
     \<and> (\<forall>ns p. PodsCreate ns p \<in> set es \<longrightarrow> ns = job_Namespace two_workers
         \<and> (\<exists>i. pods_at plain_ext [worker 0] i = [] \<and>
              wanted_pod (base_controller plain_ext) plain_ext two_workers (ToLower RoleWorker) (itoa (int i)) p))"
proof -
  from gap_run obtain job' es where run:
    "ReconcilePods plain_reconciler 7 two_workers (Some zero_JobStatus) [worker 0] RoleWorker (Some worker_spec) None []
       = Some (None, job', es)" "list_ex is_create es" by blast
  have ctl: "pod_identity (r_ctl plain_reconciler)" unfolding gap_facts by (rule base.pod_identity_axioms)
  have E: "pods_from_templates (r_ext plain_reconciler)" "max_int_ok (r_ext plain_reconciler)"
    unfolding gap_facts by (rule plain_pods_from_templates plain_max)+
  have idx: "indices_ok (r_ext plain_reconciler) [worker 0]"
    unfolding gap_facts by (simp add: indices_ok_def worker_index)
  have mine: "[worker 0] = reconciled_pods (r_ext plain_reconciler) worker_spec RoleWorker [worker 0]"
    unfolding gap_facts ..
  from ReconcilePods_effects[OF ctl E gap_facts(1) mine idx run(1)] run show ?thesis
    unfolding gap_facts by auto
qed

text \<open>
  C10. Gaps are filled. When reconciling the pods of a role reports no error, every index below the replica count
  that has no pod has been asked for, unless the role must not restart and has already started.
\<close>

theorem ReconcilePods_fills_gaps:
  assumes ctl: "pod_identity (r_ctl R)" and E: "pod_control_ok (r_ext R)" "max_int_ok (r_ext R)"
    and n: "rs_Replicas spec = Some n"
    and mine: "mine = reconciled_pods (r_ext R) spec rtype pods" "indices_ok (r_ext R) mine"
    and run: "ReconcilePods R now job js pods rtype (Some spec) replicas tr = Some (None, job', tr')"
    and restart: "\<not> (rs_RestartPolicy spec = RestartPolicyNever \<and> role_started job rtype)"
    and gap: "int i < sint n" "pods_at (r_ext R) mine i = []"
  shows "\<exists>p. PodsCreate (job_Namespace job) p \<in> set (drop (length tr) tr')
     \<and> wanted_pod (r_ctl R) (r_ext R) job (ToLower rtype) (itoa (int i)) p"
  using E(2) n mine(2)[unfolded mine(1)] run
proof (cases rule: ReconcilePods_run)
  case (loop key slices s)
  have "i < length slices" "slices ! i = []"
    using loop_bound[OF E(2) mine(2), of "sint n"] gap by (simp_all add: loop(1) mine(1))
  note c = pod_identity.reconcile_slices_creates[OF ctl E(1) refl loop(2) restart this]
  from finish_pods_trace[OF loop(3)] obtain es where es: "tr' = loop_trace s @ es" by (auto simp: grows_def)
  have "pods_from_templates (r_ext R)" using E(1) by (simp add: pod_control_ok_def)
  from pod_identity.reconcile_slices_effects[OF ctl this refl loop(2)] obtain fs where "loop_trace s = tr @ fs"
    by (auto simp: grows_def)
  with c es show ?thesis by auto
qed simp

theorem ReconcilePods_fills_gaps_witness:
  "\<exists>job' tr' p. ReconcilePods plain_reconciler 7 two_workers (Some zero_JobStatus) [worker 0] RoleWorker (Some worker_spec) None []
       = Some (None, job', tr') \<and> PodsCreate (job_Namespace two_workers) p \<in> set tr'
     \<and> wanted_pod (base_controller plain_ext) plain_ext two_workers (ToLower RoleWorker) (itoa 1) p"
proof -
  from gap_run obtain job' tr' where run:
    "ReconcilePods plain_reconciler 7 two_workers (Some zero_JobStatus) [worker 0] RoleWorker (Some worker_spec) None []
       = Some (None, job', tr')" by blast
  have ctl: "pod_identity (r_ctl plain_reconciler)" unfolding gap_facts by (rule base.pod_identity_axioms)
  have E: "pod_control_ok (r_ext plain_reconciler)" "max_int_ok (r_ext plain_reconciler)"
    unfolding gap_facts by (rule plain_pod_control plain_max)+
  have idx: "indices_ok (r_ext plain_reconciler) [worker 0]"
    unfolding gap_facts by (simp add: indices_ok_def worker_index)
  have mine: "[worker 0] = reconciled_pods (r_ext plain_reconciler) worker_spec RoleWorker [worker 0]"
    unfolding gap_facts ..
  have gap: "\<not> (rs_RestartPolicy worker_spec = RestartPolicyNever \<and> role_started two_workers RoleWorker)"
    "int 1 < sint (2 :: int32)" "pods_at (r_ext plain_reconciler) [worker 0] 1 = []"
    by (simp_all add: gap_facts del: One_nat_def)
  from ReconcilePods_fills_gaps[OF ctl E gap_facts(1) mine idx run gap] run show ?thesis
    unfolding gap_facts by auto
qed

text \<open>
  C32. Phases are not deduced from a moving target: when reconciling the pods of a role has created or deleted a pod,
  the phase of the role stays what it was, and the statuses of the other roles are untouched.
\<close>

theorem ReconcilePods_phase_frozen:
  assumes E: "max_int_ok (r_ext R)" and n: "rs_Replicas spec = Some n"
    and mine: "indices_ok (r_ext R) (reconciled_pods (r_ext R) spec rtype pods)"
    and sp: "gm_ptr (spec_RoleSpecs (job_Spec job)) rtype = Some sp" and js: "js = Some js0"
    and run: "ReconcilePods R now job js pods rtype (Some spec) replicas tr = Some (None, job', tr')"
    and moved: "\<exists>e \<in> set (drop (length tr) tr'). is_create e \<or> is_delete e"
  shows "(\<exists>rs. gm_ptr (st_RoleStatuses (job_Status job')) rtype = Some rs
       \<and> role_Phase rs = role_Phase (old_role (job_Status job) rtype))
     \<and> (\<forall>r. r \<noteq> rtype \<longrightarrow> gm_ptr (st_RoleStatuses (job_Status job')) r = gm_ptr (st_RoleStatuses (job_Status job)) r)"
  using E n mine run
proof (cases rule: ReconcilePods_run)
  case (loop key slices s)
  let ?job1 = "job\<lparr>job_Status := (job_Status job)\<lparr>st_JobStatus := js\<rparr>\<rparr>"
  note c = reconcile_slices_counters[OF loop(2)]
  have "\<not> (expectedCreation s = 0 \<and> expectedDeletion s = 0)"
  proof
    assume "expectedCreation s = 0 \<and> expectedDeletion s = 0"
    with c have "grows bookkeeping tr (loop_trace s)" by simp
    also have "grows bookkeeping (loop_trace s) tr'"
      using finish_pods_trace[OF loop(3)] by (rule grows_mono) auto
    finally have "\<forall>e \<in> set (drop (length tr) tr'). bookkeeping e" by (auto simp: grows_def)
    moreover have "bookkeeping e \<Longrightarrow> \<not> is_create e \<and> \<not> is_delete e" for e by (cases e) auto
    ultimately show False using moved by blast
  qed
  with loop(3) have u: "UpdateRoleReplicas (r_nodes R) ?job1 rtype (validatedPods s) = Some job'"
    by (auto simp: finish_pods_def Let_def Option.bind_eq_Some_conv split: if_splits)
  have "UpdateRoleReplicas (r_nodes R) ?job1 rtype (validatedPods s)
      = Some (counted_job (r_nodes R) ?job1 rtype (rpp_NodeDownAsFailed (role_RolePhasePolicy sp)) (validatedPods s))"
    by (rule UpdateRoleReplicas_run) (simp_all add: sp js)
  with u have job': "job' = counted_job (r_nodes R) ?job1 rtype (rpp_NodeDownAsFailed (role_RolePhasePolicy sp)) (validatedPods s)"
    by simp
  show ?thesis by (simp add: job' counted_job_simps old_role_def)
qed simp

theorem ReconcilePods_phase_frozen_witness:
  "\<exists>job' tr' rs. ReconcilePods plain_reconciler 7 two_workers (Some zero_JobStatus) [worker 0] RoleWorker (Some worker_spec) None []
       = Some (None, job', tr') \<and> gm_ptr (st_RoleStatuses (job_Status job')) RoleWorker = Some rs
     \<and> role_Phase rs = role_Phase (old_role (job_Status two_workers) RoleWorker)"
proof -
  from gap_run obtain job' tr' where run:
    "ReconcilePods plain_reconciler 7 two_workers (Some zero_JobStatus) [worker 0] RoleWorker (Some worker_spec) None []
       = Some (None, job', tr')" "list_ex is_create tr'" by blast
  have E: "max_int_ok (r_ext plain_reconciler)" unfolding gap_facts by (rule plain_max)
  have idx: "indices_ok (r_ext plain_reconciler) (reconciled_pods (r_ext plain_reconciler) worker_spec RoleWorker [worker 0])"
    unfolding gap_facts by (simp add: indices_ok_def worker_index)
  have moved: "\<exists>e \<in> set (drop (length []) tr'). is_create e \<or> is_delete e"
    using run(2) by (auto simp: list_ex_iff)
  from ReconcilePods_phase_frozen[OF E gap_facts(1) idx two_workers_facts(1) refl run(1) moved] run(1)
  show ?thesis by blast
qed

text \<open>
  C12. A complete role is at rest. When each index below the replica count has exactly one pod and none of these has
  failed, and no pod has another index, reconciling makes no call but the events of a phase change, and the phase of
  the role becomes the one its policy gives for these pods (and the ones being deleted).
\<close>

theorem ReconcilePods_steady:
  assumes E: "max_int_ok (r_ext R)" and key: "KeyFunc (r_ext R) (job_Namespace job) (job_Name job) = Inr k"
    and sp: "gm_ptr (spec_RoleSpecs (job_Spec job)) rtype = Some sp" "role_ReplicaSpec sp = Some spec"
      "rs_Replicas spec = Some n" "0 < sint n"
    and mine: "mine = reconciled_pods (r_ext R) spec rtype pods"
    and complete: "\<forall>i. int i < sint n \<longrightarrow> (\<exists>pod. pods_at (r_ext R) mine i = [pod] \<and> pod_Phase pod \<noteq> PodFailed)"
    and others: "\<forall>p \<in> set mine. \<forall>i. pod_index (r_ext R) p = Some i \<longrightarrow> 0 \<le> i \<and> i < sint n"
    and seen: "seen = left_pods (r_ext R) spec rtype pods @ concat (map (pods_at (r_ext R) mine) [0..<nat (sint n)])"
      "length seen < 2 ^ 31"
  shows "\<exists>job' evs rs. ReconcilePods R now job (Some js) pods rtype (Some spec) replicas tr = Some (None, job', tr @ map RecordEvent evs)
     \<and> gm_ptr (st_RoleStatuses (job_Status job')) rtype = Some rs
     \<and> role_Phase rs = role_phase_spec (role_RolePhasePolicy sp) (rs_RestartPolicy spec) (sint n)
         (role_Phase (old_role (job_Status job) rtype))
         (class_count (r_nodes R) (rpp_NodeDownAsFailed (role_RolePhasePolicy sp)) seen)"
proof -
  let ?job1 = "job\<lparr>job_Status := (job_Status job)\<lparr>st_JobStatus := Some js\<rparr>\<rparr>"
  let ?slices = "map (pods_at (r_ext R) mine) [0..<nat (sint n)]"
  let ?s0 = "\<lparr>expectedCreation = 0, expectedDeletion = 0, validatedPods = left_pods (r_ext R) spec rtype pods, loop_trace = tr\<rparr>"
  let ?key = "GenExpectationPodsKey (r_ext R) k rtype"
  have bound: "sint n < 2 ^ 63" using sint_range32(2)[of n] by simp
  have idx: "\<forall>p \<in> set mine. \<forall>i. pod_index (r_ext R) p = Some i \<longrightarrow> 0 \<le> i \<and> i < 2 ^ 63 - 1"
    using others bound by force
  have slices: "GetPodSlices (r_ext R) mine (sint n) = Some ?slices"
    using GetPodSlices_run[OF E idx, of "sint n"] slice_size_exact[OF E sp(4) bound others] by simp
  have "reconcile_slices R job ?key rtype spec replicas (sint n) 0 ?slices ?s0
      = Some (None, ?s0\<lparr>validatedPods := validatedPods ?s0 @ concat ?slices\<rparr>)"
    by (rule reconcile_slices_steady) (use complete sp(4) in auto)
  moreover have "ReconcilePods R now job (Some js) pods rtype (Some spec) replicas tr = do {
      (err, s) \<leftarrow> reconcile_slices R job ?key rtype spec replicas (sint n) 0 ?slices ?s0;
      finish_pods R now job (Some js) rtype err s }"
    using key sp(3) slices by (simp add: ReconcilePods_def mine reconciled_pods_def left_pods_def Let_def)
  ultimately have run: "ReconcilePods R now job (Some js) pods rtype (Some spec) replicas tr
      = finish_pods R now job (Some js) rtype None (?s0\<lparr>validatedPods := seen\<rparr>)"
    using seen(1) by simp
  have spec1: "gm_ptr (spec_RoleSpecs (job_Spec ?job1)) rtype = Some sp" "st_JobStatus (job_Status ?job1) = Some js"
    by (simp_all add: sp(1))
  from role_sync_run[OF spec1(1) sp(2,3) spec1(2) seen(2) refl, of "r_nodes R" "r_ext R" now]
  obtain job1 job2 evs rs where sync: "UpdateRoleReplicas (r_nodes R) ?job1 rtype seen = Some job1"
    "UpdateRolePhase (r_ext R) (r_nodes R) now job1 rtype seen = Some (job2, evs)"
    "gm_ptr (st_RoleStatuses (job_Status job2)) rtype = Some rs"
    "role_Phase rs = role_phase_spec (role_RolePhasePolicy sp) (rs_RestartPolicy spec) (sint n)
       (role_Phase (old_role (job_Status ?job1) rtype)) (class_count (r_nodes R) (rpp_NodeDownAsFailed (role_RolePhasePolicy sp)) seen)"
    by blast
  have old: "old_role (job_Status ?job1) rtype = old_role (job_Status job) rtype" by (simp add: old_role_def)
  have "finish_pods R now job (Some js) rtype None (?s0\<lparr>validatedPods := seen\<rparr>) = Some (None, job2, tr @ map RecordEvent evs)"
    using sync(1,2) by (simp add: finish_pods_def)
  with run sync(3,4) old show ?thesis by metis
qed

theorem ReconcilePods_steady_witness:
  "\<exists>job' evs rs. ReconcilePods plain_reconciler 7 two_workers (Some zero_JobStatus) [worker 1, worker 0] RoleWorker (Some worker_spec) None []
       = Some (None, job', [] @ map RecordEvent evs)
     \<and> gm_ptr (st_RoleStatuses (job_Status job')) RoleWorker = Some rs \<and> role_Phase rs = RolePhaseRunning"
proof -
  let ?pods = "[worker 1, worker 0]"
  let ?sp = "plain_role 2 RestartPolicyNever []"
  have E: "max_int_ok (r_ext plain_reconciler)" unfolding gap_facts by (rule plain_max)
  have key: "KeyFunc (r_ext plain_reconciler) (job_Namespace two_workers) (job_Name two_workers) = Inr ''ns/job''" by code_simp
  have rs: "role_ReplicaSpec ?sp = Some worker_spec" by (simp add: worker_spec_def plain_role_def)
  have pos: "0 < sint (2 :: int32)" by (simp add: gap_facts)
  have mine: "?pods = reconciled_pods (r_ext plain_reconciler) worker_spec RoleWorker ?pods" by code_simp
  have at: "pods_at (r_ext plain_reconciler) ?pods 0 = [worker 0]" "pods_at (r_ext plain_reconciler) ?pods 1 = [worker 1]"
    by code_simp+
  have ok: "pod_Phase (worker 0) \<noteq> PodFailed" "pod_Phase (worker 1) \<noteq> PodFailed" by code_simp+
  have complete: "\<forall>i. int i < sint (2 :: int32) \<longrightarrow> (\<exists>pod. pods_at (r_ext plain_reconciler) ?pods i = [pod] \<and> pod_Phase pod \<noteq> PodFailed)"
  proof (intro allI impI)
    fix i assume "int i < sint (2 :: int32)"
    then have "i = 0 \<or> i = 1" by (auto simp: gap_facts)
    with at ok show "\<exists>pod. pods_at (r_ext plain_reconciler) ?pods i = [pod] \<and> pod_Phase pod \<noteq> PodFailed" by auto
  qed
  have others: "\<forall>p \<in> set ?pods. \<forall>i. pod_index (r_ext plain_reconciler) p = Some i \<longrightarrow> 0 \<le> i \<and> i < sint (2 :: int32)"
    by (simp add: gap_facts worker_index del: One_nat_def)
  have seen: "[worker 0, worker 1] = left_pods (r_ext plain_reconciler) worker_spec RoleWorker ?pods
      @ concat (map (pods_at (r_ext plain_reconciler) ?pods) [0..<nat (sint (2 :: int32))])" by code_simp
  have len: "length [worker 0, worker 1] < 2 ^ 31" by simp
  have "role_phase_spec (role_RolePhasePolicy ?sp) (rs_RestartPolicy worker_spec) (sint (2 :: int32))
         (role_Phase (old_role (job_Status two_workers) RoleWorker))
         (class_count (r_nodes plain_reconciler) (rpp_NodeDownAsFailed (role_RolePhasePolicy ?sp)) [worker 0, worker 1]) = RolePhaseRunning"
    by code_simp
  with ReconcilePods_steady[OF E key two_workers_facts(1) rs gap_facts(1) pos mine complete others seen len,
      of 7 zero_JobStatus None "[]"]
  show ?thesis by metis
qed

section \<open>What the loop does out of range\<close>

text \<open>
  Scaling a role down from three replicas to one when the pod of index 1 is already gone: the out-of-range index 1 is
  an empty slice, so a pod is created for it before the pod of index 2 is deleted.
\<close>

lemma scale_down_creates:
  "case ReconcilePods plain_reconciler 7 two_workers (Some zero_JobStatus) [worker 0, worker 2] RoleWorker
       (Some (worker_spec\<lparr>rs_Replicas := Some 1\<rparr>)) None [] of
     Some (None, job', tr') \<Rightarrow> map (\<lambda>e. (is_create e, is_delete e)) (filter (\<lambda>e. is_create e \<or> is_delete e) tr')
        = [(True, False), (False, True)]
   | _ \<Rightarrow> False"
  by code_simp

text \<open>
  A failed pod out of range that may be restarted is deleted twice, and two deletions are expected of it.
\<close>

lemma failed_out_of_range_deleted_twice:
  "case ReconcilePods plain_reconciler 7 two_workers (Some zero_JobStatus)
       [worker 0, (worker 1)\<lparr>pod_Phase := PodFailed\<rparr>] RoleWorker
       (Some (worker_spec\<lparr>rs_Replicas := Some 1, rs_RestartPolicy := RestartPolicyOnFailure\<rparr>)) None [] of
     Some (None, job', tr') \<Rightarrow> length (filter is_delete tr') = 2 \<and> sum_list (map raised_dels tr') = 2
   | _ \<Rightarrow> False"
  by code_simp

end
