(* ===== verification/Services.thy ===== *)
theory Services
  imports Pods
begin

text \<open>
  \<open>reconciler/service.go\<close>: one headless service per role. \<open>ServiceControl.CreateServicesWithControllerRef\<close> of
  kubeflow is a call to the server, and \<open>GetPortsFromJob\<close> of its job controller is third-party. The services of
  the job are the argument \<open>services\<close>; \<open>GetServicesForJob\<close>, which lists them, is in the theory \<open>Events\<close> beside the indices.
\<close>

section \<open>Operations\<close>

definition FilterServicesForReplicaType :: "ext \<Rightarrow> Service list \<Rightarrow> string \<Rightarrow> Service list" where
  "FilterServicesForReplicaType E services replicaType =
     filter (\<lambda>service. \<not> (\<not> SelectorMatches E (x_ReplicaTypeLabel E) replicaType (svc_Labels service)
                         \<and> \<not> SelectorMatches E ReplicaTypeLabel replicaType (svc_Labels service))) services"

definition GetPortsFromJob :: "ext \<Rightarrow> controller \<Rightarrow> ReplicaSpec \<Rightarrow> (string, int32) gomap result option" where
  "GetPortsFromJob E ctl spec =
     (let defaultContainerName = GetDefaultContainerName ctl
      in if defaultContainerName \<noteq> [] then Some (JobController_GetPortsFromJob E defaultContainerName spec)
         else do {
           container \<leftarrow> slice_at (ps_Containers (pt_Spec (rs_Template spec))) 0;
           let containerPorts = ctr_Ports container;
           if length containerPorts = 0 then Some (Inr None)
           else Some (Inr (Some (fold (\<lambda>port ports. AList.update (cp_Name port) (cp_ContainerPort port) ports)
                                    containerPorts []))) })"

text \<open>The service that \<open>CreateNewSharedService\<close> builds from the labels and the ports.\<close>

definition new_service :: "controller \<Rightarrow> AresJob \<Rightarrow> string \<Rightarrow> (string, int32) gomap \<Rightarrow> Service" where
  "new_service ctl job rt ports =
     (let labels = Some (AList.update ReplicaTypeLabel rt (GenLabels ctl (job_Name job)));
          ports1 = map (\<lambda>(name, port). \<lparr>sport_Name = name, sport_Port = port, sport_TargetPort = None\<rparr>) (gm_entries ports);
          ports2 = (if length ports1 = 0 then [\<lparr>sport_Name = [], sport_Port = 80, sport_TargetPort = Some 80\<rparr>] else ports1)
      in \<lparr>svc_Namespace = [], svc_Name = GenerateServiceName ctl (job_Name job) rt, svc_Labels = labels,
          svc_ClusterIP = ''None'', svc_Selector = labels, svc_Ports = ports2\<rparr>)"

definition CreateNewSharedService ::
  "Reconciler \<Rightarrow> AresJob \<Rightarrow> ReplicaType \<Rightarrow> ReplicaSpec \<Rightarrow> effect list \<Rightarrow> (go_error option \<times> effect list) option" where
  "CreateNewSharedService R job rtype spec tr =
     (case KeyFunc (r_ext R) (job_Namespace job) (job_Name job) of
        Inl err \<Rightarrow> Some (Some err, tr)
      | Inr jobKey \<Rightarrow> do {
          let rt = ToLower rtype;
          answer \<leftarrow> GetPortsFromJob (r_ext R) (r_ctl R) spec;
          case answer of
            Inl err \<Rightarrow> Some (Some err, tr)
          | Inr ports \<Rightarrow>
              let service = new_service (r_ctl R) job rt ports;
                  controllerRef = GenOwnerReference (r_ext R) job;
                  key = GenExpectationServicesKey (r_ext R) jobKey rt;
                  tr1 = tr @ [RaiseExpectations key 1 0];
                  call = CreateService (job_Namespace job) service controllerRef;
                  tr2 = tr1 @ [call]
              in Some (case answer_err (r_server R tr1 call) of
                   None \<Rightarrow> (None, tr2)
                 | Some err \<Rightarrow> if IsTimeout err then (None, tr2) else (Some err, tr2 @ [CreationObserved key])) })"

definition ReconcileServices ::
  "Reconciler \<Rightarrow> AresJob \<Rightarrow> Service list \<Rightarrow> ReplicaType \<Rightarrow> ReplicaSpec option \<Rightarrow> effect list
     \<Rightarrow> (go_error option \<times> effect list) option" where
  "ReconcileServices R job services rtype specp tr =
     (let rt = ToLower rtype;
          services = FilterServicesForReplicaType (r_ext R) services rt
      in if 1 < length services then Some (None, tr)
         else if length services = 0 then do { spec \<leftarrow> specp; CreateNewSharedService R job rtype spec tr }
         else Some (None, tr))"

section \<open>Lemmas\<close>

lemma fold_ports_get:
  "map_of (fold (\<lambda>port. AList.update (cp_Name port) (cp_ContainerPort port)) ps al) k =
     (case find (\<lambda>p. cp_Name p = k) (rev ps) of Some p \<Rightarrow> Some (cp_ContainerPort p) | None \<Rightarrow> map_of al k)"
proof (induction ps rule: rev_induct)
  case (snoc p ps)
  then show ?case by (simp add: update_conv')
qed simp

lemma CreateNewSharedService_effects:
  assumes "CreateNewSharedService R job rtype spec tr = Some (err, tr')"
  shows "tr' = tr \<and> err \<noteq> None \<or>
    (\<exists>ports key. GetPortsFromJob (r_ext R) (r_ctl R) spec = Some (Inr ports) \<and>
       tr' = tr @ [RaiseExpectations key 1 0,
                   CreateService (job_Namespace job) (new_service (r_ctl R) job (ToLower rtype) ports) (GenOwnerReference (r_ext R) job)]
               @ (if err = None then [] else [CreationObserved key]))"
proof (cases "KeyFunc (r_ext R) (job_Namespace job) (job_Name job)")
  case (Inl e)
  with assms show ?thesis by (auto simp: CreateNewSharedService_def)
next
  case (Inr jobKey)
  with assms obtain answer where a: "GetPortsFromJob (r_ext R) (r_ctl R) spec = Some answer"
    by (auto simp: CreateNewSharedService_def Let_def Option.bind_eq_Some_conv)
  show ?thesis
  proof (cases answer)
    case (Inl e)
    with assms Inr a show ?thesis by (auto simp: CreateNewSharedService_def Let_def)
  next
    case ports: (Inr ports)
    let ?call = "CreateService (job_Namespace job) (new_service (r_ctl R) job (ToLower rtype) ports) (GenOwnerReference (r_ext R) job)"
    let ?key = "GenExpectationServicesKey (r_ext R) jobKey (ToLower rtype)"
    have "tr' = tr @ [RaiseExpectations ?key 1 0, ?call] @ (if err = None then [] else [CreationObserved ?key])"
    proof (cases "answer_err (r_server R (tr @ [RaiseExpectations ?key 1 0]) ?call)")
      case None
      with assms Inr a ports show ?thesis by (auto simp: CreateNewSharedService_def Let_def)
    next
      case (Some e)
      with assms Inr a ports show ?thesis by (cases "IsTimeout e") (auto simp: CreateNewSharedService_def Let_def)
    qed
    with a ports show ?thesis by blast
  qed
qed

lemma new_service_selector:
  "svc_Selector (new_service ctl job rt ports) = Some (AList.update ReplicaTypeLabel rt (GenLabels ctl (job_Name job)))"
  "svc_Name (new_service ctl job rt ports) = GenerateServiceName ctl (job_Name job) rt"
  "svc_Labels (new_service ctl job rt ports) = Some (AList.update ReplicaTypeLabel rt (GenLabels ctl (job_Name job)))"
  by (simp_all add: new_service_def Let_def)

section \<open>Properties\<close>

definition served_spec :: ReplicaSpec where
  "served_spec = the (role_ReplicaSpec (plain_role 2 [] [plain_container ''main'' [\<lparr>cp_Name = ''http'', cp_ContainerPort = 8080\<rparr>]]))"

text \<open>
  C33. Every role has at most one service made for it. Whatever the server answers, a role that has a service of its own
  is left alone; otherwise the only object asked for is one headless service in the namespace of the job, owned by the
  job, and the one expectation that is raised for it is taken back exactly when an error is reported.
\<close>

theorem ReconcileServices_effects:
  assumes "ReconcileServices R job services rtype (Some spec) tr = Some (err, tr')"
  shows "tr' = tr \<and> (err = None \<longleftrightarrow> FilterServicesForReplicaType (r_ext R) services (ToLower rtype) \<noteq> []) \<or>
    FilterServicesForReplicaType (r_ext R) services (ToLower rtype) = [] \<and>
    (\<exists>svc key. tr' = tr @ [RaiseExpectations key 1 0, CreateService (job_Namespace job) svc (GenOwnerReference (r_ext R) job)]
                     @ (if err = None then [] else [CreationObserved key])
       \<and> svc_ClusterIP svc = ''None'' \<and> svc_Name svc = GenerateServiceName (r_ctl R) (job_Name job) (ToLower rtype)
       \<and> svc_Ports svc \<noteq> [] \<and> gm_get (svc_Selector svc) ReplicaTypeLabel = Some (ToLower rtype))"
proof (cases "FilterServicesForReplicaType (r_ext R) services (ToLower rtype)")
  case Nil
  with assms have "CreateNewSharedService R job rtype spec tr = Some (err, tr')" by (simp add: ReconcileServices_def)
  from CreateNewSharedService_effects[OF this] show ?thesis
  proof (elim disjE exE conjE)
    fix ports key
    let ?svc = "new_service (r_ctl R) job (ToLower rtype) ports"
    assume "tr' = tr @ [RaiseExpectations key 1 0, CreateService (job_Namespace job) ?svc (GenOwnerReference (r_ext R) job)]
               @ (if err = None then [] else [CreationObserved key])"
    moreover have "svc_ClusterIP ?svc = ''None''" "svc_Ports ?svc \<noteq> []"
      "gm_get (svc_Selector ?svc) ReplicaTypeLabel = Some (ToLower rtype)"
      by (simp_all add: new_service_def Let_def gm_get_def update_conv')
    ultimately show ?thesis using Nil new_service_selector(2)[of "r_ctl R" job "ToLower rtype" ports] by blast
  qed (use Nil in simp)
next
  case (Cons a list)
  with assms show ?thesis by (cases list) (simp_all add: ReconcileServices_def Let_def)
qed

theorem ReconcileServices_effects_witness:
  "\<exists>svc key. ReconcileServices plain_reconciler two_workers [] RoleWorker (Some served_spec) []
     = Some (None, [RaiseExpectations key 1 0, CreateService ''ns'' svc (GenOwnerReference plain_ext two_workers)])
     \<and> svc_ClusterIP svc = ''None''"
proof -
  have "(case ReconcileServices plain_reconciler two_workers [] RoleWorker (Some served_spec) [] of
           Some (err, tr) \<Rightarrow> err = None \<and> tr \<noteq> [] | None \<Rightarrow> False)" by code_simp
  then obtain tr' where run: "ReconcileServices plain_reconciler two_workers [] RoleWorker (Some served_spec) [] = Some (None, tr')"
    "tr' \<noteq> []" by (auto split: option.splits prod.splits)
  have ns: "job_Namespace two_workers = ''ns''" by (simp add: two_workers_def plain_job_def)
  from ReconcileServices_effects[OF run(1)] run show ?thesis unfolding gap_facts ns by auto
qed

end
