(* ===== verification/Expectations.thy ===== *)
theory Expectations
  imports Services
begin

text \<open>
  \<open>reconciler/expectation.go\<close>: the loops over the expectation keys of a job, and the observation of created and deleted
  objects. The store of expectations is kubeflow's; its calls are effects and its verdict on a key is a function of the
  time and of the calls made so far (\<open>documented_store\<close>, with the expiry of entries that are older than a time-out). The abstract side
  counts, per key, the creations and deletions that are still expected after a trace, and has the call that made the entry of the key.
  The lemmas show that a round over the pods of a role expects exactly what it requested, under the key that the
  observation of these pods uses, so the gate of the controller opens again when all of them have been seen, or the entry has expired.
\<close>

section \<open>Objects\<close>

text \<open>What the sources read of an object of the API through \<open>metav1.Object\<close>, and its Go type.\<close>

datatype ObjectKind = KPod | KService | KOther

record Object =
  obj_Kind :: ObjectKind
  obj_Namespace :: string
  obj_Name :: string
  obj_Labels :: labels
  obj_Controller :: "OwnerReference option"

section \<open>The loops\<close>

fun apply_keys :: "(string \<Rightarrow> 's \<Rightarrow> go_error option \<times> 's) \<Rightarrow> string list \<Rightarrow> 's \<Rightarrow> go_error option \<times> 's" where
  "apply_keys f [] s = (None, s)"
| "apply_keys f (key # keys) s =
     (let (err, s') = f key s in if err \<noteq> None then (err, s') else apply_keys f keys s')"

definition expectation_keys :: "ext \<Rightarrow> AresJob \<Rightarrow> string \<Rightarrow> string list" where
  "expectation_keys E job key =
     concat (map (\<lambda>rtype. [GenExpectationPodsKey E key rtype, GenExpectationServicesKey E key rtype])
       (gm_keys (spec_RoleSpecs (job_Spec job))))"

definition ExpectationsFuncApply ::
  "ext \<Rightarrow> AresJob \<Rightarrow> (string \<Rightarrow> 's \<Rightarrow> go_error option \<times> 's) \<Rightarrow> 's \<Rightarrow> go_error option \<times> 's" where
  "ExpectationsFuncApply E job f s =
     (case KeyFunc E (job_Namespace job) (job_Name job) of
        Inl err \<Rightarrow> (Some err, s)
      | Inr key \<Rightarrow> apply_keys f (expectation_keys E job key) s)"

definition ResetExpectations :: "Reconciler \<Rightarrow> AresJob \<Rightarrow> effect list \<Rightarrow> go_error option \<times> effect list" where
  "ResetExpectations R job tr =
     ExpectationsFuncApply (r_ext R) job
       (\<lambda>key tr. (answer_err (r_server R tr (SetExpectations key 0 0)), tr @ [SetExpectations key 0 0])) tr"

definition SatisfiedExpectations :: "ext \<Rightarrow> (string \<Rightarrow> bool) \<Rightarrow> AresJob \<Rightarrow> bool" where
  "SatisfiedExpectations E satisfied job =
     (fst (ExpectationsFuncApply E job
        (\<lambda>key s. (if \<not> satisfied key then Some (Errorf (''expectation is not satisfied: '' @ key)) else None, s)) ()) = None)"

definition DeleteExpectations :: "ext \<Rightarrow> AresJob \<Rightarrow> effect list \<Rightarrow> effect list" where
  "DeleteExpectations E job tr =
     snd (ExpectationsFuncApply E job (\<lambda>key tr. (None, tr @ [effect.DeleteExpectations key])) tr)"

definition CleanForJob :: "ext \<Rightarrow> AresJob \<Rightarrow> effect list \<Rightarrow> effect list" where
  "CleanForJob E job tr = DeleteExpectations E job tr"

section \<open>Observation\<close>

definition expectation_key :: "ext \<Rightarrow> string \<Rightarrow> string \<Rightarrow> ObjectKind \<Rightarrow> string" where
  "expectation_key E key rtype kind =
     (case kind of KPod \<Rightarrow> GenExpectationPodsKey E key rtype | KService \<Rightarrow> GenExpectationServicesKey E key rtype | KOther \<Rightarrow> [])"

definition observe :: "(string \<Rightarrow> effect) \<Rightarrow> ext \<Rightarrow> AresJob \<Rightarrow> Object \<Rightarrow> effect list \<Rightarrow> effect list" where
  "observe observed E job obj tr =
     (case KeyFunc E (job_Namespace job) (job_Name job) of
        Inl err \<Rightarrow> tr
      | Inr key \<Rightarrow>
          let rtype = GetReplicaType E (obj_Labels obj)
          in if length rtype = 0 then tr else tr @ [observed (expectation_key E key rtype (obj_Kind obj))])"

definition AddObject :: "ext \<Rightarrow> AresJob \<Rightarrow> Object \<Rightarrow> effect list \<Rightarrow> effect list" where
  "AddObject E job obj tr = observe CreationObserved E job obj tr"

definition DeleteObject :: "ext \<Rightarrow> AresJob \<Rightarrow> Object \<Rightarrow> effect list \<Rightarrow> effect list" where
  "DeleteObject E job obj tr = observe DeletionObserved E job obj tr"

section \<open>What is expected after a trace\<close>

fun expect :: "string \<Rightarrow> effect \<Rightarrow> int \<times> int \<Rightarrow> int \<times> int" where
  "expect k (RaiseExpectations k' a d) n = (if k' = k then (fst n + a, snd n + d) else n)"
| "expect k (CreationObserved k') n = (if k' = k then (fst n - 1, snd n) else n)"
| "expect k (DeletionObserved k') n = (if k' = k then (fst n, snd n - 1) else n)"
| "expect k (SetExpectations k' a d) n = (if k' = k then (a, d) else n)"
| "expect k (effect.DeleteExpectations k') n = (if k' = k then (0, 0) else n)"
| "expect k _ n = n"

definition pending :: "string \<Rightarrow> effect list \<Rightarrow> int \<times> int" where
  "pending k tr = fold (expect k) tr (0, 0)"

text \<open>The entry of a key: the position in the trace of the call that made it, if there is one. Setting makes a new entry, deleting drops it.\<close>

fun stamp :: "string \<Rightarrow> effect \<Rightarrow> nat \<Rightarrow> nat option \<Rightarrow> nat option" where
  "stamp k (SetExpectations k' a d) n m = (if k' = k then Some n else m)"
| "stamp k (effect.DeleteExpectations k') n m = (if k' = k then None else m)"
| "stamp k _ n m = m"

definition stamps :: "string \<Rightarrow> effect list \<Rightarrow> nat \<times> nat option \<Rightarrow> nat \<times> nat option" where
  "stamps k tr s = fold (\<lambda>e (n, m). (Suc n, stamp k e n m)) tr s"

definition entry :: "string \<Rightarrow> effect list \<Rightarrow> nat option" where
  "entry k tr = snd (stamps k tr (0, None))"

text \<open>
  The documented verdict of the store at a time: a key without an entry is satisfied; one with an entry is satisfied when no creation
  and no deletion is expected any more, or when its entry is older than the time-out. Here \<open>clock n\<close> is the time of the call
  at position \<open>n\<close> of the trace.
\<close>

definition documented_store :: "int \<Rightarrow> (nat \<Rightarrow> int) \<Rightarrow> (int \<Rightarrow> effect list \<Rightarrow> string \<Rightarrow> bool) \<Rightarrow> bool" where
  "documented_store timeout clock satisfied \<longleftrightarrow> (\<forall>now tr k. satisfied now tr k \<longleftrightarrow>
     (case entry k tr of
        None \<Rightarrow> True
      | Some n \<Rightarrow> fst (pending k tr) \<le> 0 \<and> snd (pending k tr) \<le> 0 \<or> clock n + timeout < now))"

section \<open>Lemmas on the loops\<close>

lemma apply_keys_check:
  "fst (apply_keys (\<lambda>key s. (if \<not> P key then Some (e key) else None, s)) keys s) = None \<longleftrightarrow> (\<forall>k \<in> set keys. P k)"
  by (induction keys) (auto simp: Let_def)

lemma apply_keys_append:
  "apply_keys (\<lambda>key tr. (None, tr @ [f key])) keys tr = (None, tr @ map f keys)"
  by (induction keys arbitrary: tr) (simp_all add: Let_def)

lemma SatisfiedExpectations_iff:
  "SatisfiedExpectations E satisfied job \<longleftrightarrow>
     (\<exists>key. KeyFunc E (job_Namespace job) (job_Name job) = Inr key \<and> (\<forall>k \<in> set (expectation_keys E job key). satisfied k))"
  by (cases "KeyFunc E (job_Namespace job) (job_Name job)")
    (simp_all add: SatisfiedExpectations_def ExpectationsFuncApply_def apply_keys_check)

lemma reset_keys:
  assumes "apply_keys (\<lambda>key tr. (answer_err (srv tr (SetExpectations key 0 0)), tr @ [SetExpectations key 0 0])) keys tr = (None, tr')"
  shows "tr' = tr @ map (\<lambda>k. SetExpectations k 0 0) keys"
  using assms
proof (induction keys arbitrary: tr)
  case (Cons k keys)
  from Cons.prems have "answer_err (srv tr (SetExpectations k 0 0)) = None" by (auto simp: Let_def split: if_splits)
  with Cons.prems Cons.IH[of "tr @ [SetExpectations k 0 0]"] show ?case by (simp add: Let_def)
qed simp

lemma pending_append: "pending k (tr @ es) = fold (expect k) es (pending k tr)"
  by (simp add: pending_def)

lemma expect_reset: "k \<in> set keys \<Longrightarrow> fold (expect k) (map (\<lambda>k. SetExpectations k 0 0) keys) n = (0, 0)"
proof (induction keys rule: rev_induct)
  case (snoc k' keys)
  then show ?case by (cases "k' = k") simp_all
qed simp

lemma stamps_length: "fst (stamps k tr s) = fst s + length tr"
  by (induction tr arbitrary: s) (simp_all add: stamps_def case_prod_beta)

lemma entry_append: "entry k (tr @ es) = snd (stamps k es (length tr, entry k tr))"
proof -
  have "stamps k tr (0, None) = (length tr, entry k tr)" by (simp add: prod_eq_iff stamps_length entry_def)
  moreover have "entry k (tr @ es) = snd (stamps k es (stamps k tr (0, None)))" by (simp add: entry_def stamps_def)
  ultimately show ?thesis by (simp only:)
qed

lemma entry_snoc: "entry k (tr @ [e]) = stamp k e (length tr) (entry k tr)"
  by (simp add: entry_append stamps_def)

text \<open>Calls that make and drop no entry of a key.\<close>

lemma entry_kept: "\<forall>e \<in> set es. \<forall>n m. stamp k e n m = m \<Longrightarrow> entry k (tr @ es) = entry k tr"
proof (induction es rule: rev_induct)
  case (snoc e es)
  then show ?case using entry_snoc[of k "tr @ es" e] by simp
qed simp

lemma entry_reset:
  "k \<in> set keys \<Longrightarrow> \<exists>n. entry k (tr @ map (\<lambda>k. SetExpectations k 0 0) keys) = Some n \<and> length tr \<le> n \<and> n < length tr + length keys"
proof (induction keys rule: rev_induct)
  case (snoc k' keys)
  then show ?case using entry_snoc[of k "tr @ map (\<lambda>k. SetExpectations k 0 0) keys" "SetExpectations k' 0 0"]
    by (cases "k' = k") (auto intro: less_SucI)
qed simp

lemma ResetExpectations_sets:
  assumes "ResetExpectations R job tr = (None, tr')" "KeyFunc (r_ext R) (job_Namespace job) (job_Name job) = Inr key"
    and "k \<in> set (expectation_keys (r_ext R) job key)"
  shows "pending k tr' = (0, 0)" "\<exists>n. entry k tr' = Some n \<and> length tr \<le> n \<and> n < length tr'"
proof -
  from assms(1,2) have tr': "tr' = tr @ map (\<lambda>k. SetExpectations k 0 0) (expectation_keys (r_ext R) job key)"
    by (simp add: ResetExpectations_def ExpectationsFuncApply_def reset_keys)
  show "pending k tr' = (0, 0)" using assms(3) by (simp add: tr' pending_append expect_reset)
  show "\<exists>n. entry k tr' = Some n \<and> length tr \<le> n \<and> n < length tr'" using entry_reset[OF assms(3), of tr] by (simp add: tr')
qed

section \<open>A round expects what it requests\<close>

text \<open>
  From one trace to a longer one: no more is expected than was requested, and exactly that when \<open>exact\<close> holds. The entry of the
  key is the one it was.
\<close>

definition expects_requests :: "string \<Rightarrow> bool \<Rightarrow> effect list \<Rightarrow> effect list \<Rightarrow> bool" where
  "expects_requests k exact tr tr' \<longleftrightarrow> (\<exists>es. tr' = tr @ es \<and> (\<forall>e \<in> set es. \<forall>n m. stamp k e n m = m) \<and>
     (let a = int (length (filter is_create es)); d = int (length (filter is_delete es)) in
      fst (pending k tr') \<le> fst (pending k tr) + a \<and> snd (pending k tr') \<le> snd (pending k tr) + d \<and>
      (exact \<longrightarrow> pending k tr' = (fst (pending k tr) + a, snd (pending k tr) + d))))"

lemma expects_requests_trans:
  assumes "expects_requests k True tr tr'" "expects_requests k exact tr' tr''"
  shows "expects_requests k exact tr tr''"
proof -
  from assms obtain es es' where "tr' = tr @ es" "tr'' = tr' @ es'" unfolding expects_requests_def by blast
  with assms show ?thesis unfolding expects_requests_def Let_def by (intro exI[of _ "es @ es'"]) auto
qed

lemma expects_requests_refl [simp]: "expects_requests k exact tr tr"
  by (simp add: expects_requests_def)

lemma expects_requests_weaken: "expects_requests k True tr tr' \<Longrightarrow> expects_requests k exact tr tr'"
  by (auto simp: expects_requests_def Let_def)

lemma fold_expect_events [simp]: "fold (expect k) (map RecordEvent evs) n = n"
  by (induction evs) simp_all

lemma no_requests_events [simp]: "filter is_create (map RecordEvent evs) = []" "filter is_delete (map RecordEvent evs) = []"
  by (induction evs) simp_all

lemma expects_requests_events: "expects_requests k exact tr (tr @ map RecordEvent evs)"
  by (simp add: expects_requests_def pending_append)

lemma createPods_trace:
  assumes "createPods R [] ns t job ref tr = (err, tr')" "GetPodFromTemplate (r_ext R) t job ref = Inr p0"
  shows "tr' = tr \<and> (\<exists>e. err = Some e \<and> \<not> IsTimeout e) \<or> (\<exists>p ev. tr' = tr @ [PodsCreate ns p, RecordEvent ev])"
proof -
  let ?p = "p0\<lparr>np_Object := (np_Object p0)\<lparr>pt_GenerateName := pt_GenerateName t\<rparr>\<rparr>"
  show ?thesis
    by (cases "r_server R tr (PodsCreate ns ?p)") (use assms in \<open>auto simp: createPods_def Let_def IsTimeout_def split: if_splits\<close>)
qed

lemma CreateNewPod_trace:
  assumes E: "pod_control_ok (r_ext R)" and run: "CreateNewPod R job rt index spec b tr = Some (err, tr')"
    and key: "KeyFunc (r_ext R) (job_Namespace job) (job_Name job) = Inr jobKey"
  defines "k \<equiv> GenExpectationPodsKey (r_ext R) jobKey rt"
  shows "\<exists>evs. tr' = tr @ map RecordEvent evs \<and> err \<noteq> None \<or>
    tr' = tr @ map RecordEvent evs @ [RaiseExpectations k 1 0, CreationObserved k] \<and> err \<noteq> None \<or>
    (\<exists>p ev. tr' = tr @ map RecordEvent evs @ [RaiseExpectations k 1 0, PodsCreate (job_Namespace job) p, RecordEvent ev]
       @ (if err = None then [] else [CreationObserved k]))"
proof -
  let ?t0 = "new_template (r_ctl R) job rt index spec b"
  from run key obtain err1 t1 where c: "SetClusterSpec (r_ctl R) job ?t0 rt index = Some (err1, t1)"
    by (auto simp: CreateNewPod_def Let_def Option.bind_eq_Some_conv)
  obtain t2 tr1 where rp: "setRestartPolicy rt t1 spec tr = (t2, tr1)" by fastforce
  from setRestartPolicy_effects[OF rp] obtain evs where evs: "tr1 = tr @ map RecordEvent evs" by blast
  show ?thesis
  proof (cases err1)
    case (Some e)
    with run key c have "tr' = tr @ map RecordEvent [] \<and> err \<noteq> None" by (auto simp: CreateNewPod_def Let_def)
    then show ?thesis by blast
  next
    case None
    with run key c rp obtain err2 t4 where d: "SetDependence (r_conf R) (r_observers R) job (SetScheduler job t2) rt = Some (err2, t4)"
      by (auto simp: CreateNewPod_def Let_def Option.bind_eq_Some_conv)
    let ?ref = "Some (GenOwnerReference (r_ext R) job)"
    obtain err3 tr3 where p: "createPods R [] (job_Namespace job) t4 job ?ref (tr1 @ [RaiseExpectations k 1 0]) = (err3, tr3)" by fastforce
    have v: "ValidateControllerRef (r_ext R) ?ref = None" using E by (simp add: pod_control_ok_def)
    obtain p0 where g: "GetPodFromTemplate (r_ext R) t4 job ?ref = Inr p0" using E unfolding pod_control_ok_def by blast
    show ?thesis
    proof (cases err2)
      case (Some e)
      with run key c None rp d evs have "tr' = tr @ map RecordEvent evs \<and> err \<noteq> None" by (auto simp: CreateNewPod_def Let_def)
      then show ?thesis by blast
    next
      case ok: None
      have res: "(err, tr') = (case err3 of None \<Rightarrow> (None, tr3)
          | Some e \<Rightarrow> if IsTimeout e then (None, tr3) else (Some e, tr3 @ [CreationObserved k]))"
        using run key c None rp d ok p v unfolding k_def
        by (simp add: CreateNewPod_def CreatePodsWithControllerRef_def Let_def)
      then have tr': "tr' = tr3 @ (if err = None then [] else [CreationObserved k])" by (auto split: option.splits if_splits)
      from createPods_trace[OF p g] show ?thesis
      proof (elim disjE exE conjE)
        fix e assume "tr3 = tr1 @ [RaiseExpectations k 1 0]" "err3 = Some e" "\<not> IsTimeout e"
        with res tr' evs have "tr' = tr @ map RecordEvent evs @ [RaiseExpectations k 1 0, CreationObserved k] \<and> err \<noteq> None" by simp
        then show ?thesis by blast
      next
        fix p ev assume "tr3 = (tr1 @ [RaiseExpectations k 1 0]) @ [PodsCreate (job_Namespace job) p, RecordEvent ev]"
        with tr' evs have "tr' = tr @ map RecordEvent evs @ [RaiseExpectations k 1 0, PodsCreate (job_Namespace job) p, RecordEvent ev]
          @ (if err = None then [] else [CreationObserved k])" by simp
        then show ?thesis by blast
      qed
    qed
  qed
qed

lemma CreateNewPod_expects:
  assumes "pod_control_ok (r_ext R)" "CreateNewPod R job rt index spec b tr = Some (err, tr')"
    and "KeyFunc (r_ext R) (job_Namespace job) (job_Name job) = Inr jobKey"
  shows "expects_requests (GenExpectationPodsKey (r_ext R) jobKey rt) (err = None) tr tr'"
  using CreateNewPod_trace[OF assms] by (auto simp: expects_requests_def pending_append)

lemma delete_and_expect_expects:
  assumes "delete_and_expect R k pod s = (err, s')"
  shows "expects_requests k (err = None) (loop_trace s) (loop_trace s')"
proof (cases "answer_err (r_server R (loop_trace s) (DeletePod (pod_Namespace pod) (pod_Name pod)))")
  case None
  with assms show ?thesis by (auto simp: delete_and_expect_def expects_requests_def pending_append)
next
  case (Some e)
  with assms show ?thesis by (auto simp: delete_and_expect_def expects_requests_def pending_append)
qed

lemma reconcile_one_expects:
  assumes "reconcile_one R k spec n i pod s = (err, s')"
  shows "expects_requests k (err = None) (loop_trace s) (loop_trace s')"
proof -
  obtain e1 s1 where first: "(if i < 0 \<or> n \<le> i then delete_and_expect R k pod s else (None, s)) = (e1, s1)" by fastforce
  have b1: "expects_requests k (e1 = None) (loop_trace s) (loop_trace s1)"
    using first delete_and_expect_expects[of R k pod s e1 s1] by (auto split: if_splits)
  show ?thesis
  proof (cases e1)
    case (Some e)
    with assms first b1 show ?thesis by (auto simp: reconcile_one_def)
  next
    case None
    with b1 have exact: "expects_requests k True (loop_trace s) (loop_trace s1)" by simp
    let ?s2 = "s1\<lparr>loop_trace := loop_trace s1 @ map RecordEvent [\<lparr>ev_Type = EventTypeNormal, ev_Reason = podFailedReason,
                  ev_Message = ''Pod '' @ pod_Name pod @ '' is failed: '' @ GetPodFailedInfo pod\<rparr>]\<rparr>"
    have e2: "expects_requests k True (loop_trace s) (loop_trace ?s2)"
      by (rule expects_requests_trans[OF exact]) (simp add: expects_requests_def pending_append)
    show ?thesis
    proof (cases "pod_Phase pod = PodFailed \<and> pod_restartable (r_ext R) spec pod")
      case True
      with assms first None have "delete_and_expect R k pod ?s2 = (err, s')" by (simp add: reconcile_one_def)
      then show ?thesis by (intro expects_requests_trans[OF e2] delete_and_expect_expects)
    next
      case False
      with assms first None have "loop_trace s' = loop_trace s1 \<or> loop_trace s' = loop_trace ?s2"
        by (auto simp: reconcile_one_def split: if_splits)
      with exact e2 show ?thesis using expects_requests_weaken by metis
    qed
  qed
qed

lemma reconcile_slice_expects:
  assumes E: "pod_control_ok (r_ext R)" and key: "KeyFunc (r_ext R) (job_Namespace job) (job_Name job) = Inr jobKey"
    and k: "k = GenExpectationPodsKey (r_ext R) jobKey (ToLower rtype)"
    and run: "reconcile_slice R job k rtype spec replicas n i sl s = Some (err, s')"
  shows "expects_requests k (err = None) (loop_trace s) (loop_trace s')"
proof (cases sl)
  case Nil
  with run obtain ph where ph: "Status_RolePhase (job_Status job) rtype = Some ph"
    by (auto simp: reconcile_slice_def Option.bind_eq_Some_conv)
  show ?thesis
  proof (cases "rs_RestartPolicy spec = RestartPolicyNever \<and> IsRoleStarted ph")
    case True
    with run Nil ph show ?thesis by (auto simp: reconcile_slice_def)
  next
    case False
    with run Nil ph obtain e tr where c: "CreateNewPod R job (ToLower rtype) (itoa i) spec (IsMasterRole (r_ctl R) replicas rtype i) (loop_trace s) = Some (e, tr)"
      "err = e" "loop_trace s' = tr"
      by (auto simp: reconcile_slice_def Let_def Option.bind_eq_Some_conv split: if_splits)
    then show ?thesis using CreateNewPod_expects[OF E c(1) key] k by simp
  qed
next
  case (Cons pod rest)
  show ?thesis
  proof (cases rest)
    case Nil
    with run Cons show ?thesis by (intro reconcile_one_expects[where spec = spec and n = n and i = i and pod = pod]) (simp add: reconcile_slice_def)
  next
    case (Cons pod2 rest2)
    with run \<open>sl = pod # rest\<close> show ?thesis by (simp add: reconcile_slice_def)
  qed
qed

lemma reconcile_slices_expects:
  assumes E: "pod_control_ok (r_ext R)" and key: "KeyFunc (r_ext R) (job_Namespace job) (job_Name job) = Inr jobKey"
    and k: "k = GenExpectationPodsKey (r_ext R) jobKey (ToLower rtype)"
  shows "reconcile_slices R job k rtype spec replicas n i sls s = Some (err, s') \<Longrightarrow>
    expects_requests k (err = None) (loop_trace s) (loop_trace s')"
proof (induction sls arbitrary: i s)
  case (Cons sl sls)
  from Cons.prems obtain e s1 where one: "reconcile_slice R job k rtype spec replicas n i sl s = Some (e, s1)"
    by (auto simp: Option.bind_eq_Some_conv)
  note b = reconcile_slice_expects[OF E key k one]
  show ?case
  proof (cases e)
    case None
    with Cons.prems one have "reconcile_slices R job k rtype spec replicas n (i + 1) sls s1 = Some (err, s')" by simp
    from Cons.IH[OF this] b None show ?thesis using expects_requests_trans by simp
  next
    case (Some x)
    with Cons.prems one b show ?thesis by simp
  qed
qed simp

lemma ReconcilePods_expects:
  assumes "pod_control_ok (r_ext R)" and key: "KeyFunc (r_ext R) (job_Namespace job) (job_Name job) = Inr jobKey"
    and "ToLower rtype = rtype"
    and run: "ReconcilePods R now job jobStatus pods rtype (Some spec) replicas tr = Some (err, job', tr')"
  shows "expects_requests (GenExpectationPodsKey (r_ext R) jobKey rtype) (err = None) tr tr'"
proof -
  let ?k = "GenExpectationPodsKey (r_ext R) jobKey rtype"
  from run key obtain n slices e s where
    loop: "reconcile_slices R job ?k rtype spec replicas n 0 slices
       \<lparr>expectedCreation = 0, expectedDeletion = 0,
        validatedPods = (if rs_RestartPolicy spec = RestartPolicyNever then [] else FilterTerminatingPods (FilterPodsForReplicaType (r_ext R) pods (ToLower rtype))),
        loop_trace = tr\<rparr> = Some (e, s)"
    and fin: "finish_pods R now job jobStatus rtype e s = Some (err, job', tr')"
    unfolding ReconcilePods_def Let_def by (auto simp: Option.bind_eq_Some_conv)
  from reconcile_slices_expects[OF assms(1) key _ loop] assms(3)
  have b: "expects_requests ?k (e = None) tr (loop_trace s)" by simp
  from fin have "e = None \<longleftrightarrow> err = None" "\<exists>evs. tr' = loop_trace s @ map RecordEvent evs"
    by (auto simp: finish_pods_def Let_def Option.bind_eq_Some_conv split: if_splits intro: exI[of _ "[]"])
  then obtain evs where eq: "e = None \<longleftrightarrow> err = None" and tr': "tr' = loop_trace s @ map RecordEvent evs" by blast
  show ?thesis
  proof (cases "err = None")
    case True
    with b eq show ?thesis unfolding tr' using expects_requests_trans[OF _ expects_requests_events] by simp
  next
    case False
    with fin eq have "tr' = loop_trace s" by (auto simp: finish_pods_def)
    with b eq show ?thesis by simp
  qed
qed

section \<open>Observing the pods of a role\<close>

text \<open>The informer reports creations and deletions in any order.\<close>

definition observe_all :: "ext \<Rightarrow> AresJob \<Rightarrow> (bool \<times> Object) list \<Rightarrow> effect list \<Rightarrow> effect list" where
  "observe_all E job obs tr = fold (\<lambda>(created, obj). if created then AddObject E job obj else DeleteObject E job obj) obs tr"

definition role_pod :: "ReplicaType \<Rightarrow> Object \<Rightarrow> bool" where
  "role_pod rtype obj \<longleftrightarrow> obj_Kind obj = KPod \<and> gm_get (obj_Labels obj) ReplicaTypeLabel = Some rtype"

lemma GetReplicaType_label: "gm_get lbls ReplicaTypeLabel = Some rtype \<Longrightarrow> rtype \<noteq> [] \<Longrightarrow> GetReplicaType E lbls = rtype"
  by (cases lbls) (simp_all add: GetReplicaType_def gm_get_def)

lemma observe_all_pending_entry:
  assumes "KeyFunc E (job_Namespace job) (job_Name job) = Inr jobKey" "rtype \<noteq> []"
    and "\<forall>(c, obj) \<in> set obs. role_pod rtype obj"
  shows "pending (GenExpectationPodsKey E jobKey rtype) (observe_all E job obs tr) =
    (fst (pending (GenExpectationPodsKey E jobKey rtype) tr) - int (length (filter fst obs)),
     snd (pending (GenExpectationPodsKey E jobKey rtype) tr) - int (length (filter (\<lambda>x. \<not> fst x) obs))) \<and>
    entry (GenExpectationPodsKey E jobKey rtype) (observe_all E job obs tr) = entry (GenExpectationPodsKey E jobKey rtype) tr"
  using assms(3)
proof (induction obs arbitrary: tr)
  case Nil
  then show ?case by (simp add: observe_all_def)
next
  case (Cons x obs)
  obtain c obj where x: "x = (c, obj)" by (cases x)
  have "role_pod rtype obj" using Cons.prems x by simp
  then have key: "observe f E job obj tr = tr @ [f (GenExpectationPodsKey E jobKey rtype)]" for f
    using assms(1,2) GetReplicaType_label[of "obj_Labels obj" rtype E] by (simp add: observe_def role_pod_def expectation_key_def)
  have "observe_all E job (x # obs) tr =
      observe_all E job obs (tr @ [(if c then CreationObserved else DeletionObserved) (GenExpectationPodsKey E jobKey rtype)])"
    by (simp add: observe_all_def x AddObject_def DeleteObject_def key)
  moreover have "\<forall>(c, obj) \<in> set obs. role_pod rtype obj" using Cons.prems by simp
  ultimately show ?case using Cons.IH x by (simp add: pending_append entry_snoc)
qed

section \<open>Properties\<close>

text \<open>
  C6. The expectations of a role track its requests. After the expectations of a job have been reset, a round over the
  pods of one of its roles that reports no error leaves the role's key unsatisfied until, in any order, as many
  creations and as many deletions of the role's pods have been observed as the round has requested, or until the entry that the
  reset has made is older than the time-out of the store; then, and only then, it is satisfied again. The role name is lower case,
  which validation ensures, and the store counts and expires as documented.
\<close>

theorem expectations_gate:
  assumes "documented_store timeout clock satisfied" "pod_control_ok (r_ext R)"
    and "KeyFunc (r_ext R) (job_Namespace job) (job_Name job) = Inr jobKey" "ToLower rtype = rtype" "rtype \<noteq> []"
    and "rtype \<in> set (gm_keys (spec_RoleSpecs (job_Spec job)))"
    and "ResetExpectations R job tr0 = (None, tr)"
    and "ReconcilePods R now job jobStatus pods rtype (Some spec) replicas tr = Some (None, job', tr @ es)"
    and "\<forall>(c, obj) \<in> set obs. role_pod rtype obj"
  shows "\<exists>n. length tr0 \<le> n \<and> n < length tr \<and>
    (\<forall>later. satisfied later (observe_all (r_ext R) job obs (tr @ es)) (GenExpectationPodsKey (r_ext R) jobKey rtype) \<longleftrightarrow>
       length (filter is_create es) \<le> length (filter fst obs) \<and> length (filter is_delete es) \<le> length (filter (\<lambda>x. \<not> fst x) obs) \<or>
       clock n + timeout < later)"
proof -
  let ?k = "GenExpectationPodsKey (r_ext R) jobKey rtype"
  have "?k \<in> set (expectation_keys (r_ext R) job jobKey)" using assms(6) by (auto simp: expectation_keys_def)
  note reset = ResetExpectations_sets[OF assms(7,3) this]
  from ReconcilePods_expects[OF assms(2-4,8)] reset(1)
  have "pending ?k (tr @ es) = (int (length (filter is_create es)), int (length (filter is_delete es)))"
    and e: "entry ?k (tr @ es) = entry ?k tr"
    by (auto simp: expects_requests_def Let_def entry_kept)
  moreover from reset(2) obtain n where n: "entry ?k tr = Some n" "length tr0 \<le> n" "n < length tr" by blast
  ultimately show ?thesis
    using assms(1) observe_all_pending_entry[OF assms(3,5,9), of "tr @ es"] by (auto simp: documented_store_def)
qed

text \<open>A store with kubeflow's time-out of five minutes, and a call a second.\<close>

definition store_of :: "int \<Rightarrow> effect list \<Rightarrow> string \<Rightarrow> bool" where
  "store_of now tr k \<longleftrightarrow> (case entry k tr of
     None \<Rightarrow> True | Some n \<Rightarrow> fst (pending k tr) \<le> 0 \<and> snd (pending k tr) \<le> 0 \<or> int n + 300 < now)"

lemma store_documented: "documented_store 300 int store_of"
  by (simp add: documented_store_def store_of_def)

definition seen_worker :: Object where
  "seen_worker = \<lparr>obj_Kind = KPod, obj_Namespace = ''ns'', obj_Name = ''p1'', obj_Labels = Some [(ReplicaTypeLabel, RoleWorker)], obj_Controller = None\<rparr>"

text \<open>One worker is missing: its pod is requested, and the gate opens when it has been seen or after the time-out.\<close>

theorem expectations_gate_witness:
  "\<exists>job' es. ReconcilePods plain_reconciler 7 two_workers (Some zero_JobStatus) [worker 0] RoleWorker (Some worker_spec) None
       (snd (ResetExpectations plain_reconciler two_workers [])) =
       Some (None, job', snd (ResetExpectations plain_reconciler two_workers []) @ es) \<and>
     \<not> store_of 300 (snd (ResetExpectations plain_reconciler two_workers []) @ es) (GenExpectationPodsKey plain_ext ''ns/job'' RoleWorker) \<and>
     store_of 300 (AddObject plain_ext two_workers seen_worker (snd (ResetExpectations plain_reconciler two_workers []) @ es))
       (GenExpectationPodsKey plain_ext ''ns/job'' RoleWorker) \<and>
     store_of 400 (snd (ResetExpectations plain_reconciler two_workers []) @ es) (GenExpectationPodsKey plain_ext ''ns/job'' RoleWorker)"
proof -
  let ?tr = "snd (ResetExpectations plain_reconciler two_workers [])"
  let ?run = "ReconcilePods plain_reconciler 7 two_workers (Some zero_JobStatus) [worker 0] RoleWorker (Some worker_spec) None ?tr"
  have E: "pod_control_ok (r_ext plain_reconciler)" "r_ext plain_reconciler = plain_ext" using plain_pod_control by (simp_all add: plain_reconciler_def)
  have k: "KeyFunc (r_ext plain_reconciler) (job_Namespace two_workers) (job_Name two_workers) = Inr ''ns/job''" by code_simp
  have low: "ToLower RoleWorker = RoleWorker" "RoleWorker \<noteq> []" by code_simp+
  have mem: "RoleWorker \<in> set (gm_keys (spec_RoleSpecs (job_Spec two_workers)))" by code_simp
  have reset: "ResetExpectations plain_reconciler two_workers [] = (None, ?tr)" "length ?tr < 100" by code_simp+
  have "case ?run of Some (None, job', tr') \<Rightarrow> take (length ?tr) tr' = ?tr \<and>
      length (filter is_create (drop (length ?tr) tr')) = 1 \<and> filter is_delete (drop (length ?tr) tr') = [] | _ \<Rightarrow> False"
    by code_simp
  then obtain job' tr' where run: "?run = Some (None, job', tr')" and pre: "take (length ?tr) tr' = ?tr"
    and one: "length (filter is_create (drop (length ?tr) tr')) = 1" "filter is_delete (drop (length ?tr) tr') = []"
    by (auto split: option.splits)
  define es where "es = drop (length ?tr) tr'"
  have "take (length ?tr) tr' @ es = tr'" unfolding es_def by (rule append_take_drop_id)
  then have tr': "tr' = ?tr @ es" unfolding pre by (rule sym)
  note run' = run[unfolded tr'] and one' = one[folded es_def]
  note gate = expectations_gate[OF store_documented E(1) k low mem reset(1) run']
  have seen: "role_pod RoleWorker seen_worker" by (simp add: role_pod_def seen_worker_def gm_get_def)
  from gate[of "[]"] one' E(2) obtain n where n: "n < length ?tr"
    "\<And>t. store_of t (?tr @ es) (GenExpectationPodsKey plain_ext ''ns/job'' RoleWorker) \<longleftrightarrow> int n + 300 < t" by (auto simp: observe_all_def)
  have shut: "\<not> store_of 300 (?tr @ es) (GenExpectationPodsKey plain_ext ''ns/job'' RoleWorker)" using n(2) by simp
  have late: "store_of 400 (?tr @ es) (GenExpectationPodsKey plain_ext ''ns/job'' RoleWorker)" using n reset(2) by simp
  have opened: "store_of 300 (AddObject plain_ext two_workers seen_worker (?tr @ es)) (GenExpectationPodsKey plain_ext ''ns/job'' RoleWorker)"
    using gate[of "[(True, seen_worker)]"] one' E(2) seen by (auto simp: observe_all_def)
  show ?thesis by (rule exI[of _ job'], rule exI[of _ es], intro conjI, rule run', rule shut, rule opened, rule late)
qed

end
