(* ===== verification/Podgroups.thy ===== *)
theory Podgroups
  imports Expectations
begin

text \<open>
  \<open>reconciler/podgroup.go\<close>: what a job learns from the volcano pod group of its pods (that it has been scheduled, that it
  has been evicted) and the metadata it passes on. \<open>UpdateJobStatusInApiServer\<close> of \<open>reconciler/job.go\<close> is here because
  the eviction ends with it. The lemmas show what each answer means for the job: an eviction fails the job with the
  status that later rounds recognise, and from then on the pod group causes no further call.
\<close>

section \<open>Pod groups\<close>

record PodGroupCondition =
  pgc_Type :: string
  pgc_Status :: string
  pgc_Reason :: string
  pgc_Message :: string

record PodGroup =
  pg_Namespace :: string
  pg_Name :: string
  pg_Labels :: labels
  pg_Annotations :: labels
  pg_Phase :: string
  pg_Conditions :: "PodGroupCondition list"

definition PodReady :: string where [go_consts]: "PodReady = ''Ready''"
definition PodGroupScheduled :: string where [go_consts]: "PodGroupScheduled = ''Scheduled''"

datatype ReconcileAction = ActionContinue | ActionSkip | ActionBreak

text \<open>
  What a reconciliation reads from outside, each time it asks: the answer may depend on the calls made before.
  \<open>w_getPodGroup\<close> is the answer to \<open>Get\<close>, \<open>w_pods\<close> and \<open>w_services\<close> to the lists of the objects of the job,
  \<open>w_role_pods\<close> to the list of the pods of a role, \<open>w_syncedPodGroup\<close> what kubeflow's \<open>SyncPodGroup\<close> returns,
  \<open>w_satisfied\<close> the verdict of the expectation store, \<open>w_now\<close> the clock.
\<close>

record World =
  w_getJob :: "effect list \<Rightarrow> AresJob result"
  w_getPodGroup :: "effect list \<Rightarrow> PodGroup result"
  w_syncedPodGroup :: "effect list \<Rightarrow> PodGroup result"
  w_pods :: "effect list \<Rightarrow> Pod list result"
  w_services :: "effect list \<Rightarrow> Service list result"
  w_role_pods :: "effect list \<Rightarrow> ReplicaType \<Rightarrow> Pod list result"
  w_satisfied :: "effect list \<Rightarrow> string \<Rightarrow> bool"
  w_now :: int

section \<open>Reading conditions\<close>

definition IsPodPreempted :: "Pod \<Rightarrow> bool \<times> string" where
  "IsPodPreempted pod =
     (case find (\<lambda>c. pc_Type c = PodReady \<and> pc_Status c = ConditionFalse \<and> pc_Reason c = Preempted) (pod_Conditions pod) of
        Some c \<Rightarrow> (True, pc_Message c)
      | None \<Rightarrow> (False, []))"

definition IsPodGroupEvicted :: "PodGroup \<Rightarrow> bool \<times> string" where
  "IsPodGroupEvicted pg =
     (case find (\<lambda>c. pgc_Type c = Evicted_reason \<and> pgc_Status c = ConditionTrue) (pg_Conditions pg) of
        Some c \<Rightarrow> (True, pgc_Message c)
      | None \<Rightarrow> (False, []))"

definition IsPodGroupScheduled :: "PodGroup \<Rightarrow> bool \<times> string" where
  "IsPodGroupScheduled pg =
     (case find (\<lambda>c. pgc_Type c = PodGroupScheduled \<and> pgc_Status c = ConditionTrue) (pg_Conditions pg) of
        Some c \<Rightarrow> (True, pgc_Reason c)
      | None \<Rightarrow> (False, []))"

definition GetPodGroupForJob :: "World \<Rightarrow> effect list \<Rightarrow> PodGroup option result" where
  "GetPodGroupForJob W tr =
     (case w_getPodGroup W tr of
        Inl err \<Rightarrow> if IsNotFound err then Inr None else Inl err
      | Inr pg \<Rightarrow> Inr (Some pg))"

definition PodGroupExists :: "World \<Rightarrow> effect list \<Rightarrow> bool" where
  "PodGroupExists W tr =
     (case GetPodGroupForJob W tr of
        Inr _ \<Rightarrow> True
      | Inl err \<Rightarrow> False)"

definition isPodPreempted :: "World \<Rightarrow> effect list \<Rightarrow> bool \<times> string" where
  "isPodPreempted W tr =
     (case w_pods W tr of
        Inl err \<Rightarrow> (False, [])
      | Inr pods \<Rightarrow> (case find (\<lambda>pod. fst (IsPodPreempted pod)) pods of
                       Some pod \<Rightarrow> (True, snd (IsPodPreempted pod))
                     | None \<Rightarrow> (False, [])))"

section \<open>Writing the status\<close>

definition getPhases :: "AresJob \<Rightarrow> (ReplicaType \<times> RolePhase) list option" where
  "getPhases job =
     mmap (\<lambda>(role, p). do { status \<leftarrow> p; Some (role, role_Phase status) }) (gm_entries (st_RoleStatuses (job_Status job)))"

text \<open>
  \<open>UpdateJobStatusInApiServer\<close>. The comparison is between a \<open>**JobStatus\<close> and a \<open>*JobStatus\<close>, which are never deeply equal,
  so it is always a copy that is sent. The phases are computed for the log after the call.
\<close>

definition UpdateJobStatusInApiServer ::
  "Reconciler \<Rightarrow> AresJob \<Rightarrow> JobStatus option \<Rightarrow> effect list \<Rightarrow> (go_error option \<times> effect list) option" where
  "UpdateJobStatusInApiServer R job jobStatus tr = do {
     let aresJob = job\<lparr>job_Status := (job_Status job)\<lparr>st_JobStatus := jobStatus\<rparr>\<rparr>;
     let result = answer_err (r_server R tr (UpdateStatus aresJob));
     phases \<leftarrow> getPhases aresJob;
     Some (result, tr @ [UpdateStatus aresJob]) }"

definition condition_job :: "ext \<Rightarrow> AresJob \<Rightarrow> JobConditionType \<Rightarrow> string \<Rightarrow> string \<Rightarrow> AresJob option" where
  "condition_job E job ctype reason message = do {
     js \<leftarrow> st_JobStatus (job_Status job);
     Some (job\<lparr>job_Status := (job_Status job)\<lparr>st_JobStatus := Some (UpdateJobConditions E js ctype reason message)\<rparr>\<rparr>) }"

definition setEvictedCondition :: "ext \<Rightarrow> AresJob \<Rightarrow> string \<Rightarrow> AresJob option" where
  "setEvictedCondition E job message = condition_job E job JobFailed Preempted message"

definition updateJobCondition ::
  "Reconciler \<Rightarrow> AresJob \<Rightarrow> JobConditionType \<Rightarrow> string \<Rightarrow> string \<Rightarrow> effect list \<Rightarrow> (go_error option \<times> AresJob \<times> effect list) option" where
  "updateJobCondition R job ctype reason message tr = do {
     job1 \<leftarrow> condition_job (r_ext R) job ctype reason message;
     Some (answer_err (r_server R tr (UpdateStatus job1)), job1, tr @ [UpdateStatus job1]) }"

section \<open>From the pod group to the job\<close>

definition updateScheduledByPodGroup ::
  "Reconciler \<Rightarrow> AresJob \<Rightarrow> PodGroup \<Rightarrow> effect list \<Rightarrow> (bool result \<times> AresJob \<times> effect list) option" where
  "updateScheduledByPodGroup R job podgroup tr =
     (if (case GetCondition (job_Status job) JobScheduled of Some cond \<Rightarrow> jc_Status cond = ConditionTrue | None \<Rightarrow> False)
      then Some (Inr False, job, tr)
      else
        let (scheduled, message) = IsPodGroupScheduled podgroup
        in if \<not> scheduled then Some (Inr False, job, tr)
           else do {
             (err, job1, tr1) \<leftarrow> updateJobCondition R job JobScheduled JobScheduled message tr;
             Some (case err of Some e \<Rightarrow> (Inl e, job1, tr1) | None \<Rightarrow> (Inr True, job1, tr1)) })"

text \<open>\<open>checkEviction\<close>: certain, possible or no eviction.\<close>

definition checkEviction :: "ext \<Rightarrow> World \<Rightarrow> AresJob \<Rightarrow> PodGroup \<Rightarrow> effect list \<Rightarrow> (bool option \<times> AresJob) option" where
  "checkEviction E W job podgroup tr =
     (let (evicted, msg) = IsPodGroupEvicted podgroup
      in if evicted then do { job1 \<leftarrow> setEvictedCondition E job msg; Some (Some True, job1) }
         else if fst (isPodPreempted W tr) then Some (Some False, job)
         else Some (None, job))"

definition SyncFromPodGroup ::
  "Reconciler \<Rightarrow> World \<Rightarrow> AresJob \<Rightarrow> effect list \<Rightarrow> (ReconcileAction result \<times> AresJob \<times> effect list) option" where
  "SyncFromPodGroup R W job tr =
     (if \<not> EnableGangScheduling (job_Spec job) then Some (Inr ActionContinue, job, tr)
      else case GetPodGroupForJob W tr of
        Inl err \<Rightarrow> Some (Inr ActionContinue, job, tr)
      | Inr None \<Rightarrow> Some (Inr ActionContinue, job, tr)
      | Inr (Some podgroup) \<Rightarrow> do {
          (updated, job1, tr1) \<leftarrow> updateScheduledByPodGroup R job podgroup tr;
          case updated of
            Inl err \<Rightarrow> Some (Inl err, job1, tr1)
          | Inr True \<Rightarrow> Some (Inr ActionBreak, job1, tr1)
          | Inr False \<Rightarrow> do {
              ev \<leftarrow> Evicted (job_Status job1);
              if ev then Some (Inr ActionSkip, job1, tr1)
              else do {
                (evicted, job2) \<leftarrow> checkEviction (r_ext R) W job1 podgroup tr1;
                case evicted of
                  None \<Rightarrow> Some (Inr ActionContinue, job2, tr1)
                | Some False \<Rightarrow> Some (Inr ActionSkip, job2, tr1)
                | Some True \<Rightarrow> do {
                    (job3, evs) \<leftarrow> (if st_Phase (job_Status job2) \<noteq> JobPhaseFailed then SetJobPhase (w_now W) job2 JobPhaseFailed
                                    else Some (job2, []));
                    (err, tr2) \<leftarrow> UpdateJobStatusInApiServer R job3 (st_JobStatus (job_Status job3)) (tr1 @ map RecordEvent evs);
                    Some (case err of Some e \<Rightarrow> (Inl e, job3, tr2) | None \<Rightarrow> (Inr ActionBreak, job3, tr2)) } } } })"

text \<open>\<open>SyncToPodGroup\<close>: the metadata of the job, as for its pods.\<close>

definition SyncToPodGroup :: "Reconciler \<Rightarrow> World \<Rightarrow> AresJob \<Rightarrow> effect list \<Rightarrow> go_error option \<times> effect list" where
  "SyncToPodGroup R W job tr =
     (if \<not> EnableGangScheduling (job_Spec job) then (None, tr)
      else case GetPodGroupForJob W tr of
        Inl err \<Rightarrow> (Some err, tr)
      | Inr None \<Rightarrow> (None, tr)
      | Inr (Some pg) \<Rightarrow>
          let call = (\<lambda>p. PatchObject (pg_Namespace pg) (pg_Name pg) p);
              (err, sent) = patchMetadata (\<lambda>p. answer_err (r_server R tr (call p))) (job_Annotations job) (pg_Annotations pg) (pg_Labels pg)
          in (err, case sent of None \<Rightarrow> tr | Some p \<Rightarrow> tr @ [call p]))"

section \<open>Lemmas\<close>

text \<open>The documented behaviour of \<open>UpdateJobConditions\<close> on an unfinished job: the condition is recorded, and the one about scheduling stays.\<close>

definition unfinished :: "JobStatus \<Rightarrow> bool" where
  "unfinished js \<longleftrightarrow> (\<forall>c \<in> set (js_Conditions js). jc_Type c \<in> {JobFailed, JobSucceeded} \<longrightarrow> jc_Status c \<noteq> ConditionTrue)"

definition conditions_recorded :: "ext \<Rightarrow> bool" where
  "conditions_recorded E \<longleftrightarrow>
     (\<forall>js t reason msg. unfinished js \<longrightarrow> (\<exists>c \<in> set (js_Conditions (UpdateJobConditions E js t reason msg)).
        jc_Type c = t \<and> jc_Status c = ConditionTrue \<and> jc_Reason c = reason)) \<and>
     (\<forall>js t reason msg. t \<noteq> JobScheduled \<longrightarrow>
        find (\<lambda>c. jc_Type c = JobScheduled) (js_Conditions (UpdateJobConditions E js t reason msg)) =
        find (\<lambda>c. jc_Type c = JobScheduled) (js_Conditions js))"

lemma find_filter_other: "\<forall>x. P x \<longrightarrow> Q x \<Longrightarrow> find P (filter Q xs) = find P xs"
  by (induction xs) auto

lemma find_append: "find P (xs @ ys) = (case find P xs of None \<Rightarrow> find P ys | Some x \<Rightarrow> Some x)"
  by (induction xs) simp_all

lemma plain_conditions_recorded: "conditions_recorded plain_ext"
  by (auto simp: conditions_recorded_def plain_ext_def find_append find_filter_other split: option.splits)

definition is_scheduled :: "AresJobStatus \<Rightarrow> bool" where
  "is_scheduled status \<longleftrightarrow> (\<exists>c. GetCondition status JobScheduled = Some c \<and> jc_Status c = ConditionTrue)"

lemma updateScheduled_done: "is_scheduled (job_Status job) \<Longrightarrow> updateScheduledByPodGroup R job pg tr = Some (Inr False, job, tr)"
  by (auto simp: is_scheduled_def updateScheduledByPodGroup_def)

lemma getPhases_total:
  assumes "\<forall>(r, p) \<in> set (gm_entries (st_RoleStatuses (job_Status job))). p \<noteq> None"
  obtains phases where "getPhases job = Some phases"
proof -
  have "\<exists>ys. mmap (\<lambda>(role, p). do { status \<leftarrow> p; Some (role, role_Phase status) }) xs = Some ys"
    if "\<forall>(r, p) \<in> set xs. p \<noteq> None" for xs :: "(ReplicaType \<times> RoleStatus option) list"
    using that by (induction xs) auto
  with assms that show ?thesis unfolding getPhases_def by blast
qed

text \<open>The job that an eviction leaves.\<close>

definition evicted_job :: "ext \<Rightarrow> int \<Rightarrow> AresJob \<Rightarrow> string \<Rightarrow> AresJob" where
  "evicted_job E now job msg =
     (let js = UpdateJobConditions E (the (st_JobStatus (job_Status job))) JobFailed Preempted msg
      in job\<lparr>job_Status := (job_Status job)\<lparr>
           st_JobStatus := Some (if js_CompletionTime js = None then js\<lparr>js_CompletionTime := Some now\<rparr> else js),
           st_Phase := JobPhaseFailed\<rparr>\<rparr>)"

lemma SyncFromPodGroup_evicts:
  assumes gang: "EnableGangScheduling (job_Spec job)" and pg: "w_getPodGroup W tr = Inr pg" "IsPodGroupEvicted pg = (True, msg)"
    and st: "is_scheduled (job_Status job)" "st_Phase (job_Status job) \<noteq> JobPhaseFailed" "st_JobStatus (job_Status job) = Some js"
    and roles: "\<forall>(r, p) \<in> set (gm_entries (st_RoleStatuses (job_Status job))). p \<noteq> None"
    and j_def: "j = evicted_job (r_ext R) (w_now W) job msg"
  shows "\<exists>ev. SyncFromPodGroup R W job tr = Some
    (case answer_err (r_server R (tr @ [RecordEvent ev]) (UpdateStatus j)) of Some e \<Rightarrow> Inl e | None \<Rightarrow> Inr ActionBreak,
     j, tr @ [RecordEvent ev, UpdateStatus j])"
proof -
  have ne: "JobPhaseFailed \<noteq> JobPhaseRunning" by (simp add: go_consts)
  let ?js = "UpdateJobConditions (r_ext R) js JobFailed Preempted msg"
  let ?j2 = "job\<lparr>job_Status := (job_Status job)\<lparr>st_JobStatus := Some ?js\<rparr>\<rparr>"
  have c: "checkEviction (r_ext R) W job pg tr = Some (Some True, ?j2)"
    using pg(2) st(3) by (simp add: checkEviction_def setEvictedCondition_def condition_job_def)
  obtain ev where s: "SetJobPhase (w_now W) ?j2 JobPhaseFailed = Some (j, [ev])"
    using ne st(3) by (simp add: SetJobPhase_def IsFinished_def j_def evicted_job_def Let_def)
  have roles': "st_RoleStatuses (job_Status j) = st_RoleStatuses (job_Status job)" by (simp add: j_def evicted_job_def Let_def)
  obtain phases where ph: "getPhases j = Some phases" using getPhases_total[of j] roles roles' by auto
  have same: "j\<lparr>job_Status := (job_Status j)\<lparr>st_JobStatus := st_JobStatus (job_Status j)\<rparr>\<rparr> = j" by simp
  have e: "Evicted (job_Status job) = Some False" using st(2) by (simp add: Evicted_def)
  have u: "UpdateJobStatusInApiServer R j (st_JobStatus (job_Status j)) (tr @ [RecordEvent ev]) =
      Some (answer_err (r_server R (tr @ [RecordEvent ev]) (UpdateStatus j)), (tr @ [RecordEvent ev]) @ [UpdateStatus j])"
    unfolding UpdateJobStatusInApiServer_def same Let_def ph by simp
  have "SyncFromPodGroup R W job tr = Some
    (case answer_err (r_server R (tr @ [RecordEvent ev]) (UpdateStatus j)) of Some e \<Rightarrow> Inl e | None \<Rightarrow> Inr ActionBreak,
     j, tr @ [RecordEvent ev, UpdateStatus j])"
    using gang pg(1) st(2) by (simp add: SyncFromPodGroup_def GetPodGroupForJob_def updateScheduled_done[OF st(1)] e c s u split: option.split)
  then show ?thesis by blast
qed

lemma evicted_job_status:
  assumes "conditions_recorded E" "st_JobStatus (job_Status job) = Some js" "unfinished js" "is_scheduled (job_Status job)"
  shows "Evicted (job_Status (evicted_job E now job msg)) = Some True" "is_scheduled (job_Status (evicted_job E now job msg))"
    and "job_Spec (evicted_job E now job msg) = job_Spec job" "st_Phase (job_Status (evicted_job E now job msg)) = JobPhaseFailed"
proof -
  let ?js = "UpdateJobConditions E js JobFailed Preempted msg"
  have conds: "\<exists>js'. st_JobStatus (job_Status (evicted_job E now job msg)) = Some js' \<and> js_Conditions js' = js_Conditions ?js"
    using assms(2) by (simp add: evicted_job_def Let_def)
  have ne: "JobFailed \<noteq> JobScheduled" by (simp add: go_consts)
  from assms(1,3) obtain c where "c \<in> set (js_Conditions ?js)" "jc_Type c = JobFailed" "jc_Status c = ConditionTrue" "jc_Reason c = Preempted"
    unfolding conditions_recorded_def by blast
  then show "Evicted (job_Status (evicted_job E now job msg)) = Some True"
    using conds by (auto simp: Evicted_def evicted_job_def Let_def list_ex_iff)
  have "find (\<lambda>c. jc_Type c = JobScheduled) (js_Conditions ?js) = find (\<lambda>c. jc_Type c = JobScheduled) (js_Conditions js)"
    using assms(1) ne unfolding conditions_recorded_def by blast
  then show "is_scheduled (job_Status (evicted_job E now job msg))"
    using conds assms(2,4) by (auto simp: is_scheduled_def GetCondition_def)
  show "job_Spec (evicted_job E now job msg) = job_Spec job" "st_Phase (job_Status (evicted_job E now job msg)) = JobPhaseFailed"
    by (simp_all add: evicted_job_def Let_def)
qed

lemma SyncFromPodGroup_skips:
  assumes "Evicted (job_Status job) = Some True" "is_scheduled (job_Status job)"
  shows "SyncFromPodGroup R W job tr = Some
    (Inr (if EnableGangScheduling (job_Spec job) \<and> (\<exists>pg. w_getPodGroup W tr = Inr pg) then ActionSkip else ActionContinue), job, tr)"
  using assms by (cases "w_getPodGroup W tr") (simp_all add: SyncFromPodGroup_def GetPodGroupForJob_def updateScheduled_done)

text \<open>A missing pod group is reported as no error, and so counts as existing.\<close>

lemma PodGroupExists_when_missing: "w_getPodGroup W tr = Inl ApiNotFound \<Longrightarrow> PodGroupExists W tr"
  by (simp add: PodGroupExists_def GetPodGroupForJob_def IsNotFound_def)

section \<open>Properties\<close>

text \<open>
  C15. Eviction is final. When the pod group of a scheduled, unfinished job is evicted, the job is failed: the status sent
  to the API server has the phase Failed and is recognised as evicted, and the round breaks off unless the update
  itself fails. For every job with that status the pod group never again causes a call or a change, whatever is read, and a
  round that sees the pod group is skipped.
\<close>

theorem eviction_final:
  assumes "conditions_recorded (r_ext R)" "EnableGangScheduling (job_Spec job)"
    and "w_getPodGroup W tr = Inr pg" "IsPodGroupEvicted pg = (True, msg)"
    and "is_scheduled (job_Status job)" "st_Phase (job_Status job) \<noteq> JobPhaseFailed"
    and "st_JobStatus (job_Status job) = Some js" "unfinished js"
    and "\<forall>(r, p) \<in> set (gm_entries (st_RoleStatuses (job_Status job))). p \<noteq> None"
  shows "\<exists>res job' ev. SyncFromPodGroup R W job tr = Some (res, job', tr @ [RecordEvent ev, UpdateStatus job']) \<and>
    (res = Inr ActionBreak \<longleftrightarrow> answer_err (r_server R (tr @ [RecordEvent ev]) (UpdateStatus job')) = None) \<and>
    job_Spec job' = job_Spec job \<and> st_Phase (job_Status job') = JobPhaseFailed \<and> Evicted (job_Status job') = Some True \<and>
    (\<forall>R' W' tr' later. job_Spec later = job_Spec job \<longrightarrow> job_Status later = job_Status job' \<longrightarrow>
      (\<exists>a. SyncFromPodGroup R' W' later tr' = Some (Inr a, later, tr') \<and> a \<noteq> ActionBreak \<and>
        ((\<exists>pg. w_getPodGroup W' tr' = Inr pg) \<longrightarrow> a = ActionSkip)))"
proof -
  let ?j = "evicted_job (r_ext R) (w_now W) job msg"
  from SyncFromPodGroup_evicts[OF assms(2-7,9) refl] obtain ev where run: "SyncFromPodGroup R W job tr = Some
    (case answer_err (r_server R (tr @ [RecordEvent ev]) (UpdateStatus ?j)) of Some e \<Rightarrow> Inl e | None \<Rightarrow> Inr ActionBreak,
     ?j, tr @ [RecordEvent ev, UpdateStatus ?j])" by blast
  note st = evicted_job_status[OF assms(1,7,8,5), of "w_now W" msg]
  have later: "\<exists>a. SyncFromPodGroup R' W' later tr' = Some (Inr a, later, tr') \<and> a \<noteq> ActionBreak \<and>
        ((\<exists>pg. w_getPodGroup W' tr' = Inr pg) \<longrightarrow> a = ActionSkip)"
    if "job_Spec later = job_Spec job" "job_Status later = job_Status ?j" for R' W' tr' later
    using SyncFromPodGroup_skips[of later R' W' tr'] st(1,2) that assms(2) by simp
  show ?thesis
    by (rule exI, rule exI, rule exI, rule conjI, rule run) (use st later in \<open>auto split: option.split\<close>)
qed

definition evicted_group :: PodGroup where
  "evicted_group = \<lparr>pg_Namespace = ''ns'', pg_Name = ''job'', pg_Labels = None, pg_Annotations = None, pg_Phase = ''Running'',
     pg_Conditions = [\<lparr>pgc_Type = Evicted_reason, pgc_Status = ConditionTrue, pgc_Reason = [], pgc_Message = ''preempted''\<rparr>]\<rparr>"

definition gang_job :: AresJob where
  "gang_job = two_workers\<lparr>
     job_Spec := (job_Spec two_workers)\<lparr>spec_RunPolicy := \<lparr>rp_CleanPodPolicy = None, rp_SchedulingPolicy = Some \<lparr>sp_MinAvailable = Some 2\<rparr>\<rparr>\<rparr>,
     job_Status := (job_Status two_workers)\<lparr>st_Phase := JobPhaseRunning, st_JobStatus := Some (zero_JobStatus\<lparr>js_Conditions :=
       [\<lparr>jc_Type = JobScheduled, jc_Status = ConditionTrue, jc_Reason = JobScheduled, jc_Message = [], jc_LastTransitionTime = None\<rparr>]\<rparr>)\<rparr>\<rparr>"

definition plain_world :: "PodGroup \<Rightarrow> World" where
  "plain_world pg = \<lparr>w_getJob = (\<lambda>tr. Inr gang_job), w_getPodGroup = (\<lambda>tr. Inr pg), w_syncedPodGroup = (\<lambda>tr. Inr pg),
     w_pods = (\<lambda>tr. Inr []), w_services = (\<lambda>tr. Inr []), w_role_pods = (\<lambda>tr r. Inr []), w_satisfied = (\<lambda>tr k. True), w_now = 7\<rparr>"

theorem eviction_final_witness:
  "\<exists>job' ev. SyncFromPodGroup plain_reconciler (plain_world evicted_group) gang_job [] =
       Some (Inr ActionBreak, job', [RecordEvent ev, UpdateStatus job']) \<and>
     SyncFromPodGroup plain_reconciler (plain_world evicted_group) job' [] = Some (Inr ActionSkip, job', [])"
proof -
  let ?W = "plain_world evicted_group"
  have 1: "conditions_recorded (r_ext plain_reconciler)" using plain_conditions_recorded by (simp add: plain_reconciler_def)
  have 2: "EnableGangScheduling (job_Spec gang_job)" by code_simp
  have 3: "w_getPodGroup ?W tr = Inr evicted_group" for tr by (simp add: plain_world_def)
  have 4: "IsPodGroupEvicted evicted_group = (True, ''preempted'')" by code_simp
  have "case GetCondition (job_Status gang_job) JobScheduled of Some c \<Rightarrow> jc_Status c = ConditionTrue | None \<Rightarrow> False" by code_simp
  then have 5: "is_scheduled (job_Status gang_job)" by (auto simp: is_scheduled_def split: option.splits)
  have 6: "st_Phase (job_Status gang_job) \<noteq> JobPhaseFailed" by code_simp
  obtain js where 7: "st_JobStatus (job_Status gang_job) = Some js" by (simp add: gang_job_def)
  have "unfinished (the (st_JobStatus (job_Status gang_job)))" by code_simp
  then have 8: "unfinished js" by (simp add: 7)
  have 9: "\<forall>(r, p) \<in> set (gm_entries (st_RoleStatuses (job_Status gang_job))). p \<noteq> None" by code_simp
  have ok: "answer_err (r_server plain_reconciler tr e) = None" for tr e by (simp add: plain_reconciler_def answer_err_def)
  from eviction_final[OF 1 2 3 4 5 6 7 8 9, of "[]"] ok obtain job' ev where
    run: "SyncFromPodGroup plain_reconciler ?W gang_job [] = Some (Inr ActionBreak, job', [RecordEvent ev, UpdateStatus job'])"
    and spec: "job_Spec job' = job_Spec gang_job"
    and later: "\<And>R' W' tr' later. job_Spec later = job_Spec gang_job \<Longrightarrow> job_Status later = job_Status job' \<Longrightarrow>
      (\<exists>a. SyncFromPodGroup R' W' later tr' = Some (Inr a, later, tr') \<and> ((\<exists>pg. w_getPodGroup W' tr' = Inr pg) \<longrightarrow> a = ActionSkip))"
    by force
  from later[OF spec refl, of plain_reconciler ?W "[]"] 3 run show ?thesis by auto
qed

end
