(* ===== verification/Jobs.thy ===== *)
theory Jobs
  imports Podgroups
begin

text \<open>
  \<open>reconciler/job.go\<close>: reading and deleting a job, its status and phases, the clean-up of everything it owns, and the entry
  of a reconciliation, which waits for the pod group and clears stale expectations before it hands over to kubeflow's
  \<open>ReconcileJobs\<close>. That function is a parameter; it calls back into the definitions of the theories Pods, Services and Phases.
\<close>

section \<open>Reading and deleting a job\<close>

definition GetJobFromInformerCache :: "World \<Rightarrow> effect list \<Rightarrow> AresJob result" where
  "GetJobFromInformerCache W tr = w_getJob W tr"

definition GetJobFromAPIClient :: "World \<Rightarrow> effect list \<Rightarrow> AresJob result" where
  "GetJobFromAPIClient W tr = GetJobFromInformerCache W tr"

definition FailedDeleteJobReason :: string where [go_consts]: "FailedDeleteJobReason = ''FailedDeleteJob''"
definition SuccessfulDeleteJobReason :: string where [go_consts]: "SuccessfulDeleteJobReason = ''SuccessfulDeleteJob''"

definition DeleteJob :: "Reconciler \<Rightarrow> AresJob \<Rightarrow> effect list \<Rightarrow> go_error option \<times> effect list" where
  "DeleteJob R job tr =
     (let call = effect.DeleteJob (job_Namespace job) (job_Name job)
      in case answer_err (r_server R tr call) of
           Some err \<Rightarrow> (Some err, tr @ [call, RecordEvent \<lparr>ev_Type = EventTypeWarning, ev_Reason = FailedDeleteJobReason,
                          ev_Message = ''Error deleting: '' @ ErrorText (r_ext R) err\<rparr>])
         | None \<Rightarrow> (None, tr @ [call, RecordEvent \<lparr>ev_Type = EventTypeNormal, ev_Reason = SuccessfulDeleteJobReason,
                          ev_Message = ''Deleted job: '' @ job_Name job\<rparr>]))"

definition UpdateJobStatus :: "Reconciler \<Rightarrow> int \<Rightarrow> AresJob \<Rightarrow> JobStatus option \<Rightarrow> effect list \<Rightarrow> (AresJob \<times> effect list) option" where
  "UpdateJobStatus R now job jobStatus tr = do {
     (job1, evs) \<leftarrow> UpdatePhases (r_ext R) now (job\<lparr>job_Status := (job_Status job)\<lparr>st_JobStatus := jobStatus\<rparr>\<rparr>);
     Some (job1, tr @ map RecordEvent evs) }"

section \<open>Clean-up\<close>

text \<open>Calls in a row, up to the first that fails.\<close>

fun call_all :: "server \<Rightarrow> effect list \<Rightarrow> effect list \<Rightarrow> go_error option \<times> effect list" where
  "call_all srv [] tr = (None, tr)"
| "call_all srv (call # calls) tr =
     (case answer_err (srv tr call) of
        Some err \<Rightarrow> (Some err, tr @ [call])
      | None \<Rightarrow> call_all srv calls (tr @ [call]))"

definition CleanUpResources :: "Reconciler \<Rightarrow> World \<Rightarrow> AresJob \<Rightarrow> effect list \<Rightarrow> go_error option \<times> effect list" where
  "CleanUpResources R W job tr =
     (case w_pods W tr of
        Inl err \<Rightarrow> (Some err, tr)
      | Inr pods \<Rightarrow>
          let (err1, tr1) = call_all (r_server R) (map (\<lambda>pod. DeletePod (pod_Namespace pod) (pod_Name pod)) pods) tr
          in if err1 \<noteq> None then (err1, tr1)
             else case w_services W tr1 of
               Inl err \<Rightarrow> (Some err, tr1)
             | Inr services \<Rightarrow>
                 let (err2, tr2) = call_all (r_server R) (map (\<lambda>svc. DeleteService (svc_Namespace svc) (svc_Name svc)) services) tr1
                 in if err2 \<noteq> None then (err2, tr2)
                    else if EnableGangScheduling (job_Spec job)
                    then call_all (r_server R) [DeletePodGroup (job_Namespace job) (job_Name job)] tr2
                    else (None, tr2))"

section \<open>Reconciliation\<close>

definition SyncFromJob :: "Reconciler \<Rightarrow> World \<Rightarrow> AresJob \<Rightarrow> effect list \<Rightarrow> go_error option \<times> effect list" where
  "SyncFromJob R W job tr =
     (let (err, tr1) = SyncToPodGroup R W job tr
      in if err \<noteq> None then (err, tr1) else SyncToPod R job (w_pods W tr1) tr1)"

type_synonym JobController_ReconcileJobs =
  "Reconciler \<Rightarrow> AresJob \<Rightarrow> (ReplicaType, ReplicaSpec option) gomap \<Rightarrow> JobStatus \<Rightarrow> RunPolicy \<Rightarrow> effect list
     \<Rightarrow> (go_error option \<times> AresJob \<times> effect list) option"

definition PodGroupPending :: string where [go_consts]: "PodGroupPending = ''Pending''"

definition podgroup_waits :: "string \<Rightarrow> go_error" where
  "podgroup_waits phase =
     ReconcileErr (NewReconcileError (''pod group is ['' @ phase @ '']'') [WithRetryAfter Second, DisableReRaise])"

text \<open>The first half: the pod group of an unfinished job with gang scheduling.\<close>

definition await_podgroup :: "Reconciler \<Rightarrow> World \<Rightarrow> AresJob \<Rightarrow> RunPolicy \<Rightarrow> effect list \<Rightarrow> (go_error option \<times> effect list) option" where
  "await_podgroup R W job runPolicy tr =
     (if \<not> IsFinished (st_Phase (job_Status job)) \<and> EnableGangScheduling (job_Spec job) then do {
        policy \<leftarrow> rp_SchedulingPolicy runPolicy;
        minMember \<leftarrow> sp_MinAvailable policy;
        let tr1 = tr @ [SyncPodGroup (job_Namespace job) (job_Name job) minMember];
        Some (case w_syncedPodGroup W tr1 of
            Inl err \<Rightarrow> (Some err, tr1)
          | Inr podGroup \<Rightarrow>
              let phase = pg_Phase podGroup
              in (if length phase = 0 \<or> phase = PodGroupPending then Some (podgroup_waits phase) else None, tr1)) }
      else Some (None, tr))"

definition ReconcileJobs ::
  "Reconciler \<Rightarrow> World \<Rightarrow> JobController_ReconcileJobs \<Rightarrow> AresJob \<Rightarrow> (ReplicaType, ReplicaSpec option) gomap \<Rightarrow> JobStatus
     \<Rightarrow> RunPolicy \<Rightarrow> effect list \<Rightarrow> (go_error option \<times> AresJob \<times> effect list) option" where
  "ReconcileJobs R W JC job replicas jobStatus runPolicy tr = do {
     (err, tr1) \<leftarrow> await_podgroup R W job runPolicy tr;
     if err \<noteq> None then Some (err, job, tr1)
     else
       let (err2, tr2) = ResetExpectations R job tr1
       in case err2 of
            Some err \<Rightarrow> Some (Some (Errorf (''failed to reset expectations: '' @ ErrorText (r_ext R) err)), job, tr2)
          | None \<Rightarrow> JC R job replicas jobStatus runPolicy tr2 }"

section \<open>Lemmas\<close>

lemma call_all_outcome:
  "call_all srv calls tr = (err, tr') \<Longrightarrow>
     (err = None \<longrightarrow> tr' = tr @ calls) \<and>
     (\<forall>e. err = Some e \<longrightarrow> (\<exists>n < length calls. tr' = tr @ take (Suc n) calls \<and> answer_err (srv (tr @ take n calls) (calls ! n)) = Some e))"
proof (induction calls arbitrary: tr)
  case (Cons c calls)
  show ?case
  proof (cases "answer_err (srv tr c)")
    case None
    with Cons.prems have "call_all srv calls (tr @ [c]) = (err, tr')" by simp
    note IH = Cons.IH[OF this]
    show ?thesis
    proof (cases err)
      case None
      with IH show ?thesis by simp
    next
      case (Some e)
      with IH obtain n where "n < length calls" "tr' = (tr @ [c]) @ take (Suc n) calls" "answer_err (srv ((tr @ [c]) @ take n calls) (calls ! n)) = Some e"
        by blast
      with Some show ?thesis by (auto intro!: exI[of _ "Suc n"])
    qed
  next
    case (Some e)
    with Cons.prems show ?thesis by auto
  qed
qed simp

lemma call_all_append:
  "call_all srv (xs @ ys) tr = (let (err, tr1) = call_all srv xs tr in if err \<noteq> None then (err, tr1) else call_all srv ys tr1)"
  by (induction xs arbitrary: tr) (simp_all add: Let_def split: option.split)

text \<open>What a clean-up has to delete.\<close>

definition cleanup_plan :: "AresJob \<Rightarrow> Pod list \<Rightarrow> Service list \<Rightarrow> effect list" where
  "cleanup_plan job pods services =
     map (\<lambda>pod. DeletePod (pod_Namespace pod) (pod_Name pod)) pods @
     map (\<lambda>svc. DeleteService (svc_Namespace svc) (svc_Name svc)) services @
     (if EnableGangScheduling (job_Spec job) then [DeletePodGroup (job_Namespace job) (job_Name job)] else [])"

lemma CleanUpResources_plan:
  assumes "w_pods W tr = Inr pods" "\<And>tr. w_services W tr = Inr services"
  shows "CleanUpResources R W job tr = call_all (r_server R) (cleanup_plan job pods services) tr"
  unfolding CleanUpResources_def cleanup_plan_def call_all_append Let_def using assms
  by (auto simp: case_prod_beta split: option.split)

lemma await_podgroup_total:
  "\<exists>err tr'. await_podgroup R W job (spec_RunPolicy (job_Spec job)) tr = Some (err, tr')"
  by (auto simp: await_podgroup_def EnableGangScheduling_def Let_def split: option.splits sum.split)

lemma podgroup_waits_retry:
  "\<exists>r. IsReconcileError (podgroup_waits ph) = Some r \<and> RetryAfter r = Second \<and> ReconcileError_Err r = None"
  by (simp add: podgroup_waits_def IsReconcileError_def NewReconcileError_def WithRetryAfter_def DisableReRaise_def ReconcileError_Err_def)

lemma await_podgroup_outcome:
  assumes a: "await_podgroup R W job (spec_RunPolicy (job_Spec job)) tr = Some (e, tr1)"
    and gang: "EnableGangScheduling (job_Spec job)" "\<not> IsFinished (st_Phase (job_Status job))"
  obtains n where "tr1 = tr @ [SyncPodGroup (job_Namespace job) (job_Name job) n]"
    "case w_syncedPodGroup W tr1 of Inl err \<Rightarrow> e = Some err
     | Inr pg \<Rightarrow> e = (if pg_Phase pg \<in> {[], PodGroupPending} then Some (podgroup_waits (pg_Phase pg)) else None)"
proof -
  obtain p n where p: "rp_SchedulingPolicy (spec_RunPolicy (job_Spec job)) = Some p" "sp_MinAvailable p = Some n"
    using gang(1) by (auto simp: EnableGangScheduling_def split: option.splits)
  let ?tr = "tr @ [SyncPodGroup (job_Namespace job) (job_Name job) n]"
  show ?thesis
  proof (cases "w_syncedPodGroup W ?tr")
    case (Inl err)
    with a gang p have "tr1 = ?tr" "e = Some err" by (simp_all add: await_podgroup_def)
    with Inl that[of n] show ?thesis by simp
  next
    case (Inr pg)
    with a gang p have "tr1 = ?tr" "e = (if pg_Phase pg \<in> {[], PodGroupPending} then Some (podgroup_waits (pg_Phase pg)) else None)"
      by (simp_all add: await_podgroup_def Let_def)
    with Inr that[of n] show ?thesis by simp
  qed
qed

lemma await_podgroup_off:
  assumes "await_podgroup R W job rp tr = Some (e, tr1)" "\<not> (EnableGangScheduling (job_Spec job) \<and> \<not> IsFinished (st_Phase (job_Status job)))"
  shows "e = None" "tr1 = tr"
  using assms by (auto simp: await_podgroup_def)

lemma await_podgroup_fails:
  assumes a: "await_podgroup R W job (spec_RunPolicy (job_Spec job)) tr = Some (Some x, tr1)"
  shows "\<exists>n. tr1 = tr @ [SyncPodGroup (job_Namespace job) (job_Name job) n] \<and> (w_syncedPodGroup W tr1 = Inl x \<or>
      (\<exists>pg r. w_syncedPodGroup W tr1 = Inr pg \<and> pg_Phase pg \<in> {[], PodGroupPending} \<and> IsReconcileError x = Some r \<and>
         RetryAfter r = Second \<and> ReconcileError_Err r = None))"
proof -
  have g: "EnableGangScheduling (job_Spec job)" "\<not> IsFinished (st_Phase (job_Status job))" using await_podgroup_off[OF a] by auto
  from await_podgroup_outcome[OF a g] obtain n where n: "tr1 = tr @ [SyncPodGroup (job_Namespace job) (job_Name job) n]"
    and out: "case w_syncedPodGroup W tr1 of Inl err \<Rightarrow> Some x = Some err
     | Inr pg \<Rightarrow> Some x = (if pg_Phase pg \<in> {[], PodGroupPending} then Some (podgroup_waits (pg_Phase pg)) else None)" by blast
  from n out podgroup_waits_retry show ?thesis by (cases "w_syncedPodGroup W tr1") (auto split: if_splits)
qed

lemma await_podgroup_passes:
  assumes a: "await_podgroup R W job (spec_RunPolicy (job_Spec job)) tr = Some (None, tr1)"
    and g: "EnableGangScheduling (job_Spec job)" "\<not> IsFinished (st_Phase (job_Status job))"
  shows "\<exists>n pg. w_syncedPodGroup W (tr @ [SyncPodGroup (job_Namespace job) (job_Name job) n]) = Inr pg \<and> pg_Phase pg \<notin> {[], PodGroupPending}"
proof -
  from await_podgroup_outcome[OF a g] obtain n where n: "tr1 = tr @ [SyncPodGroup (job_Namespace job) (job_Name job) n]"
    and out: "case w_syncedPodGroup W tr1 of Inl err \<Rightarrow> None = Some err
     | Inr pg \<Rightarrow> None = (if pg_Phase pg \<in> {[], PodGroupPending} then Some (podgroup_waits (pg_Phase pg)) else None)" by blast
  then show ?thesis by (cases "w_syncedPodGroup W tr1") (auto split: if_splits)
qed

section \<open>Properties\<close>

text \<open>
  A clean-up deletes everything the job owns, or reports the call that failed: given the listed pods and services, the
  calls are those of the plan (every pod, every service, then the pod group of a gang-scheduled job) in this order; without an
  error all of them are made, and with one the calls stop right after the one the API server refused.
\<close>

lemma CleanUpResources_complete:
  assumes "w_pods W tr = Inr pods" "\<forall>tr. w_services W tr = Inr services"
    and "CleanUpResources R W job tr = (err, tr')"
  shows "(err = None \<longrightarrow> tr' = tr @ cleanup_plan job pods services) \<and>
    (\<forall>e. err = Some e \<longrightarrow> (\<exists>n < length (cleanup_plan job pods services). tr' = tr @ take (Suc n) (cleanup_plan job pods services) \<and>
       answer_err (r_server R (tr @ take n (cleanup_plan job pods services)) (cleanup_plan job pods services ! n)) = Some e))"
proof -
  have "call_all (r_server R) (cleanup_plan job pods services) tr = (err, tr')"
    using CleanUpResources_plan[OF assms(1), of services R job] assms(2,3) by simp
  then show ?thesis by (rule call_all_outcome)
qed

text \<open>
  C20. No pod or service is touched before the pod group is ready. For an unfinished gang-scheduled job whose pod group has no
  phase yet or is Pending, the round ends with a request to come back after a second, which is not raised as an error; neither the
  expectations nor kubeflow's reconciliation are reached. In every other round that reaches it, all expectations of the job have just
  been reset.
\<close>

theorem ReconcileJobs_gate:
  assumes "ReconcileJobs R W JC job replicas jobStatus (spec_RunPolicy (job_Spec job)) tr = Some (err, job', tr')"
  shows "(\<exists>e n. err = Some e \<and> job' = job \<and>
      (tr' = tr @ [SyncPodGroup (job_Namespace job) (job_Name job) n] \<and> (w_syncedPodGroup W tr' = Inl e \<or>
         (\<exists>pg r. w_syncedPodGroup W tr' = Inr pg \<and> pg_Phase pg \<in> {[], PodGroupPending} \<and> IsReconcileError e = Some r \<and>
            RetryAfter r = Second \<and> ReconcileError_Err r = None)) \<or>
       (\<exists>x. e = Errorf (''failed to reset expectations: '' @ x)))) \<or>
    (\<exists>tr1 jobKey. KeyFunc (r_ext R) (job_Namespace job) (job_Name job) = Inr jobKey \<and>
      (\<forall>k \<in> set (expectation_keys (r_ext R) job jobKey). pending k tr1 = (0, 0)) \<and>
      JC R job replicas jobStatus (spec_RunPolicy (job_Spec job)) tr1 = Some (err, job', tr') \<and>
      (EnableGangScheduling (job_Spec job) \<and> \<not> IsFinished (st_Phase (job_Status job)) \<longrightarrow>
        (\<exists>n pg. w_syncedPodGroup W (tr @ [SyncPodGroup (job_Namespace job) (job_Name job) n]) = Inr pg \<and> pg_Phase pg \<notin> {[], PodGroupPending})))"
proof -
  obtain e tr1 where a: "await_podgroup R W job (spec_RunPolicy (job_Spec job)) tr = Some (e, tr1)" using await_podgroup_total by blast
  show ?thesis
  proof (cases e)
    case (Some x)
    with assms a have "err = Some x" "job' = job" "tr' = tr1" by (simp_all add: ReconcileJobs_def)
    with await_podgroup_fails[OF a[unfolded Some]] show ?thesis by blast
  next
    case None
    obtain e2 tr2 where r: "ResetExpectations R job tr1 = (e2, tr2)" by fastforce
    show ?thesis
    proof (cases e2)
      case (Some x)
      with assms a None r have "err = Some (Errorf (''failed to reset expectations: '' @ ErrorText (r_ext R) x))" "job' = job" by (auto simp: ReconcileJobs_def)
      then show ?thesis by blast
    next
      case ok: None
      obtain jobKey where k: "KeyFunc (r_ext R) (job_Namespace job) (job_Name job) = Inr jobKey"
        using r ok by (cases "KeyFunc (r_ext R) (job_Namespace job) (job_Name job)")
          (simp_all add: ResetExpectations_def ExpectationsFuncApply_def)
      have "JC R job replicas jobStatus (spec_RunPolicy (job_Spec job)) tr2 = Some (err, job', tr')"
        using assms a None r ok by (simp add: ReconcileJobs_def)
      then show ?thesis using k ResetExpectations_sets(1)[OF r[unfolded ok] k] await_podgroup_passes[OF a[unfolded None]] by blast
    qed
  qed
qed

definition waiting_group :: PodGroup where
  "waiting_group = evicted_group\<lparr>pg_Phase := PodGroupPending, pg_Conditions := []\<rparr>"

theorem ReconcileJobs_gate_witness:
  "\<exists>e r. ReconcileJobs plain_reconciler (plain_world waiting_group) (\<lambda>R job replicas js rp tr. None) gang_job None zero_JobStatus
       (spec_RunPolicy (job_Spec gang_job)) [] = Some (Some e, gang_job, [SyncPodGroup ''ns'' ''job'' 2]) \<and>
     IsReconcileError e = Some r \<and> RetryAfter r = Second \<and> ReconcileError_Err r = None"
proof -
  let ?JC = "\<lambda>R job replicas js rp tr. None"
  let ?run = "ReconcileJobs plain_reconciler (plain_world waiting_group) ?JC gang_job None zero_JobStatus (spec_RunPolicy (job_Spec gang_job)) []"
  have "case ?run of Some (Some e, job', tr') \<Rightarrow> IsReconcileError e \<noteq> None \<and>
      tr' = [SyncPodGroup ''ns'' ''job'' 2] | _ \<Rightarrow> False"
    by code_simp
  then obtain e job' tr' where run: "?run = Some (Some e, job', tr')" and tr': "tr' = [SyncPodGroup ''ns'' ''job'' 2]"
    and ne: "IsReconcileError e \<noteq> None" by (auto split: option.splits)
  have "w_syncedPodGroup (plain_world waiting_group) tr' = Inr waiting_group" by (simp add: plain_world_def)
  moreover have "IsReconcileError (Errorf x) = None" for x by (simp add: IsReconcileError_def)
  ultimately have "job' = gang_job" "\<exists>r. IsReconcileError e = Some r \<and> RetryAfter r = Second \<and> ReconcileError_Err r = None"
    using ReconcileJobs_gate[OF run] ne by auto
  with run tr' show ?thesis by blast
qed

end
