(* ===== verification/Webhook.thy ===== *)
theory Webhook
  imports Metadata
begin

text \<open>
  Admission of an \<open>AresJob\<close> (\<open>api/v1/aresjob_webhook.go\<close>, \<open>utils/validation.go\<close>): \<open>Default\<close>
  fills in the unset fields of a job, \<open>ValidateCreate\<close> accepts or rejects it. The same two methods
  run in the webhook and at the start of every reconciliation.

  The lemmas show when defaulting panics, that it settles after one run, that it establishes
  \<open>roles_ok\<close> and an initialised status, and that validation decides a declarative condition which
  does not depend on the order in which Go visits the roles.
\<close>

section \<open>utils/validation.go\<close>

definition dns_alnum :: "char \<Rightarrow> bool" where
  "dns_alnum c \<longleftrightarrow> is_digit c \<or> (97 \<le> (of_char c :: nat) \<and> (of_char c :: nat) \<le> 122)"

text \<open>The pattern \<open>^[a-z0-9]([-a-z0-9]*[a-z0-9])?$\<close>.\<close>

definition dns1123Pattern :: "string \<Rightarrow> bool" where
  "dns1123Pattern s =
     (case s of
        [] \<Rightarrow> False
      | c # cs \<Rightarrow> dns_alnum c \<and>
          (cs = [] \<or> (list_all (\<lambda>d. d = CHR ''-'' \<or> dns_alnum d) (butlast cs) \<and> dns_alnum (last cs))))"

definition MatchDNS1123 :: "string \<Rightarrow> go_error option" where
  "MatchDNS1123 s = (if dns1123Pattern s then None else Some (ErrValidation (IllegalRoleName s)))"

section \<open>Default\<close>

text \<open>The body of the loop over the role specs.\<close>

definition Default_role :: "RoleSpec \<Rightarrow> RoleSpec" where
  "Default_role spec =
     (let rs = (case role_ReplicaSpec spec of None \<Rightarrow> zero_ReplicaSpec | Some r \<Rightarrow> r);
          ctl = (if role_Controller spec = [] then ControllerPod else role_Controller spec);
          rs1 = (if rs_RestartPolicy rs = [] then rs\<lparr>rs_RestartPolicy := RestartPolicyNever\<rparr> else rs);
          pol = role_RolePhasePolicy spec;
          pol1 = (if rs_RestartPolicy rs1 = RestartPolicyNever
                  then pol\<lparr>rpp_Failed := (case rpp_Failed pol of None \<Rightarrow> Some RolePhaseConditionAnyPod
                                             | Some c \<Rightarrow> Some c),
                           rpp_Succeeded := (case rpp_Succeeded pol of None \<Rightarrow> Some RolePhaseConditionAllPods
                                             | Some c \<Rightarrow> Some c)\<rparr>
                  else pol);
          rs2 = (case rs_Replicas rs1 of None \<Rightarrow> rs1\<lparr>rs_Replicas := Some 1\<rparr> | Some _ \<Rightarrow> rs1)
      in spec\<lparr>role_ReplicaSpec := Some rs2, role_RolePhasePolicy := pol1, role_Controller := ctl\<rparr>)"

text \<open>The labels that follow the job-level annotations.\<close>

definition Default_label :: "string \<times> string \<Rightarrow> labels \<Rightarrow> labels option" where
  "Default_label kv lbls =
     (if IsJobLevelKey (fst kv) then gm_put lbls (fst kv) (snd kv) else Some lbls)"

definition Default_roleStatus ::
  "ReplicaType \<Rightarrow> (ReplicaType, RoleStatus option) gomap \<Rightarrow> (ReplicaType, RoleStatus option) gomap option" where
  "Default_roleStatus role statuses =
     (if gm_ptr statuses role = None then gm_put statuses role (Some (new_RoleStatus RolePhasePending))
      else Some statuses)"

definition Default_spec :: "AresJobSpec \<Rightarrow> AresJobSpec option" where
  "Default_spec spec = do {
     let run = spec_RunPolicy spec;
     roles \<leftarrow> mmap_val (map_option (\<lambda>sp. Some (Default_role sp))) (gm_entries (spec_RoleSpecs spec));
     Some (spec\<lparr>spec_RunPolicy :=
                  run\<lparr>rp_CleanPodPolicy := (case rp_CleanPodPolicy run of None \<Rightarrow> Some CleanPodPolicyNone
                                             | Some p \<Rightarrow> Some p)\<rparr>,
                spec_RoleSpecs := map_option (\<lambda>_. roles) (spec_RoleSpecs spec)\<rparr>) }"

definition Default_status :: "ReplicaType list \<Rightarrow> AresJobStatus \<Rightarrow> AresJobStatus option" where
  "Default_status roles status = do {
     statuses \<leftarrow> mfold Default_roleStatus roles (gm_make (st_RoleStatuses status));
     Some (status\<lparr>st_JobStatus := (case st_JobStatus status of None \<Rightarrow> Some zero_JobStatus | Some s \<Rightarrow> Some s),
                  st_RoleStatuses := statuses,
                  st_Phase := (if st_Phase status = [] then JobPhasePending else st_Phase status)\<rparr>) }"

definition Default :: "ext \<Rightarrow> AresJob \<Rightarrow> AresJob option" where
  "Default E r = do {
     let annotations = gm_make (job_Annotations r);
     dep \<leftarrow> HasDependence (job_Spec r);
     let finalizers = (if dep \<and> \<not> ContainsFinalizer E (job_Finalizers r) AresJobFinalizer
                       then AddFinalizer E (job_Finalizers r) AresJobFinalizer else job_Finalizers r);
     lbls \<leftarrow> mfold Default_label (gm_entries annotations) (gm_make (job_Labels r));
     spec \<leftarrow> Default_spec (job_Spec r);
     status \<leftarrow> Default_status (gm_keys (spec_RoleSpecs spec)) (job_Status r);
     Some (r\<lparr>job_Annotations := annotations, job_Finalizers := finalizers, job_Labels := lbls,
             job_Spec := spec, job_Status := status\<rparr>) }"

section \<open>ValidateCreate\<close>

text \<open>
  The body of the loop over the roles. The format arguments of the message about the replicas
  dereference the pointer, also when it is nil.
\<close>

definition Validate_role :: "ReplicaType \<times> RoleSpec option \<Rightarrow> go_error option option" where
  "Validate_role kv =
     (let (role, p) = kv in
      case MatchDNS1123 role of
        Some err \<Rightarrow> Some (Some err)
      | None \<Rightarrow> do {
          spec \<leftarrow> p;
          rs \<leftarrow> role_ReplicaSpec spec;
          case rs_Replicas rs of
            None \<Rightarrow> None
          | Some n \<Rightarrow>
              Some (if sint n \<le> 0 then Some (ErrValidation (ReplicasNotPositive role (sint n)))
                    else if ps_Containers (pt_Spec (rs_Template rs)) = []
                    then Some (ErrValidation (TooFewContainers role))
                    else case role_Dependence spec of
                           None \<Rightarrow> None
                         | Some d \<Rightarrow>
                             if dep_MPIHostFile d = None \<and> dep_RoleNames d = []
                             then Some (ErrValidation (DependenceRolesRequired role)) else None) })"

definition ValidateCreate :: "AresJob \<Rightarrow> go_error option option" where
  "ValidateCreate r =
     (if gm_len (spec_RoleSpecs (job_Spec r)) = 0 then Some (Some (ErrValidation RoleSpecsRequired))
      else mfirst Validate_role (gm_entries (spec_RoleSpecs (job_Spec r))))"

definition ValidateUpdate :: "AresJob \<Rightarrow> AresJob \<Rightarrow> go_error option" where
  "ValidateUpdate r old = None"

definition ValidateDelete :: "AresJob \<Rightarrow> go_error option" where
  "ValidateDelete r = None"

section \<open>Specifications\<close>

text \<open>What validation asks of one role.\<close>

definition valid_role :: "ReplicaType \<Rightarrow> RoleSpec \<Rightarrow> bool" where
  "valid_role role spec \<longleftrightarrow> dns1123Pattern role \<and>
     (\<exists>rs n. role_ReplicaSpec spec = Some rs \<and> rs_Replicas rs = Some n \<and> 0 < sint n
        \<and> ps_Containers (pt_Spec (rs_Template rs)) \<noteq> []) \<and>
     (\<forall>d. role_Dependence spec = Some d \<longrightarrow> dep_MPIHostFile d \<noteq> None \<or> dep_RoleNames d \<noteq> [])"

text \<open>The documented behaviour of the finalizer helpers of controller-runtime.\<close>

definition finalizers_ok :: "ext \<Rightarrow> bool" where
  "finalizers_ok E \<longleftrightarrow>
     (\<forall>fs f. ContainsFinalizer E fs f = (f \<in> set fs)) \<and>
     (\<forall>fs f. AddFinalizer E fs f = (if f \<in> set fs then fs else fs @ [f])) \<and>
     (\<forall>fs f. RemoveFinalizer E fs f = filter (\<lambda>g. g \<noteq> f) fs)"

section \<open>Lemmas\<close>

lemma Default_role_idem [simp]: "Default_role (Default_role sp) = Default_role sp"
  by (simp add: Default_role_def Let_def go_consts split: option.splits)

lemma Default_role_dependence [simp]: "role_Dependence (Default_role sp) = role_Dependence sp"
  by (simp add: Default_role_def Let_def)

lemma Default_role_replicas:
  "\<exists>rs n. role_ReplicaSpec (Default_role sp) = Some rs \<and> rs_Replicas rs = Some n"
  by (auto simp: Default_role_def Let_def split: option.splits)

lemma Default_spec_roles:
  "(mmap_val (map_option (\<lambda>sp. Some (Default_role sp))) al = Some bl) \<longleftrightarrow>
     (\<forall>(k, p) \<in> set al. p \<noteq> None) \<and> bl = map (\<lambda>(k, p). (k, map_option Default_role p)) al"
  unfolding mmap_val_def
proof (induction al arbitrary: bl)
  case (Cons kp al)
  then show ?case by (cases kp; cases "snd kp") (auto simp: Option.bind_eq_Some_conv)
qed auto

lemma Default_spec_Some_conv:
  "Default_spec s = Some s' \<longleftrightarrow>
     (\<forall>(k, p) \<in> set (gm_entries (spec_RoleSpecs s)). p \<noteq> None) \<and>
     s' = s\<lparr>spec_RunPolicy := (spec_RunPolicy s)\<lparr>rp_CleanPodPolicy :=
              (case rp_CleanPodPolicy (spec_RunPolicy s) of None \<Rightarrow> Some CleanPodPolicyNone | Some p \<Rightarrow> Some p)\<rparr>,
            spec_RoleSpecs := map_option (map (\<lambda>(k, p). (k, map_option Default_role p))) (spec_RoleSpecs s)\<rparr>"
  by (cases "spec_RoleSpecs s")
    (auto simp: Default_spec_def Let_def Option.bind_eq_Some_conv Default_spec_roles)

lemma Default_spec_None_iff:
  "Default_spec s = None \<longleftrightarrow> (\<exists>k. (k, None) \<in> set (gm_entries (spec_RoleSpecs s)))"
proof -
  have "Default_spec s \<noteq> None \<longleftrightarrow> (\<forall>(k, p) \<in> set (gm_entries (spec_RoleSpecs s)). p \<noteq> None)"
    using Default_spec_Some_conv[of s] by auto
  then show ?thesis by auto
qed

lemma Default_spec_keys:
  "Default_spec s = Some s' \<Longrightarrow> gm_keys (spec_RoleSpecs s') = gm_keys (spec_RoleSpecs s)"
  by (cases "spec_RoleSpecs s") (auto simp: Default_spec_Some_conv gm_keys_def)

lemma Default_spec_idem: "Default_spec s = Some s' \<Longrightarrow> Default_spec s' = Some s'"
  by (cases "spec_RoleSpecs s")
    (auto simp: Default_spec_Some_conv case_prod_beta option.map_comp comp_def split: option.splits)

lemma Default_spec_roles_ok:
  assumes "Default_spec s = Some s'" "gm_ok (spec_RoleSpecs s)"
  shows "roles_ok (spec_RoleSpecs s')"
  unfolding roles_ok_def
proof (intro conjI ballI)
  show "gm_ok (spec_RoleSpecs s')" using assms by (simp add: gm_ok_def Default_spec_keys)
  fix x assume x: "x \<in> set (gm_entries (spec_RoleSpecs s'))"
  from assms(1) have "gm_entries (spec_RoleSpecs s')
      = map (\<lambda>(k, p). (k, map_option Default_role p)) (gm_entries (spec_RoleSpecs s))"
    by (cases "spec_RoleSpecs s") (simp_all add: Default_spec_Some_conv)
  with x obtain k p where kp: "(k, p) \<in> set (gm_entries (spec_RoleSpecs s))" "x = (k, map_option Default_role p)"
    by auto
  with assms(1) obtain sp where "p = Some sp" by (fastforce simp: Default_spec_Some_conv)
  with kp Default_role_replicas[of sp]
  show "case x of (r, p) \<Rightarrow> \<exists>sp rs n. p = Some sp \<and> role_ReplicaSpec sp = Some rs \<and> rs_Replicas rs = Some n"
    by simp
qed

lemma HasDependence_Default_spec:
  assumes "Default_spec s = Some s'"
  shows "HasDependence s' = HasDependence s" "HasDependence s \<noteq> None"
proof -
  let ?f = "\<lambda>(_ :: ReplicaType, roleSpec). do { rs \<leftarrow> roleSpec; Some (role_Dependence rs \<noteq> None) }"
  let ?al = "gm_entries (spec_RoleSpecs s)"
  have nn: "\<forall>(k, p) \<in> set ?al. p \<noteq> None" using assms by (simp add: Default_spec_Some_conv)
  have "mex ?f (map (\<lambda>(k, p). (k, map_option Default_role p)) al) = mex ?f al"
    if "\<forall>(k, p) \<in> set al. p \<noteq> None" for al
    using that by (induction al) auto
  with nn assms show "HasDependence s' = HasDependence s"
    by (cases "spec_RoleSpecs s") (auto simp: HasDependence_def Default_spec_Some_conv)
  show "HasDependence s \<noteq> None"
    using nn mex_NoneD[of ?f ?al] unfolding HasDependence_def by fastforce
qed

lemma Default_labels_run:
  assumes "mfold Default_label al m = Some m'" "distinct (map fst al)"
  shows "gm_get m' k = (if IsJobLevelKey k \<and> map_of al k \<noteq> None then map_of al k else gm_get m k)"
  using assms
proof (induction al arbitrary: m)
  case (Cons kv al)
  obtain a b where kv: "kv = (a, b)" by (cases kv)
  from Cons.prems kv obtain t where t: "Default_label (a, b) m = Some t" "mfold Default_label al t = Some m'"
    by (auto simp: Option.bind_eq_Some_conv)
  from Cons.prems kv have "map_of al a = None" by (auto simp: map_of_eq_None_iff)
  with Cons.IH[OF t(2)] Cons.prems t(1) kv show ?case
    by (auto simp: Default_label_def gm_get_put split: if_splits)
qed simp

lemma Default_labels_total: "\<exists>m'. mfold Default_label al (Some m) = Some (Some m')"
proof -
  have "\<exists>s'. mfold Default_label al (Some m) = Some s' \<and> (\<exists>x. s' = Some x)"
    by (rule mfold_total[where I = "\<lambda>s. \<exists>x. s = Some x"]) (auto simp: Default_label_def)
  then show ?thesis by blast
qed

lemma Default_labels_stable:
  assumes "\<And>k v. (k, v) \<in> set al \<Longrightarrow> IsJobLevelKey k \<Longrightarrow> gm_get (Some m) k = Some v"
  shows "mfold Default_label al (Some m) = Some (Some m)"
  using assms
proof (induction al)
  case (Cons kv al)
  then have "Default_label kv (Some m) = Some (Some m)"
    by (cases kv) (auto simp: Default_label_def gm_get_def alist_update_same)
  moreover have "mfold Default_label al (Some m) = Some (Some m)"
    using Cons.prems by (intro Cons.IH) auto
  ultimately show ?case by simp
qed simp

lemma Default_statuses_run:
  assumes "mfold Default_roleStatus roles m = Some m'"
  shows "gm_ptr m' r = (if gm_ptr m r = None \<and> r \<in> set roles then Some (new_RoleStatus RolePhasePending)
                        else gm_ptr m r)"
  using assms
proof (induction roles arbitrary: m)
  case (Cons x roles)
  then obtain t where t: "Default_roleStatus x m = Some t" "mfold Default_roleStatus roles t = Some m'"
    by (auto simp: Option.bind_eq_Some_conv)
  from t(1) have "gm_ptr t r = (if gm_ptr m r = None \<and> r = x then Some (new_RoleStatus RolePhasePending)
                                else gm_ptr m r)"
    by (auto simp: Default_roleStatus_def gm_ptr_put split: if_splits)
  with Cons.IH[OF t(2)] show ?case by auto
qed simp

lemma Default_statuses_total: "\<exists>m'. mfold Default_roleStatus roles (Some m) = Some (Some m')"
proof -
  have "\<exists>s'. mfold Default_roleStatus roles (Some m) = Some s' \<and> (\<exists>x. s' = Some x)"
    by (rule mfold_total[where I = "\<lambda>s. \<exists>x. s = Some x"]) (auto simp: Default_roleStatus_def)
  then show ?thesis by blast
qed

lemma Default_statuses_stable:
  "\<forall>r \<in> set roles. gm_ptr m r \<noteq> None \<Longrightarrow> mfold Default_roleStatus roles m = Some m"
  by (induction roles) (auto simp: Default_roleStatus_def)

lemma Default_status_total: "Default_status roles st \<noteq> None"
proof -
  obtain al where "gm_make (st_RoleStatuses st) = Some al" by (metis gm_make_not_None option.exhaust)
  with Default_statuses_total[of roles al] show ?thesis by (auto simp: Default_status_def)
qed

lemma Default_status_idem:
  assumes "Default_status roles st = Some st'"
  shows "Default_status roles st' = Some st'"
proof -
  from assms obtain m where m: "mfold Default_roleStatus roles (gm_make (st_RoleStatuses st)) = Some m"
    and st': "st' = st\<lparr>st_JobStatus := (case st_JobStatus st of None \<Rightarrow> Some zero_JobStatus | Some s \<Rightarrow> Some s),
                       st_RoleStatuses := m,
                       st_Phase := (if st_Phase st = [] then JobPhasePending else st_Phase st)\<rparr>"
    by (auto simp: Default_status_def Option.bind_eq_Some_conv)
  obtain al where al: "gm_make (st_RoleStatuses st) = Some al" by (metis gm_make_not_None option.exhaust)
  with m Default_statuses_total[of roles al] obtain al' where al': "m = Some al'" by auto
  have "\<forall>r \<in> set roles. gm_ptr m r \<noteq> None"
    using Default_statuses_run[OF m] by auto
  then have "mfold Default_roleStatus roles (gm_make m) = Some m"
    using al' by (simp add: Default_statuses_stable)
  then show ?thesis
    by (simp add: Default_status_def st' go_consts split: option.splits)
qed

lemma Default_Some_conv:
  "Default E r = Some r' \<longleftrightarrow>
     (\<exists>dep lbls spec status.
        HasDependence (job_Spec r) = Some dep \<and>
        mfold Default_label (gm_entries (job_Annotations r)) (gm_make (job_Labels r)) = Some lbls \<and>
        Default_spec (job_Spec r) = Some spec \<and>
        Default_status (gm_keys (spec_RoleSpecs spec)) (job_Status r) = Some status \<and>
        r' = r\<lparr>job_Annotations := gm_make (job_Annotations r),
               job_Finalizers := (if dep \<and> \<not> ContainsFinalizer E (job_Finalizers r) AresJobFinalizer
                  then AddFinalizer E (job_Finalizers r) AresJobFinalizer else job_Finalizers r),
               job_Labels := lbls, job_Spec := spec, job_Status := status\<rparr>)"
  unfolding Default_def Let_def Option.bind_eq_Some_conv option.inject gm_entries_make by blast

lemma Default_total:
  assumes "\<forall>(k, p) \<in> set (gm_entries (spec_RoleSpecs (job_Spec r))). p \<noteq> None"
  shows "Default E r \<noteq> None"
proof -
  from assms obtain spec where spec: "Default_spec (job_Spec r) = Some spec"
    by (simp add: Default_spec_Some_conv)
  from HasDependence_Default_spec(2)[OF this] obtain dep where dep: "HasDependence (job_Spec r) = Some dep"
    by auto
  obtain al where "gm_make (job_Labels r) = Some al" by (metis gm_make_not_None option.exhaust)
  with Default_labels_total[of "gm_entries (job_Annotations r)" al] obtain lbls where
    l: "mfold Default_label (gm_entries (job_Annotations r)) (gm_make (job_Labels r)) = Some lbls" by auto
  obtain st where "Default_status (gm_keys (spec_RoleSpecs spec)) (job_Status r) = Some st"
    using Default_status_total by blast
  with spec dep l have "\<exists>r'. Default E r = Some r'" unfolding Default_Some_conv by blast
  then show ?thesis by auto
qed

lemma Default_None_iff:
  "Default E r = None \<longleftrightarrow> (\<exists>k. (k, None) \<in> set (gm_entries (spec_RoleSpecs (job_Spec r))))"
proof
  assume "Default E r = None"
  with Default_total[of r E] show "\<exists>k. (k, None) \<in> set (gm_entries (spec_RoleSpecs (job_Spec r)))"
    by force
next
  assume "\<exists>k. (k, None) \<in> set (gm_entries (spec_RoleSpecs (job_Spec r)))"
  then have "Default_spec (job_Spec r) = None" by (simp add: Default_spec_None_iff)
  then show "Default E r = None"
    by (cases "Default E r") (auto simp: Default_Some_conv)
qed

lemma plain_finalizers: "finalizers_ok plain_ext"
  by (simp add: finalizers_ok_def plain_ext_def)

lemma Validate_role_ok_iff:
  "Validate_role (role, p) = Some None \<longleftrightarrow> (\<exists>spec. p = Some spec \<and> valid_role role spec)"
proof (cases "p \<noteq> None \<and> role_ReplicaSpec (the p) \<noteq> None \<and> rs_Replicas (the (role_ReplicaSpec (the p))) \<noteq> None")
  case True
  then obtain sp rs n where "p = Some sp" "role_ReplicaSpec sp = Some rs" "rs_Replicas rs = Some n" by auto
  then show ?thesis
    by (cases "role_Dependence sp") (auto simp: Validate_role_def MatchDNS1123_def valid_role_def)
next
  case False
  then show ?thesis
    by (cases p; cases "role_ReplicaSpec (the p)") (auto simp: Validate_role_def MatchDNS1123_def valid_role_def)
qed

lemma Validate_role_total:
  assumes "roles_ok m" "x \<in> set (gm_entries m)"
  shows "Validate_role x \<noteq> None"
proof -
  obtain role p where x: "x = (role, p)" by (cases x)
  with assms obtain sp rs n where "p = Some sp" "role_ReplicaSpec sp = Some rs" "rs_Replicas rs = Some n"
    unfolding roles_ok_def by blast
  with x show ?thesis by (simp add: Validate_role_def split: option.splits)
qed

lemma dns1123_chars: "dns1123Pattern s \<Longrightarrow> \<forall>c \<in> set s. c = CHR ''-'' \<or> dns_alnum c"
proof (cases s)
  case (Cons c cs)
  assume a: "dns1123Pattern s"
  show ?thesis
  proof (cases cs rule: rev_cases)
    case (snoc ds d)
    with a Cons show ?thesis by (auto simp: dns1123Pattern_def list_all_iff)
  qed (use a Cons in \<open>auto simp: dns1123Pattern_def\<close>)
qed (simp add: dns1123Pattern_def)

lemma dns1123_no_upper: "dns1123Pattern s \<Longrightarrow> ToLower s = s"
proof -
  assume "dns1123Pattern s"
  then have "\<forall>c \<in> set s. lower_char c = c"
    using dns1123_chars by (force simp: dns_alnum_def is_digit_def lower_char_def)
  then show ?thesis unfolding ToLower_def by (simp add: map_idI)
qed

section \<open>Properties\<close>

text \<open>
  Defaulting settles after one run: \<open>Default\<close> applied to a job it has defaulted changes nothing, so
  a reconciliation that found the spec updated finds it unchanged the next time.
\<close>

lemma Default_idempotent:
  assumes "finalizers_ok E" and "gm_ok (job_Annotations r)" and "Default E r = Some r'"
  shows "Default E r' = Some r'"
proof -
  from assms(3) obtain dep lbls spec status where d: "HasDependence (job_Spec r) = Some dep"
    and l: "mfold Default_label (gm_entries (job_Annotations r)) (gm_make (job_Labels r)) = Some lbls"
    and sp: "Default_spec (job_Spec r) = Some spec"
    and st: "Default_status (gm_keys (spec_RoleSpecs spec)) (job_Status r) = Some status"
    and r': "r' = r\<lparr>job_Annotations := gm_make (job_Annotations r),
               job_Finalizers := (if dep \<and> \<not> ContainsFinalizer E (job_Finalizers r) AresJobFinalizer
                  then AddFinalizer E (job_Finalizers r) AresJobFinalizer else job_Finalizers r),
               job_Labels := lbls, job_Spec := spec, job_Status := status\<rparr>"
    unfolding Default_Some_conv by blast
  obtain al where al: "gm_make (job_Labels r) = Some al" by (metis gm_make_not_None option.exhaust)
  with l Default_labels_total[of "gm_entries (job_Annotations r)" al] obtain al' where al': "lbls = Some al'"
    by auto
  have "mfold Default_label (gm_entries (job_Annotations r)) (gm_make lbls) = Some lbls"
    unfolding al' gm_make_Some
  proof (rule Default_labels_stable)
    fix k v assume "(k, v) \<in> set (gm_entries (job_Annotations r))" "IsJobLevelKey k"
    then show "gm_get (Some al') k = Some v"
      using Default_labels_run[OF l] assms(2) unfolding al' gm_ok_def gm_keys_def
      by (auto simp: gm_get_def)
  qed
  then show ?thesis
    using d HasDependence_Default_spec(1)[OF sp] Default_spec_idem[OF sp] Default_status_idem[OF st] assms(1)
    unfolding Default_Some_conv by (auto simp: r' finalizers_ok_def)
qed

text \<open>
  C35. Defaulting panics exactly when some role of the job is null (\<open>roleSpecs: \{worker: null\}\<close>), whatever
  the order in which Go visits the roles; otherwise it yields a well-formed spec with the same roles (a
  replica count for every role), a status for every role, a job status and a phase.
\<close>

theorem Default_outcome:
  assumes "gm_ok (spec_RoleSpecs (job_Spec r))"
  shows "(Default E r = None \<longleftrightarrow> (\<exists>k. (k, None) \<in> set (gm_entries (spec_RoleSpecs (job_Spec r))))) \<and>
     (\<forall>r'. Default E r = Some r' \<longrightarrow>
        roles_ok (spec_RoleSpecs (job_Spec r')) \<and>
        gm_keys (spec_RoleSpecs (job_Spec r')) = gm_keys (spec_RoleSpecs (job_Spec r)) \<and>
        (\<forall>role \<in> set (gm_keys (spec_RoleSpecs (job_Spec r'))). gm_ptr (st_RoleStatuses (job_Status r')) role \<noteq> None) \<and>
        st_JobStatus (job_Status r') \<noteq> None \<and> st_Phase (job_Status r') \<noteq> [])"
proof (intro conjI allI impI Default_None_iff)
  fix r' assume "Default E r = Some r'"
  then obtain spec status where sp: "Default_spec (job_Spec r) = Some spec"
    and st: "Default_status (gm_keys (spec_RoleSpecs spec)) (job_Status r) = Some status"
    and eq: "job_Spec r' = spec" "job_Status r' = status"
    unfolding Default_Some_conv by auto
  show "roles_ok (spec_RoleSpecs (job_Spec r'))"
    "gm_keys (spec_RoleSpecs (job_Spec r')) = gm_keys (spec_RoleSpecs (job_Spec r))"
    using eq Default_spec_roles_ok[OF sp assms] Default_spec_keys[OF sp] by simp_all
  from st obtain m where m: "mfold Default_roleStatus (gm_keys (spec_RoleSpecs spec))
      (gm_make (st_RoleStatuses (job_Status r))) = Some m" "st_RoleStatuses status = m"
    and "st_JobStatus status \<noteq> None" "st_Phase status \<noteq> []"
    by (auto simp: Default_status_def Option.bind_eq_Some_conv go_consts split: option.splits)
  then show "\<forall>role \<in> set (gm_keys (spec_RoleSpecs (job_Spec r'))). gm_ptr (st_RoleStatuses (job_Status r')) role \<noteq> None"
    "st_JobStatus (job_Status r') \<noteq> None" "st_Phase (job_Status r') \<noteq> []"
    using eq Default_statuses_run[OF m(1)] by auto
qed

text \<open>A role without a replica count, and a null role.\<close>

definition unsized_role :: RoleSpec where
  "unsized_role = (plain_role 2 [] [plain_container ''main'' []])\<lparr>role_ReplicaSpec :=
     Some \<lparr>rs_Replicas = None, rs_Template = zero_PodTemplateSpec, rs_RestartPolicy = []\<rparr>\<rparr>"

theorem Default_outcome_witness:
  "(\<exists>r'. Default plain_ext (plain_job ''custom'' [(RoleWorker, Some unsized_role)]) = Some r' \<and>
      roles_ok (spec_RoleSpecs (job_Spec r')) \<and> gm_keys (spec_RoleSpecs (job_Spec r')) = [RoleWorker] \<and>
      gm_ptr (st_RoleStatuses (job_Status r')) RoleWorker \<noteq> None \<and> st_JobStatus (job_Status r') \<noteq> None \<and> st_Phase (job_Status r') \<noteq> []) \<and>
   Default plain_ext (plain_job ''custom'' [(RoleWorker, None)]) = None"
proof -
  let ?r = "plain_job ''custom'' [(RoleWorker, Some unsized_role)]"
  have roles: "spec_RoleSpecs (job_Spec (plain_job ''custom'' al)) = Some al" for al by (simp add: plain_job_def plain_spec_def)
  have h: "gm_ok (spec_RoleSpecs (job_Spec (plain_job ''custom'' [(RoleWorker, p)])))" for p
    by (simp add: gm_ok_def gm_keys_def roles)
  from Default_outcome[OF h, of plain_ext "Some unsized_role"] obtain r' where r': "Default plain_ext ?r = Some r'"
    by (auto simp: roles)
  with Default_outcome[OF h, of plain_ext "Some unsized_role"]
  have "roles_ok (spec_RoleSpecs (job_Spec r'))" "gm_keys (spec_RoleSpecs (job_Spec r')) = [RoleWorker]"
    "gm_ptr (st_RoleStatuses (job_Status r')) RoleWorker \<noteq> None" "st_JobStatus (job_Status r') \<noteq> None" "st_Phase (job_Status r') \<noteq> []"
    by (auto simp: roles gm_keys_def)
  with r' show ?thesis using Default_outcome[OF h, of plain_ext None] by (auto simp: roles)
qed

text \<open>
  C34. Validation decides a condition on the roles: it accepts a job exactly when there is a role and every
  role has a DNS label for its name, a positive replica count, a container and a usable dependence. The
  order in which the roles are visited does not matter.
\<close>

theorem ValidateCreate_accepts_iff:
  "ValidateCreate r = Some None \<longleftrightarrow>
     gm_entries (spec_RoleSpecs (job_Spec r)) \<noteq> [] \<and>
     (\<forall>(role, p) \<in> set (gm_entries (spec_RoleSpecs (job_Spec r))). \<exists>spec. p = Some spec \<and> valid_role role spec)"
  by (auto simp: ValidateCreate_def gm_len_def mfirst_ok_iff Validate_role_ok_iff)

theorem ValidateCreate_accepts_iff_witness:
  "ValidateCreate (plain_job ''custom'' [(RoleWorker, Some (plain_role 1 [] [plain_container ''main'' []]))]) = Some None
   \<and> valid_role RoleWorker (plain_role 1 [] [plain_container ''main'' []])
   \<and> ValidateCreate (plain_job ''custom'' [(RoleWorker, Some (plain_role 0 [] [plain_container ''main'' []]))]) \<noteq> Some None"
proof -
  let ?j = "\<lambda>n. plain_job ''custom'' [(RoleWorker, Some (plain_role n [] [plain_container ''main'' []]))]"
  have "ValidateCreate (?j 1) = Some None" by code_simp
  then show ?thesis
    using ValidateCreate_accepts_iff[of "?j 1"] ValidateCreate_accepts_iff[of "?j 0"]
    by (simp add: plain_job_def plain_spec_def) (simp add: valid_role_def plain_role_def)
qed

text \<open>
  After defaulting, validation never panics: it returns nil or an error. (On a job that was not
  defaulted, a nil replica count makes it panic while it formats its own error message.)
\<close>

lemma ValidateCreate_after_Default:
  assumes "gm_ok (spec_RoleSpecs (job_Spec r))" and "Default E r = Some r'"
  shows "ValidateCreate r' \<noteq> None"
proof -
  from assms(2) obtain spec where sp: "Default_spec (job_Spec r) = Some spec" "job_Spec r' = spec"
    unfolding Default_Some_conv by auto
  with Default_spec_roles_ok[OF sp(1) assms(1)] have "roles_ok (spec_RoleSpecs (job_Spec r'))" by simp
  then have "\<forall>x \<in> set (gm_entries (spec_RoleSpecs (job_Spec r'))). Validate_role x \<noteq> None"
    using Validate_role_total by blast
  then have "mfirst Validate_role (gm_entries (spec_RoleSpecs (job_Spec r'))) \<noteq> None" by (rule mfirst_total)
  then show ?thesis unfolding ValidateCreate_def by simp
qed

end
