(* ===== verification/Framework_Common.thy ===== *)
theory Framework_Common
  imports Services Webhook
begin

text \<open>
  What the frameworks share (\<open>frameworks/common/interface.go\<close>): their names, the interface of a framework as a record,
  and the way every \<open>SetDefault\<close> works, by filling in fields of the job and of single role specs, which are pointers in
  the map of the roles. A change through such a pointer is a \<open>role_step\<close>. The locale \<open>framework_defaults\<close> says what the
  controller relies on, and its lemmas show that defaulting settles; each framework interprets it.
\<close>

section \<open>Names\<close>

definition FrameworkBagua :: string where [go_consts]: "FrameworkBagua = ''bagua''"
definition FrameworkCustom :: string where [go_consts]: "FrameworkCustom = ''custom''"
definition FrameworkDask :: string where [go_consts]: "FrameworkDask = ''dask''"
definition FrameworkDemo :: string where [go_consts]: "FrameworkDemo = ''demo''"
definition FrameworkMPI :: string where [go_consts]: "FrameworkMPI = ''mpi''"
definition FrameworkPytorch :: string where [go_consts]: "FrameworkPytorch = ''pytorch''"
definition FrameworkStandalone :: string where [go_consts]: "FrameworkStandalone = ''standalone''"
definition FrameworkTensorflow :: string where [go_consts]: "FrameworkTensorflow = ''tensorflow''"

section \<open>The interface of a framework\<close>

record Framework =
  GetName :: string
  SetDefault :: "AresJobSpec \<Rightarrow> AresJobSpec option"
  Validate :: "AresJob \<Rightarrow> go_error option option"
  fw_controller :: controller
  fw_ReconcileServices :: "Reconciler \<Rightarrow> AresJob \<Rightarrow> Service list \<Rightarrow> ReplicaType \<Rightarrow> ReplicaSpec option \<Rightarrow> effect list
     \<Rightarrow> (go_error option \<times> effect list) option"
  fw_ReconcileJobs :: "(AresJob \<Rightarrow> (ReplicaType, ReplicaSpec option) gomap \<Rightarrow> JobStatus \<Rightarrow> RunPolicy \<Rightarrow> effect list
     \<Rightarrow> (go_error option \<times> AresJob \<times> effect list) option) option"

text \<open>
  \<open>fw_ReconcileJobs\<close> is none for a framework that inherits the method of the embedded reconciler.
\<close>

text \<open>\<open>ReconcileServices\<close> of a framework that needs no service for some of its roles.\<close>

definition ReconcileServices_except ::
  "ReplicaType list \<Rightarrow> Reconciler \<Rightarrow> AresJob \<Rightarrow> Service list \<Rightarrow> ReplicaType \<Rightarrow> ReplicaSpec option \<Rightarrow> effect list
     \<Rightarrow> (go_error option \<times> effect list) option" where
  "ReconcileServices_except roles R job services rtype spec tr =
     (if rtype \<in> set roles then Some (None, tr) else ReconcileServices R job services rtype spec tr)"

section \<open>Changing a role spec in place\<close>

text \<open>
  \<open>if spec, ok := job.Spec.RoleSpecs[role]; ok \{ ... \}\<close> with a body that dereferences \<open>spec\<close>, and, when \<open>must\<close> holds,
  \<open>spec := job.Spec.RoleSpecs[role]; ...\<close>, which panics when the role is absent.
\<close>

definition role_step :: "bool \<Rightarrow> ReplicaType \<Rightarrow> (RoleSpec \<Rightarrow> RoleSpec option) \<Rightarrow> AresJobSpec \<Rightarrow> AresJobSpec option" where
  "role_step must role f s =
     (case gm_get (spec_RoleSpecs s) role of
        None \<Rightarrow> if must then None else Some s
      | Some p \<Rightarrow> do {
          sp \<leftarrow> p;
          sp' \<leftarrow> f sp;
          Some (s\<lparr>spec_RoleSpecs := map_option (AList.update role (Some sp')) (spec_RoleSpecs s)\<rparr>) })"

abbreviation on_role :: "ReplicaType \<Rightarrow> (RoleSpec \<Rightarrow> RoleSpec option) \<Rightarrow> AresJobSpec \<Rightarrow> AresJobSpec option" where
  "on_role \<equiv> role_step False"

abbreviation the_role :: "ReplicaType \<Rightarrow> (RoleSpec \<Rightarrow> RoleSpec option) \<Rightarrow> AresJobSpec \<Rightarrow> AresJobSpec option" where
  "the_role \<equiv> role_step True"

text \<open>A sequence of such steps.\<close>

type_synonym role_steps = "(bool \<times> ReplicaType \<times> (RoleSpec \<Rightarrow> RoleSpec option)) list"

definition run_steps :: "role_steps \<Rightarrow> AresJobSpec \<Rightarrow> AresJobSpec option" where
  "run_steps steps s = mfold (\<lambda>(must, role, f). role_step must role f) steps s"

text \<open>The defaults that several frameworks write into a role.\<close>

definition default_Succeeded :: "RoleSpec \<Rightarrow> RoleSpec" where
  "default_Succeeded spec =
     (let policy = role_RolePhasePolicy spec
      in if rpp_Succeeded policy = None
         then spec\<lparr>role_RolePhasePolicy := policy\<lparr>rpp_Succeeded := Some RolePhaseConditionAllPods\<rparr>\<rparr> else spec)"

definition default_Failed :: "RoleSpec \<Rightarrow> RoleSpec" where
  "default_Failed spec =
     (let policy = role_RolePhasePolicy spec
      in if rpp_Failed policy = None
         then spec\<lparr>role_RolePhasePolicy := policy\<lparr>rpp_Failed := Some RolePhaseConditionAnyPod\<rparr>\<rparr> else spec)"

definition default_Failed_NodeDown :: "RoleSpec \<Rightarrow> RoleSpec" where
  "default_Failed_NodeDown spec =
     (let policy = role_RolePhasePolicy spec
      in if rpp_Failed policy = None
         then spec\<lparr>role_RolePhasePolicy := policy\<lparr>rpp_Failed := Some RolePhaseConditionAnyPod, rpp_NodeDownAsFailed := True\<rparr>\<rparr>
         else spec)"

definition default_Failed_unless_restarted :: "RoleSpec \<Rightarrow> RoleSpec option" where
  "default_Failed_unless_restarted spec = do {
     rs \<leftarrow> role_ReplicaSpec spec;
     Some (if rs_RestartPolicy rs = RestartPolicyNever \<or> rs_RestartPolicy rs = RestartPolicyExitCode
           then default_Failed spec else spec) }"

definition default_Dependence :: "DependenceSpec \<Rightarrow> RoleSpec \<Rightarrow> RoleSpec" where
  "default_Dependence d spec = (if role_Dependence spec = None then spec\<lparr>role_Dependence := Some d\<rparr> else spec)"

definition run_after :: "ReplicaType \<Rightarrow> DependenceSpec" where
  "run_after role = \<lparr>dep_RoleNames = [role], dep_RolePhase = RolePhaseRunning, dep_MPIHostFile = None\<rparr>"

definition default_JobPhasePolicy :: "JobPhasePolicy \<Rightarrow> AresJobSpec \<Rightarrow> AresJobSpec" where
  "default_JobPhasePolicy p s = (if spec_JobPhasePolicy s = None then s\<lparr>spec_JobPhasePolicy := Some p\<rparr> else s)"

definition has_role :: "AresJobSpec \<Rightarrow> ReplicaType \<Rightarrow> bool" where
  "has_role s role \<longleftrightarrow> gm_get (spec_RoleSpecs s) role \<noteq> None"

section \<open>Environment variables\<close>

text \<open>\<open>append\<close> to the environment of every container of the template.\<close>

definition add_env :: "EnvVar list \<Rightarrow> PodTemplateSpec \<Rightarrow> PodTemplateSpec" where
  "add_env env t = t\<lparr>pt_Spec := (pt_Spec t)\<lparr>ps_Containers :=
     map (\<lambda>c. c\<lparr>ctr_Env := ctr_Env c @ env\<rparr>) (ps_Containers (pt_Spec t))\<rparr>\<rparr>"

definition env_value :: "string \<Rightarrow> string \<Rightarrow> EnvVar" where
  "env_value name v = \<lparr>env_Name = name, env_Value = v, env_FieldPath = None\<rparr>"

text \<open>
  What a container finds in its environment: the last variable of a name counts. \<open>process_env\<close> reads a variable in
  container \<open>k m\<close> of the process \<open>m\<close>, a role and an index, after the framework has set up its template \<open>t m\<close>.
\<close>

definition container_env :: "Container \<Rightarrow> string \<Rightarrow> string option" where
  "container_env c name = map_of (rev (map (\<lambda>e. (env_Name e, env_Value e)) (ctr_Env c))) name"

type_synonym process = "ReplicaType \<times> nat"

definition process_env ::
  "controller \<Rightarrow> AresJob \<Rightarrow> (process \<Rightarrow> PodTemplateSpec) \<Rightarrow> (process \<Rightarrow> nat) \<Rightarrow> process \<Rightarrow> string \<Rightarrow> string option" where
  "process_env ctl job t k m name =
     (case SetClusterSpec ctl job (t m) (fst m) (itoa (int (snd m))) of
        Some (None, t') \<Rightarrow> container_env (ps_Containers (pt_Spec t') ! k m) name
      | _ \<Rightarrow> None)"

text \<open>The ranks of \<open>n\<close> processes: 0 to \<open>n - 1\<close>, each given to exactly one of them, and all agree on the number.\<close>

definition good_ranks :: "(process \<Rightarrow> string \<Rightarrow> string option) \<Rightarrow> process set \<Rightarrow> nat \<Rightarrow> bool" where
  "good_ranks env members n \<longleftrightarrow>
     bij_betw (\<lambda>m. env m ''RANK'') members ((\<lambda>i. Some (itoa (int i))) ` {..<n}) \<and>
     (\<forall>m \<in> members. env m ''WORLD_SIZE'' = Some (itoa (int n)))"

section \<open>What a framework may not change\<close>

text \<open>The replicas and the containers of a role are the user's.\<close>

definition same_replicas :: "ReplicaSpec \<Rightarrow> ReplicaSpec \<Rightarrow> bool" where
  "same_replicas rs rs' \<longleftrightarrow> rs_Replicas rs' = rs_Replicas rs \<and>
     map ctr_Name (ps_Containers (pt_Spec (rs_Template rs'))) = map ctr_Name (ps_Containers (pt_Spec (rs_Template rs)))"

definition same_pods :: "RoleSpec \<Rightarrow> RoleSpec \<Rightarrow> bool" where
  "same_pods sp sp' \<longleftrightarrow>
     role_Controller sp' = role_Controller sp \<and> rel_option same_replicas (role_ReplicaSpec sp) (role_ReplicaSpec sp')"

definition keeps_roles :: "AresJobSpec \<Rightarrow> AresJobSpec \<Rightarrow> bool" where
  "keeps_roles s s' \<longleftrightarrow>
     gm_keys (spec_RoleSpecs s') = gm_keys (spec_RoleSpecs s)
     \<and> (\<forall>r. rel_option same_pods (gm_ptr (spec_RoleSpecs s) r) (gm_ptr (spec_RoleSpecs s') r))
     \<and> spec_FrameworkType s' = spec_FrameworkType s \<and> spec_RunPolicy s' = spec_RunPolicy s
     \<and> spec_AvailablePorts s' = spec_AvailablePorts s \<and> spec_TTLSecondsAfterFailed s' = spec_TTLSecondsAfterFailed s"

section \<open>Lemmas on steps\<close>

lemma rel_option_trans:
  assumes "\<And>x y z. P x y \<Longrightarrow> P y z \<Longrightarrow> P x z" "rel_option P a b" "rel_option P b c"
  shows "rel_option P a c"
  using assms(2)
proof cases
  case (Some x y)
  with assms(3) obtain z where z: "c = Some z" "P y z" by (cases c) auto
  have "P x z" using Some(3) z(2) by (rule assms(1))
  with Some z show ?thesis by simp
qed (use assms(3) in simp)

lemma same_pods_refl [simp]: "same_pods sp sp"
  by (auto simp: same_pods_def same_replicas_def intro!: option.rel_refl)

lemma same_replicas_trans: "same_replicas a b \<Longrightarrow> same_replicas b c \<Longrightarrow> same_replicas a c"
  by (simp add: same_replicas_def)

lemma same_pods_trans:
  assumes "same_pods a b" "same_pods b c"
  shows "same_pods a c"
proof -
  have "rel_option same_replicas (role_ReplicaSpec a) (role_ReplicaSpec c)"
  proof (rule rel_option_trans[where P = same_replicas])
    show "rel_option same_replicas (role_ReplicaSpec a) (role_ReplicaSpec b)" using assms(1) by (simp add: same_pods_def)
    show "rel_option same_replicas (role_ReplicaSpec b) (role_ReplicaSpec c)" using assms(2) by (simp add: same_pods_def)
  qed (rule same_replicas_trans)
  with assms show ?thesis by (simp add: same_pods_def)
qed

lemma keeps_roles_refl [simp]: "keeps_roles s s"
  by (simp add: keeps_roles_def option.rel_refl)

lemma keeps_roles_trans:
  assumes "keeps_roles s t" "keeps_roles t u"
  shows "keeps_roles s u"
proof -
  have "rel_option same_pods (gm_ptr (spec_RoleSpecs s) r) (gm_ptr (spec_RoleSpecs u) r)" for r
  proof (rule rel_option_trans[OF same_pods_trans])
    show "rel_option same_pods (gm_ptr (spec_RoleSpecs s) r) (gm_ptr (spec_RoleSpecs t) r)"
      using assms(1) by (simp add: keeps_roles_def)
    show "rel_option same_pods (gm_ptr (spec_RoleSpecs t) r) (gm_ptr (spec_RoleSpecs u) r)"
      using assms(2) by (simp add: keeps_roles_def)
  qed
  with assms show ?thesis by (simp add: keeps_roles_def)
qed

lemma keeps_roles_present: "keeps_roles s s' \<Longrightarrow> has_role s' r = has_role s r"
  by (simp add: keeps_roles_def has_role_def gm_get_None_iff)

lemma keeps_roles_replicas:
  assumes "keeps_roles s s'"
  shows "replicas_of (gm_ptr (spec_RoleSpecs s') r) = replicas_of (gm_ptr (spec_RoleSpecs s) r)"
proof -
  have "rel_option same_pods (gm_ptr (spec_RoleSpecs s) r) (gm_ptr (spec_RoleSpecs s') r)"
    using assms by (simp add: keeps_roles_def)
  then show ?thesis
  proof cases
    case (Some sp sp')
    have "rel_option same_replicas (role_ReplicaSpec sp) (role_ReplicaSpec sp')" using Some(3) by (simp add: same_pods_def)
    then show ?thesis using Some(1,2) by cases (simp_all add: replicas_of_def same_replicas_def)
  qed (simp add: replicas_of_def)
qed

text \<open>A step leaves the role alone when it has nothing to change there.\<close>

definition settled :: "bool \<Rightarrow> ReplicaType \<Rightarrow> (RoleSpec \<Rightarrow> RoleSpec option) \<Rightarrow> AresJobSpec \<Rightarrow> bool" where
  "settled must role f s \<longleftrightarrow>
     (case gm_get (spec_RoleSpecs s) role of
        None \<Rightarrow> \<not> must
      | Some p \<Rightarrow> (\<exists>sp. p = Some sp \<and> f sp = Some sp))"

lemma role_step_settled: "settled must role f s \<Longrightarrow> role_step must role f s = Some s"
  by (cases "spec_RoleSpecs s") (auto simp: settled_def role_step_def gm_get_def alist_update_same split: option.splits)

lemma role_step_Some_conv:
  "role_step must role f s = Some s' \<longleftrightarrow>
     gm_get (spec_RoleSpecs s) role = None \<and> \<not> must \<and> s' = s \<or>
     (\<exists>sp sp'. gm_get (spec_RoleSpecs s) role = Some (Some sp) \<and> f sp = Some sp' \<and>
        s' = s\<lparr>spec_RoleSpecs := map_option (AList.update role (Some sp')) (spec_RoleSpecs s)\<rparr>)"
  by (auto simp: role_step_def Option.bind_eq_Some_conv split: option.splits if_splits)

lemma role_step_get:
  assumes "role_step must role f s = Some s'"
  shows "gm_get (spec_RoleSpecs s') r =
     (if r = role then (case gm_get (spec_RoleSpecs s) role of Some (Some sp) \<Rightarrow> map_option Some (f sp) | p \<Rightarrow> p)
      else gm_get (spec_RoleSpecs s) r)"
  using assms unfolding role_step_Some_conv
  by (cases "spec_RoleSpecs s") (auto simp: gm_get_def update_conv')

lemma role_step_keys:
  assumes "role_step must role f s = Some s'"
  shows "gm_keys (spec_RoleSpecs s') = gm_keys (spec_RoleSpecs s)"
proof (cases "spec_RoleSpecs s")
  case None
  with assms show ?thesis by (auto simp: role_step_Some_conv gm_get_def)
next
  case (Some al)
  from assms show ?thesis unfolding role_step_Some_conv
  proof (elim disjE exE conjE)
    fix sp sp' assume "gm_get (spec_RoleSpecs s) role = Some (Some sp)"
      and s': "s' = s\<lparr>spec_RoleSpecs := map_option (AList.update role (Some sp')) (spec_RoleSpecs s)\<rparr>"
    with Some have "role \<in> fst ` set al" by (force simp: gm_get_def dest: map_of_SomeD)
    with Some s' show ?thesis by (simp add: gm_keys_def update_keys)
  qed simp
qed

lemma role_step_frame:
  "role_step must role f s = Some s' \<Longrightarrow> s' = s\<lparr>spec_RoleSpecs := spec_RoleSpecs s'\<rparr>"
  by (auto simp: role_step_Some_conv)

lemma role_step_keeps:
  assumes "role_step must role f s = Some s'" "\<And>sp sp'. f sp = Some sp' \<Longrightarrow> same_pods sp sp'"
  shows "keeps_roles s s'"
proof -
  have "rel_option same_pods (gm_ptr (spec_RoleSpecs s) r) (gm_ptr (spec_RoleSpecs s') r)" for r
    using role_step_get[OF assms(1), of r] assms
    by (cases "gm_ptr (spec_RoleSpecs s) r") (auto simp: gm_ptr_def role_step_Some_conv split: if_splits)
  moreover from role_step_frame[OF assms(1)] obtain m where "s' = s\<lparr>spec_RoleSpecs := m\<rparr>" by blast
  ultimately show ?thesis using role_step_keys[OF assms(1)] by (simp add: keeps_roles_def)
qed

text \<open>Steps whose changes settle: each is idempotent, survives \<open>Default\<close>, and is not undone by a later one.\<close>

definition keeps_settled :: "(RoleSpec \<Rightarrow> RoleSpec option) \<Rightarrow> (RoleSpec \<Rightarrow> RoleSpec option) \<Rightarrow> bool" where
  "keeps_settled g f \<longleftrightarrow> (\<forall>sp sp'. f sp = Some sp \<longrightarrow> g sp = Some sp' \<longrightarrow> f sp' = Some sp')"

lemma keeps_settled_self: "keeps_settled f f"
  by (auto simp: keeps_settled_def)

definition idem_step :: "(RoleSpec \<Rightarrow> RoleSpec option) \<Rightarrow> bool" where
  "idem_step f \<longleftrightarrow> (\<forall>sp sp'. f sp = Some sp' \<longrightarrow> f sp' = Some sp' \<and> same_pods sp sp')
     \<and> keeps_settled (\<lambda>sp. Some (Default_role sp)) f"

text \<open>A body that establishes a condition under which it changes nothing.\<close>

lemma idem_stepI:
  assumes "\<And>sp. P sp \<Longrightarrow> f sp = Some sp" "\<And>sp sp'. f sp = Some sp' \<Longrightarrow> P sp' \<and> same_pods sp sp'"
    and "\<And>sp. P sp \<Longrightarrow> P (Default_role sp)"
  shows "idem_step f"
  unfolding idem_step_def keeps_settled_def using assms by (metis option.inject)

lemma keeps_settledI:
  assumes "\<And>sp. P sp \<Longrightarrow> f sp = Some sp" "\<And>sp sp'. f sp = Some sp' \<Longrightarrow> P sp'"
    and "\<And>sp sp'. P sp \<Longrightarrow> g sp = Some sp' \<Longrightarrow> P sp'"
  shows "keeps_settled g f"
  unfolding keeps_settled_def using assms by metis

definition settling :: "role_steps \<Rightarrow> bool" where
  "settling steps \<longleftrightarrow> (\<forall>(m, r, f) \<in> set steps. idem_step f) \<and>
     (\<forall>(m, r, f) \<in> set steps. \<forall>(m', r', g) \<in> set steps. r = r' \<longrightarrow> keeps_settled g f)"

lemma settled_after:
  assumes "role_step must role f s = Some s'" "idem_step f"
  shows "settled must role f s'"
proof (cases "gm_get (spec_RoleSpecs s) role")
  case None
  with assms(1) role_step_get[OF assms(1), of role] show ?thesis by (simp add: settled_def role_step_Some_conv)
next
  case (Some p)
  with assms(1) obtain sp sp' where "p = Some sp" "f sp = Some sp'" by (auto simp: role_step_Some_conv)
  with Some role_step_get[OF assms(1), of role] assms(2) show ?thesis by (simp add: settled_def idem_step_def)
qed

lemma settled_step:
  assumes "settled must role f s" "role_step m r g s = Some s'" "r = role \<Longrightarrow> keeps_settled g f"
  shows "settled must role f s'"
proof (cases "r = role")
  case False
  with role_step_get[OF assms(2), of role] assms(1) show ?thesis by (simp add: settled_def)
next
  case True
  show ?thesis
  proof (cases "gm_get (spec_RoleSpecs s) role")
    case None
    with role_step_get[OF assms(2), of role] assms(1) True show ?thesis by (simp add: settled_def)
  next
    case (Some p)
    with assms(1,2) True obtain sp sp' where "p = Some sp" "f sp = Some sp" "g sp = Some sp'"
      by (auto simp: role_step_Some_conv settled_def)
    with Some role_step_get[OF assms(2), of role] assms(3) True show ?thesis
      by (simp add: settled_def keeps_settled_def)
  qed
qed

lemma settled_Default:
  assumes "settled must role f s" "Default_spec s = Some s'" "idem_step f"
  shows "settled must role f s'"
proof -
  have "gm_get (spec_RoleSpecs s') role = map_option (map_option Default_role) (gm_get (spec_RoleSpecs s) role)"
    using assms(2) unfolding Default_spec_Some_conv
    by (cases "spec_RoleSpecs s") (auto simp: gm_get_def map_of_map)
  with assms(1,3) show ?thesis
    by (cases "gm_get (spec_RoleSpecs s) role") (auto simp: settled_def idem_step_def keeps_settled_def)
qed

lemma run_steps_keep_settled:
  assumes "run_steps steps s = Some s'" "settled must role f s" "\<forall>(m, r, g) \<in> set steps. r = role \<longrightarrow> keeps_settled g f"
  shows "settled must role f s'"
proof (rule mfold_invariant[OF assms(1)[unfolded run_steps_def], where I = "settled must role f"])
  show "settled must role f s" by (rule assms(2))
  fix x s s' assume "x \<in> set steps" "settled must role f s" "(\<lambda>(must, role, f). role_step must role f) x s = Some s'"
  with assms(3) show "settled must role f s'" by (cases x) (auto intro: settled_step)
qed

lemma run_steps_settles:
  assumes "run_steps steps s = Some s'" "settling steps"
  shows "\<forall>(m, r, f) \<in> set steps. settled m r f s'"
  using assms
proof (induction steps arbitrary: s)
  case (Cons step steps)
  obtain m r f where step: "step = (m, r, f)" by (cases step)
  from Cons.prems(1) step obtain t where t: "role_step m r f s = Some t" "run_steps steps t = Some s'"
    by (auto simp: run_steps_def Option.bind_eq_Some_conv)
  have "settling steps" using Cons.prems(2) by (auto simp: settling_def)
  with Cons.IH t(2) have "\<forall>(m, r, f) \<in> set steps. settled m r f s'" by blast
  moreover have "settled m r f s'"
  proof (rule run_steps_keep_settled[OF t(2)])
    show "settled m r f t" using settled_after[OF t(1)] Cons.prems(2) step by (auto simp: settling_def)
    show "\<forall>(m', r', g) \<in> set steps. r' = r \<longrightarrow> keeps_settled g f" using Cons.prems(2) step by (auto simp: settling_def)
  qed
  ultimately show ?case using step by simp
qed simp

lemma run_steps_Nil [simp]: "run_steps [] s = Some s"
  by (simp add: run_steps_def)

lemma run_steps_Cons [simp]:
  "run_steps ((m, r, f) # steps) s = do { s' \<leftarrow> role_step m r f s; run_steps steps s' }"
  by (simp add: run_steps_def)

lemma run_steps_append: "run_steps (xs @ ys) s = do { s' \<leftarrow> run_steps xs s; run_steps ys s' }"
  unfolding run_steps_def by (simp add: mfold_append)

lemma run_steps_map: "run_steps (map (\<lambda>r. (m, r, f r)) rs) s = mfold (\<lambda>r. role_step m r (f r)) rs s"
  by (induction rs arbitrary: s) simp_all

lemma role_step_Framework:
  "role_step m r f (s\<lparr>spec_Framework := w\<rparr>) = map_option (\<lambda>s. s\<lparr>spec_Framework := w\<rparr>) (role_step m r f s)"
proof (cases "gm_get (spec_RoleSpecs s) r")
  case (Some p)
  then show ?thesis
  proof (cases p)
    case sp: (Some sp)
    with Some show ?thesis by (cases "f sp") (simp_all add: role_step_def)
  qed (use Some in \<open>simp add: role_step_def\<close>)
qed (simp add: role_step_def)

lemma run_steps_Framework:
  "run_steps steps (s\<lparr>spec_Framework := w\<rparr>) = map_option (\<lambda>s. s\<lparr>spec_Framework := w\<rparr>) (run_steps steps s)"
  unfolding run_steps_def
proof (induction steps arbitrary: s)
  case (Cons x steps)
  obtain m r f where "x = (m, r, f)" by (cases x)
  then show ?case using Cons.IH by (cases "role_step m r f s") (simp_all add: role_step_Framework)
qed simp

lemma run_steps_settled: "\<forall>(m, r, f) \<in> set steps. settled m r f s \<Longrightarrow> run_steps steps s = Some s"
  unfolding run_steps_def by (induction steps) (auto simp: role_step_settled)

lemma run_steps_keeps:
  assumes "run_steps steps s = Some s'" "settling steps"
  shows "keeps_roles s s'" "s' = s\<lparr>spec_RoleSpecs := spec_RoleSpecs s'\<rparr>"
proof -
  have "keeps_roles s s' \<and> s' = s\<lparr>spec_RoleSpecs := spec_RoleSpecs s'\<rparr>"
  proof (rule mfold_invariant[OF assms(1)[unfolded run_steps_def],
        where I = "\<lambda>t. keeps_roles s t \<and> t = s\<lparr>spec_RoleSpecs := spec_RoleSpecs t\<rparr>"])
    fix x t t' assume x: "x \<in> set steps" and I: "keeps_roles s t \<and> t = s\<lparr>spec_RoleSpecs := spec_RoleSpecs t\<rparr>"
      and r: "(\<lambda>(must, role, f). role_step must role f) x t = Some t'"
    obtain m ro f where xx: "x = (m, ro, f)" by (cases x)
    with assms(2) x have f: "\<And>sp sp'. f sp = Some sp' \<Longrightarrow> same_pods sp sp'" by (auto simp: settling_def idem_step_def)
    from r xx have r': "role_step m ro f t = Some t'" by simp
    from role_step_keeps[OF r' f] I keeps_roles_trans have "keeps_roles s t'" by blast
    moreover have "t' = s\<lparr>spec_RoleSpecs := spec_RoleSpecs t'\<rparr>"
    proof -
      from I obtain m where "t = s\<lparr>spec_RoleSpecs := m\<rparr>" by blast
      moreover from role_step_frame[OF r'] obtain m' where "t' = t\<lparr>spec_RoleSpecs := m'\<rparr>" by blast
      ultimately show ?thesis by simp
    qed
    ultimately show "keeps_roles s t' \<and> t' = s\<lparr>spec_RoleSpecs := spec_RoleSpecs t'\<rparr>" ..
  qed simp
  then show "keeps_roles s s'" "s' = s\<lparr>spec_RoleSpecs := spec_RoleSpecs s'\<rparr>" by blast+
qed

text \<open>The steps run through when every role they touch is complete.\<close>

lemma run_steps_total:
  assumes "\<forall>(m, r, f) \<in> set steps. \<forall>sp. role_ReplicaSpec sp \<noteq> None \<longrightarrow> (\<exists>sp'. f sp = Some sp' \<and> role_ReplicaSpec sp' \<noteq> None)"
    and "\<forall>(m, r, f) \<in> set steps. m \<longrightarrow> has_role s r"
    and "\<forall>r p. gm_get (spec_RoleSpecs s) r = Some p \<longrightarrow> (\<exists>sp. p = Some sp \<and> role_ReplicaSpec sp \<noteq> None)"
  shows "\<exists>s'. run_steps steps s = Some s'"
proof -
  let ?I = "\<lambda>t :: AresJobSpec. gm_keys (spec_RoleSpecs t) = gm_keys (spec_RoleSpecs s) \<and>
     (\<forall>r p. gm_get (spec_RoleSpecs t) r = Some p \<longrightarrow> (\<exists>sp. p = Some sp \<and> role_ReplicaSpec sp \<noteq> None))"
  have "\<exists>s'. mfold (\<lambda>(must, role, f). role_step must role f) steps s = Some s' \<and> ?I s'"
  proof (rule mfold_total)
    fix x t assume x: "x \<in> set steps" and I: "?I t"
    obtain m r f where xx: "x = (m, r, f)" by (cases x)
    show "\<exists>t'. (\<lambda>(must, role, f). role_step must role f) x t = Some t' \<and> ?I t'"
    proof (cases "gm_get (spec_RoleSpecs t) r")
      case None
      with I have "gm_get (spec_RoleSpecs s) r = None" by (simp add: gm_get_None_iff)
      with assms(2) x xx have "\<not> m" by (auto simp: has_role_def)
      with None xx I show ?thesis by (simp add: role_step_def)
    next
      case (Some p)
      with I obtain sp where sp: "p = Some sp" "role_ReplicaSpec sp \<noteq> None" by blast
      with assms(1) x xx obtain sp' where sp': "f sp = Some sp'" "role_ReplicaSpec sp' \<noteq> None" by fastforce
      with Some sp xx obtain t' where t': "role_step m r f t = Some t'" by (simp add: role_step_def)
      have "\<forall>r p. gm_get (spec_RoleSpecs t') r = Some p \<longrightarrow> (\<exists>sp. p = Some sp \<and> role_ReplicaSpec sp \<noteq> None)"
        using role_step_get[OF t'] I Some sp sp' by auto
      with role_step_keys[OF t'] I t' xx show ?thesis by simp
    qed
  qed (use assms(3) in simp)
  then show ?thesis unfolding run_steps_def by blast
qed

section \<open>The interface to the controller\<close>

text \<open>
  What the controller relies on when it defaults a job with a framework and then with the webhook: the result needs no
  further defaulting, and the roles, their replicas and their containers are those of the user. \<open>prepare\<close> sets the
  job-level fields, the steps fill in the roles.
\<close>

locale framework_defaults =
  fixes F :: "AresJobSpec \<Rightarrow> AresJobSpec option"
  assumes settles: "F s = Some s1 \<Longrightarrow> Default_spec s1 = Some s2 \<Longrightarrow> F s2 = Some s2"
    and keeps: "F s = Some s1 \<Longrightarrow> keeps_roles s s1"
begin

lemma defaulted_stable:
  assumes "F s = Some s1" "Default_spec s1 = Some s2"
  shows "F s2 = Some s2 \<and> Default_spec s2 = Some s2"
  using settles[OF assms] Default_spec_idem[OF assms(2)] by blast

lemma defaulted_roles_ok:
  assumes "F s = Some s1" "Default_spec s1 = Some s2" "gm_ok (spec_RoleSpecs s)"
  shows "roles_ok (spec_RoleSpecs s2)" "has_role s2 r = has_role s r"
proof -
  have keys: "gm_keys (spec_RoleSpecs s1) = gm_keys (spec_RoleSpecs s)" using keeps[OF assms(1)] by (simp add: keeps_roles_def)
  with assms(3) have "gm_ok (spec_RoleSpecs s1)" by (simp add: gm_ok_def)
  with Default_spec_roles_ok[OF assms(2)] show "roles_ok (spec_RoleSpecs s2)" .
  show "has_role s2 r = has_role s r"
    using Default_spec_keys[OF assms(2)] keys by (simp add: has_role_def gm_get_None_iff)
qed

end

text \<open>How the frameworks establish the interface: job-level fields that stay, followed by settling steps.\<close>

lemma framework_defaultsI:
  assumes F: "\<And>s. F s = run_steps (steps (gm_keys (spec_RoleSpecs s)) (spec_Framework (prepare s))) (prepare s)"
    and steps: "\<And>ks fw. settling (steps ks fw)"
    and prep_roles: "\<And>s. keeps_roles s (prepare s)"
    and prep_idem: "\<And>s t. gm_keys (spec_RoleSpecs t) = gm_keys (spec_RoleSpecs s) \<Longrightarrow>
       spec_JobPhasePolicy t = spec_JobPhasePolicy (prepare s) \<Longrightarrow> spec_Framework t = spec_Framework (prepare s) \<Longrightarrow> prepare t = t"
  shows "framework_defaults F"
proof
  fix s s1
  let ?steps = "steps (gm_keys (spec_RoleSpecs s)) (spec_Framework (prepare s))"
  assume run: "F s = Some s1"
  with F have r: "run_steps ?steps (prepare s) = Some s1" by simp
  note k = run_steps_keeps[OF r steps]
  show kr: "keeps_roles s s1" using prep_roles k(1) by (rule keeps_roles_trans)
  fix s2 assume d: "Default_spec s1 = Some s2"
  have keys: "gm_keys (spec_RoleSpecs s2) = gm_keys (spec_RoleSpecs s)"
    using Default_spec_keys[OF d] kr by (simp add: keeps_roles_def)
  from k(2) obtain m where s1: "s1 = (prepare s)\<lparr>spec_RoleSpecs := m\<rparr>" by blast
  from d have s2: "spec_JobPhasePolicy s2 = spec_JobPhasePolicy (prepare s)" "spec_Framework s2 = spec_Framework (prepare s)"
    by (simp_all add: Default_spec_Some_conv s1)
  have "prepare s2 = s2" using keys s2 by (rule prep_idem)
  moreover have "run_steps ?steps s2 = Some s2"
  proof (rule run_steps_settled, intro ballI)
    fix x assume x: "x \<in> set ?steps"
    obtain m r f where xx: "x = (m, r, f)" by (cases x)
    have "settled m r f s1" using run_steps_settles[OF r steps] x xx by auto
    moreover have "idem_step f" using steps[of "gm_keys (spec_RoleSpecs s)" "spec_Framework (prepare s)"] x xx
      by (auto simp: settling_def)
    ultimately show "case x of (m, r, f) \<Rightarrow> settled m r f s2" using settled_Default[OF _ d] xx by simp
  qed
  ultimately show "F s2 = Some s2" using F[of s2] keys s2(2) by simp
qed

section \<open>The shared defaults settle\<close>

lemmas default_defs = default_Succeeded_def default_Failed_def default_Failed_NodeDown_def
  default_Dependence_def Let_def

lemma default_same_pods [simp]:
  "same_pods sp (default_Succeeded sp)" "same_pods sp (default_Failed sp)" "same_pods sp (default_Failed_NodeDown sp)"
  "same_pods sp (default_Dependence d sp)"
  by (simp_all add: default_defs same_pods_def same_replicas_def option.rel_refl)

lemma default_ReplicaSpec [simp]:
  "role_ReplicaSpec (default_Succeeded sp) = role_ReplicaSpec sp" "role_ReplicaSpec (default_Failed sp) = role_ReplicaSpec sp"
  "role_ReplicaSpec (default_Failed_NodeDown sp) = role_ReplicaSpec sp"
  "role_ReplicaSpec (default_Dependence d sp) = role_ReplicaSpec sp"
  by (simp_all add: default_defs)

lemma default_fixed_iff [simp]:
  "default_Succeeded sp = sp \<longleftrightarrow> rpp_Succeeded (role_RolePhasePolicy sp) \<noteq> None"
  "default_Failed sp = sp \<longleftrightarrow> rpp_Failed (role_RolePhasePolicy sp) \<noteq> None"
  "default_Failed_NodeDown sp = sp \<longleftrightarrow> rpp_Failed (role_RolePhasePolicy sp) \<noteq> None"
  "default_Dependence d sp = sp \<longleftrightarrow> role_Dependence sp \<noteq> None"
  by (cases sp, cases "role_RolePhasePolicy sp", auto simp: default_defs)+

text \<open>What \<open>Default\<close> leaves and what it fills in.\<close>

lemma Default_role_keeps:
  "rpp_Succeeded (role_RolePhasePolicy sp) \<noteq> None \<Longrightarrow> rpp_Succeeded (role_RolePhasePolicy (Default_role sp)) \<noteq> None"
  "rpp_Failed (role_RolePhasePolicy sp) \<noteq> None \<Longrightarrow> rpp_Failed (role_RolePhasePolicy (Default_role sp)) \<noteq> None"
  by (auto simp: Default_role_def Let_def split: option.splits)

lemma Default_role_restart:
  assumes "role_ReplicaSpec sp = Some rs"
  obtains rs' where "role_ReplicaSpec (Default_role sp) = Some rs'" "rs_Template rs' = rs_Template rs"
    "rs_RestartPolicy rs' = (if rs_RestartPolicy rs = [] then RestartPolicyNever else rs_RestartPolicy rs)"
    "rs_RestartPolicy rs' = RestartPolicyNever \<longrightarrow> rpp_Failed (role_RolePhasePolicy (Default_role sp)) \<noteq> None"
proof -
  obtain rs' where "role_ReplicaSpec (Default_role sp) = Some rs'" using Default_role_replicas by blast
  with assms that show ?thesis by (auto simp: Default_role_def Let_def split: option.splits if_splits)
qed

text \<open>The three kinds of bodies that the frameworks use.\<close>

definition default_policy :: "RoleSpec \<Rightarrow> RoleSpec option" where
  "default_policy spec = Some (default_Failed (default_Succeeded spec))"

definition default_policy_restart :: "RoleSpec \<Rightarrow> RoleSpec option" where
  "default_policy_restart spec = default_Failed_unless_restarted (default_Succeeded spec)"

lemma default_set [simp]:
  "rpp_Succeeded (role_RolePhasePolicy (default_Succeeded sp)) \<noteq> None"
  "rpp_Failed (role_RolePhasePolicy (default_Failed sp)) \<noteq> None"
  "rpp_Failed (role_RolePhasePolicy (default_Failed_NodeDown sp)) \<noteq> None"
  "rpp_Succeeded (role_RolePhasePolicy (default_Failed sp)) = rpp_Succeeded (role_RolePhasePolicy sp)"
  "rpp_Succeeded (role_RolePhasePolicy (default_Failed_NodeDown sp)) = rpp_Succeeded (role_RolePhasePolicy sp)"
  "rpp_Failed (role_RolePhasePolicy (default_Succeeded sp)) = rpp_Failed (role_RolePhasePolicy sp)"
  "role_RolePhasePolicy (default_Dependence d sp) = role_RolePhasePolicy sp"
  "role_Dependence (default_Dependence d sp) \<noteq> None"
  "role_Dependence (default_Failed sp) = role_Dependence sp" "role_Dependence (default_Failed_NodeDown sp) = role_Dependence sp"
  "role_Dependence (default_Succeeded sp) = role_Dependence sp"
  by (auto simp: default_defs)

lemmas default_set_Some [simp] = default_set(1,2,3,8)[unfolded not_None_eq]

lemma default_Failed_Succeeded_fixed:
  "default_Failed (default_Succeeded sp) = sp \<longleftrightarrow>
     rpp_Failed (role_RolePhasePolicy sp) \<noteq> None \<and> rpp_Succeeded (role_RolePhasePolicy sp) \<noteq> None"
  by (metis default_fixed_iff(1,2) default_set(1,2,4))

lemma default_NodeDown_Succeeded_fixed:
  "default_Failed_NodeDown (default_Succeeded sp) = sp \<longleftrightarrow>
     rpp_Failed (role_RolePhasePolicy sp) \<noteq> None \<and> rpp_Succeeded (role_RolePhasePolicy sp) \<noteq> None"
  by (metis default_fixed_iff(1,3) default_set(1,3,5))

lemma default_policy_restart_fixed:
  "default_policy_restart sp = Some sp \<longleftrightarrow>
     rpp_Succeeded (role_RolePhasePolicy sp) \<noteq> None \<and>
     (\<exists>rs. role_ReplicaSpec sp = Some rs \<and>
        (rs_RestartPolicy rs = RestartPolicyNever \<or> rs_RestartPolicy rs = RestartPolicyExitCode \<longrightarrow>
           rpp_Failed (role_RolePhasePolicy sp) \<noteq> None))"
proof (cases "role_ReplicaSpec sp")
  case None
  then show ?thesis by (simp add: default_policy_restart_def default_Failed_unless_restarted_def)
next
  case (Some rs)
  have "default_policy_restart sp = Some (if rs_RestartPolicy rs = RestartPolicyNever \<or> rs_RestartPolicy rs = RestartPolicyExitCode
      then default_Failed (default_Succeeded sp) else default_Succeeded sp)"
    using Some by (simp add: default_policy_restart_def default_Failed_unless_restarted_def)
  with Some show ?thesis using default_Failed_Succeeded_fixed[of sp] by auto
qed

lemma same_pods_then: "same_pods sp (f sp) \<Longrightarrow> (\<And>sp. same_pods sp (g sp)) \<Longrightarrow> same_pods sp (g (f sp))"
  by (blast intro: same_pods_trans)

lemma idem_default_policy: "idem_step default_policy"
  unfolding idem_step_def keeps_settled_def default_policy_def
  using Default_role_keeps by (auto simp: default_Failed_Succeeded_fixed intro: same_pods_then)

lemma idem_default_NodeDown: "idem_step (\<lambda>spec. Some (default_Failed_NodeDown spec))"
  unfolding idem_step_def keeps_settled_def using Default_role_keeps by auto

lemma idem_default_policy_NodeDown: "idem_step (\<lambda>spec. Some (default_Failed_NodeDown (default_Succeeded spec)))"
  unfolding idem_step_def keeps_settled_def
  using Default_role_keeps by (auto simp: default_NodeDown_Succeeded_fixed intro: same_pods_then)

lemma idem_default_Dependence: "idem_step (\<lambda>spec. Some (if b then default_Dependence d spec else spec))"
  unfolding idem_step_def keeps_settled_def by auto

lemma idem_default_policy_restart: "idem_step default_policy_restart"
  unfolding idem_step_def
proof (intro conjI allI impI)
  fix sp sp' assume run: "default_policy_restart sp = Some sp'"
  then obtain rs where rs: "role_ReplicaSpec sp = Some rs"
    by (auto simp: default_policy_restart_def default_Failed_unless_restarted_def Option.bind_eq_Some_conv)
  with run have sp': "sp' = (if rs_RestartPolicy rs = RestartPolicyNever \<or> rs_RestartPolicy rs = RestartPolicyExitCode
      then default_Failed (default_Succeeded sp) else default_Succeeded sp)"
    by (simp add: default_policy_restart_def default_Failed_unless_restarted_def)
  then show "same_pods sp sp'" by (auto intro: same_pods_then)
  show "default_policy_restart sp' = Some sp'"
    unfolding default_policy_restart_fixed using rs by (simp add: sp')
next
  show "keeps_settled (\<lambda>sp. Some (Default_role sp)) default_policy_restart"
    unfolding keeps_settled_def option.inject default_policy_restart_fixed
  proof (intro allI impI)
    fix sp sp' assume fix_: "rpp_Succeeded (role_RolePhasePolicy sp) \<noteq> None \<and>
     (\<exists>rs. role_ReplicaSpec sp = Some rs \<and>
        (rs_RestartPolicy rs = RestartPolicyNever \<or> rs_RestartPolicy rs = RestartPolicyExitCode \<longrightarrow>
           rpp_Failed (role_RolePhasePolicy sp) \<noteq> None))" and sp': "Default_role sp = sp'"
    then obtain rs where rs: "role_ReplicaSpec sp = Some rs"
      "rs_RestartPolicy rs = RestartPolicyExitCode \<longrightarrow> rpp_Failed (role_RolePhasePolicy sp) \<noteq> None" by blast
    from rs(1) obtain rs' where rs': "role_ReplicaSpec (Default_role sp) = Some rs'" "rs_Template rs' = rs_Template rs"
      "rs_RestartPolicy rs' = (if rs_RestartPolicy rs = [] then RestartPolicyNever else rs_RestartPolicy rs)"
      "rs_RestartPolicy rs' = RestartPolicyNever \<longrightarrow> rpp_Failed (role_RolePhasePolicy (Default_role sp)) \<noteq> None"
      by (rule Default_role_restart)
    have "RestartPolicyNever \<noteq> RestartPolicyExitCode" by (simp add: go_consts)
    then show "rpp_Succeeded (role_RolePhasePolicy sp') \<noteq> None \<and>
     (\<exists>rs. role_ReplicaSpec sp' = Some rs \<and>
        (rs_RestartPolicy rs = RestartPolicyNever \<or> rs_RestartPolicy rs = RestartPolicyExitCode \<longrightarrow>
           rpp_Failed (role_RolePhasePolicy sp') \<noteq> None))"
      using rs rs' fix_ Default_role_keeps[of sp] sp' by (auto split: if_splits)
  qed
qed

section \<open>Roles and policies\<close>

definition policy_set :: "RoleSpec \<Rightarrow> bool" where
  "policy_set sp \<longleftrightarrow> rpp_Failed (role_RolePhasePolicy sp) \<noteq> None \<and> rpp_Succeeded (role_RolePhasePolicy sp) \<noteq> None"

lemma policy_set_Default: "policy_set sp \<Longrightarrow> policy_set (Default_role sp)"
  using Default_role_keeps[of sp] by (simp add: policy_set_def)

lemma policy_set_default [simp]:
  "policy_set (default_Failed (default_Succeeded sp))" "policy_set (default_Dependence d sp) = policy_set sp"
  by (simp_all add: policy_set_def)

lemma default_policy_id: "policy_set sp \<Longrightarrow> default_Failed (default_Succeeded sp) = sp"
  by (simp add: policy_set_def default_Failed_Succeeded_fixed)

abbreviation role_replicas :: "AresJob \<Rightarrow> ReplicaType \<Rightarrow> int" where
  "role_replicas job r \<equiv> sint (replicas_of (gm_ptr (spec_RoleSpecs (job_Spec job)) r))"

lemma replicas_absent: "\<not> has_role (job_Spec job) r \<Longrightarrow> role_replicas job r = 0"
  by (simp add: has_role_def gm_ptr_def replicas_of_def)

lemma CheckRolesExist_None: "CheckRolesExist s roles = None \<longleftrightarrow> (\<forall>r \<in> set roles. gm_ptr (spec_RoleSpecs s) r \<noteq> None)"
  by (auto simp: CheckRolesExist_def list_all_iff)

lemma gm_ptr_has_role: "roles_ok (spec_RoleSpecs s) \<Longrightarrow> gm_ptr (spec_RoleSpecs s) r \<noteq> None \<longleftrightarrow> has_role s r"
  by (cases "gm_get (spec_RoleSpecs s) r") (auto simp: has_role_def gm_ptr_def elim: roles_ok_ptr)

section \<open>Lemmas on environments\<close>

lemma add_env_identity [simp]: "same_identity t (add_env env t)"
  by (simp add: add_env_def same_identity_def)

lemma add_env_containers:
  "ps_Containers (pt_Spec (add_env env t)) = map (\<lambda>c. c\<lparr>ctr_Env := ctr_Env c @ env\<rparr>) (ps_Containers (pt_Spec t))"
  by (simp add: add_env_def)

lemma process_env_add:
  assumes "SetClusterSpec ctl job (t m) (fst m) (itoa (int (snd m))) = Some (None, t')"
    and "map ctr_Env (ps_Containers (pt_Spec t')) = map ctr_Env (ps_Containers (pt_Spec (add_env env (t m))))"
    and "k m < length (ps_Containers (pt_Spec (t m)))"
  shows "map_of (rev (map (\<lambda>e. (env_Name e, env_Value e)) env)) name = Some v \<Longrightarrow> process_env ctl job t k m name = Some v"
proof -
  let ?cs = "ps_Containers (pt_Spec (t m))" and ?cs' = "ps_Containers (pt_Spec t')"
  have len: "length ?cs' = length ?cs" using arg_cong[OF assms(2), of length] by (simp add: add_env_containers)
  then have "ctr_Env (?cs' ! k m) = map ctr_Env ?cs' ! k m" using assms(3) by simp
  also have "\<dots> = ctr_Env (?cs ! k m) @ env" unfolding assms(2) using assms(3) by (simp add: add_env_containers)
  finally show "map_of (rev (map (\<lambda>e. (env_Name e, env_Value e)) env)) name = Some v \<Longrightarrow> process_env ctl job t k m name = Some v"
    unfolding process_env_def assms(1) by (simp add: container_env_def)
qed

lemma good_ranksI:
  assumes "bij_betw f members {..<n}"
    and "\<And>m. m \<in> members \<Longrightarrow> env m ''RANK'' = Some (itoa (int (f m)))"
    and "\<And>m. m \<in> members \<Longrightarrow> env m ''WORLD_SIZE'' = Some (itoa (int n))"
  shows "good_ranks env members n"
proof -
  have "inj_on (\<lambda>i. Some (itoa (int i))) {..<n}" by (auto intro!: inj_onI simp: itoa_inj_nat)
  then have "bij_betw (\<lambda>i. Some (itoa (int i))) {..<n} ((\<lambda>i. Some (itoa (int i))) ` {..<n})" by (rule inj_on_imp_bij_betw)
  with assms(1) have "bij_betw ((\<lambda>i. Some (itoa (int i))) \<circ> f) members ((\<lambda>i. Some (itoa (int i))) ` {..<n})"
    by (rule bij_betw_trans)
  then have "bij_betw (\<lambda>m. env m ''RANK'') members ((\<lambda>i. Some (itoa (int i))) ` {..<n})"
    using assms(2) by (subst bij_betw_cong[of members _ "(\<lambda>i. Some (itoa (int i))) \<circ> f"]) simp_all
  with assms(3) show ?thesis by (simp add: good_ranks_def)
qed

text \<open>One master and its workers.\<close>

definition master_and_workers :: "nat \<Rightarrow> process set" where
  "master_and_workers w = insert (RoleMaster, 0) ({RoleWorker} \<times> {..<w})"

definition worker_rank :: "process \<Rightarrow> nat" where
  "worker_rank m = (if fst m = RoleWorker then snd m + 1 else 0)"

lemma bij_worker_rank: "bij_betw worker_rank (master_and_workers w) {..<w + 1}"
proof (rule bij_betw_byWitness[where f' = "\<lambda>r. if r = 0 then (RoleMaster, 0) else (RoleWorker, r - 1)"])
  have "RoleMaster \<noteq> RoleWorker" by (simp add: go_consts)
  then show "\<forall>m \<in> master_and_workers w. (if worker_rank m = 0 then (RoleMaster, 0) else (RoleWorker, worker_rank m - 1)) = m"
    "\<forall>r \<in> {..<w + 1}. worker_rank (if r = 0 then (RoleMaster, 0) else (RoleWorker, r - 1)) = r"
    "worker_rank ` master_and_workers w \<subseteq> {..<w + 1}"
    "(\<lambda>r. if r = 0 then (RoleMaster, 0) else (RoleWorker, r - 1)) ` {..<w + 1} \<subseteq> master_and_workers w"
    by (auto simp: master_and_workers_def worker_rank_def)
qed

end
