(* ===== verification/Simple_Frameworks.thy ===== *)
theory Simple_Frameworks
  imports Framework_Common
begin

text \<open>
  The frameworks \<open>standalone\<close>, \<open>mpi\<close>, \<open>demo\<close> and \<open>custom\<close>: their defaults, their validation, the roles that need no
  service, and the environment that \<open>custom\<close> gives to the containers.
\<close>

section \<open>standalone\<close>

definition Standalone_SetDefault :: "AresJobSpec \<Rightarrow> AresJobSpec option" where
  "Standalone_SetDefault s = do {
     let s1 = default_JobPhasePolicy \<lparr>jpp_Failed = [[RoleWorker]], jpp_Succeeded = [[RoleWorker]]\<rparr> s;
     on_role RoleWorker (\<lambda>spec. default_Failed_unless_restarted (default_Succeeded spec)) s1 }"

definition Standalone_Validate :: "AresJob \<Rightarrow> go_error option option" where
  "Standalone_Validate job = Some None"

definition Standalone_ReconcileServices ::
  "Reconciler \<Rightarrow> AresJob \<Rightarrow> Service list \<Rightarrow> ReplicaType \<Rightarrow> ReplicaSpec option \<Rightarrow> effect list
     \<Rightarrow> (go_error option \<times> effect list) option" where
  "Standalone_ReconcileServices = ReconcileServices_except [RoleWorker]"

definition StandaloneFramework :: "ext \<Rightarrow> Framework" where
  "StandaloneFramework E = \<lparr>GetName = FrameworkStandalone, SetDefault = Standalone_SetDefault, Validate = Standalone_Validate,
     fw_controller = (base_controller E)\<lparr>GetDefaultContainerName := FrameworkStandalone\<rparr>,
     fw_ReconcileServices = Standalone_ReconcileServices, fw_ReconcileJobs = None\<rparr>"

section \<open>mpi\<close>

definition MPI_policy :: "AresJobSpec \<Rightarrow> JobPhasePolicy" where
  "MPI_policy s =
     (let policy = \<lparr>jpp_Failed = [[RoleLauncher]], jpp_Succeeded = [[RoleLauncher]]\<rparr>
      in if has_role s RoleWorker then policy\<lparr>jpp_Failed := jpp_Failed policy @ [[RoleWorker]]\<rparr> else policy)"

definition MPI_SetDefault :: "AresJobSpec \<Rightarrow> AresJobSpec option" where
  "MPI_SetDefault s = do {
     let s1 = default_JobPhasePolicy (MPI_policy s) s;
     s2 \<leftarrow> on_role RoleWorker (\<lambda>spec. Some (default_Failed_NodeDown spec)) s1;
     s3 \<leftarrow> on_role RoleLauncher (\<lambda>spec. Some (default_Failed_NodeDown (default_Succeeded spec))) s2;
     s4 \<leftarrow> on_role RoleLauncher (\<lambda>spec. Some (if has_role s RoleWorker
             then default_Dependence (run_after RoleWorker\<lparr>dep_MPIHostFile := Some DefaultMPIHostFilePath\<rparr>) spec else spec)) s3;
     Some (if fw_MPI (spec_Framework s4) = None
           then s4\<lparr>spec_Framework := (spec_Framework s4)\<lparr>fw_MPI := Some \<lparr>ReplicasPerNode = 1, Implementation = OMPI\<rparr>\<rparr>\<rparr>
           else s4) }"

definition MPI_Validate :: "AresJob \<Rightarrow> go_error option option" where
  "MPI_Validate job = MPISpec_Validate (fw_MPI (spec_Framework (job_Spec job)))"

definition MPI_ReconcileServices ::
  "Reconciler \<Rightarrow> AresJob \<Rightarrow> Service list \<Rightarrow> ReplicaType \<Rightarrow> ReplicaSpec option \<Rightarrow> effect list
     \<Rightarrow> (go_error option \<times> effect list) option" where
  "MPI_ReconcileServices = ReconcileServices_except [RoleLauncher, RoleWorker]"

definition MPIFramework :: "ext \<Rightarrow> Framework" where
  "MPIFramework E = \<lparr>GetName = FrameworkMPI, SetDefault = MPI_SetDefault, Validate = MPI_Validate,
     fw_controller = (base_controller E)\<lparr>GetDefaultContainerName := FrameworkMPI\<rparr>,
     fw_ReconcileServices = MPI_ReconcileServices, fw_ReconcileJobs = None\<rparr>"

section \<open>demo\<close>

definition Demo_SetDefault :: "AresJobSpec \<Rightarrow> AresJobSpec option" where
  "Demo_SetDefault s = Some s"

definition Demo_Validate :: "AresJob \<Rightarrow> go_error option option" where
  "Demo_Validate job = Some None"

text \<open>\<open>f.Controller\<close> is the framework itself, so that \<open>ReconcileJobs\<close> calls the \<open>UpdateJobStatus\<close> of \<open>demo\<close>, which does nothing.\<close>

definition Demo_UpdateJobStatus :: "AresJob \<Rightarrow> (ReplicaType, ReplicaSpec option) gomap \<Rightarrow> JobStatus \<Rightarrow> go_error option" where
  "Demo_UpdateJobStatus job replicas jobStatus = None"

definition Demo_ReconcileJobs ::
  "AresJob \<Rightarrow> (ReplicaType, ReplicaSpec option) gomap \<Rightarrow> JobStatus \<Rightarrow> RunPolicy \<Rightarrow> effect list
     \<Rightarrow> (go_error option \<times> AresJob \<times> effect list) option" where
  "Demo_ReconcileJobs job replicas jobStatus runPolicy tr = Some (Demo_UpdateJobStatus job replicas jobStatus, job, tr)"

definition Demo_ReconcileServices ::
  "Reconciler \<Rightarrow> AresJob \<Rightarrow> Service list \<Rightarrow> ReplicaType \<Rightarrow> ReplicaSpec option \<Rightarrow> effect list
     \<Rightarrow> (go_error option \<times> effect list) option" where
  "Demo_ReconcileServices R job services rtype spec tr = Some (None, tr)"

definition DemoFramework :: "ext \<Rightarrow> Framework" where
  "DemoFramework E = \<lparr>GetName = FrameworkDemo, SetDefault = Demo_SetDefault, Validate = Demo_Validate,
     fw_controller = base_controller E,
     fw_ReconcileServices = Demo_ReconcileServices, fw_ReconcileJobs = Some Demo_ReconcileJobs\<rparr>"

section \<open>custom\<close>

definition setCommonJobPhasePolicy :: "AresJobSpec \<Rightarrow> AresJobSpec" where
  "setCommonJobPhasePolicy s =
     (if spec_JobPhasePolicy s \<noteq> None then s
      else let (succeeded, failed) = foldl (\<lambda>(succeeded, failed) role. (succeeded @ [role], failed @ [[role]])) ([], [])
                 (gm_keys (spec_RoleSpecs s))
           in s\<lparr>spec_JobPhasePolicy := Some \<lparr>jpp_Failed = failed, jpp_Succeeded = [succeeded]\<rparr>\<rparr>)"

definition setCommonRolePhasePolicy :: "AresJobSpec \<Rightarrow> AresJobSpec option" where
  "setCommonRolePhasePolicy s = do {
     roles \<leftarrow> mmap_val (\<lambda>p. do { spec \<leftarrow> p; sp' \<leftarrow> default_Failed_unless_restarted (default_Succeeded spec); Some (Some sp') })
       (gm_entries (spec_RoleSpecs s));
     Some (s\<lparr>spec_RoleSpecs := map_option (\<lambda>_. roles) (spec_RoleSpecs s)\<rparr>) }"

definition Custom_SetDefault :: "AresJobSpec \<Rightarrow> AresJobSpec option" where
  "Custom_SetDefault s = setCommonRolePhasePolicy (setCommonJobPhasePolicy s)"

definition Custom_Validate :: "AresJob \<Rightarrow> go_error option option" where
  "Custom_Validate job = Some None"

definition Custom_env :: "ext \<Rightarrow> AresJob \<Rightarrow> string \<Rightarrow> string \<Rightarrow> EnvVar list option" where
  "Custom_env E job rtype index = do {
     domains \<leftarrow> mmap (\<lambda>role. do { names \<leftarrow> GetRolesDomainNames E job [role]; Some (env_value role (join names '','')) })
       (gm_keys (spec_RoleSpecs (job_Spec job)));
     Some ([env_value ''MODULE'' rtype, env_value ''INDEX'' index] @ domains) }"

text \<open>Without containers the loop body, and with it the lookup of the roles, never runs.\<close>

definition Custom_SetClusterSpec ::
  "ext \<Rightarrow> AresJob \<Rightarrow> PodTemplateSpec \<Rightarrow> string \<Rightarrow> string \<Rightarrow> (go_error option \<times> PodTemplateSpec) option" where
  "Custom_SetClusterSpec E job podTemplate rtype index =
     (if ps_Containers (pt_Spec podTemplate) = [] then Some (None, podTemplate)
      else do { env \<leftarrow> Custom_env E job rtype index; Some (None, add_env env podTemplate) })"

definition CustomFramework :: "ext \<Rightarrow> Framework" where
  "CustomFramework E = \<lparr>GetName = FrameworkCustom, SetDefault = Custom_SetDefault, Validate = Custom_Validate,
     fw_controller = (base_controller E)\<lparr>SetClusterSpec := Custom_SetClusterSpec E\<rparr>,
     fw_ReconcileServices = ReconcileServices, fw_ReconcileJobs = None\<rparr>"

section \<open>The defaults settle\<close>

lemma default_JobPhasePolicy_keeps: "keeps_roles s (default_JobPhasePolicy p s)"
  by (simp add: default_JobPhasePolicy_def keeps_roles_def option.rel_refl)

lemma default_JobPhasePolicy_settled:
  "spec_JobPhasePolicy t = spec_JobPhasePolicy (default_JobPhasePolicy p s) \<Longrightarrow> default_JobPhasePolicy q t = t"
  by (auto simp: default_JobPhasePolicy_def split: if_splits)


interpretation standalone_defaults: framework_defaults Standalone_SetDefault
proof (rule framework_defaultsI)
  show "Standalone_SetDefault s = run_steps [(False, RoleWorker, default_policy_restart)]
      (default_JobPhasePolicy \<lparr>jpp_Failed = [[RoleWorker]], jpp_Succeeded = [[RoleWorker]]\<rparr> s)" for s
    by (simp add: Standalone_SetDefault_def default_policy_restart_def[abs_def] Option.bind_runit)
  have "keeps_settled default_policy_restart default_policy_restart"
    using idem_default_policy_restart by (auto simp: keeps_settled_def idem_step_def)
  then show "settling [(False, RoleWorker, default_policy_restart)]"
    by (simp add: settling_def idem_default_policy_restart)
qed (simp_all add: default_JobPhasePolicy_keeps default_JobPhasePolicy_settled)

interpretation demo_defaults: framework_defaults Demo_SetDefault
  by unfold_locales (simp_all add: Demo_SetDefault_def)

text \<open>The steps of \<open>mpi\<close>.\<close>

definition MPI_steps :: "ReplicaType list \<Rightarrow> role_steps" where
  "MPI_steps roles =
     [(False, RoleWorker, \<lambda>spec. Some (default_Failed_NodeDown spec)),
      (False, RoleLauncher, \<lambda>spec. Some (default_Failed_NodeDown (default_Succeeded spec))),
      (False, RoleLauncher, \<lambda>spec. Some (if RoleWorker \<in> set roles
         then default_Dependence (run_after RoleWorker\<lparr>dep_MPIHostFile := Some DefaultMPIHostFilePath\<rparr>) spec else spec))]"

definition MPI_prepare :: "AresJobSpec \<Rightarrow> AresJobSpec" where
  "MPI_prepare s =
     (let s1 = default_JobPhasePolicy (MPI_policy s) s
      in if fw_MPI (spec_Framework s) = None
         then s1\<lparr>spec_Framework := (spec_Framework s)\<lparr>fw_MPI := Some \<lparr>ReplicasPerNode = 1, Implementation = OMPI\<rparr>\<rparr>\<rparr>
         else s1)"

lemma settling_MPI: "settling (MPI_steps roles)"
proof -
  have "RoleWorker \<noteq> RoleLauncher" by (simp add: go_consts)
  then show ?thesis
    by (simp add: settling_def MPI_steps_def idem_default_NodeDown idem_default_policy_NodeDown idem_default_Dependence)
      (auto simp: keeps_settled_def default_NodeDown_Succeeded_fixed)
qed

lemma MPI_SetDefault_steps: "MPI_SetDefault s = run_steps (MPI_steps (gm_keys (spec_RoleSpecs s))) (MPI_prepare s)"
proof -
  let ?s1 = "default_JobPhasePolicy (MPI_policy s) s"
  let ?fin = "\<lambda>s4 :: AresJobSpec. if fw_MPI (spec_Framework s4) = None
           then s4\<lparr>spec_Framework := (spec_Framework s4)\<lparr>fw_MPI := Some \<lparr>ReplicasPerNode = 1, Implementation = OMPI\<rparr>\<rparr>\<rparr> else s4"
  have w: "has_role s RoleWorker = (RoleWorker \<in> set (gm_keys (spec_RoleSpecs s)))"
    by (simp add: has_role_def gm_get_None_iff)
  have "MPI_SetDefault s = map_option ?fin (run_steps (MPI_steps (gm_keys (spec_RoleSpecs s))) ?s1)"
    unfolding MPI_SetDefault_def MPI_steps_def w Let_def
    by (simp add: map_conv_bind_option comp_def)
  also have "\<dots> = run_steps (MPI_steps (gm_keys (spec_RoleSpecs s))) (MPI_prepare s)"
  proof (cases "run_steps (MPI_steps (gm_keys (spec_RoleSpecs s))) ?s1")
    case None
    then show ?thesis by (simp add: MPI_prepare_def Let_def run_steps_Framework)
  next
    case (Some s4)
    from run_steps_keeps(2)[OF Some settling_MPI] obtain m where "s4 = ?s1\<lparr>spec_RoleSpecs := m\<rparr>" by blast
    then have "spec_Framework s4 = spec_Framework s" by (simp add: default_JobPhasePolicy_def)
    with Some show ?thesis by (simp add: MPI_prepare_def Let_def run_steps_Framework)
  qed
  finally show ?thesis .
qed

interpretation mpi_defaults: framework_defaults MPI_SetDefault
proof (rule framework_defaultsI[where steps = "\<lambda>ks fw. MPI_steps ks" and prepare = MPI_prepare])
  fix s t :: AresJobSpec
  show "MPI_SetDefault s = run_steps (MPI_steps (gm_keys (spec_RoleSpecs s))) (MPI_prepare s)" by (rule MPI_SetDefault_steps)
  show "keeps_roles s (MPI_prepare s)"
    using default_JobPhasePolicy_keeps[of s "MPI_policy s"] by (simp add: MPI_prepare_def Let_def keeps_roles_def)
  assume "spec_JobPhasePolicy t = spec_JobPhasePolicy (MPI_prepare s)" "spec_Framework t = spec_Framework (MPI_prepare s)"
  then have "fw_MPI (spec_Framework t) \<noteq> None" "spec_JobPhasePolicy t \<noteq> None"
    by (simp_all add: MPI_prepare_def Let_def default_JobPhasePolicy_def)
  then show "MPI_prepare t = t" by (auto simp: MPI_prepare_def default_JobPhasePolicy_def)
qed (rule settling_MPI)

text \<open>\<open>custom\<close> visits all roles.\<close>

definition Custom_role :: "RoleSpec option \<Rightarrow> RoleSpec option option" where
  "Custom_role p = do { spec \<leftarrow> p; sp' \<leftarrow> default_policy_restart spec; Some (Some sp') }"

lemma setCommonRolePhasePolicy_Some_conv:
  "setCommonRolePhasePolicy s = Some s' \<longleftrightarrow>
     (\<exists>roles. mmap_val Custom_role (gm_entries (spec_RoleSpecs s)) = Some roles \<and>
        s' = s\<lparr>spec_RoleSpecs := map_option (\<lambda>_. roles) (spec_RoleSpecs s)\<rparr>)"
  by (auto simp: setCommonRolePhasePolicy_def Custom_role_def[abs_def] default_policy_restart_def[abs_def] Option.bind_eq_Some_conv)

lemma setCommonJobPhasePolicy_frame:
  "\<exists>p. setCommonJobPhasePolicy s = s\<lparr>spec_JobPhasePolicy := Some p\<rparr>"
proof (cases "spec_JobPhasePolicy s")
  case (Some y)
  then have "s = s\<lparr>spec_JobPhasePolicy := Some y\<rparr>" by (cases s) simp
  with Some show ?thesis by (metis option.distinct(1) setCommonJobPhasePolicy_def)
qed (auto simp: setCommonJobPhasePolicy_def case_prod_beta)

lemma Custom_roles_get:
  assumes "setCommonRolePhasePolicy s = Some s'"
  shows "gm_keys (spec_RoleSpecs s') = gm_keys (spec_RoleSpecs s)"
    and "gm_get (spec_RoleSpecs s') r = (case gm_get (spec_RoleSpecs s) r of None \<Rightarrow> None | Some p \<Rightarrow> Custom_role p)"
    and "gm_get (spec_RoleSpecs s) r = Some p \<Longrightarrow> Custom_role p \<noteq> None"
proof -
  from assms obtain roles where r: "mmap_val Custom_role (gm_entries (spec_RoleSpecs s)) = Some roles"
    "s' = s\<lparr>spec_RoleSpecs := map_option (\<lambda>_. roles) (spec_RoleSpecs s)\<rparr>"
    unfolding setCommonRolePhasePolicy_Some_conv by blast
  then have e: "gm_entries (spec_RoleSpecs s') = roles" by (cases "spec_RoleSpecs s") (auto simp: mmap_val_def)
  then show "gm_keys (spec_RoleSpecs s') = gm_keys (spec_RoleSpecs s)"
    using mmap_val_keys[OF r(1)] by (simp add: gm_keys_def)
  show get: "gm_get (spec_RoleSpecs s') r = (case gm_get (spec_RoleSpecs s) r of None \<Rightarrow> None | Some p \<Rightarrow> Custom_role p)"
    using mmap_val_get[OF r(1)] e by (simp add: gm_get_def)
  assume p: "gm_get (spec_RoleSpecs s) r = Some p"
  then have "gm_get (spec_RoleSpecs s') r \<noteq> None"
    using \<open>gm_keys (spec_RoleSpecs s') = gm_keys (spec_RoleSpecs s)\<close> by (metis gm_get_None_iff option.distinct(1))
  with get p show "Custom_role p \<noteq> None" by simp
qed

lemma mmap_val_fixed: "\<forall>(k, v) \<in> set al. f v = Some v \<Longrightarrow> mmap_val f al = Some al"
  unfolding mmap_val_def by (induction al) auto

lemma Custom_role_settled:
  assumes "Custom_role p = Some q"
  shows "Custom_role (map_option Default_role q) = Some (map_option Default_role q)"
proof -
  from assms obtain sp sp' where sp: "p = Some sp" "default_policy_restart sp = Some sp'" "q = Some sp'"
    by (auto simp: Custom_role_def Option.bind_eq_Some_conv)
  then have "default_policy_restart (Default_role sp') = Some (Default_role sp')"
    using idem_default_policy_restart by (auto simp: idem_step_def keeps_settled_def)
  with sp show ?thesis by (simp add: Custom_role_def)
qed

interpretation custom_defaults: framework_defaults Custom_SetDefault
proof
  fix s s1 assume run: "Custom_SetDefault s = Some s1"
  let ?s0 = "setCommonJobPhasePolicy s"
  from run have r: "setCommonRolePhasePolicy ?s0 = Some s1" by (simp add: Custom_SetDefault_def)
  from setCommonJobPhasePolicy_frame obtain p where s0: "?s0 = s\<lparr>spec_JobPhasePolicy := Some p\<rparr>" by blast
  from r obtain roles where roles: "mmap_val Custom_role (gm_entries (spec_RoleSpecs s)) = Some roles"
    and s1: "s1 = s\<lparr>spec_JobPhasePolicy := Some p, spec_RoleSpecs := map_option (\<lambda>_. roles) (spec_RoleSpecs s)\<rparr>"
    unfolding setCommonRolePhasePolicy_Some_conv s0 by auto
  have "rel_option same_pods (gm_ptr (spec_RoleSpecs s) k) (gm_ptr (spec_RoleSpecs s1) k)" for k
  proof (cases "gm_get (spec_RoleSpecs s) k")
    case None
    with Custom_roles_get(2)[OF r, of k] show ?thesis by (simp add: s0 gm_ptr_def)
  next
    case (Some q)
    with Custom_roles_get(3)[OF r, of k q] obtain sp sp' where "q = Some sp" "default_policy_restart sp = Some sp'"
      "Custom_role q = Some (Some sp')" by (auto simp: s0 Custom_role_def Option.bind_eq_None_conv)
    with Some Custom_roles_get(2)[OF r, of k] idem_default_policy_restart show ?thesis
      by (simp add: s0 gm_ptr_def idem_step_def)
  qed
  with Custom_roles_get(1)[OF r] show "keeps_roles s s1" by (simp add: keeps_roles_def s0 s1)
  fix s2 assume d: "Default_spec s1 = Some s2"
  have e2: "gm_entries (spec_RoleSpecs s2) = map (\<lambda>(k, q). (k, map_option Default_role q)) (gm_entries (spec_RoleSpecs s1))"
    using d by (cases "spec_RoleSpecs s1") (simp_all add: Default_spec_Some_conv)
  have e1: "gm_entries (spec_RoleSpecs s1) = roles" using roles by (cases "spec_RoleSpecs s") (simp_all add: s1 mmap_val_def)
  have "\<forall>(k, v) \<in> set (gm_entries (spec_RoleSpecs s2)). Custom_role v = Some v"
  proof (intro ballI, clarify)
    fix k v assume "(k, v) \<in> set (gm_entries (spec_RoleSpecs s2))"
    then obtain q where "(k, q) \<in> set roles" "v = map_option Default_role q" unfolding e2 e1 by auto
    with mmap_val_in[OF roles] Custom_role_settled show "Custom_role v = Some v" by blast
  qed
  note fixed = mmap_val_fixed[OF this]
  have "spec_JobPhasePolicy s2 \<noteq> None" using d by (simp add: Default_spec_Some_conv s1)
  then have j: "setCommonJobPhasePolicy s2 = s2" by (simp add: setCommonJobPhasePolicy_def)
  have "map_option (\<lambda>_. gm_entries (spec_RoleSpecs s2)) (spec_RoleSpecs s2) = spec_RoleSpecs s2" by (cases "spec_RoleSpecs s2") simp_all
  then have "setCommonRolePhasePolicy s2 = Some s2"
    unfolding setCommonRolePhasePolicy_Some_conv using fixed by (intro exI conjI) (assumption, simp)
  then show "Custom_SetDefault s2 = Some s2" by (simp add: Custom_SetDefault_def j)
qed

section \<open>The frameworks keep the identity of pods\<close>

lemma pod_identity_base: "SetClusterSpec ctl = SetClusterSpec (base_controller E) \<Longrightarrow> pod_identity ctl"
  by unfold_locales (simp add: base_controller_def)

interpretation standalone_pods: pod_identity "fw_controller (StandaloneFramework E)" for E
  by (rule pod_identity_base) (simp add: StandaloneFramework_def)

interpretation mpi_pods: pod_identity "fw_controller (MPIFramework E)" for E
  by (rule pod_identity_base) (simp add: MPIFramework_def)

interpretation demo_pods: pod_identity "fw_controller (DemoFramework E)" for E
  by (rule pod_identity_base) (simp add: DemoFramework_def)

interpretation custom_pods: pod_identity "fw_controller (CustomFramework E)" for E
  by unfold_locales
    (auto simp: CustomFramework_def Custom_SetClusterSpec_def Option.bind_eq_Some_conv split: if_splits)

section \<open>The environment of custom pods\<close>

lemma Custom_env_run:
  assumes "roles_ok (spec_RoleSpecs (job_Spec job))"
  shows "Custom_env E job rtype index = Some ([env_value ''MODULE'' rtype, env_value ''INDEX'' index] @
     map (\<lambda>role. env_value role (join (map (\<lambda>i. GetPodDomainName E (job_Name job) (job_Namespace job) role (int i))
            [0..<nat (sint (replicas_of (gm_ptr (spec_RoleSpecs (job_Spec job)) role)))]) '',''))
       (gm_keys (spec_RoleSpecs (job_Spec job))))"
  using GetRolesDomainNames_single[OF GetRoleReplicas_ok[OF assms]] by (simp add: Custom_env_def)

end
