(* ===== verification/Go_Encoding.thy ===== *)
theory Go_Encoding
  imports Go_Prelude
begin

text \<open>
  Two more pieces of the Go standard library: \<open>strconv.ParseInt(s, 0, 32)\<close>, which accepts prefixes and underscores, and
  what \<open>json.Marshal\<close> writes for strings, integers, slices and maps.
\<close>

section \<open>strconv.ParseInt(s, 0, 32)\<close>

text \<open>The value of a digit or letter.\<close>

definition digit_value :: "char \<Rightarrow> nat option" where
  "digit_value c =
     (let n = of_char c :: nat; l = of_char (lower_char c) :: nat
      in if 48 \<le> n \<and> n \<le> 57 then Some (n - 48) else if 97 \<le> l \<and> l \<le> 122 then Some (l - 97 + 10) else None)"

fun parse_digits :: "nat \<Rightarrow> string \<Rightarrow> nat \<Rightarrow> num_error + nat" where
  "parse_digits base [] n = Inr n"
| "parse_digits base (c # cs) n =
     (if c = CHR ''_'' then parse_digits base cs n
      else case digit_value c of
        None \<Rightarrow> Inl ErrSyntax
      | Some d \<Rightarrow>
          if base \<le> d then Inl ErrSyntax
          else let n1 = base * n + d in if (2 :: int) ^ 32 - 1 < int n1 then Inl ErrRange else parse_digits base cs n1)"

text \<open>\<open>underscoreOK\<close>: an underscore separates digits or follows the prefix. The state is what came before.\<close>

fun underscores_ok :: "bool \<Rightarrow> char \<Rightarrow> string \<Rightarrow> bool" where
  "underscores_ok hex i [] \<longleftrightarrow> i \<noteq> CHR ''_''"
| "underscores_ok hex i (c # cs) \<longleftrightarrow>
     (if is_digit c \<or> hex \<and> 97 \<le> (of_char (lower_char c) :: nat) \<and> (of_char (lower_char c) :: nat) \<le> 102
      then underscores_ok hex (CHR ''0'') cs
      else if c = CHR ''_'' then i = CHR ''0'' \<and> underscores_ok hex (CHR ''_'') cs
      else i \<noteq> CHR ''_'' \<and> underscores_ok hex (CHR ''!'') cs)"

definition underscoreOK :: "string \<Rightarrow> bool" where
  "underscoreOK s =
     (case s of
        c # d # rest \<Rightarrow>
          if c = CHR ''0'' \<and> lower_char d \<in> {CHR ''b'', CHR ''o'', CHR ''x''}
          then underscores_ok (lower_char d = CHR ''x'') (CHR ''0'') rest
          else underscores_ok False (CHR ''^'') s
      | _ \<Rightarrow> underscores_ok False (CHR ''^'') s)"

text \<open>The base and the digits after the prefix.\<close>

definition split_base :: "string \<Rightarrow> nat \<times> string" where
  "split_base s =
     (case s of
        [] \<Rightarrow> (10, s)
      | c # cs \<Rightarrow>
          if c \<noteq> CHR ''0'' then (10, s)
          else case cs of
                 d # e # rest \<Rightarrow>
                   if lower_char d = CHR ''b'' then (2, e # rest)
                   else if lower_char d = CHR ''o'' then (8, e # rest)
                   else if lower_char d = CHR ''x'' then (16, e # rest)
                   else (8, cs)
               | _ \<Rightarrow> (8, cs))"

definition ParseUint32 :: "string \<Rightarrow> num_error + nat" where
  "ParseUint32 s =
     (if s = [] then Inl ErrSyntax
      else let (base, digits) = split_base s
           in case parse_digits base digits 0 of
                Inl e \<Rightarrow> Inl e
              | Inr n \<Rightarrow> if CHR ''_'' \<in> set s \<and> \<not> underscoreOK s then Inl ErrSyntax else Inr n)"

definition ParseInt32 :: "string \<Rightarrow> num_error + int" where
  "ParseInt32 s =
     (case s of
        [] \<Rightarrow> Inl ErrSyntax
      | c # cs \<Rightarrow>
          let neg = (c = CHR ''-'')
          in case ParseUint32 (if c = CHR ''+'' \<or> c = CHR ''-'' then cs else s) of
               Inl e \<Rightarrow> Inl e
             | Inr n \<Rightarrow>
                 if \<not> neg \<and> 2 ^ 31 \<le> int n then Inl ErrRange
                 else if neg \<and> 2 ^ 31 < int n then Inl ErrRange
                 else Inr (if neg then - int n else int n))"

section \<open>json.Marshal\<close>

definition hex_digit :: "nat \<Rightarrow> char" where
  "hex_digit n = (if n < 10 then char_of (48 + n) else char_of (87 + n))"

text \<open>
  Bytes from 128 on belong to runes and are copied. The strings that the sources marshal are made of names, which are ASCII, and of ports:
  what \<open>json.Marshal\<close> does to invalid UTF-8 and to the separators U+2028 and U+2029 is left out.
\<close>

definition json_char :: "char \<Rightarrow> string" where
  "json_char c =
     (let n = of_char c :: nat
      in if c = CHR 0x22 \<or> c = CHR 0x5C then [CHR 0x5C, c]
         else if n = 10 then [CHR 0x5C, CHR ''n'']
         else if n = 13 then [CHR 0x5C, CHR ''r'']
         else if n = 9 then [CHR 0x5C, CHR ''t'']
         else if n < 32 \<or> c \<in> {CHR ''<'', CHR ''>'', CHR ''&''}
         then [CHR 0x5C, CHR ''u'', CHR ''0'', CHR ''0'', hex_digit (n div 16), hex_digit (n mod 16)]
         else [c])"

definition json_string :: "string \<Rightarrow> string" where
  "json_string s = [CHR 0x22] @ concat (map json_char s) @ [CHR 0x22]"

definition json_array :: "string list \<Rightarrow> string" where
  "json_array vs = ''['' @ join vs '','' @ '']''"

definition json_object :: "(string \<times> string) list \<Rightarrow> string" where
  "json_object fields = ''{'' @ join (map (\<lambda>(k, v). json_string k @ '':'' @ v) fields) '','' @ ''}''"

text \<open>A map is written in the order of its keys; a nil slice is written as null.\<close>

definition json_map :: "('v \<Rightarrow> string) \<Rightarrow> (string \<times> 'v) list \<Rightarrow> string" where
  "json_map f m = json_object (map (\<lambda>(k, v). (k, f v)) (sort_key fst m))"

definition json_strings :: "string list option \<Rightarrow> string" where
  "json_strings p = (case p of None \<Rightarrow> ''null'' | Some vs \<Rightarrow> json_array (map json_string vs))"

section \<open>Lemmas\<close>

lemma is_digit_value: "is_digit c \<Longrightarrow> digit_value c = Some (of_char c - 48) \<and> (of_char c - 48 :: nat) < 10 \<and> c \<noteq> CHR ''_''"
  by (auto simp: is_digit_def digit_value_def Let_def)

lemma digits_val_mono: "a \<le> b \<Longrightarrow> digits_val a cs \<le> digits_val b cs"
  by (induction cs arbitrary: a b) auto

lemma digits_val_ge: "a \<le> digits_val a cs"
proof (induction cs arbitrary: a)
  case (Cons c cs)
  have "a \<le> 10 * a + (of_char c - 48)" by simp
  also have "\<dots> \<le> digits_val (10 * a + (of_char c - 48)) cs" by (rule Cons.IH)
  finally show ?case by simp
qed simp

lemma parse_digits_decimal:
  assumes "list_all is_digit cs" "digits_val n cs < 2 ^ 32"
  shows "parse_digits 10 cs n = Inr (digits_val n cs)"
  using assms
proof (induction cs arbitrary: n)
  case (Cons c cs)
  then have c: "digit_value c = Some (of_char c - 48)" "(of_char c - 48 :: nat) < 10" "c \<noteq> CHR ''_''"
    using is_digit_value[of c] by auto
  have "10 * n + (of_char c - 48) \<le> digits_val (10 * n + (of_char c - 48)) cs" by (rule digits_val_ge)
  also have "\<dots> < 2 ^ 32" using Cons.prems(2) by simp
  finally have "10 * n + (of_char c - 48) < (2 ^ 32 :: nat)" .
  then have "int (10 * n + (of_char c - 48)) < int (2 ^ 32)" by (simp only: of_nat_less_iff)
  then have "int (10 * n + (of_char c - 48)) \<le> 2 ^ 32 - 1" by simp
  with Cons c show ?case by (simp del: of_nat_add of_nat_mult)
qed simp

lemma nat_digits_hd_pos: "0 < n \<Longrightarrow> hd (nat_digits n) \<noteq> CHR ''0''"
proof (induction n rule: nat_digits.induct)
  case (1 n)
  show ?case
  proof (cases "n < 10")
    case True
    then have "take_bit 8 (48 + n) = 48 + n" by (intro take_bit_nat_eq_self) simp
    with True \<open>0 < n\<close> show ?thesis by (subst nat_digits.simps) (auto simp: char_of_eq_iff)
  next
    case False
    with 1 have "hd (nat_digits (n div 10)) \<noteq> CHR ''0''" by simp
    with False show ?thesis by (subst nat_digits.simps) (simp add: nat_digits_ne)
  qed
qed

text \<open>Indices are read back.\<close>

lemma ParseInt32_itoa:
  assumes "int n < 2 ^ 31"
  shows "ParseInt32 (itoa (int n)) = Inr (int n)"
proof (cases "n = 0")
  case True
  have "ParseInt32 (itoa 0) = Inr 0"
    by (simp add: itoa_small ParseInt32_def ParseUint32_def split_base_def)
  with True show ?thesis by simp
next
  case False
  obtain c cs where d: "nat_digits n = c # cs" using nat_digits_ne[of n] by (cases "nat_digits n") auto
  have c: "c \<noteq> CHR ''-''" "c \<noteq> CHR ''+''" "c \<noteq> CHR ''0''"
    using nat_digits_hd[of n] nat_digits_hd_pos[of n] d False by auto
  have all: "list_all is_digit (c # cs)" using nat_digits_all[of n] d by simp
  then have us: "CHR ''_'' \<notin> set (c # cs)" by (auto simp: list_all_iff is_digit_def)
  have v: "digits_val 0 (c # cs) = n" using digits_val_nat_digits[of n] d by simp
  have "parse_digits 10 (c # cs) 0 = Inr n"
    using parse_digits_decimal[OF all, of 0] v assms by simp
  then have "ParseUint32 (c # cs) = Inr n" using us c by (simp add: ParseUint32_def split_base_def)
  with d c assms show ?thesis by (simp add: ParseInt32_def itoa_def)
qed

end
