(* ===== verification/Tensorflow.thy ===== *)
theory Tensorflow
  imports Simple_Frameworks Go_Encoding
begin

text \<open>
  \<open>frameworks/tensorflow\<close>: the defaults of the roles chief, evaluator, master, ps and worker, their validation, and the
  cluster description that every container gets in \<open>TF_CONFIG\<close>.
\<close>

section \<open>Defaults\<close>

definition DefaultPortName :: string where [go_consts]: "DefaultPortName = ''tfjob-port''"
definition DefaultPort :: int32 where "DefaultPort = 2222"

definition getSpecificRoles :: "ReplicaType list" where
  "getSpecificRoles = [RoleChief, RoleEvaluator, RoleMaster, RolePS, RoleWorker]"

definition TF_policy :: "AresJobSpec \<Rightarrow> JobPhasePolicy" where
  "TF_policy s =
     (let existentSpecificRoles = GetRolesIntersection (spec_RoleSpecs s) getSpecificRoles;
          hasChief = HasRoles s [RoleChief];
          succeedAcquired = GetRolesIntersection (spec_RoleSpecs s) [RoleMaster, RoleChief, RoleWorker]
      in \<lparr>jpp_Failed = map (\<lambda>r. [r]) (filter (\<lambda>r. \<not> (hasChief \<and> r = RoleWorker)) existentSpecificRoles),
          jpp_Succeeded = (if length succeedAcquired \<noteq> 0 then [succeedAcquired] else [])\<rparr>)"

definition TF_role :: "bool \<Rightarrow> ReplicaType \<Rightarrow> RoleSpec \<Rightarrow> RoleSpec option" where
  "TF_role hasChief role spec = do {
     let sp1 = default_Succeeded spec;
     sp2 \<leftarrow> (if hasChief \<and> role = RoleWorker then do {
               rs \<leftarrow> role_ReplicaSpec sp1;
               Some (if rs_RestartPolicy rs \<noteq> RestartPolicyAlways
                     then sp1\<lparr>role_ReplicaSpec := Some (rs\<lparr>rs_RestartPolicy := RestartPolicyOnFailure\<rparr>)\<rparr> else sp1) }
             else Some sp1);
     default_Failed_unless_restarted sp2 }"

fun setDefaultPort_in :: "Container list \<Rightarrow> Container list" where
  "setDefaultPort_in [] = []"
| "setDefaultPort_in (c # cs) =
     (if ctr_Name c = FrameworkTensorflow then
        (if list_ex (\<lambda>port. cp_Name port = DefaultPortName) (ctr_Ports c) then c
         else c\<lparr>ctr_Ports := ctr_Ports c @ [\<lparr>cp_Name = DefaultPortName, cp_ContainerPort = DefaultPort\<rparr>]\<rparr>) # cs
      else c # setDefaultPort_in cs)"

definition setDefaultPort :: "PodSpec \<Rightarrow> PodSpec" where
  "setDefaultPort spec = spec\<lparr>ps_Containers := setDefaultPort_in (ps_Containers spec)\<rparr>"

definition TF_port :: "RoleSpec \<Rightarrow> RoleSpec option" where
  "TF_port spec = do {
     rs \<leftarrow> role_ReplicaSpec spec;
     let t = rs_Template rs;
     Some (spec\<lparr>role_ReplicaSpec := Some (rs\<lparr>rs_Template := t\<lparr>pt_Spec := setDefaultPort (pt_Spec t)\<rparr>\<rparr>)\<rparr>) }"

definition Tensorflow_SetDefault :: "AresJobSpec \<Rightarrow> AresJobSpec option" where
  "Tensorflow_SetDefault s = do {
     let s1 = (if fw_Tensorflow (spec_Framework s) = None
               then s\<lparr>spec_Framework := (spec_Framework s)\<lparr>fw_Tensorflow := Some \<lparr>EnableDynamicWorker = False\<rparr>\<rparr>\<rparr> else s);
     let hasChief = HasRoles s1 [RoleChief];
     let s2 = default_JobPhasePolicy (TF_policy s1) s1;
     s3 \<leftarrow> mfold (\<lambda>role. on_role role (TF_role hasChief role)) getSpecificRoles s2;
     mfold (\<lambda>role. on_role role TF_port) getSpecificRoles s3 }"

section \<open>Validation\<close>

definition HasDefaultContainer :: "PodSpec \<Rightarrow> bool" where
  "HasDefaultContainer spec = list_ex (\<lambda>container. ctr_Name container = FrameworkTensorflow) (ps_Containers spec)"

definition Tensorflow_Validate :: "AresJob \<Rightarrow> go_error option option" where
  "Tensorflow_Validate job = do {
     let roles = spec_RoleSpecs (job_Spec job);
     e1 \<leftarrow> mfirst (\<lambda>role. case gm_get roles role of
         None \<Rightarrow> Some None
       | Some p \<Rightarrow> do {
           spec \<leftarrow> p;
           rs \<leftarrow> role_ReplicaSpec spec;
           Some (if \<not> HasDefaultContainer (pt_Spec (rs_Template rs))
                 then Some (ErrValidation (DefaultContainerRequired role FrameworkTensorflow)) else None) }) getSpecificRoles;
     if e1 \<noteq> None then Some e1
     else mfirst (\<lambda>role. case gm_get roles role of
         None \<Rightarrow> Some None
       | Some p \<Rightarrow> do {
           spec \<leftarrow> p;
           rs \<leftarrow> role_ReplicaSpec spec;
           Some (case rs_Replicas rs of
                   None \<Rightarrow> None
                 | Some n \<Rightarrow> if 1 < sint n then Some (ErrValidation (ReplicasTooMany role)) else None) }) [RoleMaster, RoleChief] }"

section \<open>The cluster\<close>

type_synonym ClusterSpec = "(string \<times> string list) list"

record TaskSpec =
  ts_Type :: string
  ts_Index :: int

record TFConfig =
  tf_Cluster :: ClusterSpec
  tf_Task :: TaskSpec
  tf_Environment :: string

record SparseClusterSpec =
  sp_Worker :: "(int32 \<times> string) list"
  sp_PS :: "string list option"

record SparseTFConfig =
  stf_Cluster :: SparseClusterSpec
  stf_Task :: TaskSpec

definition convertClusterSpecToSparseClusterSpec :: "ClusterSpec \<Rightarrow> string \<Rightarrow> int32 \<Rightarrow> SparseClusterSpec option" where
  "convertClusterSpecToSparseClusterSpec clusterSpec rtype index =
     (if rtype = RolePS then do {
        hosts \<leftarrow> map_of clusterSpec rtype;
        host \<leftarrow> slice_at hosts (sint index);
        Some \<lparr>sp_Worker = [], sp_PS = Some [host]\<rparr> }
      else if rtype = RoleWorker then do {
        hosts \<leftarrow> map_of clusterSpec rtype;
        host \<leftarrow> slice_at hosts (sint index);
        Some \<lparr>sp_Worker = [(index, host)], sp_PS = map_of clusterSpec RolePS\<rparr> }
      else Some \<lparr>sp_Worker = [], sp_PS = Some []\<rparr>)"

text \<open>What \<open>json.Marshal\<close> writes for the two configurations.\<close>

definition marshal_task :: "TaskSpec \<Rightarrow> string" where
  "marshal_task t = json_object [(''type'', json_string (ts_Type t)), (''index'', itoa (ts_Index t))]"

definition marshal_TFConfig :: "TFConfig \<Rightarrow> string" where
  "marshal_TFConfig c = json_object
     [(''cluster'', json_map (\<lambda>hosts. json_strings (Some hosts)) (tf_Cluster c)),
      (''task'', marshal_task (tf_Task c)),
      (''environment'', json_string (tf_Environment c))]"

definition marshal_SparseTFConfig :: "SparseTFConfig \<Rightarrow> string" where
  "marshal_SparseTFConfig c = json_object
     [(''sparseCluster'', json_object
        [(''worker'', json_map json_string (map (\<lambda>(i, host). (itoa (sint i), host)) (sp_Worker (stf_Cluster c)))),
         (''ps'', json_strings (sp_PS (stf_Cluster c)))]),
      (''task'', marshal_task (stf_Task c))]"

definition isDistributed :: "AresJob \<Rightarrow> bool option" where
  "isDistributed job = do { n \<leftarrow> GetRolesReplicas (job_Spec job) getSpecificRoles; Some (1 < sint n) }"

definition enableDynamicWorker :: "AresJob \<Rightarrow> bool option" where
  "enableDynamicWorker job = do { tf \<leftarrow> fw_Tensorflow (spec_Framework (job_Spec job)); Some (EnableDynamicWorker tf) }"

definition TF_names :: "ext \<Rightarrow> controller" where
  "TF_names E = (base_controller E)\<lparr>GetDefaultContainerName := FrameworkTensorflow, GetDefaultContainerPortName := DefaultPortName\<rparr>"

fun genClusterSpec_from :: "ext \<Rightarrow> AresJob \<Rightarrow> ReplicaType list \<Rightarrow> ClusterSpec \<Rightarrow> ClusterSpec result option" where
  "genClusterSpec_from E job [] clusterSpec = Some (Inr clusterSpec)"
| "genClusterSpec_from E job (role # roles) clusterSpec =
     (if gm_get (spec_RoleSpecs (job_Spec job)) role = None then genClusterSpec_from E job roles clusterSpec
      else do {
        p \<leftarrow> GetPort (TF_names E) job role;
        case p of
          Inl err \<Rightarrow> Some (Inl err)
        | Inr port \<Rightarrow> do {
            names \<leftarrow> GetRolesDomainNames E job [role];
            let endPoints = map (\<lambda>dn. dn @ '':'' @ itoa (sint port)) names;
            genClusterSpec_from E job roles (AList.update role endPoints clusterSpec) } })"

definition genClusterSpec :: "ext \<Rightarrow> AresJob \<Rightarrow> ClusterSpec result option" where
  "genClusterSpec E job = genClusterSpec_from E job getSpecificRoles []"

definition genTFConfigJSONStr :: "ext \<Rightarrow> AresJob \<Rightarrow> string \<Rightarrow> string \<Rightarrow> string result option" where
  "genTFConfigJSONStr E job rtype index =
     (case ParseInt32 index of
        Inl err \<Rightarrow> Some (Inl (ErrNum err))
      | Inr i \<Rightarrow> do {
          c \<leftarrow> genClusterSpec E job;
          case c of
            Inl err \<Rightarrow> Some (Inl err)
          | Inr cluster \<Rightarrow> do {
              let task = \<lparr>ts_Type = ToLower rtype, ts_Index = i\<rparr>;
              dynamic \<leftarrow> enableDynamicWorker job;
              if dynamic then do {
                sparse \<leftarrow> convertClusterSpecToSparseClusterSpec cluster (ToLower rtype) (word_of_int i);
                Some (Inr (marshal_SparseTFConfig \<lparr>stf_Cluster = sparse, stf_Task = task\<rparr>)) }
              else Some (Inr (marshal_TFConfig \<lparr>tf_Cluster = cluster, tf_Task = task, tf_Environment = ''cloud''\<rparr>)) } })"

text \<open>The first container with the name of the framework gets the variable.\<close>

fun add_env_first :: "string \<Rightarrow> EnvVar list \<Rightarrow> Container list \<Rightarrow> Container list" where
  "add_env_first name env [] = []"
| "add_env_first name env (c # cs) =
     (if ctr_Name c = name then c\<lparr>ctr_Env := ctr_Env c @ env\<rparr> # cs else c # add_env_first name env cs)"

definition Tensorflow_SetClusterSpec ::
  "ext \<Rightarrow> AresJob \<Rightarrow> PodTemplateSpec \<Rightarrow> string \<Rightarrow> string \<Rightarrow> (go_error option \<times> PodTemplateSpec) option" where
  "Tensorflow_SetClusterSpec E job podTemplate rtype index = do {
     distributed \<leftarrow> isDistributed job;
     if \<not> distributed then Some (None, podTemplate)
     else do {
       str \<leftarrow> genTFConfigJSONStr E job rtype index;
       case str of
         Inl err \<Rightarrow> Some (Some err, podTemplate)
       | Inr tfConfigStr \<Rightarrow>
           if tfConfigStr = [] then Some (None, podTemplate)
           else Some (None, podTemplate\<lparr>pt_Spec := (pt_Spec podTemplate)\<lparr>ps_Containers :=
             add_env_first FrameworkTensorflow [env_value ''TF_CONFIG'' tfConfigStr] (ps_Containers (pt_Spec podTemplate))\<rparr>\<rparr>) } }"

definition TensorflowFramework :: "ext \<Rightarrow> Framework" where
  "TensorflowFramework E = \<lparr>GetName = FrameworkTensorflow, SetDefault = Tensorflow_SetDefault, Validate = Tensorflow_Validate,
     fw_controller = (TF_names E)\<lparr>SetClusterSpec := Tensorflow_SetClusterSpec E\<rparr>,
     fw_ReconcileServices = ReconcileServices, fw_ReconcileJobs = None\<rparr>"

section \<open>The defaults settle\<close>

lemma TF_role_run:
  assumes "role_ReplicaSpec spec = Some rs"
  shows "TF_role hasChief role spec =
    (let pinned = (hasChief \<and> role = RoleWorker \<and> rs_RestartPolicy rs \<noteq> RestartPolicyAlways);
         rs' = (if pinned then rs\<lparr>rs_RestartPolicy := RestartPolicyOnFailure\<rparr> else rs)
     in default_policy_restart (spec\<lparr>role_ReplicaSpec := Some rs'\<rparr>))"
proof -
  have self: "spec\<lparr>role_ReplicaSpec := Some rs\<rparr> = spec" using assms by (cases spec) simp
  have swap: "default_Succeeded (spec\<lparr>role_ReplicaSpec := x\<rparr>) = (default_Succeeded spec)\<lparr>role_ReplicaSpec := x\<rparr>" for x
    by (cases spec) (simp add: default_Succeeded_def Let_def)
  have self2: "(default_Succeeded spec)\<lparr>role_ReplicaSpec := Some rs\<rparr> = default_Succeeded spec" using swap[of "Some rs"] self by simp
  show ?thesis
    by (cases "hasChief \<and> role = RoleWorker"; cases "rs_RestartPolicy rs = RestartPolicyAlways")
      (use assms in \<open>auto simp: TF_role_def default_policy_restart_def Let_def swap self2\<close>)
qed

lemma TF_role_nil: "role_ReplicaSpec spec = None \<Longrightarrow> TF_role hasChief role spec = None"
  by (cases "hasChief \<and> role = RoleWorker") (auto simp: TF_role_def default_Failed_unless_restarted_def Let_def)

definition TF_role_ok :: "bool \<Rightarrow> ReplicaType \<Rightarrow> RoleSpec \<Rightarrow> bool" where
  "TF_role_ok hasChief role sp \<longleftrightarrow> default_policy_restart sp = Some sp \<and>
     (\<exists>rs. role_ReplicaSpec sp = Some rs \<and> (hasChief \<and> role = RoleWorker \<longrightarrow>
        rs_RestartPolicy rs = RestartPolicyAlways \<or> rs_RestartPolicy rs = RestartPolicyOnFailure))"

lemma default_policy_restart_ReplicaSpec:
  "default_policy_restart sp = Some sp' \<Longrightarrow> role_ReplicaSpec sp' = role_ReplicaSpec sp"
  by (auto simp: default_policy_restart_def default_Failed_unless_restarted_def Option.bind_eq_Some_conv)

lemma TF_role_fixed: "TF_role hasChief role sp = Some sp \<longleftrightarrow> TF_role_ok hasChief role sp"
proof (cases "role_ReplicaSpec sp")
  case None
  then show ?thesis by (simp add: TF_role_nil TF_role_ok_def)
next
  case (Some rs)
  have self: "sp\<lparr>role_ReplicaSpec := Some rs\<rparr> = sp" using Some by (cases sp) simp
  show ?thesis
  proof (cases "hasChief \<and> role = RoleWorker \<and> rs_RestartPolicy rs \<noteq> RestartPolicyAlways")
    case False
    with Some show ?thesis by (auto simp: TF_role_run[OF Some] TF_role_ok_def self)
  next
    case True
    let ?sp = "sp\<lparr>role_ReplicaSpec := Some (rs\<lparr>rs_RestartPolicy := RestartPolicyOnFailure\<rparr>)\<rparr>"
    have run: "TF_role hasChief role sp = default_policy_restart ?sp" using True by (simp add: TF_role_run[OF Some])
    show ?thesis
    proof (cases "rs_RestartPolicy rs = RestartPolicyOnFailure")
      case on: True
      then have "?sp = sp" using self by (cases rs) simp
      with on Some run show ?thesis by (simp add: TF_role_ok_def)
    next
      case off: False
      have "TF_role hasChief role sp \<noteq> Some sp"
        using default_policy_restart_ReplicaSpec[of ?sp sp] run Some off by (cases rs) auto
      with True off Some show ?thesis by (simp add: TF_role_ok_def)
    qed
  qed
qed

lemma restart_policies_distinct:
  "RestartPolicyOnFailure \<noteq> RestartPolicyNever" "RestartPolicyOnFailure \<noteq> RestartPolicyExitCode"
  "RestartPolicyAlways \<noteq> []" "RestartPolicyOnFailure \<noteq> []"
  by (simp_all add: go_consts)

lemma TF_role_out:
  assumes "TF_role hasChief role sp = Some sp'"
  shows "TF_role_ok hasChief role sp' \<and> same_pods sp sp'"
proof -
  from assms obtain rs where rs: "role_ReplicaSpec sp = Some rs"
    by (cases "role_ReplicaSpec sp") (simp_all add: TF_role_nil)
  define rs' where "rs' = (if hasChief \<and> role = RoleWorker \<and> rs_RestartPolicy rs \<noteq> RestartPolicyAlways
      then rs\<lparr>rs_RestartPolicy := RestartPolicyOnFailure\<rparr> else rs)"
  let ?sp = "sp\<lparr>role_ReplicaSpec := Some rs'\<rparr>"
  have run: "default_policy_restart ?sp = Some sp'"
    using assms by (simp add: TF_role_run[OF rs] rs'_def Let_def split: if_splits)
  have "same_pods sp ?sp" using rs by (simp add: same_pods_def same_replicas_def rs'_def)
  moreover from run have idem: "default_policy_restart sp' = Some sp'" "same_pods ?sp sp'"
    using idem_default_policy_restart by (auto simp: idem_step_def)
  moreover have "role_ReplicaSpec sp' = Some rs'" using default_policy_restart_ReplicaSpec[OF run] by simp
  ultimately show ?thesis by (auto simp: TF_role_ok_def rs'_def intro: same_pods_trans)
qed

lemma idem_TF_role: "idem_step (TF_role hasChief role)"
  unfolding idem_step_def keeps_settled_def TF_role_fixed
proof (intro conjI allI impI)
  fix sp sp' assume "TF_role hasChief role sp = Some sp'"
  from TF_role_out[OF this] show "TF_role_ok hasChief role sp'" "same_pods sp sp'" by blast+
next
  fix sp sp' assume ok: "TF_role_ok hasChief role sp" and "Some (Default_role sp) = Some sp'"
  then have sp': "sp' = Default_role sp" by simp
  from ok obtain rs where rs: "role_ReplicaSpec sp = Some rs" "hasChief \<and> role = RoleWorker \<longrightarrow>
        rs_RestartPolicy rs = RestartPolicyAlways \<or> rs_RestartPolicy rs = RestartPolicyOnFailure" by (auto simp: TF_role_ok_def)
  from rs(1) obtain rs' where rs': "role_ReplicaSpec (Default_role sp) = Some rs'" "rs_Template rs' = rs_Template rs"
    "rs_RestartPolicy rs' = (if rs_RestartPolicy rs = [] then RestartPolicyNever else rs_RestartPolicy rs)"
    "rs_RestartPolicy rs' = RestartPolicyNever \<longrightarrow> rpp_Failed (role_RolePhasePolicy (Default_role sp)) \<noteq> None"
    by (rule Default_role_restart)
  have "default_policy_restart sp' = Some sp'"
    using ok idem_default_policy_restart by (auto simp: TF_role_ok_def sp' idem_step_def keeps_settled_def)
  with rs rs' show "TF_role_ok hasChief role sp'"
    using restart_policies_distinct by (auto simp: TF_role_ok_def sp' split: if_splits)
qed

lemma setDefaultPort_in_idem: "setDefaultPort_in (setDefaultPort_in cs) = setDefaultPort_in cs"
  by (induction cs) auto

lemma setDefaultPort_in_names: "map ctr_Name (setDefaultPort_in cs) = map ctr_Name cs"
  by (induction cs) auto

definition TF_port_ok :: "RoleSpec \<Rightarrow> bool" where
  "TF_port_ok sp \<longleftrightarrow> (\<exists>rs. role_ReplicaSpec sp = Some rs \<and>
     setDefaultPort_in (ps_Containers (pt_Spec (rs_Template rs))) = ps_Containers (pt_Spec (rs_Template rs)))"

lemma TF_port_run:
  "role_ReplicaSpec sp = Some rs \<Longrightarrow> TF_port sp = Some (sp\<lparr>role_ReplicaSpec := Some (rs\<lparr>rs_Template := (rs_Template rs)\<lparr>pt_Spec :=
     (pt_Spec (rs_Template rs))\<lparr>ps_Containers := setDefaultPort_in (ps_Containers (pt_Spec (rs_Template rs)))\<rparr>\<rparr>\<rparr>)\<rparr>)"
  by (simp add: TF_port_def setDefaultPort_def Let_def)

lemma TF_port_fixed: "TF_port sp = Some sp \<longleftrightarrow> TF_port_ok sp"
proof (cases "role_ReplicaSpec sp")
  case None
  then show ?thesis by (simp add: TF_port_def TF_port_ok_def)
next
  case (Some rs)
  let ?cs = "ps_Containers (pt_Spec (rs_Template rs))"
  have "setDefaultPort_in ?cs = ?cs" if fixed: "TF_port sp = Some sp"
  proof -
    let ?rs = "rs\<lparr>rs_Template := (rs_Template rs)\<lparr>pt_Spec := (pt_Spec (rs_Template rs))\<lparr>ps_Containers := setDefaultPort_in ?cs\<rparr>\<rparr>\<rparr>"
    have "sp = sp\<lparr>role_ReplicaSpec := Some ?rs\<rparr>" using TF_port_run[OF Some] fixed by simp
    then have "role_ReplicaSpec sp = Some ?rs" by (rule ssubst) simp
    with Some have "rs = ?rs" by simp
    then have "ps_Containers (pt_Spec (rs_Template rs)) = ps_Containers (pt_Spec (rs_Template ?rs))" by (rule arg_cong)
    then show ?thesis by simp
  qed
  moreover have "setDefaultPort_in ?cs = ?cs \<Longrightarrow> TF_port sp = Some sp"
    using TF_port_run[OF Some] Some by simp
  ultimately show ?thesis using Some by (auto simp: TF_port_ok_def)
qed

lemma TF_port_out:
  assumes "TF_port sp = Some sp'"
  shows "TF_port_ok sp' \<and> same_pods sp sp' \<and> role_RolePhasePolicy sp' = role_RolePhasePolicy sp
    \<and> (\<exists>rs rs'. role_ReplicaSpec sp = Some rs \<and> role_ReplicaSpec sp' = Some rs' \<and> rs_RestartPolicy rs' = rs_RestartPolicy rs)"
proof -
  from assms obtain rs where rs: "role_ReplicaSpec sp = Some rs" by (auto simp: TF_port_def Option.bind_eq_Some_conv)
  let ?rs = "rs\<lparr>rs_Template := (rs_Template rs)\<lparr>pt_Spec :=
     (pt_Spec (rs_Template rs))\<lparr>ps_Containers := setDefaultPort_in (ps_Containers (pt_Spec (rs_Template rs)))\<rparr>\<rparr>\<rparr>"
  have sp': "sp' = sp\<lparr>role_ReplicaSpec := Some ?rs\<rparr>" using TF_port_run[OF rs] assms by simp
  have "TF_port_ok sp'" unfolding sp' TF_port_ok_def by (simp add: setDefaultPort_in_idem)
  moreover have "same_pods sp sp'" unfolding sp' by (simp add: same_pods_def same_replicas_def rs setDefaultPort_in_names)
  moreover have "role_RolePhasePolicy sp' = role_RolePhasePolicy sp" "role_ReplicaSpec sp' = Some ?rs" unfolding sp' by simp_all
  ultimately show ?thesis using rs by simp
qed

lemma idem_TF_port: "idem_step TF_port"
  unfolding idem_step_def keeps_settled_def TF_port_fixed
proof (intro conjI allI impI)
  fix sp sp' assume "TF_port sp = Some sp'"
  from TF_port_out[OF this] show "TF_port_ok sp'" "same_pods sp sp'" by blast+
next
  fix sp sp' assume ok: "TF_port_ok sp" and "Some (Default_role sp) = Some sp'"
  then have sp': "sp' = Default_role sp" by simp
  from ok obtain rs where rs: "role_ReplicaSpec sp = Some rs"
    "setDefaultPort_in (ps_Containers (pt_Spec (rs_Template rs))) = ps_Containers (pt_Spec (rs_Template rs))" by (auto simp: TF_port_ok_def)
  from rs(1) obtain rs' where "role_ReplicaSpec (Default_role sp) = Some rs'" "rs_Template rs' = rs_Template rs"
    by (rule Default_role_restart)
  with rs show "TF_port_ok sp'" by (simp add: TF_port_ok_def sp')
qed

lemma TF_role_template:
  assumes "TF_role hasChief role sp = Some sp'" "role_ReplicaSpec sp = Some rs"
  obtains rs' where "role_ReplicaSpec sp' = Some rs'" "rs_Template rs' = rs_Template rs"
proof -
  from assms(1) have "\<exists>rs'. default_policy_restart (sp\<lparr>role_ReplicaSpec := Some rs'\<rparr>) = Some sp' \<and> rs_Template rs' = rs_Template rs"
    unfolding TF_role_run[OF assms(2)] Let_def by (auto split: if_splits)
  with default_policy_restart_ReplicaSpec that show ?thesis by fastforce
qed

lemma TF_keeps: "keeps_settled TF_port (TF_role hasChief role)" "keeps_settled (TF_role hasChief role) TF_port"
  unfolding keeps_settled_def TF_role_fixed TF_port_fixed
proof (safe)
  fix sp sp' assume "TF_role_ok hasChief role sp" "TF_port sp = Some sp'"
  with TF_port_out[of sp sp'] show "TF_role_ok hasChief role sp'"
    unfolding TF_role_ok_def default_policy_restart_fixed by auto
next
  fix sp sp' assume ok: "TF_port_ok sp" and run: "TF_role hasChief role sp = Some sp'"
  from ok obtain rs where rs: "role_ReplicaSpec sp = Some rs"
    "setDefaultPort_in (ps_Containers (pt_Spec (rs_Template rs))) = ps_Containers (pt_Spec (rs_Template rs))" by (auto simp: TF_port_ok_def)
  from run rs(1) obtain rs' where "role_ReplicaSpec sp' = Some rs'" "rs_Template rs' = rs_Template rs" by (rule TF_role_template)
  with rs show "TF_port_ok sp'" by (simp add: TF_port_ok_def)
qed

definition TF_steps :: "bool \<Rightarrow> role_steps" where
  "TF_steps hasChief = map (\<lambda>r. (False, r, TF_role hasChief r)) getSpecificRoles @ map (\<lambda>r. (False, r, TF_port)) getSpecificRoles"

lemma settling_TF: "settling (TF_steps hasChief)"
  unfolding settling_def
proof
  show "\<forall>(m, r, f) \<in> set (TF_steps hasChief). idem_step f" by (auto simp: TF_steps_def idem_TF_role idem_TF_port)
  have "keeps_settled g f" if "(m, r, f) \<in> set (TF_steps hasChief)" "(m', r, g) \<in> set (TF_steps hasChief)" for m r f m' g
    using that TF_keeps keeps_settled_self by (auto simp: TF_steps_def)
  then show "\<forall>(m, r, f) \<in> set (TF_steps hasChief). \<forall>(m', r', g) \<in> set (TF_steps hasChief). r = r' \<longrightarrow> keeps_settled g f" by blast
qed

definition TF_prepare :: "AresJobSpec \<Rightarrow> AresJobSpec" where
  "TF_prepare s =
     (let s1 = (if fw_Tensorflow (spec_Framework s) = None
               then s\<lparr>spec_Framework := (spec_Framework s)\<lparr>fw_Tensorflow := Some \<lparr>EnableDynamicWorker = False\<rparr>\<rparr>\<rparr> else s)
      in default_JobPhasePolicy (TF_policy s1) s1)"

interpretation tensorflow_defaults: framework_defaults Tensorflow_SetDefault
proof (rule framework_defaultsI[where steps = "\<lambda>ks fw. TF_steps (RoleChief \<in> set ks)" and prepare = TF_prepare])
  fix s t :: AresJobSpec
  let ?s1 = "if fw_Tensorflow (spec_Framework s) = None
     then s\<lparr>spec_Framework := (spec_Framework s)\<lparr>fw_Tensorflow := Some \<lparr>EnableDynamicWorker = False\<rparr>\<rparr>\<rparr> else s"
  have chief: "HasRoles ?s1 [RoleChief] = (RoleChief \<in> set (gm_keys (spec_RoleSpecs s)))"
    by (simp add: HasRoles_def gm_get_None_iff)
  show "Tensorflow_SetDefault s = run_steps (TF_steps (RoleChief \<in> set (gm_keys (spec_RoleSpecs s)))) (TF_prepare s)"
    unfolding Tensorflow_SetDefault_def TF_steps_def run_steps_append run_steps_map TF_prepare_def Let_def chief ..
  have "keeps_roles s ?s1" by (simp add: keeps_roles_def option.rel_refl)
  then show "keeps_roles s (TF_prepare s)"
    unfolding TF_prepare_def Let_def using default_JobPhasePolicy_keeps keeps_roles_trans by blast
  assume "spec_JobPhasePolicy t = spec_JobPhasePolicy (TF_prepare s)" "spec_Framework t = spec_Framework (TF_prepare s)"
  then have "fw_Tensorflow (spec_Framework t) \<noteq> None" "spec_JobPhasePolicy t \<noteq> None"
    by (simp_all add: TF_prepare_def Let_def default_JobPhasePolicy_def)
  then show "TF_prepare t = t" by (auto simp: TF_prepare_def default_JobPhasePolicy_def)
qed (rule settling_TF)

section \<open>The identity of pods\<close>

interpretation tensorflow_pods: pod_identity "fw_controller (TensorflowFramework E)" for E
proof
  fix job t rt index t'
  assume "SetClusterSpec (fw_controller (TensorflowFramework E)) job t rt index = Some (None, t')"
  then have run: "Tensorflow_SetClusterSpec E job t rt index = Some (None, t')" by (simp add: TensorflowFramework_def)
  then obtain d where d: "isDistributed job = Some d" by (auto simp: Tensorflow_SetClusterSpec_def Option.bind_eq_Some_conv)
  show "same_identity t t'"
  proof (cases d)
    case False
    with run d show ?thesis by (simp add: Tensorflow_SetClusterSpec_def)
  next
    case True
    with run d obtain str where str: "genTFConfigJSONStr E job rt index = Some str"
      by (auto simp: Tensorflow_SetClusterSpec_def Option.bind_eq_Some_conv)
    with run d True obtain v where "str = Inr v" by (cases str) (simp_all add: Tensorflow_SetClusterSpec_def)
    with run d True str show ?thesis
      by (auto simp: Tensorflow_SetClusterSpec_def same_identity_def split: if_splits)
  qed
qed

section \<open>The cluster of a job\<close>

definition TF_port_number :: "ext \<Rightarrow> AresJob \<Rightarrow> ReplicaType \<Rightarrow> int32" where
  "TF_port_number E job role = (case GetPort (TF_names E) job role of Some (Inr p) \<Rightarrow> p | _ \<Rightarrow> 0)"

definition TF_endpoint :: "ext \<Rightarrow> AresJob \<Rightarrow> ReplicaType \<Rightarrow> nat \<Rightarrow> string" where
  "TF_endpoint E job role i =
     GetPodDomainName E (job_Name job) (job_Namespace job) role (int i) @ '':'' @ itoa (sint (TF_port_number E job role))"

definition TF_hosts :: "ext \<Rightarrow> AresJob \<Rightarrow> ReplicaType \<Rightarrow> string list" where
  "TF_hosts E job role = map (TF_endpoint E job role) [0..<nat (sint (replicas_of (gm_ptr (spec_RoleSpecs (job_Spec job)) role)))]"

text \<open>The ports that the framework needs are declared.\<close>

definition TF_ports_known :: "ext \<Rightarrow> AresJob \<Rightarrow> bool" where
  "TF_ports_known E job \<longleftrightarrow> (\<forall>role \<in> set getSpecificRoles. has_role (job_Spec job) role \<longrightarrow>
     (case GetPort (TF_names E) job role of Some (Inr p) \<Rightarrow> True | _ \<Rightarrow> False))"

lemma genClusterSpec_from_run:
  assumes "roles_ok (spec_RoleSpecs (job_Spec job))"
    and "\<forall>role \<in> set roles. has_role (job_Spec job) role \<longrightarrow> (case GetPort (TF_names E) job role of Some (Inr p) \<Rightarrow> True | _ \<Rightarrow> False)"
  shows "\<exists>cluster. genClusterSpec_from E job roles al = Some (Inr cluster) \<and>
     (\<forall>r. map_of cluster r = (if r \<in> set roles \<and> has_role (job_Spec job) r then Some (TF_hosts E job r) else map_of al r))"
  using assms(2)
proof (induction roles arbitrary: al)
  case (Cons role roles)
  show ?case
  proof (cases "has_role (job_Spec job) role")
    case False
    with Cons obtain cluster where "genClusterSpec_from E job roles al = Some (Inr cluster)"
      "\<forall>r. map_of cluster r = (if r \<in> set roles \<and> has_role (job_Spec job) r then Some (TF_hosts E job r) else map_of al r)" by fastforce
    with False show ?thesis by (auto simp: has_role_def)
  next
    case True
    with Cons.prems obtain p where p: "GetPort (TF_names E) job role = Some (Inr p)" by (auto split: option.splits sum.splits)
    note names = GetRolesDomainNames_single[OF GetRoleReplicas_ok[OF assms(1)], of E role]
    have hosts: "map (\<lambda>dn. dn @ '':'' @ itoa (sint p)) (map (\<lambda>i. GetPodDomainName E (job_Name job) (job_Namespace job) role (int i))
        [0..<nat (sint (replicas_of (gm_ptr (spec_RoleSpecs (job_Spec job)) role)))]) = TF_hosts E job role"
      by (simp add: TF_hosts_def TF_endpoint_def TF_port_number_def p)
    from Cons obtain cluster where c: "genClusterSpec_from E job roles (AList.update role (TF_hosts E job role) al) = Some (Inr cluster)"
      "\<forall>r. map_of cluster r = (if r \<in> set roles \<and> has_role (job_Spec job) r then Some (TF_hosts E job r)
          else map_of (AList.update role (TF_hosts E job role) al) r)" by fastforce
    have "genClusterSpec_from E job (role # roles) al = genClusterSpec_from E job roles (AList.update role (TF_hosts E job role) al)"
      using True p names by (auto simp: has_role_def hosts[symmetric] Let_def)
    with c True show ?thesis by (auto simp: update_conv')
  qed
qed simp

lemma marshal_nonempty: "marshal_TFConfig c \<noteq> []" "marshal_SparseTFConfig c' \<noteq> []"
  by (simp_all add: marshal_TFConfig_def marshal_SparseTFConfig_def json_object_def)

text \<open>The run of \<open>genTFConfigJSONStr\<close> for a process of the job.\<close>

lemma genTFConfig_run:
  assumes "roles_ok (spec_RoleSpecs (job_Spec job))" "TF_ports_known E job" "enableDynamicWorker job = Some dyn"
    and "ToLower role = role" "int i < sint (replicas_of (gm_ptr (spec_RoleSpecs (job_Spec job)) role))"
  obtains cluster where
    "\<forall>r. map_of cluster r = (if r \<in> set getSpecificRoles \<and> has_role (job_Spec job) r then Some (TF_hosts E job r) else None)"
    "has_role (job_Spec job) role" "i < length (TF_hosts E job role)" "TF_hosts E job role ! i = TF_endpoint E job role i"
    "genTFConfigJSONStr E job role (itoa (int i)) =
       (if dyn then do {
          sparse \<leftarrow> convertClusterSpecToSparseClusterSpec cluster role (word_of_int (int i));
          Some (Inr (marshal_SparseTFConfig \<lparr>stf_Cluster = sparse, stf_Task = \<lparr>ts_Type = role, ts_Index = int i\<rparr>\<rparr>)) }
        else Some (Inr (marshal_TFConfig \<lparr>tf_Cluster = cluster, tf_Task = \<lparr>ts_Type = role, ts_Index = int i\<rparr>, tf_Environment = ''cloud''\<rparr>)))"
proof -
  let ?n = "replicas_of (gm_ptr (spec_RoleSpecs (job_Spec job)) role)"
  from genClusterSpec_from_run[OF assms(1) assms(2)[unfolded TF_ports_known_def], of "[]"] obtain cluster where
    c: "genClusterSpec E job = Some (Inr cluster)"
    "\<forall>r. map_of cluster r = (if r \<in> set getSpecificRoles \<and> has_role (job_Spec job) r then Some (TF_hosts E job r) else None)"
    unfolding genClusterSpec_def by fastforce
  have i: "int i < 2 ^ 31" using assms(5) sint_range32[of ?n] by simp
  have "gm_get (spec_RoleSpecs (job_Spec job)) role \<noteq> None"
  proof
    assume "gm_get (spec_RoleSpecs (job_Spec job)) role = None"
    then have "?n = 0" by (simp add: gm_ptr_def replicas_of_def)
    with assms(5) show False by simp
  qed
  then have "has_role (job_Spec job) role" by (simp add: has_role_def)
  moreover have len: "i < length (TF_hosts E job role)" using assms(5) by (simp add: TF_hosts_def zless_nat_eq_int_zless)
  moreover have "TF_hosts E job role ! i = TF_endpoint E job role i" using len by (simp add: TF_hosts_def)
  ultimately show ?thesis
    using that[OF c(2)] c(1) ParseInt32_itoa[OF i] assms(3,4)
    by (auto simp: genTFConfigJSONStr_def)
qed

lemma Tensorflow_SetClusterSpec_run:
  assumes "isDistributed job = Some True" "genTFConfigJSONStr E job role index = Some (Inr str)" "str \<noteq> []"
  shows "Tensorflow_SetClusterSpec E job t role index = Some (None, t\<lparr>pt_Spec := (pt_Spec t)\<lparr>ps_Containers :=
    add_env_first FrameworkTensorflow [env_value ''TF_CONFIG'' str] (ps_Containers (pt_Spec t))\<rparr>\<rparr>)"
  using assms by (simp add: Tensorflow_SetClusterSpec_def)

lemma add_env_first_get:
  assumes "find (\<lambda>c. ctr_Name c = name) cs = Some c"
  shows "find (\<lambda>c. ctr_Name c = name) (add_env_first name [env_value v str] cs) = Some (c\<lparr>ctr_Env := ctr_Env c @ [env_value v str]\<rparr>)"
    and "container_env (c\<lparr>ctr_Env := ctr_Env c @ [env_value v str]\<rparr>) v = Some str"
  using assms by (induction cs) (auto simp: container_env_def env_value_def split: if_splits)

text \<open>What the container of the framework finds in \<open>TF_CONFIG\<close> after the pod was set up.\<close>

definition TF_CONFIG_of :: "ext \<Rightarrow> AresJob \<Rightarrow> PodTemplateSpec \<Rightarrow> ReplicaType \<Rightarrow> nat \<Rightarrow> string option" where
  "TF_CONFIG_of E job t role i =
     (case SetClusterSpec (fw_controller (TensorflowFramework E)) job t role (itoa (int i)) of
        Some (None, t') \<Rightarrow> (case find (\<lambda>c. ctr_Name c = FrameworkTensorflow) (ps_Containers (pt_Spec t')) of
           Some c \<Rightarrow> container_env c ''TF_CONFIG'' | None \<Rightarrow> None)
      | _ \<Rightarrow> None)"

lemma TF_CONFIG_of_run:
  assumes "isDistributed job = Some True" "genTFConfigJSONStr E job role (itoa (int i)) = Some (Inr str)" "str \<noteq> []"
    and "HasDefaultContainer (pt_Spec t)"
  shows "TF_CONFIG_of E job t role i = Some str"
proof -
  from assms(4) obtain c where c: "find (\<lambda>c. ctr_Name c = FrameworkTensorflow) (ps_Containers (pt_Spec t)) = Some c"
    by (cases "find (\<lambda>c. ctr_Name c = FrameworkTensorflow) (ps_Containers (pt_Spec t))")
      (auto simp: HasDefaultContainer_def find_None_iff list_ex_iff)
  from Tensorflow_SetClusterSpec_run[OF assms(1-3)] show ?thesis
    by (simp add: TF_CONFIG_of_def TensorflowFramework_def add_env_first_get[OF c])
qed

section \<open>Properties\<close>

text \<open>
  C27. The processes of a distributed TensorFlow job without dynamic workers find the whole cluster. With the ports declared,
  the container of the framework gets a \<open>TF_CONFIG\<close> whose cluster maps exactly those roles of the job that are chief, evaluator, master, ps
  or worker to the addresses of all their pods in the order of the indices, and whose task is the role and the index of the pod. For a pod of
  one of these roles the entry that the task points to is the pod's own address; the task of a pod of another role is not in the cluster.
\<close>

theorem TF_CONFIG_cluster:
  assumes "roles_ok (spec_RoleSpecs (job_Spec job))" "TF_ports_known E job" "enableDynamicWorker job = Some False"
    and "isDistributed job = Some True" "HasDefaultContainer (pt_Spec t)"
    and "ToLower role = role" "int i < sint (replicas_of (gm_ptr (spec_RoleSpecs (job_Spec job)) role))"
  shows "\<exists>cfg. TF_CONFIG_of E job t role i = Some (marshal_TFConfig cfg)
    \<and> tf_Task cfg = \<lparr>ts_Type = role, ts_Index = int i\<rparr>
    \<and> (\<forall>r. map_of (tf_Cluster cfg) r = (if r \<in> set getSpecificRoles \<and> has_role (job_Spec job) r then Some (TF_hosts E job r) else None))
    \<and> (if role \<in> set getSpecificRoles
       then \<exists>hosts. map_of (tf_Cluster cfg) role = Some hosts \<and> i < length hosts \<and> hosts ! i = TF_endpoint E job role i
       else map_of (tf_Cluster cfg) role = None)"
proof -
  from genTFConfig_run[OF assms(1-3,6,7)] obtain cluster where c:
    "\<forall>r. map_of cluster r = (if r \<in> set getSpecificRoles \<and> has_role (job_Spec job) r then Some (TF_hosts E job r) else None)"
    "has_role (job_Spec job) role" "i < length (TF_hosts E job role)" "TF_hosts E job role ! i = TF_endpoint E job role i"
    "genTFConfigJSONStr E job role (itoa (int i)) = Some (Inr (marshal_TFConfig
       \<lparr>tf_Cluster = cluster, tf_Task = \<lparr>ts_Type = role, ts_Index = int i\<rparr>, tf_Environment = ''cloud''\<rparr>))" by auto
  note str = TF_CONFIG_of_run[OF assms(4) c(5) marshal_nonempty(1) assms(5)]
  show ?thesis
    by (rule exI, rule conjI, rule str) (use c(1-4) in simp)
qed

definition tf_job :: "bool \<Rightarrow> AresJob" where
  "tf_job dyn = (let port = \<lparr>cp_Name = DefaultPortName, cp_ContainerPort = 2222\<rparr>;
       role = (\<lambda>n. Some (plain_role n [] [plain_container FrameworkTensorflow [port]]));
       job = plain_job FrameworkTensorflow [(RolePS, role 1), (RoleWorker, role 2)]
     in job\<lparr>job_Spec := (job_Spec job)\<lparr>spec_Framework := (spec_Framework (job_Spec job))\<lparr>fw_Tensorflow := Some \<lparr>EnableDynamicWorker = dyn\<rparr>\<rparr>\<rparr>\<rparr>)"

definition tf_template :: PodTemplateSpec where
  "tf_template = zero_PodTemplateSpec\<lparr>pt_Spec := zero_PodSpec\<lparr>ps_Containers := [plain_container FrameworkTensorflow []]\<rparr>\<rparr>"

lemma tf_job_facts:
  "roles_ok (spec_RoleSpecs (job_Spec (tf_job dyn)))" "TF_ports_known plain_ext (tf_job dyn)"
  "enableDynamicWorker (tf_job dyn) = Some dyn" "isDistributed (tf_job dyn) = Some True"
  "HasDefaultContainer (pt_Spec tf_template)" "ToLower RoleWorker = RoleWorker"
  "int 1 < sint (replicas_of (gm_ptr (spec_RoleSpecs (job_Spec (tf_job dyn))) RoleWorker))"
proof -
  show "roles_ok (spec_RoleSpecs (job_Spec (tf_job dyn)))"
    by (simp add: tf_job_def plain_defs roles_ok_def gm_ok_def gm_keys_def go_consts Let_def)
  have "TF_ports_known plain_ext (tf_job True) \<and> TF_ports_known plain_ext (tf_job False)" by code_simp
  then show "TF_ports_known plain_ext (tf_job dyn)" by (cases dyn) simp_all
  show "enableDynamicWorker (tf_job dyn) = Some dyn" by (simp add: tf_job_def enableDynamicWorker_def Let_def)
  have "isDistributed (tf_job True) = Some True \<and> isDistributed (tf_job False) = Some True" by code_simp
  then show "isDistributed (tf_job dyn) = Some True" by (cases dyn) simp_all
  show "HasDefaultContainer (pt_Spec tf_template)" by code_simp
  show "ToLower RoleWorker = RoleWorker" by code_simp
  have "sint (replicas_of (gm_ptr (spec_RoleSpecs (job_Spec (tf_job True))) RoleWorker)) = 2
      \<and> sint (replicas_of (gm_ptr (spec_RoleSpecs (job_Spec (tf_job False))) RoleWorker)) = 2" by code_simp
  then show "int 1 < sint (replicas_of (gm_ptr (spec_RoleSpecs (job_Spec (tf_job dyn))) RoleWorker))" by (cases dyn) simp_all
qed

lemma worker_specific: "RoleWorker \<in> set getSpecificRoles"
  by (simp add: getSpecificRoles_def)

theorem TF_CONFIG_cluster_witness:
  "\<exists>cfg. TF_CONFIG_of plain_ext (tf_job False) tf_template RoleWorker 1 = Some (marshal_TFConfig cfg)
    \<and> tf_Task cfg = \<lparr>ts_Type = RoleWorker, ts_Index = 1\<rparr>
    \<and> (\<exists>hosts. map_of (tf_Cluster cfg) RoleWorker = Some hosts \<and> 1 < length hosts
         \<and> hosts ! 1 = TF_endpoint plain_ext (tf_job False) RoleWorker 1)"
  using TF_CONFIG_cluster[OF tf_job_facts(1,2,3,4,5,6,7)] worker_specific by (simp del: One_nat_def) blast

text \<open>
  C28. With dynamic workers a process sees a part of the cluster: the cluster of a worker is the worker itself under its own
  index and all the parameter servers, that of a parameter server is itself alone, and that of a pod of any other role, the
  master, the chief and the evaluator included, is empty. The task is the role and the index of the pod, and setting up the pod does not panic.
\<close>

theorem TF_CONFIG_sparse:
  assumes "roles_ok (spec_RoleSpecs (job_Spec job))" "TF_ports_known E job" "enableDynamicWorker job = Some True"
    and "isDistributed job = Some True" "HasDefaultContainer (pt_Spec t)"
    and "ToLower role = role" "int i < sint (replicas_of (gm_ptr (spec_RoleSpecs (job_Spec job)) role))"
  shows "\<exists>cfg. TF_CONFIG_of E job t role i = Some (marshal_SparseTFConfig cfg)
    \<and> stf_Task cfg = \<lparr>ts_Type = role, ts_Index = int i\<rparr>
    \<and> stf_Cluster cfg =
        (if role = RoleWorker then \<lparr>sp_Worker = [(word_of_int (int i), TF_endpoint E job RoleWorker i)],
           sp_PS = (if has_role (job_Spec job) RolePS then Some (TF_hosts E job RolePS) else None)\<rparr>
         else if role = RolePS then \<lparr>sp_Worker = [], sp_PS = Some [TF_endpoint E job RolePS i]\<rparr>
         else \<lparr>sp_Worker = [], sp_PS = Some []\<rparr>)"
proof -
  from genTFConfig_run[OF assms(1-3,6,7)] obtain cluster where c:
    "\<forall>r. map_of cluster r = (if r \<in> set getSpecificRoles \<and> has_role (job_Spec job) r then Some (TF_hosts E job r) else None)"
    "has_role (job_Spec job) role" "i < length (TF_hosts E job role)" "TF_hosts E job role ! i = TF_endpoint E job role i"
    "genTFConfigJSONStr E job role (itoa (int i)) = do {
          sparse \<leftarrow> convertClusterSpecToSparseClusterSpec cluster role (word_of_int (int i));
          Some (Inr (marshal_SparseTFConfig \<lparr>stf_Cluster = sparse, stf_Task = \<lparr>ts_Type = role, ts_Index = int i\<rparr>\<rparr>)) }" by auto
  have roles: "RoleWorker \<noteq> RolePS" "RolePS \<in> set getSpecificRoles" "RoleWorker \<in> set getSpecificRoles" by (simp_all add: go_consts getSpecificRoles_def)
  have i: "sint (word_of_int (int i) :: int32) = int i"
    using assms(7) sint_range32[of "replicas_of (gm_ptr (spec_RoleSpecs (job_Spec job)) role)"] sint_of_nat32[of i] by simp
  have host: "role \<in> {RoleWorker, RolePS} \<Longrightarrow> map_of cluster role = Some (TF_hosts E job role)"
    "slice_at (TF_hosts E job role) (int i) = Some (TF_endpoint E job role i)"
    using c roles by (auto simp: slice_at_def)
  define sparse where "sparse = (if role = RolePS then \<lparr>sp_Worker = [], sp_PS = Some [TF_endpoint E job role i]\<rparr>
     else if role = RoleWorker then \<lparr>sp_Worker = [(word_of_int (int i), TF_endpoint E job role i)], sp_PS = map_of cluster RolePS\<rparr>
     else \<lparr>sp_Worker = [], sp_PS = Some []\<rparr>)"
  have "convertClusterSpecToSparseClusterSpec cluster role (word_of_int (int i)) = Some sparse"
    using host roles(1) unfolding convertClusterSpecToSparseClusterSpec_def sparse_def i
    by (cases "role = RolePS"; cases "role = RoleWorker") simp_all
  with c(5) have "genTFConfigJSONStr E job role (itoa (int i))
      = Some (Inr (marshal_SparseTFConfig \<lparr>stf_Cluster = sparse, stf_Task = \<lparr>ts_Type = role, ts_Index = int i\<rparr>\<rparr>))" by simp
  note str = TF_CONFIG_of_run[OF assms(4) this marshal_nonempty(2) assms(5)]
  show ?thesis
    by (rule exI, rule conjI, rule str) (use c(1) roles in \<open>simp add: sparse_def\<close>)
qed

theorem TF_CONFIG_sparse_witness:
  "\<exists>cfg. TF_CONFIG_of plain_ext (tf_job True) tf_template RoleWorker 1 = Some (marshal_SparseTFConfig cfg)
    \<and> stf_Task cfg = \<lparr>ts_Type = RoleWorker, ts_Index = 1\<rparr>
    \<and> stf_Cluster cfg = \<lparr>sp_Worker = [(1, TF_endpoint plain_ext (tf_job True) RoleWorker 1)],
        sp_PS = Some (TF_hosts plain_ext (tf_job True) RolePS)\<rparr>"
proof -
  have "has_role (job_Spec (tf_job True)) RolePS" by code_simp
  then show ?thesis using TF_CONFIG_sparse[OF tf_job_facts(1,2,3,4,5,6,7)] by (simp del: One_nat_def)
qed

end
