(* ===== verification/Pytorch.thy ===== *)
theory Pytorch
  imports Simple_Frameworks
begin

text \<open>
  \<open>frameworks/pytorch/pytorch.go\<close>: one master and its workers. The theorem on ranks shows that the environment of the
  pods describes one consistent process group.
\<close>

section \<open>Defaults and validation\<close>

definition Pytorch_policy :: "AresJobSpec \<Rightarrow> JobPhasePolicy" where
  "Pytorch_policy s =
     (if has_role s RoleWorker
      then \<lparr>jpp_Failed = [[RoleMaster], [RoleWorker]], jpp_Succeeded = [[RoleMaster, RoleWorker]]\<rparr>
      else \<lparr>jpp_Failed = [[RoleMaster]], jpp_Succeeded = [[RoleMaster]]\<rparr>)"

definition Pytorch_SetDefault :: "AresJobSpec \<Rightarrow> AresJobSpec option" where
  "Pytorch_SetDefault s = do {
     let s1 = default_JobPhasePolicy (Pytorch_policy s) s;
     s2 \<leftarrow> on_role RoleWorker (\<lambda>spec. Some (default_Succeeded (default_Failed spec))) s1;
     s3 \<leftarrow> on_role RoleMaster (\<lambda>spec. Some (default_Succeeded (default_Failed spec))) s2;
     on_role RoleWorker (\<lambda>spec. Some (if has_role s RoleMaster then default_Dependence (run_after RoleMaster) spec else spec)) s3 }"

definition Pytorch_Validate :: "AresJob \<Rightarrow> go_error option option" where
  "Pytorch_Validate job =
     (case gm_get (spec_RoleSpecs (job_Spec job)) RoleMaster of
        None \<Rightarrow> Some (Some (ErrValidation (RoleRequired RoleMaster)))
      | Some p \<Rightarrow> do {
          spec \<leftarrow> p;
          rs \<leftarrow> role_ReplicaSpec spec;
          n \<leftarrow> rs_Replicas rs;
          Some (if n \<noteq> 1 then Some (ErrValidation (ReplicasMustBeOne RoleMaster)) else None) })"

section \<open>The process group\<close>

definition Pytorch_names :: "ext \<Rightarrow> controller" where
  "Pytorch_names E = (base_controller E)\<lparr>GetDefaultContainerName := FrameworkPytorch, GetDefaultContainerPortName := FrameworkPytorch\<rparr>"

definition Pytorch_SetClusterSpec ::
  "ext \<Rightarrow> AresJob \<Rightarrow> PodTemplateSpec \<Rightarrow> string \<Rightarrow> string \<Rightarrow> (go_error option \<times> PodTemplateSpec) option" where
  "Pytorch_SetClusterSpec E job podTemplate rtype index =
     (if rtype \<noteq> RoleMaster \<and> rtype \<noteq> RoleWorker then Some (None, podTemplate)
      else case atoi index of
        (_, Some err) \<Rightarrow> Some (Some (Errorf (''failed to convert string('' @ index @ '') to int: '' @ ErrorText E (ErrNum err))), podTemplate)
      | (rank0, None) \<Rightarrow> do {
          let (masterAddr, rank) =
            (if rtype = RoleWorker then (GetPodDomainName E (job_Name job) (job_Namespace job) RoleMaster 0, wrap64 (rank0 + 1))
             else (''0.0.0.0'', rank0));
          port \<leftarrow> GetPort (Pytorch_names E) job RoleMaster;
          case port of
            Inl err \<Rightarrow> Some (Some (Errorf (''failed to get pytorch master port: '' @ ErrorText E err)), podTemplate)
          | Inr masterPort \<Rightarrow>
              if ps_Containers (pt_Spec podTemplate) = [] then Some (None, podTemplate)
              else do {
                workers \<leftarrow> GetRoleReplicas (job_Spec job) RoleWorker;
                Some (None, add_env
                  [env_value ''MASTER_ADDR'' masterAddr,
                   env_value ''MASTER_PORT'' (itoa (sint masterPort)),
                   env_value ''WORLD_SIZE'' (itoa (sint workers + 1)),
                   env_value ''RANK'' (itoa rank)] podTemplate) } })"

definition Pytorch_ReconcileServices ::
  "Reconciler \<Rightarrow> AresJob \<Rightarrow> Service list \<Rightarrow> ReplicaType \<Rightarrow> ReplicaSpec option \<Rightarrow> effect list
     \<Rightarrow> (go_error option \<times> effect list) option" where
  "Pytorch_ReconcileServices = ReconcileServices_except [RoleWorker]"

definition PytorchFramework :: "ext \<Rightarrow> Framework" where
  "PytorchFramework E = \<lparr>GetName = FrameworkPytorch, SetDefault = Pytorch_SetDefault, Validate = Pytorch_Validate,
     fw_controller = (Pytorch_names E)\<lparr>SetClusterSpec := Pytorch_SetClusterSpec E\<rparr>,
     fw_ReconcileServices = Pytorch_ReconcileServices, fw_ReconcileJobs = None\<rparr>"

section \<open>Lemmas\<close>

definition Pytorch_steps :: "ReplicaType list \<Rightarrow> role_steps" where
  "Pytorch_steps roles =
     [(False, RoleWorker, \<lambda>spec. Some (default_Succeeded (default_Failed spec))),
      (False, RoleMaster, \<lambda>spec. Some (default_Succeeded (default_Failed spec))),
      (False, RoleWorker, \<lambda>spec. Some (if RoleMaster \<in> set roles then default_Dependence (run_after RoleMaster) spec else spec))]"

lemma default_policy_commute: "default_Succeeded (default_Failed sp) = default_Failed (default_Succeeded sp)"
  by (cases sp, cases "role_RolePhasePolicy sp") (simp add: default_defs)

lemma settling_Pytorch: "settling (Pytorch_steps roles)"
proof -
  have "RoleMaster \<noteq> RoleWorker" by (simp add: go_consts)
  then show ?thesis using idem_default_policy[unfolded default_policy_def[abs_def]]
    by (simp add: settling_def Pytorch_steps_def default_policy_commute idem_default_Dependence)
      (auto simp: keeps_settled_def default_Failed_Succeeded_fixed)
qed

interpretation pytorch_defaults: framework_defaults Pytorch_SetDefault
proof (rule framework_defaultsI[where steps = "\<lambda>ks fw. Pytorch_steps ks" and prepare = "\<lambda>s. default_JobPhasePolicy (Pytorch_policy s) s"])
  have w: "has_role s RoleMaster = (RoleMaster \<in> set (gm_keys (spec_RoleSpecs s)))" for s
    by (simp add: has_role_def gm_get_None_iff)
  show "Pytorch_SetDefault s = run_steps (Pytorch_steps (gm_keys (spec_RoleSpecs s))) (default_JobPhasePolicy (Pytorch_policy s) s)" for s
    unfolding Pytorch_SetDefault_def Pytorch_steps_def w Let_def by (simp add: Option.bind_runit)
qed (simp_all add: settling_Pytorch default_JobPhasePolicy_keeps default_JobPhasePolicy_settled)

interpretation pytorch_pods: pod_identity "fw_controller (PytorchFramework E)" for E
proof
  fix job t rt index t'
  assume run: "SetClusterSpec (fw_controller (PytorchFramework E)) job t rt index = Some (None, t')"
  show "same_identity t t'"
  proof (cases "rt \<noteq> RoleMaster \<and> rt \<noteq> RoleWorker")
    case True
    with run show ?thesis by (simp add: PytorchFramework_def Pytorch_SetClusterSpec_def)
  next
    case False
    obtain rank e where rank: "atoi index = (rank, e)" by fastforce
    with run False have "e = None" by (cases e) (simp_all add: PytorchFramework_def Pytorch_SetClusterSpec_def)
    with run False rank obtain port where port: "GetPort (Pytorch_names E) job RoleMaster = Some (Inr port)"
      by (cases "GetPort (Pytorch_names E) job RoleMaster"; cases "the (GetPort (Pytorch_names E) job RoleMaster)")
        (simp_all add: PytorchFramework_def Pytorch_SetClusterSpec_def case_prod_beta)
    show ?thesis
      by (cases "GetRoleReplicas (job_Spec job) RoleWorker"; cases "ps_Containers (pt_Spec t) = []")
        (use run False rank \<open>e = None\<close> port in \<open>auto simp: PytorchFramework_def Pytorch_SetClusterSpec_def case_prod_beta\<close>)
  qed
qed

lemma Pytorch_SetClusterSpec_run:
  assumes "roles_ok (spec_RoleSpecs (job_Spec job))" "GetPort (Pytorch_names E) job RoleMaster = Some (Inr port)"
    and "(rt, i) \<in> master_and_workers w" "int w < 2 ^ 31" "ps_Containers (pt_Spec t) \<noteq> []"
  shows "Pytorch_SetClusterSpec E job t rt (itoa (int i)) = Some (None, add_env
     [env_value ''MASTER_ADDR'' (if rt = RoleWorker then GetPodDomainName E (job_Name job) (job_Namespace job) RoleMaster 0 else ''0.0.0.0''),
      env_value ''MASTER_PORT'' (itoa (sint port)),
      env_value ''WORLD_SIZE'' (itoa (sint (replicas_of (gm_ptr (spec_RoleSpecs (job_Spec job)) RoleWorker)) + 1)),
      env_value ''RANK'' (itoa (int (worker_rank (rt, i))))] t)"
proof -
  have i: "int i < 2 ^ 31" and rt: "rt = RoleWorker \<or> rt = RoleMaster \<and> i = 0" using assms(3,4) by (auto simp: master_and_workers_def)
  have "atoi (itoa (int i)) = (int i, None)" using i by (intro atoi_itoa_nat) simp
  moreover have "wrap64 (int i + 1) = int i + 1" using i by (intro wrap64_id) simp_all
  ultimately show ?thesis
    using assms(2,5) rt GetRoleReplicas_ok[OF assms(1), of RoleWorker]
    by (auto simp: Pytorch_SetClusterSpec_def worker_rank_def add.commute)
qed

section \<open>Properties\<close>

text \<open>The process group of a job: its master and the workers it asks for.\<close>

definition Pytorch_group :: "AresJob \<Rightarrow> process set" where
  "Pytorch_group job = master_and_workers (nat (sint (replicas_of (gm_ptr (spec_RoleSpecs (job_Spec job)) RoleWorker))))"

definition Pytorch_size :: "AresJob \<Rightarrow> nat" where
  "Pytorch_size job = nat (sint (replicas_of (gm_ptr (spec_RoleSpecs (job_Spec job)) RoleWorker))) + 1"

text \<open>
  C24. The master with index 0, the only one that validation admits, and the workers of a pytorch job form one process group. In every
  container of their pods the variables RANK and WORLD_SIZE are set; the world size is the number of workers plus one, and the ranks are exactly
  the numbers below it, each held by one pod, whatever the user's templates contain. Pods of other roles are not part of it and get no variables.
\<close>

theorem Pytorch_ranks:
  assumes "roles_ok (spec_RoleSpecs (job_Spec job))" "GetPort (Pytorch_names E) job RoleMaster = Some (Inr port)"
    and "0 \<le> sint (replicas_of (gm_ptr (spec_RoleSpecs (job_Spec job)) RoleWorker))"
    and "\<forall>m \<in> Pytorch_group job. k m < length (ps_Containers (pt_Spec (t m)))"
  shows "good_ranks (process_env (fw_controller (PytorchFramework E)) job t k) (Pytorch_group job) (Pytorch_size job)"
  unfolding Pytorch_group_def Pytorch_size_def
proof (rule good_ranksI[OF bij_worker_rank])
  let ?n = "replicas_of (gm_ptr (spec_RoleSpecs (job_Spec job)) RoleWorker)"
  let ?w = "nat (sint ?n)"
  fix m assume m: "m \<in> master_and_workers ?w"
  have w: "int ?w < 2 ^ 31" using sint_range32[of ?n] by simp
  have km: "k m < length (ps_Containers (pt_Spec (t m)))" using assms(4) m by (simp add: Pytorch_group_def)
  then have ne: "ps_Containers (pt_Spec (t m)) \<noteq> []" by auto
  from m have m': "(fst m, snd m) \<in> master_and_workers ?w" by simp
  note run = Pytorch_SetClusterSpec_run[OF assms(1,2) m' w ne]
  have s: "SetClusterSpec (fw_controller (PytorchFramework E)) = Pytorch_SetClusterSpec E" by (simp add: PytorchFramework_def)
  note env = process_env_add[where ctl = "fw_controller (PytorchFramework E)" and t = t and m = m and k = k, unfolded s, OF run refl km]
  show "process_env (fw_controller (PytorchFramework E)) job t k m ''RANK'' = Some (itoa (int (worker_rank m)))"
    by (rule env) (simp add: env_value_def)
  show "process_env (fw_controller (PytorchFramework E)) job t k m ''WORLD_SIZE'' = Some (itoa (int (?w + 1)))"
    by (rule env) (use assms(3) in \<open>simp add: env_value_def add.commute\<close>)
qed

definition pytorch_job :: AresJob where
  "pytorch_job = plain_job FrameworkPytorch
     [(RoleMaster, Some (plain_role 1 [] [plain_container FrameworkPytorch [\<lparr>cp_Name = FrameworkPytorch, cp_ContainerPort = 2222\<rparr>]])),
      (RoleWorker, Some (plain_role 2 [] [plain_container FrameworkPytorch []]))]"

theorem Pytorch_ranks_witness:
  "good_ranks (process_env (fw_controller (PytorchFramework plain_ext)) pytorch_job
      (\<lambda>m. zero_PodTemplateSpec\<lparr>pt_Spec := zero_PodSpec\<lparr>ps_Containers := [plain_container FrameworkPytorch []]\<rparr>\<rparr>) (\<lambda>m. 0))
     (master_and_workers 2) 3"
proof -
  have 1: "roles_ok (spec_RoleSpecs (job_Spec pytorch_job))"
    by (simp add: pytorch_job_def plain_defs roles_ok_def gm_ok_def gm_keys_def go_consts)
  have 2: "GetPort (Pytorch_names plain_ext) pytorch_job RoleMaster = Some (Inr 2222)" by code_simp
  have "sint (replicas_of (gm_ptr (spec_RoleSpecs (job_Spec pytorch_job)) RoleWorker)) = 2" by code_simp
  with Pytorch_ranks[OF 1 2, of "\<lambda>m. 0" "\<lambda>m. zero_PodTemplateSpec\<lparr>pt_Spec := zero_PodSpec\<lparr>ps_Containers := [plain_container FrameworkPytorch []]\<rparr>\<rparr>"]
  show ?thesis by (simp add: Pytorch_group_def Pytorch_size_def)
qed

end
