(* ===== verification/Dask.thy ===== *)
theory Dask
  imports Simple_Frameworks
begin

text \<open>
  \<open>frameworks/dask/dask.go\<close>: a scheduler, a launcher, and optionally a lead worker with workers. The launcher, the lead
  worker and the workers also form a process group of their own. Pods of any further role are told that they are its first process.
\<close>

section \<open>Defaults\<close>

definition Dask_policy :: "AresJobSpec \<Rightarrow> JobPhasePolicy" where
  "Dask_policy s =
     (let failedCondition = [[RoleLauncher], [RoleScheduler]];
          failedCondition = (if has_role s RoleLeadWorker then failedCondition @ [[RoleLeadWorker]] else failedCondition);
          failedCondition = (if has_role s RoleWorker then failedCondition @ [[RoleWorker]] else failedCondition)
      in \<lparr>jpp_Failed = failedCondition, jpp_Succeeded = [[RoleLauncher]]\<rparr>)"

definition Dask_scheduler :: "RoleSpec \<Rightarrow> RoleSpec option" where
  "Dask_scheduler spec = do {
     let sp1 = (default_Failed (default_Succeeded spec))\<lparr>role_Dependence := None\<rparr>;
     rs \<leftarrow> role_ReplicaSpec sp1;
     let t = rs_Template rs;
     Some (sp1\<lparr>role_ReplicaSpec := Some (rs\<lparr>rs_RestartPolicy := RestartPolicyOnFailure,
       rs_Template := t\<lparr>pt_Spec := (pt_Spec t)\<lparr>ps_HostNetwork := True\<rparr>\<rparr>\<rparr>)\<rparr>) }"

text \<open>The role that the launcher waits for.\<close>

definition launcherDependenceRole :: "AresJobSpec \<Rightarrow> ReplicaType" where
  "launcherDependenceRole s =
     (if has_role s RoleWorker then RoleWorker else if has_role s RoleLeadWorker then RoleLeadWorker else RoleScheduler)"

definition Dask_SetDefault :: "AresJobSpec \<Rightarrow> AresJobSpec option" where
  "Dask_SetDefault s = do {
     let s1 = default_JobPhasePolicy (Dask_policy s) s;
     s2 \<leftarrow> the_role RoleScheduler Dask_scheduler s1;
     s3 \<leftarrow> the_role RoleLauncher (\<lambda>spec. Some (default_Failed (default_Succeeded spec))) s2;
     s4 \<leftarrow> on_role RoleLeadWorker (\<lambda>spec. Some (default_Dependence (run_after RoleScheduler) (default_Failed (default_Succeeded spec)))) s3;
     s5 \<leftarrow> on_role RoleWorker (\<lambda>spec. Some (default_Dependence (run_after RoleLeadWorker) (default_Failed (default_Succeeded spec)))) s4;
     the_role RoleLauncher (\<lambda>spec. Some (spec\<lparr>role_Dependence := Some (run_after (launcherDependenceRole s))\<rparr>)) s5 }"

section \<open>Ports and validation\<close>

text \<open>
  The ports of the container of the framework. A slice without elements counts as nil, though the code would panic on one that is not nil
  when it asks for the port of a role: validation has counted the ports of the three roles it asks about.
\<close>

definition getPodDefaultContainerPorts :: "PodTemplateSpec \<Rightarrow> ContainerPort list" where
  "getPodDefaultContainerPorts podTemplate =
     (case find (\<lambda>container. ctr_Name container = FrameworkDask) (ps_Containers (pt_Spec podTemplate)) of
        Some container \<Rightarrow> ctr_Ports container
      | None \<Rightarrow> [])"

definition getRoleDefaultContainerPort :: "AresJob \<Rightarrow> ReplicaType \<Rightarrow> string option" where
  "getRoleDefaultContainerPort job rtype =
     (case gm_get (spec_RoleSpecs (job_Spec job)) rtype of
        None \<Rightarrow> Some []
      | Some p \<Rightarrow> do {
          role \<leftarrow> p;
          rs \<leftarrow> role_ReplicaSpec role;
          Some (case getPodDefaultContainerPorts (rs_Template rs) of
                  port # _ \<Rightarrow> itoa (sint (cp_ContainerPort port))
                | [] \<Rightarrow> []) })"

text \<open>The ports of a role that is present, with the dereferences of the code.\<close>

definition role_ports :: "AresJob \<Rightarrow> ReplicaType \<Rightarrow> ContainerPort list option" where
  "role_ports job rtype = do {
     spec \<leftarrow> gm_ptr (spec_RoleSpecs (job_Spec job)) rtype;
     rs \<leftarrow> role_ReplicaSpec spec;
     Some (getPodDefaultContainerPorts (rs_Template rs)) }"

definition Dask_lead_ok :: "AresJob \<Rightarrow> go_error option option" where
  "Dask_lead_ok job =
     (case gm_get (spec_RoleSpecs (job_Spec job)) RoleLeadWorker of
        None \<Rightarrow> Some None
      | Some p \<Rightarrow> do {
          spec \<leftarrow> p;
          rs \<leftarrow> role_ReplicaSpec spec;
          n \<leftarrow> rs_Replicas rs;
          Some (if n \<noteq> 1 then Some (ErrValidation (ReplicasMustBeOne RoleLeadWorker))
                else if length (getPodDefaultContainerPorts (rs_Template rs)) \<noteq> 1 then Some (ErrValidation (PortNumber RoleLeadWorker))
                else None) })"

definition Dask_Validate :: "AresJob \<Rightarrow> go_error option option" where
  "Dask_Validate job =
     (case CheckRolesExist (job_Spec job) [RoleLauncher, RoleScheduler] of
        Some err \<Rightarrow> Some (Some err)
      | None \<Rightarrow> do {
          launchers \<leftarrow> GetRoleReplicas (job_Spec job) RoleLauncher;
          if launchers \<noteq> 1 then Some (Some (ErrValidation (ReplicasMustBeOne RoleLauncher)))
          else do {
            schedulers \<leftarrow> GetRoleReplicas (job_Spec job) RoleScheduler;
            if schedulers \<noteq> 1 then Some (Some (ErrValidation (ReplicasMustBeOne RoleScheduler)))
            else if has_role (job_Spec job) RoleWorker \<and> CheckRolesExist (job_Spec job) [RoleLeadWorker] \<noteq> None
            then Some (Some (ErrValidation (RoleRequired RoleLeadWorker)))
            else do {
              e \<leftarrow> Dask_lead_ok job;
              if e \<noteq> None then Some e
              else do {
                schedulerPort \<leftarrow> role_ports job RoleScheduler;
                if length schedulerPort \<noteq> 2 then Some (Some (ErrValidation (PortNumber RoleScheduler)))
                else do {
                  launcherPorts \<leftarrow> role_ports job RoleLauncher;
                  Some (if length launcherPorts = 0 then Some (ErrValidation (PortNumber RoleLauncher)) else None) } } } } })"

section \<open>The environment\<close>

definition getWorldSize :: "AresJob \<Rightarrow> int option" where
  "getWorldSize job =
     mfold (\<lambda>(key, p) worldSize.
              if key = RoleLeadWorker \<or> key = RoleLauncher \<or> key = RoleWorker then do {
                role \<leftarrow> p;
                rs \<leftarrow> role_ReplicaSpec role;
                n \<leftarrow> rs_Replicas rs;
                Some (wrap64 (worldSize + sint n)) }
              else Some worldSize)
       (gm_entries (spec_RoleSpecs (job_Spec job))) 0"

definition getEnvForDaskRole :: "AresJob \<Rightarrow> string \<Rightarrow> string \<Rightarrow> EnvVar list option" where
  "getEnvForDaskRole job rtype index = do {
     let schedulerDomain = GetServiceDomainName (job_Name job) (job_Namespace job) RoleScheduler;
     schedulerPort \<leftarrow> getRoleDefaultContainerPort job RoleScheduler;
     let scheduler = env_value ''SCHEDULER'' (''tcp://'' @ schedulerDomain @ '':'' @ schedulerPort);
     if rtype = RoleScheduler then
       Some [\<lparr>env_Name = ''MY_IP'', env_Value = [], env_FieldPath = Some ''status.podIP''\<rparr>, scheduler]
     else do {
       leadPort \<leftarrow> getRoleDefaultContainerPort job RoleLeadWorker;
       masterPort \<leftarrow> (if leadPort = [] then getRoleDefaultContainerPort job RoleLauncher else Some leadPort);
       worldSize \<leftarrow> getWorldSize job;
       let leadDomain = GetServiceDomainName (job_Name job) (job_Namespace job) RoleLeadWorker;
       let (rank, masterAddr) = (0, ''0.0.0.0'');
       let (rank, masterAddr) = (if rtype = RoleWorker then (wrap64 (fst (atoi index) + 1), leadDomain) else (rank, masterAddr));
       let (rank, masterAddr) =
         (if rtype = RoleLauncher \<and> has_role (job_Spec job) RoleLeadWorker then (wrap64 (worldSize - 1), leadDomain)
          else (rank, masterAddr));
       Some ((if rtype = RoleLauncher then [scheduler] else []) @
         [env_value ''SchedulerAddress'' schedulerDomain,
          env_value ''SchedulerPort'' schedulerPort,
          env_value ''RANK'' (itoa rank),
          env_value ''MASTER_ADDR'' masterAddr,
          env_value ''WORLD_SIZE'' (itoa worldSize),
          env_value ''MASTER_PORT'' masterPort]) } }"

definition Dask_SetClusterSpec ::
  "AresJob \<Rightarrow> PodTemplateSpec \<Rightarrow> string \<Rightarrow> string \<Rightarrow> (go_error option \<times> PodTemplateSpec) option" where
  "Dask_SetClusterSpec job podTemplate rtype index = do {
     env \<leftarrow> getEnvForDaskRole job rtype index;
     Some (None, add_env env podTemplate) }"

definition Dask_ReconcileServices ::
  "Reconciler \<Rightarrow> AresJob \<Rightarrow> Service list \<Rightarrow> ReplicaType \<Rightarrow> ReplicaSpec option \<Rightarrow> effect list
     \<Rightarrow> (go_error option \<times> effect list) option" where
  "Dask_ReconcileServices = ReconcileServices_except [RoleLauncher, RoleWorker]"

definition DaskFramework :: "ext \<Rightarrow> Framework" where
  "DaskFramework E = \<lparr>GetName = FrameworkDask, SetDefault = Dask_SetDefault, Validate = Dask_Validate,
     fw_controller = (base_controller E)\<lparr>GetDefaultContainerName := FrameworkDask, SetClusterSpec := Dask_SetClusterSpec\<rparr>,
     fw_ReconcileServices = Dask_ReconcileServices, fw_ReconcileJobs = None\<rparr>"

section \<open>The defaults settle\<close>

text \<open>The scheduler.\<close>

definition scheduler_ok :: "RoleSpec \<Rightarrow> bool" where
  "scheduler_ok sp \<longleftrightarrow> policy_set sp \<and> role_Dependence sp = None \<and>
     (\<exists>rs. role_ReplicaSpec sp = Some rs \<and> rs_RestartPolicy rs = RestartPolicyOnFailure
        \<and> ps_HostNetwork (pt_Spec (rs_Template rs)))"

text \<open>Defaulting comes before validation and dereferences the scheduler without asking whether the job has one.\<close>

lemma Dask_SetDefault_panics: "\<not> has_role s RoleScheduler \<Longrightarrow> Dask_SetDefault s = None"
  by (simp add: Dask_SetDefault_def has_role_def role_step_def default_JobPhasePolicy_def Let_def)

lemma scheduler_ok_fixed:
  assumes "scheduler_ok sp"
  shows "Dask_scheduler sp = Some sp"
proof -
  from assms obtain rs where rs: "role_ReplicaSpec sp = Some rs" "rs_RestartPolicy rs = RestartPolicyOnFailure"
    "ps_HostNetwork (pt_Spec (rs_Template rs))" and p: "policy_set sp" "role_Dependence sp = None"
    by (auto simp: scheduler_ok_def)
  have t: "(rs_Template rs)\<lparr>pt_Spec := (pt_Spec (rs_Template rs))\<lparr>ps_HostNetwork := True\<rparr>\<rparr> = rs_Template rs"
    using rs(3) by simp
  have "rs\<lparr>rs_RestartPolicy := RestartPolicyOnFailure, rs_Template := rs_Template rs\<rparr> = rs" using rs(2) by simp
  with p rs(1) show ?thesis
    unfolding Dask_scheduler_def default_policy_id[OF p(1)] Let_def by (simp add: t)
qed

lemma scheduler_ok_out:
  assumes "Dask_scheduler sp = Some sp'"
  shows "scheduler_ok sp' \<and> same_pods sp sp'"
proof -
  from assms obtain rs where rs: "role_ReplicaSpec sp = Some rs"
    by (cases "role_ReplicaSpec sp") (simp_all add: Dask_scheduler_def Let_def)
  let ?rs = "rs\<lparr>rs_RestartPolicy := RestartPolicyOnFailure,
       rs_Template := (rs_Template rs)\<lparr>pt_Spec := (pt_Spec (rs_Template rs))\<lparr>ps_HostNetwork := True\<rparr>\<rparr>\<rparr>"
  have sp': "sp' = (default_Failed (default_Succeeded sp))\<lparr>role_Dependence := None, role_ReplicaSpec := Some ?rs\<rparr>"
    using assms rs by (simp add: Dask_scheduler_def Let_def)
  have "policy_set sp'" "role_Dependence sp' = None" "role_ReplicaSpec sp' = Some ?rs"
    "role_Controller sp' = role_Controller sp"
    unfolding sp' by (simp_all add: policy_set_def default_defs)
  with rs show ?thesis by (simp add: scheduler_ok_def same_pods_def same_replicas_def)
qed

lemma scheduler_ok_Default:
  assumes "scheduler_ok sp"
  shows "scheduler_ok (Default_role sp)"
proof -
  from assms obtain rs where rs: "role_ReplicaSpec sp = Some rs" "rs_RestartPolicy rs = RestartPolicyOnFailure"
    "ps_HostNetwork (pt_Spec (rs_Template rs))" by (auto simp: scheduler_ok_def)
  from rs(1) obtain rs' where "role_ReplicaSpec (Default_role sp) = Some rs'" "rs_Template rs' = rs_Template rs"
    "rs_RestartPolicy rs' = (if rs_RestartPolicy rs = [] then RestartPolicyNever else rs_RestartPolicy rs)"
    by (rule Default_role_restart)
  moreover have "RestartPolicyOnFailure \<noteq> []" by (simp add: go_consts)
  ultimately show ?thesis using assms rs policy_set_Default by (simp add: scheduler_ok_def)
qed

lemma idem_Dask_scheduler: "idem_step Dask_scheduler"
  using scheduler_ok_fixed scheduler_ok_out scheduler_ok_Default by (rule idem_stepI)

text \<open>The other roles.\<close>

abbreviation Dask_dependent :: "ReplicaType \<Rightarrow> RoleSpec \<Rightarrow> RoleSpec option" where
  "Dask_dependent role \<equiv> (\<lambda>spec. Some (default_Dependence (run_after role) (default_Failed (default_Succeeded spec))))"

abbreviation Dask_launcher :: "ReplicaType \<Rightarrow> RoleSpec \<Rightarrow> RoleSpec option" where
  "Dask_launcher role \<equiv> (\<lambda>spec. Some (spec\<lparr>role_Dependence := Some (run_after role)\<rparr>))"

lemma idem_Dask_dependent: "idem_step (Dask_dependent role)"
proof (rule idem_stepI[where P = "\<lambda>sp. policy_set sp \<and> role_Dependence sp \<noteq> None"])
  show "Dask_dependent role sp = Some sp" if "policy_set sp \<and> role_Dependence sp \<noteq> None" for sp
    using that by (simp add: default_policy_id)
  show "(policy_set sp' \<and> role_Dependence sp' \<noteq> None) \<and> same_pods sp sp'" if "Dask_dependent role sp = Some sp'" for sp sp'
  proof -
    have "same_pods sp (default_Failed (default_Succeeded sp))" by (auto intro: same_pods_then)
    then have "same_pods sp (default_Dependence (run_after role) (default_Failed (default_Succeeded sp)))"
      using default_same_pods(4) by (rule same_pods_trans)
    with that show ?thesis by auto
  qed
qed (use policy_set_Default in auto)

lemma idem_Dask_launcher: "idem_step (Dask_launcher role)"
proof (rule idem_stepI[where P = "\<lambda>sp. role_Dependence sp = Some (run_after role)"])
  show "Dask_launcher role sp = Some sp" if "role_Dependence sp = Some (run_after role)" for sp using that by simp
  show "role_Dependence sp' = Some (run_after role) \<and> same_pods sp sp'" if "Dask_launcher role sp = Some sp'" for sp sp'
    using that by (auto simp: same_pods_def same_replicas_def option.rel_refl)
qed simp

lemma keeps_Dask_launcher:
  "keeps_settled (Dask_launcher role) default_policy" "keeps_settled default_policy (Dask_launcher role)"
proof -
  show "keeps_settled (Dask_launcher role) default_policy"
    by (auto simp: keeps_settled_def default_policy_def default_Failed_Succeeded_fixed)
  show "keeps_settled default_policy (Dask_launcher role)"
    by (rule keeps_settledI[where P = "\<lambda>sp. role_Dependence sp = Some (run_after role)"]) (auto simp: default_policy_def)
qed

definition Dask_steps :: "ReplicaType \<Rightarrow> role_steps" where
  "Dask_steps target =
     [(True, RoleScheduler, Dask_scheduler), (True, RoleLauncher, default_policy),
      (False, RoleLeadWorker, Dask_dependent RoleScheduler), (False, RoleWorker, Dask_dependent RoleLeadWorker),
      (True, RoleLauncher, Dask_launcher target)]"

lemma Dask_roles_distinct:
  "RoleScheduler \<noteq> RoleLauncher" "RoleScheduler \<noteq> RoleLeadWorker" "RoleScheduler \<noteq> RoleWorker"
  "RoleLauncher \<noteq> RoleLeadWorker" "RoleLauncher \<noteq> RoleWorker" "RoleLeadWorker \<noteq> RoleWorker"
  by (simp_all add: go_consts)

lemma settling_Dask: "settling (Dask_steps target)"
  using Dask_roles_distinct Dask_roles_distinct[symmetric]
  by (simp add: settling_def Dask_steps_def idem_Dask_scheduler idem_default_policy idem_Dask_dependent idem_Dask_launcher
      keeps_Dask_launcher keeps_settled_self)

definition Dask_target :: "ReplicaType list \<Rightarrow> ReplicaType" where
  "Dask_target roles = (if RoleWorker \<in> set roles then RoleWorker
     else if RoleLeadWorker \<in> set roles then RoleLeadWorker else RoleScheduler)"

interpretation dask_defaults: framework_defaults Dask_SetDefault
proof (rule framework_defaultsI[where steps = "\<lambda>ks fw. Dask_steps (Dask_target ks)"
      and prepare = "\<lambda>s. default_JobPhasePolicy (Dask_policy s) s"])
  fix s :: AresJobSpec
  have "launcherDependenceRole s = Dask_target (gm_keys (spec_RoleSpecs s))"
    by (simp add: launcherDependenceRole_def Dask_target_def has_role_def gm_get_None_iff)
  then show "Dask_SetDefault s = run_steps (Dask_steps (Dask_target (gm_keys (spec_RoleSpecs s)))) (default_JobPhasePolicy (Dask_policy s) s)"
    unfolding Dask_SetDefault_def Dask_steps_def Let_def
    by (simp only: default_policy_def[abs_def] run_steps_Cons run_steps_Nil Option.bind_runit)
qed (simp_all add: settling_Dask default_JobPhasePolicy_keeps default_JobPhasePolicy_settled)

interpretation dask_pods: pod_identity "fw_controller (DaskFramework E)" for E
  by unfold_locales (auto simp: DaskFramework_def Dask_SetClusterSpec_def Option.bind_eq_Some_conv)

section \<open>The world size\<close>

lemma sum_entries:
  fixes g :: "'v \<Rightarrow> int"
  assumes "distinct (map fst al)" "finite S"
  shows "(\<Sum>(k, p) \<leftarrow> filter (\<lambda>(k, p). k \<in> S) al. g p) = (\<Sum>k \<in> S. case map_of al k of None \<Rightarrow> 0 | Some p \<Rightarrow> g p)"
  using assms(1)
proof (induction al)
  case (Cons kp al)
  obtain k p where kp: "kp = (k, p)" by (cases kp)
  let ?f = "\<lambda>al k. case map_of al k of None \<Rightarrow> 0 | Some p \<Rightarrow> g p"
  have none: "map_of al k = None" using Cons.prems kp by (simp add: map_of_eq_None_iff image_iff)
  show ?case
  proof (cases "k \<in> S")
    case True
    have "(\<Sum>j \<in> S. ?f ((k, p) # al) j) = g p + (\<Sum>j \<in> S - {k}. ?f ((k, p) # al) j)"
      using True assms(2) by (simp add: sum.remove[of S k])
    also have "(\<Sum>j \<in> S - {k}. ?f ((k, p) # al) j) = (\<Sum>j \<in> S - {k}. ?f al j)" by (rule sum.cong) auto
    also have "(\<Sum>j \<in> S - {k}. ?f al j) = (\<Sum>j \<in> S. ?f al j)" using True assms(2) none by (simp add: sum.remove[of S k])
    finally show ?thesis using Cons kp True by simp
  next
    case False
    then have "(\<Sum>j \<in> S. ?f ((k, p) # al) j) = (\<Sum>j \<in> S. ?f al j)" by (intro sum.cong) auto
    with Cons kp False show ?thesis by simp
  qed
qed simp

definition group_roles :: "ReplicaType set" where
  "group_roles = {RoleLeadWorker, RoleLauncher, RoleWorker}"

lemma getWorldSize_loop:
  assumes "\<forall>(r, p) \<in> set al. \<exists>sp rs n. p = Some sp \<and> role_ReplicaSpec sp = Some rs \<and> rs_Replicas rs = Some n"
    and "\<bar>a\<bar> + 2 ^ 31 * int (length (filter (\<lambda>(k, p). k \<in> group_roles) al)) < 2 ^ 63"
  shows "mfold (\<lambda>(key, p) worldSize.
              if key = RoleLeadWorker \<or> key = RoleLauncher \<or> key = RoleWorker then do {
                role \<leftarrow> p;
                rs \<leftarrow> role_ReplicaSpec role;
                n \<leftarrow> rs_Replicas rs;
                Some (wrap64 (worldSize + sint n)) }
              else Some worldSize) al a
    = Some (a + (\<Sum>(k, p) \<leftarrow> filter (\<lambda>(k, p). k \<in> group_roles) al. sint (replicas_of p)))"
  using assms
proof (induction al arbitrary: a)
  case (Cons kp al)
  obtain k p where kp: "kp = (k, p)" by (cases kp)
  from Cons.prems(1) kp obtain sp rs n where p: "p = Some sp" "role_ReplicaSpec sp = Some rs" "rs_Replicas rs = Some n" by auto
  show ?case
  proof (cases "k \<in> group_roles")
    case False
    with Cons kp show ?thesis by (simp add: group_roles_def)
  next
    case True
    with Cons.prems(2) kp have b: "\<bar>a\<bar> + 2 ^ 31 + 2 ^ 31 * int (length (filter (\<lambda>(k, p). k \<in> group_roles) al)) < 2 ^ 63"
      by (simp add: algebra_simps)
    have n: "\<bar>a + sint n\<bar> \<le> \<bar>a\<bar> + 2 ^ 31" using sint_range32[of n] by linarith
    with b have "\<bar>a + sint n\<bar> + 2 ^ 31 * int (length (filter (\<lambda>(k, p). k \<in> group_roles) al)) < 2 ^ 63" by linarith
    moreover from this have "wrap64 (a + sint n) = a + sint n" by (intro wrap64_id) auto
    ultimately show ?thesis using Cons True kp p by (auto simp: group_roles_def replicas_of_def)
  qed
qed simp

lemma length_group_roles:
  assumes "distinct (map fst al)"
  shows "length (filter (\<lambda>(k, p). k \<in> group_roles) al) \<le> 3"
proof -
  have "length (filter (\<lambda>(k, p). k \<in> group_roles) al) = card (set (map fst (filter (\<lambda>(k, p). k \<in> group_roles) al)))"
    using distinct_card[OF distinct_map_filter[OF assms]] by simp
  also have "\<dots> \<le> card group_roles" by (rule card_mono) (auto simp: group_roles_def)
  also have "\<dots> \<le> 3" by (simp add: group_roles_def card_insert_if)
  finally show ?thesis .
qed

lemma getWorldSize_run:
  assumes "roles_ok (spec_RoleSpecs (job_Spec job))"
  shows "getWorldSize job = Some (\<Sum>r \<in> group_roles. sint (replicas_of (gm_ptr (spec_RoleSpecs (job_Spec job)) r)))"
proof -
  let ?al = "gm_entries (spec_RoleSpecs (job_Spec job))"
  have d: "distinct (map fst ?al)" using assms by (simp add: roles_ok_def gm_ok_def gm_keys_def)
  have all: "\<forall>(r, p) \<in> set ?al. \<exists>sp rs n. p = Some sp \<and> role_ReplicaSpec sp = Some rs \<and> rs_Replicas rs = Some n"
    using assms by (simp add: roles_ok_def)
  have "2 ^ 31 * int (length (filter (\<lambda>(k, p). k \<in> group_roles) ?al)) \<le> 2 ^ 31 * 3"
    using length_group_roles[OF d] by simp
  then have "\<bar>0 :: int\<bar> + 2 ^ 31 * int (length (filter (\<lambda>(k, p). k \<in> group_roles) ?al)) < 2 ^ 63" by simp
  note loop = getWorldSize_loop[OF all this]
  have "(case map_of ?al r of None \<Rightarrow> 0 | Some p \<Rightarrow> sint (replicas_of p)) = sint (replicas_of (gm_ptr (spec_RoleSpecs (job_Spec job)) r))" for r
    by (simp add: gm_ptr_def gm_get_def replicas_of_def split: option.splits)
  then show ?thesis
    unfolding getWorldSize_def loop using sum_entries[OF d, of group_roles "\<lambda>p. sint (replicas_of p)"]
    by (simp add: group_roles_def)
qed

section \<open>Validated jobs\<close>

lemma Dask_lead_ok_run:
  assumes "roles_ok (spec_RoleSpecs (job_Spec job))"
  shows "Dask_lead_ok job \<noteq> None"
    and "Dask_lead_ok job = Some None \<Longrightarrow> has_role (job_Spec job) RoleLeadWorker \<Longrightarrow> role_replicas job RoleLeadWorker = 1"
proof -
  have "Dask_lead_ok job \<noteq> None \<and>
     (Dask_lead_ok job = Some None \<longrightarrow> has_role (job_Spec job) RoleLeadWorker \<longrightarrow> role_replicas job RoleLeadWorker = 1)"
  proof (cases "gm_get (spec_RoleSpecs (job_Spec job)) RoleLeadWorker")
    case (Some p)
    with assms obtain sp rs n where "p = Some sp" "role_ReplicaSpec sp = Some rs" "rs_Replicas rs = Some n" by (rule roles_ok_ptr)
    with Some show ?thesis by (auto simp: Dask_lead_ok_def gm_ptr_def replicas_of_def)
  qed (simp add: Dask_lead_ok_def has_role_def)
  then show "Dask_lead_ok job \<noteq> None"
    and "Dask_lead_ok job = Some None \<Longrightarrow> has_role (job_Spec job) RoleLeadWorker \<Longrightarrow> role_replicas job RoleLeadWorker = 1" by blast+
qed

lemma Dask_valid:
  assumes ok: "roles_ok (spec_RoleSpecs (job_Spec job))" and v: "Dask_Validate job = Some None"
  shows "role_replicas job RoleLauncher = 1" "role_replicas job RoleScheduler = 1"
    and "has_role (job_Spec job) RoleWorker \<Longrightarrow> has_role (job_Spec job) RoleLeadWorker"
    and "has_role (job_Spec job) RoleLeadWorker \<Longrightarrow> role_replicas job RoleLeadWorker = 1"
proof -
  note reps = GetRoleReplicas_ok[OF ok]
  have c: "CheckRolesExist (job_Spec job) [RoleLauncher, RoleScheduler] = None"
    using v by (cases "CheckRolesExist (job_Spec job) [RoleLauncher, RoleScheduler]") (simp_all add: Dask_Validate_def)
  have l: "replicas_of (gm_ptr (spec_RoleSpecs (job_Spec job)) RoleLauncher) = 1"
    using v by (rule contrapos_pp) (simp add: Dask_Validate_def c reps)
  have sc: "replicas_of (gm_ptr (spec_RoleSpecs (job_Spec job)) RoleScheduler) = 1"
    using v by (rule contrapos_pp) (simp add: Dask_Validate_def c reps l)
  have w: "has_role (job_Spec job) RoleWorker \<longrightarrow> CheckRolesExist (job_Spec job) [RoleLeadWorker] = None"
    using v by (rule contrapos_pp) (simp add: Dask_Validate_def c reps l sc)
  have "Dask_lead_ok job = Some None"
    using v Dask_lead_ok_run(1)[OF ok] w
    by (cases "Dask_lead_ok job") (auto simp: Dask_Validate_def c reps l sc split: if_splits)
  then show "has_role (job_Spec job) RoleLeadWorker \<Longrightarrow> role_replicas job RoleLeadWorker = 1" by (rule Dask_lead_ok_run(2)[OF ok])
  show "role_replicas job RoleLauncher = 1" "role_replicas job RoleScheduler = 1" using l sc by simp_all
  show "has_role (job_Spec job) RoleWorker \<Longrightarrow> has_role (job_Spec job) RoleLeadWorker"
    using w gm_ptr_has_role[OF ok, of RoleLeadWorker] by (simp add: CheckRolesExist_None)
qed

lemma getRoleDefaultContainerPort_total:
  assumes "roles_ok (spec_RoleSpecs (job_Spec job))"
  obtains port where "getRoleDefaultContainerPort job r = Some port"
proof (cases "gm_get (spec_RoleSpecs (job_Spec job)) r")
  case None
  with that show ?thesis by (simp add: getRoleDefaultContainerPort_def)
next
  case (Some p)
  with assms obtain sp rs n where "p = Some sp" "role_ReplicaSpec sp = Some rs" by (rule roles_ok_ptr)
  with Some that show ?thesis by (simp add: getRoleDefaultContainerPort_def)
qed

section \<open>The process group\<close>

definition Dask_group :: "AresJob \<Rightarrow> process set" where
  "Dask_group job = insert (RoleLauncher, 0)
     (if has_role (job_Spec job) RoleLeadWorker
      then insert (RoleLeadWorker, 0) ({RoleWorker} \<times> {..<nat (role_replicas job RoleWorker)}) else {})"

definition Dask_size :: "AresJob \<Rightarrow> nat" where
  "Dask_size job = (if has_role (job_Spec job) RoleLeadWorker then nat (role_replicas job RoleWorker) + 2 else 1)"

definition Dask_rank :: "AresJob \<Rightarrow> process \<Rightarrow> nat" where
  "Dask_rank job m =
     (if fst m = RoleWorker then snd m + 1
      else if fst m = RoleLauncher \<and> has_role (job_Spec job) RoleLeadWorker then nat (role_replicas job RoleWorker) + 1
      else 0)"

text \<open>All pods of the job but the scheduler's.\<close>

definition Dask_pods :: "AresJob \<Rightarrow> process set" where
  "Dask_pods job = {(role, i). has_role (job_Spec job) role \<and> role \<noteq> RoleScheduler \<and> int i < role_replicas job role}"

lemma Dask_group_pods:
  assumes "roles_ok (spec_RoleSpecs (job_Spec job))" "Dask_Validate job = Some None"
  shows "Dask_group job = {m \<in> Dask_pods job. fst m \<in> group_roles}"
proof -
  note v = Dask_valid[OF assms]
  have l: "has_role (job_Spec job) RoleLauncher" using v(1) replicas_absent[of job RoleLauncher] by (cases "has_role (job_Spec job) RoleLauncher") auto
  have w: "has_role (job_Spec job) RoleWorker" if "(i :: nat) < nat (role_replicas job RoleWorker)" for i
    using that replicas_absent[of job RoleWorker] by (cases "has_role (job_Spec job) RoleWorker") auto
  show ?thesis
  proof (cases "has_role (job_Spec job) RoleLeadWorker")
    case True
    with v(1,4) l w Dask_roles_distinct show ?thesis by (auto simp: Dask_group_def Dask_pods_def group_roles_def)
  next
    case False
    with v(1,3) l Dask_roles_distinct show ?thesis by (auto simp: Dask_group_def Dask_pods_def group_roles_def)
  qed
qed

lemma bij_Dask_rank: "bij_betw (Dask_rank job) (Dask_group job) {..<Dask_size job}"
proof (cases "has_role (job_Spec job) RoleLeadWorker")
  case False
  then show ?thesis using Dask_roles_distinct(5) by (simp add: Dask_group_def Dask_size_def Dask_rank_def bij_betw_def lessThan_Suc)
next
  case True
  let ?w = "nat (role_replicas job RoleWorker)"
  let ?inv = "\<lambda>r. if r = 0 then (RoleLeadWorker, 0) else if r = ?w + 1 then (RoleLauncher, 0) else (RoleWorker, r - 1)"
  show ?thesis
  proof (rule bij_betw_byWitness[where f' = ?inv])
    show "\<forall>m \<in> Dask_group job. ?inv (Dask_rank job m) = m"
      using True Dask_roles_distinct(4,5,6) by (auto simp: Dask_group_def Dask_rank_def)
    show "\<forall>r \<in> {..<Dask_size job}. Dask_rank job (?inv r) = r"
      using True Dask_roles_distinct(4,5,6) by (auto simp: Dask_size_def Dask_rank_def)
    show "Dask_rank job ` Dask_group job \<subseteq> {..<Dask_size job}"
      using True Dask_roles_distinct(4,5,6) by (auto simp: Dask_group_def Dask_size_def Dask_rank_def)
    show "?inv ` {..<Dask_size job} \<subseteq> Dask_group job"
      using True by (auto simp: Dask_group_def Dask_size_def)
  qed
qed

lemma Dask_world_size:
  assumes "roles_ok (spec_RoleSpecs (job_Spec job))" "Dask_Validate job = Some None" "0 \<le> role_replicas job RoleWorker"
  shows "getWorldSize job = Some (int (Dask_size job))"
proof (cases "has_role (job_Spec job) RoleLeadWorker")
  case True
  with Dask_valid[OF assms(1,2)] assms(3) getWorldSize_run[OF assms(1)] Dask_roles_distinct(4,5,6) show ?thesis
    by (simp add: group_roles_def Dask_size_def)
next
  case False
  with Dask_valid[OF assms(1,2)] have "\<not> has_role (job_Spec job) RoleWorker" by blast
  with False Dask_valid[OF assms(1,2)] getWorldSize_run[OF assms(1)] Dask_roles_distinct(4,5,6) show ?thesis
    by (simp add: group_roles_def Dask_size_def replicas_absent)
qed

lemma Dask_SetClusterSpec_run:
  assumes "roles_ok (spec_RoleSpecs (job_Spec job))" "Dask_Validate job = Some None" "0 \<le> role_replicas job RoleWorker"
    and "m \<in> Dask_group job \<or> fst m \<notin> insert RoleScheduler group_roles"
  obtains pre post port where
    "Dask_SetClusterSpec job t (fst m) (itoa (int (snd m))) = Some (None, add_env
       (pre @ [env_value ''RANK'' (itoa (int (Dask_rank job m))), env_value ''MASTER_ADDR'' post,
               env_value ''WORLD_SIZE'' (itoa (int (Dask_size job))), env_value ''MASTER_PORT'' port]) t)"
proof -
  have m: "m = (RoleLauncher, 0) \<or> m = (RoleLeadWorker, 0) \<or> fst m = RoleWorker \<and> int (snd m) < role_replicas job RoleWorker \<or>
      fst m \<notin> insert RoleScheduler group_roles"
    using assms(3,4) by (auto simp: Dask_group_def split: if_splits)
  have size: "int (Dask_size job) \<le> 2 ^ 31 + 1"
    using sint_range32[of "replicas_of (gm_ptr (spec_RoleSpecs (job_Spec job)) RoleWorker)"] assms(3) by (simp add: Dask_size_def nat_le_iff)
  have w2: "wrap64 (int (Dask_size job) - 1) = int (Dask_size job) - 1" using size by (intro wrap64_id) simp_all
  obtain p1 p2 p3 where p: "getRoleDefaultContainerPort job RoleScheduler = Some p1"
    "getRoleDefaultContainerPort job RoleLeadWorker = Some p2" "getRoleDefaultContainerPort job RoleLauncher = Some p3"
    using getRoleDefaultContainerPort_total[OF assms(1)] by metis
  define masterPort where "masterPort = (if p2 = [] then p3 else p2)"
  have port: "(if p2 = [] then getRoleDefaultContainerPort job RoleLauncher else Some p2) = Some masterPort"
    using p by (simp add: masterPort_def)
  note run = p port Dask_world_size[OF assms(1-3)] Dask_roles_distinct Dask_roles_distinct[symmetric]
  from m show ?thesis
  proof (elim disjE)
    assume l: "m = (RoleLauncher, 0)"
    show ?thesis
    proof (cases "has_role (job_Spec job) RoleLeadWorker")
      case True
      then have "int (Dask_size job) - 1 = int (Dask_rank job m)" using l run(6) by (simp add: Dask_size_def Dask_rank_def run)
      with w2 have "wrap64 (int (Dask_size job) - 1) = int (Dask_rank job m)" by simp
      with True l that[of "[_, _, _]"] show ?thesis
        by (simp add: Dask_SetClusterSpec_def getEnvForDaskRole_def run Let_def)
    next
      case False
      then have "Dask_rank job m = 0" using l by (simp add: Dask_rank_def run)
      with False l that[of "[_, _, _]"] show ?thesis
        by (simp add: Dask_SetClusterSpec_def getEnvForDaskRole_def run Let_def)
    qed
  next
    assume l: "m = (RoleLeadWorker, 0)"
    then have "Dask_rank job m = 0" by (simp add: Dask_rank_def run)
    with l that[of "[_, _]"] show ?thesis
      by (simp add: Dask_SetClusterSpec_def getEnvForDaskRole_def run Let_def)
  next
    assume l: "fst m = RoleWorker \<and> int (snd m) < role_replicas job RoleWorker"
    then have i: "int (snd m) < 2 ^ 31"
      using sint_range32[of "replicas_of (gm_ptr (spec_RoleSpecs (job_Spec job)) RoleWorker)"] by auto
    have a: "fst (atoi (itoa (int (snd m)))) = int (snd m)" using i atoi_itoa_nat[of "snd m"] by simp
    have w1: "wrap64 (int (snd m) + 1) = int (snd m) + 1" using i by (intro wrap64_id) simp_all
    have "int (Dask_rank job m) = int (snd m) + 1" using l by (simp add: Dask_rank_def)
    with l a w1 that[of "[_, _]"] show ?thesis
      by (simp add: Dask_SetClusterSpec_def getEnvForDaskRole_def run Let_def)
  next
    assume l: "fst m \<notin> insert RoleScheduler group_roles"
    then have "Dask_rank job m = 0" by (simp add: Dask_rank_def group_roles_def)
    with l that[of "[_, _]"] show ?thesis
      by (simp add: Dask_SetClusterSpec_def getEnvForDaskRole_def group_roles_def run Let_def)
  qed
qed

lemma Dask_process_env:
  assumes "roles_ok (spec_RoleSpecs (job_Spec job))" "Dask_Validate job = Some None" "0 \<le> role_replicas job RoleWorker"
    and "m \<in> Dask_group job \<or> fst m \<notin> insert RoleScheduler group_roles" "k m < length (ps_Containers (pt_Spec (t m)))"
  shows "process_env (fw_controller (DaskFramework E)) job t k m ''RANK'' = Some (itoa (int (Dask_rank job m)))"
    and "process_env (fw_controller (DaskFramework E)) job t k m ''WORLD_SIZE'' = Some (itoa (int (Dask_size job)))"
proof -
  from assms(1-4) obtain pre post port where run:
    "Dask_SetClusterSpec job (t m) (fst m) (itoa (int (snd m))) = Some (None, add_env
       (pre @ [env_value ''RANK'' (itoa (int (Dask_rank job m))), env_value ''MASTER_ADDR'' post,
               env_value ''WORLD_SIZE'' (itoa (int (Dask_size job))), env_value ''MASTER_PORT'' port]) (t m))"
    by (rule Dask_SetClusterSpec_run)
  have s: "SetClusterSpec (fw_controller (DaskFramework E)) = Dask_SetClusterSpec" by (simp add: DaskFramework_def)
  note env = process_env_add[where ctl = "fw_controller (DaskFramework E)" and t = t and m = m and k = k, unfolded s, OF run refl assms(5)]
  show "process_env (fw_controller (DaskFramework E)) job t k m ''RANK'' = Some (itoa (int (Dask_rank job m)))"
    by (rule env) (simp add: env_value_def)
  show "process_env (fw_controller (DaskFramework E)) job t k m ''WORLD_SIZE'' = Some (itoa (int (Dask_size job)))"
    by (rule env) (simp add: env_value_def)
qed

section \<open>Properties\<close>

text \<open>
  C25. The launcher, the lead worker and the workers of a validated dask job form one process group: in every container
  of their pods the world size is the number of these pods, computed without wrap-around, and the ranks are exactly the
  numbers below it, the lead worker first and the launcher last. Validation admits further roles, and their pods are
  given rank 0 and the same world size; so the ranks of all pods but the scheduler's are those of one group exactly when no further role
  has pods.
\<close>

theorem Dask_ranks:
  fixes E :: ext
  assumes "roles_ok (spec_RoleSpecs (job_Spec job))" "Dask_Validate job = Some None"
    and "0 \<le> sint (replicas_of (gm_ptr (spec_RoleSpecs (job_Spec job)) RoleWorker))"
    and "\<forall>m \<in> Dask_pods job. k m < length (ps_Containers (pt_Spec (t m)))"
  defines "env \<equiv> process_env (fw_controller (DaskFramework E)) job t k"
  shows "good_ranks env {m \<in> Dask_pods job. fst m \<in> group_roles} (Dask_size job) \<and>
    (\<forall>m \<in> Dask_pods job. fst m \<notin> group_roles \<longrightarrow> env m ''RANK'' = Some (itoa 0) \<and> env m ''WORLD_SIZE'' = Some (itoa (int (Dask_size job)))) \<and>
    (good_ranks env (Dask_pods job) (Dask_size job) \<longleftrightarrow> (\<forall>m \<in> Dask_pods job. fst m \<in> group_roles))"
proof (intro conjI)
  have vars: "env m ''RANK'' = Some (itoa (int (Dask_rank job m))) \<and> env m ''WORLD_SIZE'' = Some (itoa (int (Dask_size job)))"
    if "m \<in> Dask_pods job" for m
  proof -
    have "m \<in> Dask_group job \<or> fst m \<notin> insert RoleScheduler group_roles"
      using that unfolding Dask_group_pods[OF assms(1,2)] by (auto simp: Dask_pods_def)
    then show ?thesis unfolding env_def using Dask_process_env[OF assms(1-3)] assms(4) that by blast
  qed
  show group: "good_ranks env {m \<in> Dask_pods job. fst m \<in> group_roles} (Dask_size job)"
    by (rule good_ranksI[OF bij_Dask_rank[of job, unfolded Dask_group_pods[OF assms(1,2)]]]) (use vars in auto)
  have zero: "Dask_rank job m = 0" if "fst m \<notin> group_roles" for m using that by (auto simp: Dask_rank_def group_roles_def)
  then show others: "\<forall>m \<in> Dask_pods job. fst m \<notin> group_roles \<longrightarrow>
      env m ''RANK'' = Some (itoa 0) \<and> env m ''WORLD_SIZE'' = Some (itoa (int (Dask_size job)))" using vars by simp
  show "good_ranks env (Dask_pods job) (Dask_size job) \<longleftrightarrow> (\<forall>m \<in> Dask_pods job. fst m \<in> group_roles)"
  proof
    assume all: "\<forall>m \<in> Dask_pods job. fst m \<in> group_roles"
    then have "{m \<in> Dask_pods job. fst m \<in> group_roles} = Dask_pods job" by blast
    with group show "good_ranks env (Dask_pods job) (Dask_size job)" by (simp only:)
  next
    assume "good_ranks env (Dask_pods job) (Dask_size job)"
    then have inj: "inj_on (\<lambda>m. env m ''RANK'') (Dask_pods job)" by (simp add: good_ranks_def bij_betw_def)
    have "0 \<in> Dask_rank job ` {m \<in> Dask_pods job. fst m \<in> group_roles}"
      using bij_Dask_rank[of job] unfolding Dask_group_pods[OF assms(1,2)] bij_betw_def by (simp add: Dask_size_def)
    then obtain m0 where m0: "m0 \<in> Dask_pods job" "fst m0 \<in> group_roles" "Dask_rank job m0 = 0" by auto
    show "\<forall>m \<in> Dask_pods job. fst m \<in> group_roles"
    proof (rule ccontr)
      assume "\<not> (\<forall>m \<in> Dask_pods job. fst m \<in> group_roles)"
      then obtain m where m: "m \<in> Dask_pods job" "fst m \<notin> group_roles" by blast
      have "env m ''RANK'' = env m0 ''RANK''" using vars[OF m(1)] vars[OF m0(1)] zero[OF m(2)] m0(3) by simp
      with inj m(1) m0(1) have "m = m0" by (auto dest: inj_onD)
      with m(2) m0(2) show False by simp
    qed
  qed
qed

definition dask_job :: AresJob where
  "dask_job = (let port = (\<lambda>n. \<lparr>cp_Name = [], cp_ContainerPort = n\<rparr>);
       role = (\<lambda>n ports. Some (plain_role n [] [plain_container FrameworkDask ports]))
     in plain_job FrameworkDask [(RoleScheduler, role 1 [port 1, port 2]), (RoleLauncher, role 1 [port 3]),
          (RoleLeadWorker, role 1 [port 4]), (RoleWorker, role 3 [])])"

theorem Dask_ranks_witness:
  "good_ranks (process_env (fw_controller (DaskFramework plain_ext)) dask_job
      (\<lambda>m. zero_PodTemplateSpec\<lparr>pt_Spec := zero_PodSpec\<lparr>ps_Containers := [plain_container FrameworkDask []]\<rparr>\<rparr>) (\<lambda>m. 0))
     (Dask_pods dask_job) 5"
proof -
  let ?t = "zero_PodTemplateSpec\<lparr>pt_Spec := zero_PodSpec\<lparr>ps_Containers := [plain_container FrameworkDask []]\<rparr>\<rparr>"
  have 1: "roles_ok (spec_RoleSpecs (job_Spec dask_job))"
    by (simp add: dask_job_def plain_defs roles_ok_def gm_ok_def gm_keys_def go_consts Let_def)
  have 2: "Dask_Validate dask_job = Some None" by code_simp
  have 3: "role_replicas dask_job RoleWorker = 3" by code_simp
  have "has_role (job_Spec dask_job) RoleLeadWorker" by code_simp
  with 3 have size: "Dask_size dask_job = 5" by (simp add: Dask_size_def)
  have "gm_keys (spec_RoleSpecs (job_Spec dask_job)) = [RoleScheduler, RoleLauncher, RoleLeadWorker, RoleWorker]" by code_simp
  then have "\<forall>m \<in> Dask_pods dask_job. fst m \<in> group_roles"
    by (auto simp: Dask_pods_def group_roles_def has_role_def gm_get_None_iff)
  with Dask_ranks[OF 1 2, where k = "\<lambda>m. 0" and t = "\<lambda>m. ?t" and E = plain_ext] 3 size show ?thesis by simp
qed

text \<open>The tests of the repository give the lead worker the role \<open>master\<close>: such a pod has the rank of the launcher.\<close>

definition dask_master_job :: AresJob where
  "dask_master_job = (let port = (\<lambda>n. \<lparr>cp_Name = [], cp_ContainerPort = n\<rparr>);
       role = (\<lambda>n ports. Some (plain_role n [] [plain_container FrameworkDask ports]))
     in plain_job FrameworkDask [(RoleScheduler, role 1 [port 1, port 2]), (RoleLauncher, role 1 [port 3]), (RoleMaster, role 1 [port 4])])"

lemma Dask_rank_collision:
  "Dask_Validate dask_master_job = Some None \<and>
   map_option (map env_Value \<circ> filter (\<lambda>e. env_Name e = ''RANK'')) (getEnvForDaskRole dask_master_job RoleLauncher ''0'') = Some [''0''] \<and>
   map_option (map env_Value \<circ> filter (\<lambda>e. env_Name e = ''RANK'')) (getEnvForDaskRole dask_master_job RoleMaster ''0'') = Some [''0'']"
  by code_simp

end
