(* ===== verification/Bagua.thy ===== *)
theory Bagua
  imports Simple_Frameworks "HOL-Library.Sublist"
begin

text \<open>
  \<open>frameworks/bagua/bagua.go\<close>: a static mode with one master and its workers, and an elastic mode with workers that meet
  through etcd and share out the ports of the job.
\<close>

section \<open>Defaults\<close>

definition enableElastic :: "AresJobSpec \<Rightarrow> bool option" where
  "enableElastic s = do { b \<leftarrow> fw_Bagua (spec_Framework s); Some (EnableElastic b) }"

definition Bagua_static_policy :: "AresJobSpec \<Rightarrow> JobPhasePolicy" where
  "Bagua_static_policy s =
     (if has_role s RoleWorker
      then \<lparr>jpp_Failed = [[RoleWorker], [RoleMaster]], jpp_Succeeded = [[RoleWorker, RoleMaster]]\<rparr>
      else \<lparr>jpp_Failed = [[RoleMaster]], jpp_Succeeded = [[RoleMaster]]\<rparr>)"

definition Bagua_static_defaults :: "AresJobSpec \<Rightarrow> AresJobSpec option" where
  "Bagua_static_defaults s = do {
     let s1 = s\<lparr>spec_JobPhasePolicy := Some (Bagua_static_policy s)\<rparr>;
     s2 \<leftarrow> the_role RoleMaster (\<lambda>spec. Some (default_Succeeded spec)) s1;
     s3 \<leftarrow> the_role RoleMaster (\<lambda>spec. Some (default_Failed spec)) s2;
     s4 \<leftarrow> on_role RoleWorker (\<lambda>spec. Some (default_Failed (default_Succeeded spec))) s3;
     on_role RoleWorker (\<lambda>spec. Some (default_Dependence (run_after RoleMaster) spec)) s4 }"

definition Bagua_elastic_defaults :: "AresJobSpec \<Rightarrow> AresJobSpec option" where
  "Bagua_elastic_defaults s = do {
     let s1 = default_JobPhasePolicy \<lparr>jpp_Failed = [[RoleWorker], [RoleEtcd]], jpp_Succeeded = [[RoleWorker]]\<rparr> s;
     s2 \<leftarrow> the_role RoleWorker (\<lambda>spec. Some (default_Succeeded spec)) s1;
     s3 \<leftarrow> the_role RoleWorker (\<lambda>spec. Some (default_Failed spec)) s2;
     s4 \<leftarrow> the_role RoleEtcd (\<lambda>spec. Some (default_Succeeded spec)) s3;
     s5 \<leftarrow> the_role RoleEtcd (\<lambda>spec. Some (default_Failed spec)) s4;
     the_role RoleWorker (\<lambda>spec. Some (default_Dependence (run_after RoleEtcd) spec)) s5 }"

text \<open>In static mode nothing is filled in when the user gave a job phase policy.\<close>

definition Bagua_SetDefault :: "AresJobSpec \<Rightarrow> AresJobSpec option" where
  "Bagua_SetDefault s = do {
     let s1 = (if fw_Bagua (spec_Framework s) = None
               then s\<lparr>spec_Framework := (spec_Framework s)\<lparr>fw_Bagua :=
                      Some \<lparr>EnableElastic = False, MinReplicas = None, MaxReplicas = None\<rparr>\<rparr>\<rparr> else s);
     elastic \<leftarrow> enableElastic s1;
     if \<not> elastic then (if spec_JobPhasePolicy s1 = None then Bagua_static_defaults s1 else Some s1)
     else Bagua_elastic_defaults s1 }"

section \<open>Validation\<close>

definition Bagua_Validate :: "AresJob \<Rightarrow> go_error option option" where
  "Bagua_Validate job = do {
     let ports = spec_AvailablePorts (job_Spec job);
     elastic \<leftarrow> enableElastic (job_Spec job);
     if \<not> elastic then
       (case CheckRolesExist (job_Spec job) [RoleMaster] of
          Some err \<Rightarrow> Some (Some err)
        | None \<Rightarrow> do {
            masters \<leftarrow> GetRoleReplicas (job_Spec job) RoleMaster;
            Some (if masters \<noteq> 1 then Some (ErrValidation (ReplicasMustBeOne RoleMaster))
                  else if length ports < 2 then Some (ErrValidation (InsufficientPorts (length ports) 2)) else None) })
     else
       (case CheckRolesExist (job_Spec job) [RoleWorker, RoleEtcd] of
          Some err \<Rightarrow> Some (Some err)
        | None \<Rightarrow> do {
            etcds \<leftarrow> GetRoleReplicas (job_Spec job) RoleEtcd;
            if etcds \<noteq> 1 then Some (Some (ErrValidation (ReplicasMustBeOne RoleEtcd)))
            else do {
              workers \<leftarrow> GetRoleReplicas (job_Spec job) RoleWorker;
              let minPortsNum = 2 + workers;
              Some (if int (length ports) < sint minPortsNum
                    then Some (ErrValidation (InsufficientPorts (length ports) (sint minPortsNum))) else None) } }) }"

section \<open>The environment\<close>

definition Int32SliceToStrSlice :: "int32 list \<Rightarrow> string list" where
  "Int32SliceToStrSlice intSlice = map (\<lambda>i. itoa (sint i)) intSlice"

text \<open>Go's integer division, which truncates and panics on zero.\<close>

definition go_div :: "int \<Rightarrow> int \<Rightarrow> int option" where
  "go_div a b = (if b = 0 then None else Some (sgn a * sgn b * (\<bar>a\<bar> div \<bar>b\<bar>)))"

definition getPrivatePorts :: "int32 list \<Rightarrow> int32 \<Rightarrow> string \<Rightarrow> int32 list option" where
  "getPrivatePorts portsExceptEtcd n index = do {
     privatePortNumEach \<leftarrow> go_div (int (length portsExceptEtcd)) (sint n);
     let idx = fst (atoi index);
     if idx < sint n \<and> 0 < privatePortNumEach
     then subslice portsExceptEtcd (wrap64 (privatePortNumEach * idx)) (wrap64 (privatePortNumEach * wrap64 (idx + 1)))
     else Some [] }"

definition getEnvUnderStaticMode :: "ext \<Rightarrow> AresJob \<Rightarrow> string \<Rightarrow> string \<Rightarrow> EnvVar list option" where
  "getEnvUnderStaticMode E job rtype index =
     (if rtype \<noteq> RoleWorker \<and> rtype \<noteq> RoleMaster then Some []
      else do {
        let portStrs = Int32SliceToStrSlice (spec_AvailablePorts (job_Spec job));
        let rank = (if rtype = RoleWorker then itoa (wrap64 (fst (atoi index) + 1)) else ''0'');
        port0 \<leftarrow> slice_at portStrs 0;
        workers \<leftarrow> GetRoleReplicas (job_Spec job) RoleWorker;
        port1 \<leftarrow> slice_at portStrs 1;
        names \<leftarrow> GetRolesDomainNames E job [RoleMaster, RoleWorker];
        rest \<leftarrow> subslice portStrs 2 (int (length portStrs));
        Some
          [env_value ''BAGUA_SSH_PORT'' port0,
           env_value ''SERVICE_DOMAIN_NAME'' (join
             [GetServiceDomainName (job_Name job) (job_Namespace job) RoleWorker,
              GetServiceDomainName (job_Name job) (job_Namespace job) RoleLauncher] '' ''),
           \<lparr>env_Name = ''LOCAL_IP'', env_Value = [], env_FieldPath = Some ''status.hostIP''\<rparr>,
           env_value ''WORLD_SIZE'' (itoa (sint (workers + 1))),
           env_value ''MASTER_ADDR'' (GetPodDomainName E (job_Name job) (job_Namespace job) RoleMaster 0),
           env_value ''MASTER_PORT'' port1,
           env_value ''RANK'' rank,
           env_value ''BAGUA_NODE_DOMAIN_NAMES'' (join names '',''),
           env_value ''BAGUA_AVAILABLE_PORTS'' (join rest '','')] })"

definition getEnvUnderElasticMode :: "ext \<Rightarrow> AresJob \<Rightarrow> string \<Rightarrow> string \<Rightarrow> EnvVar list option" where
  "getEnvUnderElasticMode E job rtype index =
     (if rtype \<noteq> RoleWorker \<and> rtype \<noteq> RoleEtcd then Some []
      else do {
        let ports = spec_AvailablePorts (job_Spec job);
        let portStrs = Int32SliceToStrSlice ports;
        port0 \<leftarrow> slice_at portStrs 0;
        port1 \<leftarrow> slice_at portStrs 1;
        let env = [env_value ''ETCD_CLIENT_PORT'' port0, env_value ''ETCD_SERVER_PORT'' port1];
        if rtype = RoleEtcd then Some env
        else do {
          workerReplicas \<leftarrow> GetRoleReplicas (job_Spec job) RoleWorker;
          bagua \<leftarrow> fw_Bagua (spec_Framework (job_Spec job));
          let minsize = (case MinReplicas bagua of Some n \<Rightarrow> n | None \<Rightarrow> workerReplicas);
          let maxsize = (case MaxReplicas bagua of Some n \<Rightarrow> n | None \<Rightarrow> workerReplicas);
          let env = env @
            [env_value ''SERVICE_DOMAIN_NAME'' (GetServiceDomainName (job_Name job) (job_Namespace job) RoleWorker),
             env_value ''MIN_SIZE'' (itoa (sint minsize)),
             env_value ''MAX_SIZE'' (itoa (sint maxsize)),
             env_value ''JOB_ID'' (job_Name job),
             env_value ''ETCD_HOST'' (GetPodDomainName E (job_Name job) (job_Namespace job) RoleEtcd 0)];
          rest \<leftarrow> subslice ports 2 (int (length ports));
          private \<leftarrow> getPrivatePorts rest workerReplicas index;
          Some (case Int32SliceToStrSlice private of
                  [] \<Rightarrow> env
                | ssh # available \<Rightarrow> env @ [env_value ''BAGUA_SSH_PORT'' ssh, env_value ''BAGUA_AVAILABLE_PORTS'' (join available '','')]) } })"

definition Bagua_addEnv :: "ext \<Rightarrow> AresJob \<Rightarrow> PodTemplateSpec \<Rightarrow> string \<Rightarrow> string \<Rightarrow> PodTemplateSpec option" where
  "Bagua_addEnv E job podTemplate rtype index = do {
     elastic \<leftarrow> enableElastic (job_Spec job);
     env \<leftarrow> (if elastic then getEnvUnderElasticMode E job rtype index else getEnvUnderStaticMode E job rtype index);
     Some (add_env env podTemplate) }"

text \<open>The ports that \<open>addContainerPort\<close> adds, and where it adds them.\<close>

definition Bagua_ports :: "AresJob \<Rightarrow> string \<Rightarrow> string \<Rightarrow> int32 list option" where
  "Bagua_ports job rtype index = do {
     let allPorts = spec_AvailablePorts (job_Spec job);
     elastic \<leftarrow> enableElastic (job_Spec job);
     if \<not> elastic then Some allPorts
     else if rtype = RoleEtcd then subslice allPorts 0 2
     else do {
       rest \<leftarrow> subslice allPorts 2 (int (length allPorts));
       workers \<leftarrow> GetRoleReplicas (job_Spec job) RoleWorker;
       getPrivatePorts rest workers index } }"

definition addContainerPort :: "AresJob \<Rightarrow> PodTemplateSpec \<Rightarrow> string \<Rightarrow> string \<Rightarrow> PodTemplateSpec option" where
  "addContainerPort job podTemplate rtype index = do {
     addPorts \<leftarrow> Bagua_ports job rtype index;
     let containerPorts = map (\<lambda>p. \<lparr>cp_Name = [], cp_ContainerPort = p\<rparr>) addPorts;
     case ps_Containers (pt_Spec podTemplate) of
       [] \<Rightarrow> None
     | c # cs \<Rightarrow> Some (podTemplate\<lparr>pt_Spec := (pt_Spec podTemplate)\<lparr>ps_Containers :=
         c\<lparr>ctr_Ports := ctr_Ports c @ containerPorts\<rparr> # cs\<rparr>\<rparr>) }"

definition Bagua_SetClusterSpec ::
  "ext \<Rightarrow> AresJob \<Rightarrow> PodTemplateSpec \<Rightarrow> string \<Rightarrow> string \<Rightarrow> (go_error option \<times> PodTemplateSpec) option" where
  "Bagua_SetClusterSpec E job podTemplate rtype index = do {
     t1 \<leftarrow> Bagua_addEnv E job podTemplate rtype index;
     t2 \<leftarrow> addContainerPort job t1 rtype index;
     Some (None, t2) }"

definition BaguaFramework :: "ext \<Rightarrow> Framework" where
  "BaguaFramework E = \<lparr>GetName = FrameworkBagua, SetDefault = Bagua_SetDefault, Validate = Bagua_Validate,
     fw_controller = (base_controller E)\<lparr>GetDefaultContainerName := FrameworkBagua, SetClusterSpec := Bagua_SetClusterSpec E\<rparr>,
     fw_ReconcileServices = ReconcileServices, fw_ReconcileJobs = None\<rparr>"

section \<open>The defaults settle\<close>

abbreviation set_Succeeded :: "RoleSpec \<Rightarrow> RoleSpec option" where
  "set_Succeeded \<equiv> (\<lambda>spec. Some (default_Succeeded spec))"

abbreviation set_Failed :: "RoleSpec \<Rightarrow> RoleSpec option" where
  "set_Failed \<equiv> (\<lambda>spec. Some (default_Failed spec))"

abbreviation set_Dependence :: "DependenceSpec \<Rightarrow> RoleSpec \<Rightarrow> RoleSpec option" where
  "set_Dependence d \<equiv> (\<lambda>spec. Some (default_Dependence d spec))"

text \<open>Defaulting comes before validation and dereferences the roles it needs without asking whether the job has them.\<close>

lemma Bagua_SetDefault_panics:
  "fw_Bagua (spec_Framework s) = Some b \<Longrightarrow> EnableElastic b \<Longrightarrow> \<not> has_role s RoleWorker \<Longrightarrow> Bagua_SetDefault s = None"
  "fw_Bagua (spec_Framework s) = None \<Longrightarrow> spec_JobPhasePolicy s = None \<Longrightarrow> \<not> has_role s RoleMaster \<Longrightarrow> Bagua_SetDefault s = None"
  by (simp_all add: Bagua_SetDefault_def enableElastic_def Bagua_elastic_defaults_def Bagua_static_defaults_def has_role_def role_step_def
      default_JobPhasePolicy_def Let_def)

lemma idem_set: "idem_step set_Succeeded" "idem_step set_Failed" "idem_step (set_Dependence d)"
  using Default_role_keeps by (auto simp: idem_step_def keeps_settled_def)

lemma keeps_set:
  "keeps_settled set_Succeeded set_Failed" "keeps_settled set_Failed set_Succeeded"
  "keeps_settled (set_Dependence d) set_Failed" "keeps_settled set_Failed (set_Dependence d)"
  "keeps_settled (set_Dependence d) set_Succeeded" "keeps_settled set_Succeeded (set_Dependence d)"
  "keeps_settled (set_Dependence d) default_policy" "keeps_settled default_policy (set_Dependence d)"
  by (auto simp: keeps_settled_def default_policy_def default_Failed_Succeeded_fixed)

definition Bagua_static_steps :: role_steps where
  "Bagua_static_steps =
     [(True, RoleMaster, set_Succeeded), (True, RoleMaster, set_Failed),
      (False, RoleWorker, default_policy), (False, RoleWorker, set_Dependence (run_after RoleMaster))]"

definition Bagua_elastic_steps :: role_steps where
  "Bagua_elastic_steps =
     [(True, RoleWorker, set_Succeeded), (True, RoleWorker, set_Failed),
      (True, RoleEtcd, set_Succeeded), (True, RoleEtcd, set_Failed),
      (True, RoleWorker, set_Dependence (run_after RoleEtcd))]"

lemma settling_Bagua: "settling Bagua_static_steps" "settling Bagua_elastic_steps"
proof -
  have d: "RoleMaster \<noteq> RoleWorker" "RoleWorker \<noteq> RoleMaster" "RoleEtcd \<noteq> RoleWorker" "RoleWorker \<noteq> RoleEtcd"
    by (simp_all add: go_consts)
  show "settling Bagua_static_steps"
    using d by (simp add: settling_def Bagua_static_steps_def idem_set idem_default_policy keeps_set keeps_settled_self)
  show "settling Bagua_elastic_steps"
    using d by (simp add: settling_def Bagua_elastic_steps_def idem_set keeps_set keeps_settled_self)
qed

lemma Bagua_static_defaults_steps:
  "Bagua_static_defaults s = run_steps Bagua_static_steps (s\<lparr>spec_JobPhasePolicy := Some (Bagua_static_policy s)\<rparr>)"
  unfolding Bagua_static_defaults_def Bagua_static_steps_def Let_def
  by (simp only: default_policy_def[abs_def] run_steps_Cons run_steps_Nil Option.bind_runit)

lemma Bagua_elastic_defaults_steps:
  "Bagua_elastic_defaults s = run_steps Bagua_elastic_steps
     (default_JobPhasePolicy \<lparr>jpp_Failed = [[RoleWorker], [RoleEtcd]], jpp_Succeeded = [[RoleWorker]]\<rparr> s)"
  unfolding Bagua_elastic_defaults_def Bagua_elastic_steps_def Let_def
  by (simp only: run_steps_Cons run_steps_Nil Option.bind_runit)

text \<open>The elastic mode settles by itself; the static mode runs at most once.\<close>

lemma elastic_defaults: "framework_defaults Bagua_elastic_defaults"
  by (rule framework_defaultsI[where steps = "\<lambda>ks fw. Bagua_elastic_steps"
        and prepare = "default_JobPhasePolicy \<lparr>jpp_Failed = [[RoleWorker], [RoleEtcd]], jpp_Succeeded = [[RoleWorker]]\<rparr>"])
    (simp_all add: Bagua_elastic_defaults_steps settling_Bagua default_JobPhasePolicy_keeps default_JobPhasePolicy_settled)

definition with_Bagua :: "AresJobSpec \<Rightarrow> AresJobSpec" where
  "with_Bagua s = (if fw_Bagua (spec_Framework s) = None
     then s\<lparr>spec_Framework := (spec_Framework s)\<lparr>fw_Bagua := Some \<lparr>EnableElastic = False, MinReplicas = None, MaxReplicas = None\<rparr>\<rparr>\<rparr>
     else s)"

lemma with_Bagua_elastic: "\<exists>e. enableElastic (with_Bagua s) = Some e"
  by (cases "fw_Bagua (spec_Framework s)") (auto simp: with_Bagua_def enableElastic_def)

lemma Bagua_SetDefault_with:
  "Bagua_SetDefault s = do { elastic \<leftarrow> enableElastic (with_Bagua s);
     if \<not> elastic then (if spec_JobPhasePolicy (with_Bagua s) = None then Bagua_static_defaults (with_Bagua s) else Some (with_Bagua s))
     else Bagua_elastic_defaults (with_Bagua s) }"
  unfolding Bagua_SetDefault_def Let_def with_Bagua_def ..

lemma Bagua_SetDefault_cases:
  assumes "Bagua_SetDefault s = Some s'"
  obtains (elastic) "enableElastic (with_Bagua s) = Some True" "Bagua_elastic_defaults (with_Bagua s) = Some s'"
    | (static) "enableElastic (with_Bagua s) = Some False" "spec_JobPhasePolicy s = None" "Bagua_static_defaults (with_Bagua s) = Some s'"
    | (given) "enableElastic (with_Bagua s) = Some False" "spec_JobPhasePolicy s \<noteq> None" "s' = with_Bagua s"
proof -
  obtain e where e: "enableElastic (with_Bagua s) = Some e" using with_Bagua_elastic by blast
  have p: "spec_JobPhasePolicy (with_Bagua s) = spec_JobPhasePolicy s" by (simp add: with_Bagua_def)
  from assms e have "(if \<not> e then (if spec_JobPhasePolicy s = None then Bagua_static_defaults (with_Bagua s) else Some (with_Bagua s))
     else Bagua_elastic_defaults (with_Bagua s)) = Some s'"
    unfolding Bagua_SetDefault_with p by simp
  note run = this
  show ?thesis
  proof (cases e)
    case True
    with e run show ?thesis by (intro elastic) simp_all
  next
    case False
    note ne = this
    show ?thesis
    proof (cases "spec_JobPhasePolicy s = None")
      case True
      with e run ne show ?thesis by (intro static) simp_all
    next
      case False
      with e run ne show ?thesis by (intro given) simp_all
    qed
  qed
qed

lemma with_Bagua_keeps: "keeps_roles s (with_Bagua s)"
  by (simp add: with_Bagua_def keeps_roles_def option.rel_refl)

lemma Bagua_SetDefault_keeps:
  assumes "Bagua_SetDefault s = Some s'"
  shows "keeps_roles s s'" "spec_Framework s' = spec_Framework (with_Bagua s)" "spec_JobPhasePolicy s' \<noteq> None"
proof -
  have "keeps_roles (with_Bagua s) s' \<and> spec_Framework s' = spec_Framework (with_Bagua s) \<and> spec_JobPhasePolicy s' \<noteq> None"
    using assms
  proof (cases rule: Bagua_SetDefault_cases)
    case elastic
    let ?p = "default_JobPhasePolicy \<lparr>jpp_Failed = [[RoleWorker], [RoleEtcd]], jpp_Succeeded = [[RoleWorker]]\<rparr> (with_Bagua s)"
    note k = run_steps_keeps[OF elastic(2)[unfolded Bagua_elastic_defaults_steps] settling_Bagua(2)]
    from k(2) obtain m where s': "s' = ?p\<lparr>spec_RoleSpecs := m\<rparr>" by blast
    have "keeps_roles (with_Bagua s) s'" using default_JobPhasePolicy_keeps k(1) by (rule keeps_roles_trans)
    moreover have "spec_Framework s' = spec_Framework (with_Bagua s)" "spec_JobPhasePolicy s' \<noteq> None"
      unfolding s' by (simp_all add: default_JobPhasePolicy_def)
    ultimately show ?thesis by blast
  next
    case static
    let ?p = "(with_Bagua s)\<lparr>spec_JobPhasePolicy := Some (Bagua_static_policy (with_Bagua s))\<rparr>"
    note k = run_steps_keeps[OF static(3)[unfolded Bagua_static_defaults_steps] settling_Bagua(1)]
    from k(2) obtain m where s': "s' = ?p\<lparr>spec_RoleSpecs := m\<rparr>" by blast
    have "keeps_roles (with_Bagua s) ?p" by (simp add: keeps_roles_def option.rel_refl)
    then have "keeps_roles (with_Bagua s) s'" using k(1) by (rule keeps_roles_trans)
    then show ?thesis unfolding s' by simp
  next
    case given
    then show ?thesis by (simp add: with_Bagua_def)
  qed
  then show "keeps_roles s s'" "spec_Framework s' = spec_Framework (with_Bagua s)" "spec_JobPhasePolicy s' \<noteq> None"
    using keeps_roles_trans[OF with_Bagua_keeps] by blast+
qed

interpretation bagua_defaults: framework_defaults Bagua_SetDefault
proof
  fix s s1 s2 assume run: "Bagua_SetDefault s = Some s1"
  show "keeps_roles s s1" using run by (rule Bagua_SetDefault_keeps)
  assume d: "Default_spec s1 = Some s2"
  have f: "spec_Framework s2 = spec_Framework (with_Bagua s)" "spec_JobPhasePolicy s2 \<noteq> None"
    using Bagua_SetDefault_keeps(2,3)[OF run] d by (simp_all add: Default_spec_Some_conv)
  then have w: "with_Bagua s2 = s2" by (auto simp: with_Bagua_def split: if_splits)
  have e: "enableElastic s2 = enableElastic (with_Bagua s)" using f by (simp add: enableElastic_def)
  have run2: "Bagua_SetDefault s2 = do { elastic \<leftarrow> enableElastic s2;
      if \<not> elastic then (if spec_JobPhasePolicy s2 = None then Bagua_static_defaults s2 else Some s2) else Bagua_elastic_defaults s2 }"
    unfolding Bagua_SetDefault_with w ..
  from run show "Bagua_SetDefault s2 = Some s2"
  proof (cases rule: Bagua_SetDefault_cases)
    case elastic
    with framework_defaults.settles[OF elastic_defaults elastic(2) d] show ?thesis by (simp add: run2 e)
  next
    case static
    with f show ?thesis by (auto simp: run2 e)
  next
    case given
    with f show ?thesis by (auto simp: run2 e)
  qed
qed

interpretation bagua_pods: pod_identity "fw_controller (BaguaFramework E)" for E
proof
  fix job t rt index t'
  assume "SetClusterSpec (fw_controller (BaguaFramework E)) job t rt index = Some (None, t')"
  then obtain t1 where t1: "Bagua_addEnv E job t rt index = Some t1" "addContainerPort job t1 rt index = Some t'"
    by (auto simp: BaguaFramework_def Bagua_SetClusterSpec_def Option.bind_eq_Some_conv)
  have "same_identity t t1" using t1(1) by (auto simp: Bagua_addEnv_def Option.bind_eq_Some_conv)
  moreover have "same_identity t1 t'"
    using t1(2) by (cases "ps_Containers (pt_Spec t1)") (auto simp: addContainerPort_def Option.bind_eq_Some_conv same_identity_def)
  ultimately show "same_identity t t'" by (rule same_identity_trans)
qed

section \<open>The private ports\<close>

lemma go_div_nat: "0 < b \<Longrightarrow> go_div (int a) (int b) = Some (int (a div b))"
  by (auto simp: go_div_def sgn_if zdiv_int)

lemma getPrivatePorts_run:
  assumes "sint n = int w" "i < w" "int (length xs) < 2 ^ 63"
  shows "getPrivatePorts xs n (itoa (int i)) = Some (take (length xs div w) (drop (length xs div w * i) xs))"
proof -
  let ?q = "length xs div w"
  have n: "int w < 2 ^ 31" using sint_range32[of n] assms(1) by simp
  then have i: "int i < 2 ^ 31" using assms(2) by simp
  have "?q * (i + 1) \<le> ?q * w" using assms(2) by (intro mult_left_mono) simp_all
  also have "\<dots> \<le> length xs" by (rule div_times_less_eq_dividend)
  finally have le: "?q * (i + 1) \<le> length xs" .
  then have b: "int (?q * (i + 1)) < 2 ^ 63" using assms(3) by linarith
  have b': "int (?q * i) < 2 ^ 63" using b by (simp add: distrib_left)
  have a: "fst (atoi (itoa (int i))) = int i" using i atoi_itoa_nat[of i] by simp
  have w1: "wrap64 (int i + 1) = int (i + 1)" using i by (subst wrap64_id) simp_all
  have w2: "wrap64 (int ?q * int i) = int (?q * i)" "wrap64 (int ?q * int (i + 1)) = int (?q * (i + 1))"
  proof -
    have nat_id: "int m < 2 ^ 63 \<Longrightarrow> wrap64 (int m) = int m" for m by (rule wrap64_id) simp_all
    show "wrap64 (int ?q * int i) = int (?q * i)" using nat_id[OF b'] unfolding of_nat_mult .
    show "wrap64 (int ?q * int (i + 1)) = int (?q * (i + 1))" using nat_id[OF b] unfolding of_nat_mult .
  qed
  have d: "go_div (int (length xs)) (sint n) = Some (int ?q)" using assms(1,2) go_div_nat[of w "length xs"] by simp
  show ?thesis
  proof (cases "?q = 0")
    case True
    then show ?thesis unfolding getPrivatePorts_def d by simp
  next
    case False
    have "int ?q + int ?q * int i \<le> int (length xs)" 
      using zle_int[THEN iffD2, OF le] unfolding of_nat_mult of_nat_add by (simp add: distrib_left)
    with False show ?thesis using assms(1,2) unfolding getPrivatePorts_def d Option.bind.simps a w1 w2 Let_def
      by (simp add: subslice_def nat_diff_distrib' nat_mult_distrib distrib_left)
  qed
qed

lemma concat_shares: "concat (map (\<lambda>i. take q (drop (q * i) xs)) [0..<w]) = take (q * w) xs"
  by (induction w) (simp_all add: take_add add.commute[of q])

text \<open>What a validated job has in each mode.\<close>

lemma Bagua_valid:
  assumes ok: "roles_ok (spec_RoleSpecs (job_Spec job))" and v: "Bagua_Validate job = Some None"
    and e: "enableElastic (job_Spec job) = Some elastic"
  shows "\<not> elastic \<Longrightarrow> has_role (job_Spec job) RoleMaster \<and> role_replicas job RoleMaster = 1 \<and> 2 \<le> length (spec_AvailablePorts (job_Spec job))"
    and "elastic \<Longrightarrow> has_role (job_Spec job) RoleWorker \<and> has_role (job_Spec job) RoleEtcd \<and> role_replicas job RoleEtcd = 1 \<and>
      sint (2 + replicas_of (gm_ptr (spec_RoleSpecs (job_Spec job)) RoleWorker)) \<le> int (length (spec_AvailablePorts (job_Spec job)))"
proof -
  note reps = GetRoleReplicas_ok[OF ok]
  have roles: "CheckRolesExist (job_Spec job) rs = None \<Longrightarrow> r \<in> set rs \<Longrightarrow> has_role (job_Spec job) r" for rs r
    using gm_ptr_has_role[OF ok] by (auto simp: CheckRolesExist_None)
  {
    assume "\<not> elastic"
    with v e have "CheckRolesExist (job_Spec job) [RoleMaster] = None"
      by (cases "CheckRolesExist (job_Spec job) [RoleMaster]") (simp_all add: Bagua_Validate_def)
    then show "has_role (job_Spec job) RoleMaster \<and> role_replicas job RoleMaster = 1 \<and> 2 \<le> length (spec_AvailablePorts (job_Spec job))"
      using v e \<open>\<not> elastic\<close> roles by (simp add: Bagua_Validate_def reps Let_def split: if_splits)
  next
    assume elastic
    with v e have c: "CheckRolesExist (job_Spec job) [RoleWorker, RoleEtcd] = None"
      by (cases "CheckRolesExist (job_Spec job) [RoleWorker, RoleEtcd]") (simp_all add: Bagua_Validate_def)
    then show "has_role (job_Spec job) RoleWorker \<and> has_role (job_Spec job) RoleEtcd \<and> role_replicas job RoleEtcd = 1 \<and>
      sint (2 + replicas_of (gm_ptr (spec_RoleSpecs (job_Spec job)) RoleWorker)) \<le> int (length (spec_AvailablePorts (job_Spec job)))"
      using v e \<open>elastic\<close> roles[OF c] by (simp add: Bagua_Validate_def reps Let_def split: if_splits)
  }
qed

lemma addContainerPort_env: "addContainerPort job t rt index = Some t' \<Longrightarrow>
    map ctr_Env (ps_Containers (pt_Spec t')) = map ctr_Env (ps_Containers (pt_Spec t))"
  by (cases "ps_Containers (pt_Spec t)") (auto simp: addContainerPort_def Option.bind_eq_Some_conv)

lemma addContainerPort_run: "Bagua_ports job rt index = Some ports \<Longrightarrow> ps_Containers (pt_Spec t) \<noteq> [] \<Longrightarrow>
    \<exists>t'. addContainerPort job t rt index = Some t' \<and>
      ctr_Ports (hd (ps_Containers (pt_Spec t'))) =
        ctr_Ports (hd (ps_Containers (pt_Spec t))) @ map (\<lambda>p. \<lparr>cp_Name = [], cp_ContainerPort = p\<rparr>) ports"
  by (cases "ps_Containers (pt_Spec t)") (simp_all add: addContainerPort_def)

lemma Bagua_SetClusterSpec_run:
  assumes "enableElastic (job_Spec job) = Some e"
    and "(if e then getEnvUnderElasticMode E job rt index else getEnvUnderStaticMode E job rt index) = Some env"
    and "Bagua_ports job rt index = Some ports" "ps_Containers (pt_Spec t) \<noteq> []"
  obtains t' where "Bagua_SetClusterSpec E job t rt index = Some (None, t')"
    "map ctr_Env (ps_Containers (pt_Spec t')) = map ctr_Env (ps_Containers (pt_Spec (add_env env t)))"
    "ctr_Ports (hd (ps_Containers (pt_Spec t'))) =
       ctr_Ports (hd (ps_Containers (pt_Spec t))) @ map (\<lambda>p. \<lparr>cp_Name = [], cp_ContainerPort = p\<rparr>) ports"
proof -
  have a: "Bagua_addEnv E job t rt index = Some (add_env env t)" using assms(1,2) by (simp add: Bagua_addEnv_def)
  have "ps_Containers (pt_Spec (add_env env t)) \<noteq> []" using assms(4) by (simp add: add_env_containers)
  from addContainerPort_run[OF assms(3) this] obtain t' where t': "addContainerPort job (add_env env t) rt index = Some t'"
    "ctr_Ports (hd (ps_Containers (pt_Spec t'))) = ctr_Ports (hd (ps_Containers (pt_Spec (add_env env t)))) @
       map (\<lambda>p. \<lparr>cp_Name = [], cp_ContainerPort = p\<rparr>) ports" by blast
  have "ctr_Ports (hd (ps_Containers (pt_Spec (add_env env t)))) = ctr_Ports (hd (ps_Containers (pt_Spec t)))"
    using assms(4) by (simp add: add_env_containers hd_map)
  with t' a addContainerPort_env[OF t'(1)] that[of t'] show ?thesis by (simp add: Bagua_SetClusterSpec_def)
qed

text \<open>The ports after the first two, and the share of worker \<open>i\<close> of \<open>w\<close>.\<close>

definition port_share :: "int32 list \<Rightarrow> nat \<Rightarrow> nat \<Rightarrow> int32 list" where
  "port_share ports w i = (let rest = drop 2 ports; q = length rest div w in take q (drop (q * i) rest))"

lemma port_shares:
  assumes "w + 2 \<le> length ports" "0 < w"
  shows "i < w \<Longrightarrow> port_share ports w i \<noteq> []"
    and "i < w \<Longrightarrow> length (port_share ports w i) = (length ports - 2) div w"
    and "prefix (take 2 ports @ concat (map (port_share ports w) [0..<w])) ports"
proof -
  let ?rest = "drop 2 ports" and ?q = "(length ports - 2) div w"
  have q: "0 < ?q" using assms by (simp add: div_greater_zero_iff)
  {
    assume "i < w"
    then have "?q * (i + 1) \<le> ?q * w" by (intro mult_left_mono) simp_all
    also have "\<dots> \<le> length ?rest" by simp
    finally show l: "length (port_share ports w i) = ?q" by (simp add: port_share_def Let_def distrib_left)
    with q show "port_share ports w i \<noteq> []" by auto
  }
  have "concat (map (port_share ports w) [0..<w]) = take (?q * w) ?rest"
    using concat_shares[of ?q ?rest w] by (simp add: port_share_def[abs_def] Let_def)
  then show "prefix (take 2 ports @ concat (map (port_share ports w) [0..<w])) ports"
    by (simp add: take_add[symmetric] take_is_prefix)
qed

lemma elastic_env_run:
  assumes ok: "roles_ok (spec_RoleSpecs (job_Spec job))" and e: "enableElastic (job_Spec job) = Some True"
    and w: "role_replicas job RoleWorker = int w" "i < w" "w + 2 \<le> length (spec_AvailablePorts (job_Spec job))"
    and len: "int (length (spec_AvailablePorts (job_Spec job))) < 2 ^ 63"
  obtains pre available where
    "getEnvUnderElasticMode E job RoleWorker (itoa (int i)) = Some (pre @
       [env_value ''BAGUA_SSH_PORT'' (itoa (sint (hd (port_share (spec_AvailablePorts (job_Spec job)) w i)))), env_value ''BAGUA_AVAILABLE_PORTS'' available])"
    "Bagua_ports job RoleWorker (itoa (int i)) = Some (port_share (spec_AvailablePorts (job_Spec job)) w i)"
proof -
  let ?ports = "spec_AvailablePorts (job_Spec job)"
  have r: "RoleWorker \<noteq> RoleEtcd" by (simp add: go_consts)
  have s: "subslice ?ports 2 (int (length ?ports)) = Some (drop 2 ?ports)" using w(3) by (simp add: subslice_def nat_diff_distrib)
  have p: "getPrivatePorts (drop 2 ?ports) (replicas_of (gm_ptr (spec_RoleSpecs (job_Spec job)) RoleWorker)) (itoa (int i))
      = Some (port_share ?ports w i)"
    using getPrivatePorts_run[OF w(1,2), of "drop 2 ?ports"] len by (simp add: port_share_def Let_def)
  obtain ssh rest where sh: "port_share ?ports w i = ssh # rest"
    using port_shares(1)[OF w(3)] w(2) by (cases "port_share ?ports w i") auto
  obtain b where b: "fw_Bagua (spec_Framework (job_Spec job)) = Some b" using e by (auto simp: enableElastic_def Option.bind_eq_Some_conv)
  have port: "\<exists>p. slice_at (Int32SliceToStrSlice ?ports) j = Some p" if "j \<in> {0, 1}" for j
    using w(3) that by (auto simp: slice_at_def Int32SliceToStrSlice_def)
  obtain p0 p1 where p01: "slice_at (Int32SliceToStrSlice ?ports) 0 = Some p0" "slice_at (Int32SliceToStrSlice ?ports) 1 = Some p1"
    using port[of 0] port[of 1] by auto
  have "Bagua_ports job RoleWorker (itoa (int i)) = Some (port_share ?ports w i)"
    using r by (simp add: Bagua_ports_def e s p GetRoleReplicas_ok[OF ok])
  then show ?thesis using r that[of "[_, _, _, _, _, _, _]"]
    by (simp add: getEnvUnderElasticMode_def p01[unfolded Int32SliceToStrSlice_def] s p b GetRoleReplicas_ok[OF ok] Let_def sh Int32SliceToStrSlice_def)
qed

lemma sint_add32: "- (2 ^ 31) \<le> sint a + sint b \<Longrightarrow> sint a + sint b < 2 ^ 31 \<Longrightarrow> sint (a + b) = sint a + sint b" for a b :: int32
  by (simp add: sint_word_ariths signed_take_bit_int_eq_self)

lemma static_env_run:
  assumes ok: "roles_ok (spec_RoleSpecs (job_Spec job))" and e: "enableElastic (job_Spec job) = Some False"
    and w: "role_replicas job RoleWorker = int w" "int w < 2 ^ 31 - 1" and two: "2 \<le> length (spec_AvailablePorts (job_Spec job))"
    and m: "(rt, i) \<in> master_and_workers w"
  obtains pre mid post where
    "getEnvUnderStaticMode E job rt (itoa (int i)) = Some (pre @ [env_value ''WORLD_SIZE'' (itoa (int (w + 1)))] @ mid @
       [env_value ''RANK'' (itoa (int (worker_rank (rt, i))))] @ post)"
    "''WORLD_SIZE'' \<notin> env_Name ` set (mid @ post)" "''RANK'' \<notin> env_Name ` set post"
    "Bagua_ports job rt (itoa (int i)) = Some (spec_AvailablePorts (job_Spec job))"
proof -
  let ?ports = "spec_AvailablePorts (job_Spec job)" and ?n = "replicas_of (gm_ptr (spec_RoleSpecs (job_Spec job)) RoleWorker)"
  have r: "RoleWorker \<noteq> RoleMaster" by (simp add: go_consts)
  have i: "int i < 2 ^ 31" and rt: "rt = RoleWorker \<or> rt = RoleMaster \<and> i = 0" using m w(2) by (auto simp: master_and_workers_def)
  have a: "fst (atoi (itoa (int i))) = int i" using i atoi_itoa_nat[of i] by simp
  have w1: "wrap64 (int i + 1) = int i + 1" using i by (intro wrap64_id) simp_all
  have size: "sint (?n + 1) = int (w + 1)" using w by (simp add: sint_add32)
  have rank: "(if rt = RoleWorker then itoa (wrap64 (fst (atoi (itoa (int i))) + 1)) else ''0'') = itoa (int (worker_rank (rt, i)))"
    using rt
  proof (elim disjE conjE)
    assume "rt = RoleWorker"
    then show ?thesis using w1 by (simp add: a worker_rank_def add.commute)
  next
    have "itoa 0 = ''0''" by code_simp
    moreover assume "rt = RoleMaster" "i = 0"
    ultimately show ?thesis using r by (simp add: worker_rank_def)
  qed
  have port: "\<exists>p. slice_at (Int32SliceToStrSlice ?ports) j = Some p" if "j \<in> {0, 1}" for j
    using two that by (auto simp: slice_at_def Int32SliceToStrSlice_def)
  obtain p0 p1 where p01: "slice_at (Int32SliceToStrSlice ?ports) 0 = Some p0" "slice_at (Int32SliceToStrSlice ?ports) 1 = Some p1"
    using port[of 0] port[of 1] by auto
  obtain rest where s: "subslice (Int32SliceToStrSlice ?ports) 2 (int (length (Int32SliceToStrSlice ?ports))) = Some rest"
    using two by (simp add: subslice_def Int32SliceToStrSlice_def)
  obtain names where names: "GetRolesDomainNames E job [RoleMaster, RoleWorker] = Some names"
    by (simp add: GetRolesDomainNames_def GetRoleReplicas_ok[OF ok])
  have nrt: "\<not> (rt \<noteq> RoleWorker \<and> rt \<noteq> RoleMaster)" using rt by blast
  let ?pre = "[env_value ''BAGUA_SSH_PORT'' p0, env_value ''SERVICE_DOMAIN_NAME'' (join
      [GetServiceDomainName (job_Name job) (job_Namespace job) RoleWorker,
       GetServiceDomainName (job_Name job) (job_Namespace job) RoleLauncher] '' ''),
      \<lparr>env_Name = ''LOCAL_IP'', env_Value = [], env_FieldPath = Some ''status.hostIP''\<rparr>]"
  let ?mid = "[env_value ''MASTER_ADDR'' (GetPodDomainName E (job_Name job) (job_Namespace job) RoleMaster 0), env_value ''MASTER_PORT'' p1]"
  let ?post = "[env_value ''BAGUA_NODE_DOMAIN_NAMES'' (join names '',''), env_value ''BAGUA_AVAILABLE_PORTS'' (join rest '','')]"
  have run: "getEnvUnderStaticMode E job rt (itoa (int i)) = Some (?pre @ [env_value ''WORLD_SIZE'' (itoa (int (w + 1)))] @ ?mid @
       [env_value ''RANK'' (itoa (int (worker_rank (rt, i))))] @ ?post)"
    unfolding getEnvUnderStaticMode_def if_not_P[OF nrt] Let_def rank p01 s names GetRoleReplicas_ok[OF ok] Option.bind.simps size append.simps ..
  show ?thesis by (rule that[OF run]) (simp_all add: env_value_def Bagua_ports_def e)
qed

lemma elastic_pod_run:
  assumes ok: "roles_ok (spec_RoleSpecs (job_Spec job))" and e: "enableElastic (job_Spec job) = Some True"
    and w: "role_replicas job RoleWorker = int w" "i < w" "w + 2 \<le> length ports"
    and ports: "ports = spec_AvailablePorts (job_Spec job)" "int (length ports) < 2 ^ 63"
    and ne: "ps_Containers (pt_Spec t) \<noteq> []"
  shows "\<exists>t'. SetClusterSpec (fw_controller (BaguaFramework E)) job t RoleWorker (itoa (int i)) = Some (None, t') \<and>
      ctr_Ports (hd (ps_Containers (pt_Spec t'))) =
        ctr_Ports (hd (ps_Containers (pt_Spec t))) @ map (\<lambda>p. \<lparr>cp_Name = [], cp_ContainerPort = p\<rparr>) (port_share ports w i) \<and>
      (\<forall>c \<in> set (ps_Containers (pt_Spec t')). container_env c ''BAGUA_SSH_PORT'' = Some (itoa (sint (hd (port_share ports w i)))))"
proof -
  let ?ssh = "env_value ''BAGUA_SSH_PORT'' (itoa (sint (hd (port_share ports w i))))"
  from elastic_env_run[OF ok e w[unfolded ports(1)] ports(2)[unfolded ports(1)], of E, folded ports(1)]
  obtain pre av where env: "getEnvUnderElasticMode E job RoleWorker (itoa (int i)) = Some (pre @ [?ssh, env_value ''BAGUA_AVAILABLE_PORTS'' av])"
    and p: "Bagua_ports job RoleWorker (itoa (int i)) = Some (port_share ports w i)" by metis
  from Bagua_SetClusterSpec_run[OF e _ p ne, of E, simplified, OF env] obtain t' where
    t': "Bagua_SetClusterSpec E job t RoleWorker (itoa (int i)) = Some (None, t')"
      "map ctr_Env (ps_Containers (pt_Spec t')) =
        map ctr_Env (ps_Containers (pt_Spec (add_env (pre @ [?ssh, env_value ''BAGUA_AVAILABLE_PORTS'' av]) t)))"
      "ctr_Ports (hd (ps_Containers (pt_Spec t'))) =
        ctr_Ports (hd (ps_Containers (pt_Spec t))) @ map (\<lambda>p. \<lparr>cp_Name = [], cp_ContainerPort = p\<rparr>) (port_share ports w i)" by metis
  have "container_env c ''BAGUA_SSH_PORT'' = Some (itoa (sint (hd (port_share ports w i))))" if "c \<in> set (ps_Containers (pt_Spec t'))" for c
  proof -
    from that have "ctr_Env c \<in> set (map ctr_Env (ps_Containers (pt_Spec t')))" by simp
    then obtain old where "ctr_Env c = old @ pre @ [?ssh, env_value ''BAGUA_AVAILABLE_PORTS'' av]"
      unfolding t'(2) by (auto simp: add_env_containers)
    then show ?thesis by (simp add: container_env_def env_value_def)
  qed
  with t' show ?thesis by (auto simp: BaguaFramework_def)
qed

section \<open>Properties\<close>

definition Bagua_group :: "AresJob \<Rightarrow> process set" where
  "Bagua_group job = master_and_workers (nat (role_replicas job RoleWorker))"

definition Bagua_size :: "AresJob \<Rightarrow> nat" where
  "Bagua_size job = nat (role_replicas job RoleWorker) + 1"

text \<open>
  C26. In static mode the master and the workers of a validated bagua job form one process group: \<open>SetClusterSpec\<close> does
  not panic on their pods, every container gets as world size the number of workers plus one, and the ranks are exactly
  the numbers below it. The number of workers must be below the largest int32, since the world size is computed at that width.
\<close>

theorem Bagua_static_ranks:
  assumes "roles_ok (spec_RoleSpecs (job_Spec job))" "Bagua_Validate job = Some None" "enableElastic (job_Spec job) = Some False"
    and "0 \<le> role_replicas job RoleWorker" "role_replicas job RoleWorker < 2 ^ 31 - 1"
    and "\<forall>m \<in> Bagua_group job. k m < length (ps_Containers (pt_Spec (t m)))"
  shows "good_ranks (process_env (fw_controller (BaguaFramework E)) job t k) (Bagua_group job) (Bagua_size job)"
  unfolding Bagua_group_def Bagua_size_def
proof (rule good_ranksI[OF bij_worker_rank])
  let ?w = "nat (role_replicas job RoleWorker)"
  fix m assume m: "m \<in> master_and_workers ?w"
  have w: "role_replicas job RoleWorker = int ?w" "int ?w < 2 ^ 31 - 1" using assms(4,5) by simp_all
  have two: "2 \<le> length (spec_AvailablePorts (job_Spec job))" using Bagua_valid(1)[OF assms(1-3)] by simp
  have km: "k m < length (ps_Containers (pt_Spec (t m)))" using assms(6) m by (simp add: Bagua_group_def)
  then have ne: "ps_Containers (pt_Spec (t m)) \<noteq> []" by auto
  from m have m': "(fst m, snd m) \<in> master_and_workers ?w" by simp
  from static_env_run[OF assms(1,3) w two m', of E] obtain pre mid post where env:
    "getEnvUnderStaticMode E job (fst m) (itoa (int (snd m))) = Some (pre @ [env_value ''WORLD_SIZE'' (itoa (int (?w + 1)))] @ mid @
       [env_value ''RANK'' (itoa (int (worker_rank (fst m, snd m))))] @ post)"
    and notin: "''WORLD_SIZE'' \<notin> env_Name ` set (mid @ post)" "''RANK'' \<notin> env_Name ` set post"
    and ports: "Bagua_ports job (fst m) (itoa (int (snd m))) = Some (spec_AvailablePorts (job_Spec job))" by metis
  let ?env = "pre @ [env_value ''WORLD_SIZE'' (itoa (int (?w + 1)))] @ mid @ [env_value ''RANK'' (itoa (int (worker_rank (fst m, snd m))))] @ post"
  have "(if False then getEnvUnderElasticMode E job (fst m) (itoa (int (snd m)))
      else getEnvUnderStaticMode E job (fst m) (itoa (int (snd m)))) = Some ?env" by (simp only: env if_False)
  from Bagua_SetClusterSpec_run[OF assms(3) this ports ne] obtain t' where
    run: "Bagua_SetClusterSpec E job (t m) (fst m) (itoa (int (snd m))) = Some (None, t')"
    and t': "map ctr_Env (ps_Containers (pt_Spec t')) = map ctr_Env (ps_Containers (pt_Spec (add_env ?env (t m))))" by metis
  have s: "SetClusterSpec (fw_controller (BaguaFramework E)) = Bagua_SetClusterSpec E" by (simp add: BaguaFramework_def)
  note env = process_env_add[where ctl = "fw_controller (BaguaFramework E)" and t = t and m = m and k = k, unfolded s, OF run t' km]
  have skip: "map_of (rev (map (\<lambda>e. (env_Name e, env_Value e)) xs)) n = None" if "n \<notin> env_Name ` set xs" for n xs
    using that by (simp add: map_of_eq_None_iff image_image)
  show "process_env (fw_controller (BaguaFramework E)) job t k m ''RANK'' = Some (itoa (int (worker_rank m)))"
    by (rule env) (use skip[OF notin(2)] in \<open>simp add: env_value_def map_add_def\<close>)
  show "process_env (fw_controller (BaguaFramework E)) job t k m ''WORLD_SIZE'' = Some (itoa (int (?w + 1)))"
    by (rule env) (use skip[OF notin(1)] in \<open>simp add: env_value_def map_add_def split: option.splits\<close>)
qed

definition bagua_job :: "bool \<Rightarrow> (ReplicaType \<times> RoleSpec option) list \<Rightarrow> AresJob" where
  "bagua_job elastic roles = (plain_job FrameworkBagua roles)\<lparr>job_Spec := (plain_spec FrameworkBagua roles)\<lparr>
     spec_AvailablePorts := [10, 11, 12, 13, 14, 15, 16, 17],
     spec_Framework := (spec_Framework (plain_spec FrameworkBagua roles))\<lparr>
       fw_Bagua := Some \<lparr>EnableElastic = elastic, MinReplicas = None, MaxReplicas = None\<rparr>\<rparr>\<rparr>\<rparr>"

definition bagua_role :: "int32 \<Rightarrow> RoleSpec option" where
  "bagua_role n = Some (plain_role n [] [plain_container FrameworkBagua []])"

theorem Bagua_static_ranks_witness:
  "good_ranks (process_env (fw_controller (BaguaFramework plain_ext)) (bagua_job False [(RoleMaster, bagua_role 1), (RoleWorker, bagua_role 2)])
      (\<lambda>m. zero_PodTemplateSpec\<lparr>pt_Spec := zero_PodSpec\<lparr>ps_Containers := [plain_container FrameworkBagua []]\<rparr>\<rparr>) (\<lambda>m. 0))
     (master_and_workers 2) 3"
proof -
  let ?job = "bagua_job False [(RoleMaster, bagua_role 1), (RoleWorker, bagua_role 2)]"
  have 1: "roles_ok (spec_RoleSpecs (job_Spec ?job))"
    by (simp add: bagua_job_def bagua_role_def plain_defs roles_ok_def gm_ok_def gm_keys_def go_consts)
  have 2: "Bagua_Validate ?job = Some None" by code_simp
  have 3: "enableElastic (job_Spec ?job) = Some False" by code_simp
  have 4: "role_replicas ?job RoleWorker = 2" by code_simp
  from Bagua_static_ranks[OF 1 2 3, of "\<lambda>m. 0" "\<lambda>m. zero_PodTemplateSpec\<lparr>pt_Spec := zero_PodSpec\<lparr>ps_Containers := [plain_container FrameworkBagua []]\<rparr>\<rparr>"] 4
  show ?thesis by (simp add: Bagua_group_def Bagua_size_def)
qed

text \<open>
  C23. In elastic mode a validated bagua job shares out its ports without conflict. The first two ports go to etcd; every
  worker gets a nonempty share of the rest, all shares have the same length, and etcd's ports followed by the shares in the
  order of the workers are an initial part of the available ports, so that no position is given twice.
  \<open>SetClusterSpec\<close> does not panic on any worker: it appends the share to the ports of the first container and names the first of
  them in BAGUA_SSH_PORT, in every container.
\<close>

theorem Bagua_private_ports:
  assumes "roles_ok (spec_RoleSpecs (job_Spec job))" "Bagua_Validate job = Some None" "enableElastic (job_Spec job) = Some True"
    and "role_replicas job RoleWorker = int w" "0 < w" "int w < 2 ^ 31 - 2"
    and "ports = spec_AvailablePorts (job_Spec job)" "int (length ports) < 2 ^ 63"
  shows "\<exists>share. Bagua_ports job RoleEtcd index = Some (take 2 ports) \<and>
    prefix (take 2 ports @ concat (map share [0..<w])) ports \<and>
    (\<forall>i < w. share i \<noteq> [] \<and> length (share i) = length (share 0) \<and>
      (\<forall>t. ps_Containers (pt_Spec t) \<noteq> [] \<longrightarrow>
        (\<exists>t'. SetClusterSpec (fw_controller (BaguaFramework E)) job t RoleWorker (itoa (int i)) = Some (None, t') \<and>
          ctr_Ports (hd (ps_Containers (pt_Spec t'))) =
            ctr_Ports (hd (ps_Containers (pt_Spec t))) @ map (\<lambda>p. \<lparr>cp_Name = [], cp_ContainerPort = p\<rparr>) (share i) \<and>
          (\<forall>c \<in> set (ps_Containers (pt_Spec t')). container_env c ''BAGUA_SSH_PORT'' = Some (itoa (sint (hd (share i))))))))"
proof -
  let ?share = "port_share ports w"
  have "sint (2 + replicas_of (gm_ptr (spec_RoleSpecs (job_Spec job)) RoleWorker)) = 2 + int w"
    using assms(4,6) by (simp add: sint_add32)
  with Bagua_valid(2)[OF assms(1-3)] assms(7) have len: "w + 2 \<le> length ports" by simp
  have etcd: "Bagua_ports job RoleEtcd index = Some (take 2 ports)"
    using len assms(3,7) by (simp add: Bagua_ports_def subslice_def)
  show ?thesis
    using etcd port_shares[OF len assms(5)] elastic_pod_run[OF assms(1,3,4) _ len assms(7,8)] by (intro exI[of _ ?share]) (auto simp: assms(5))
qed

theorem Bagua_private_ports_witness:
  "\<exists>share. Bagua_ports (bagua_job True [(RoleEtcd, bagua_role 1), (RoleWorker, bagua_role 3)]) RoleEtcd ''0'' = Some [10, 11] \<and>
     prefix ([10, 11] @ share 0 @ share (1::nat) @ share 2) [10, 11, 12, 13, 14, 15, 16, 17 :: int32] \<and>
     length (share 1) = length (share 0) \<and> share 0 \<noteq> []"
proof -
  let ?job = "bagua_job True [(RoleEtcd, bagua_role 1), (RoleWorker, bagua_role 3)]"
  have 1: "roles_ok (spec_RoleSpecs (job_Spec ?job))"
    by (simp add: bagua_job_def bagua_role_def plain_defs roles_ok_def gm_ok_def gm_keys_def go_consts)
  have 2: "Bagua_Validate ?job = Some None" by code_simp
  have 3: "enableElastic (job_Spec ?job) = Some True" by code_simp
  have 4: "role_replicas ?job RoleWorker = int 3" by code_simp
  have 5: "[10, 11, 12, 13, 14, 15, 16, 17] = spec_AvailablePorts (job_Spec ?job)" by code_simp
  obtain share where share: "Bagua_ports ?job RoleEtcd ''0'' = Some [10, 11]" "prefix ([10, 11] @ concat (map share [0..<3])) [10, 11, 12, 13, 14, 15, 16, 17 :: int32]"
    "\<forall>i < 3. share i \<noteq> [] \<and> length (share i) = length (share 0)"
    using Bagua_private_ports[OF 1 2 3 4 _ _ 5, of "''0''" plain_ext] by auto
  have "[0..<3] = [0, 1, 2::nat]" by code_simp
  then have "concat (map share [0..<3]) = share 0 @ share 1 @ share 2" by simp
  with share(1,2) share(3)[rule_format, of 0] share(3)[rule_format, of 1] show ?thesis by (intro exI[of _ share]) simp
qed

end
