(* ===== verification/Frameworks.thy ===== *)
theory Frameworks
  imports Tensorflow Pytorch Dask Bagua
begin

text \<open>
  \<open>frameworks/factory.go\<close> and \<open>setupFrameworks\<close> of \<open>controllers/aresjob_controller.go\<close>: the registry of builders, and
  the table of frameworks from which the controller picks one by its type. Every framework of the table interprets the
  interfaces \<open>framework_defaults\<close> and \<open>pod_identity\<close>; the theorems read these facts back for whatever framework a job names.
\<close>

section \<open>The registry\<close>

type_synonym FrameworkBuilder = "ext \<Rightarrow> Framework"
type_synonym frameworkFactory = "(string \<times> FrameworkBuilder) list"

definition Register :: "frameworkFactory \<Rightarrow> string \<Rightarrow> FrameworkBuilder \<Rightarrow> frameworkFactory" where
  "Register f name builder = AList.update name builder f"

text \<open>The calls of \<open>RegisterBuilder\<close> in \<open>init\<close>, in order.\<close>

definition registrations :: "(string \<times> FrameworkBuilder) list" where
  "registrations =
     [(FrameworkBagua, BaguaFramework), (FrameworkCustom, CustomFramework), (FrameworkDask, DaskFramework),
      (FrameworkDemo, DemoFramework), (FrameworkMPI, MPIFramework), (FrameworkPytorch, PytorchFramework),
      (FrameworkStandalone, StandaloneFramework), (FrameworkTensorflow, TensorflowFramework)]"

definition Factory :: frameworkFactory where
  "Factory = fold (\<lambda>(name, builder) f. Register f name builder) registrations []"

text \<open>
  The table is filled in the order in which Go visits the builders, an argument here. The reconciler each framework gets is
  a copy of the operator's with the framework as its controller (\<open>Copy\<close>, \<open>SetController\<close>).
\<close>

definition setupFrameworks :: "ext \<Rightarrow> frameworkFactory \<Rightarrow> (string, Framework) gomap" where
  "setupFrameworks E builders = Some (fold (\<lambda>(_, builder) fs. let f = builder E in AList.update (GetName f) f fs) builders [])"

definition getFramework :: "(string, Framework) gomap \<Rightarrow> string \<Rightarrow> Framework option" where
  "getFramework fs name = gm_get fs name"

definition framework_reconciler :: "Reconciler \<Rightarrow> Framework \<Rightarrow> Reconciler" where
  "framework_reconciler R f = R\<lparr>r_ctl := fw_controller f\<rparr>"

section \<open>Lemmas\<close>

lemma framework_names_distinct: "distinct (map fst registrations)"
  by (simp add: registrations_def go_consts)

lemma Factory_registrations: "Factory = registrations"
  by (simp add: Factory_def registrations_def Register_def go_consts)

lemma GetName_registrations: "(name, b) \<in> set registrations \<Longrightarrow> GetName (b E) = name"
  by (auto simp: registrations_def BaguaFramework_def CustomFramework_def DaskFramework_def DemoFramework_def MPIFramework_def
      PytorchFramework_def StandaloneFramework_def TensorflowFramework_def)

lemma fold_update_map_of:
  "distinct (map fst bs) \<Longrightarrow> map_of (fold (\<lambda>(k, v). AList.update k v) bs al) = map_of al ++ map_of bs"
proof (induction bs arbitrary: al)
  case (Cons b bs)
  obtain k v where b: "b = (k, v)" by (cases b)
  with Cons.prems have "map_of bs k = None" by (simp add: map_of_eq_None_iff)
  with Cons b show ?case by (auto simp: update_conv' map_add_def fun_eq_iff split: option.splits)
qed simp

lemma getFramework_setup:
  assumes "set builders = set registrations" "distinct (map fst builders)"
  shows "getFramework (setupFrameworks E builders) name = map_option (\<lambda>b. b E) (map_of registrations name)"
proof -
  have n: "GetName (b E) = k" if "(k, b) \<in> set builders" for k b using that assms(1) GetName_registrations by blast
  have "fold (\<lambda>(_, builder) fs. let f = builder E in AList.update (GetName f) f fs) builders al =
      fold (\<lambda>(k, v). AList.update k v) (map (\<lambda>(k, b). (k, b E)) builders) al" for al
    using n by (induction builders arbitrary: al) (auto simp: Let_def)
  then have "getFramework (setupFrameworks E builders) name = map_of (map (\<lambda>(k, b). (k, b E)) builders) name"
    using fold_update_map_of[of "map (\<lambda>(k, b). (k, b E)) builders" "[]"] assms(2)
    by (simp add: getFramework_def setupFrameworks_def gm_get_def comp_def case_prod_beta)
  also have "\<dots> = map_option (\<lambda>b. b E) (map_of builders name)" by (simp add: map_of_map)
  also have "map_of builders = map_of registrations"
    using assms framework_names_distinct by (simp add: map_of_inject_set)
  finally show ?thesis .
qed

lemma registered_interfaces:
  assumes "(name, b) \<in> set registrations"
  shows "framework_defaults (SetDefault (b E))" "pod_identity (fw_controller (b E))"
proof -
  note defs = BaguaFramework_def CustomFramework_def DaskFramework_def DemoFramework_def MPIFramework_def
    PytorchFramework_def StandaloneFramework_def TensorflowFramework_def
  have b: "b \<in> {BaguaFramework, CustomFramework, DaskFramework, DemoFramework, MPIFramework, PytorchFramework, StandaloneFramework, TensorflowFramework}"
    using assms by (auto simp: registrations_def)
  have "SetDefault (b E) \<in> {Bagua_SetDefault, Custom_SetDefault, Dask_SetDefault, Demo_SetDefault, MPI_SetDefault, Pytorch_SetDefault,
      Standalone_SetDefault, Tensorflow_SetDefault}" using b by (auto simp: defs)
  then show "framework_defaults (SetDefault (b E))"
    using bagua_defaults.framework_defaults_axioms custom_defaults.framework_defaults_axioms dask_defaults.framework_defaults_axioms
      demo_defaults.framework_defaults_axioms mpi_defaults.framework_defaults_axioms pytorch_defaults.framework_defaults_axioms
      standalone_defaults.framework_defaults_axioms tensorflow_defaults.framework_defaults_axioms by auto
  show "pod_identity (fw_controller (b E))"
    using b bagua_pods.pod_identity_axioms custom_pods.pod_identity_axioms dask_pods.pod_identity_axioms
      demo_pods.pod_identity_axioms mpi_pods.pod_identity_axioms pytorch_pods.pod_identity_axioms
      standalone_pods.pod_identity_axioms tensorflow_pods.pod_identity_axioms by auto
qed

text \<open>Names and overridden methods, for every registered framework.\<close>

lemma registered_services:
  assumes "(name, b) \<in> set registrations"
  shows "GenerateServiceName (fw_controller (b E)) = GetGeneralSharedName" "GeneratePodName (fw_controller (b E)) = GenGeneralName E"
    and "fw_ReconcileServices (b E) R job services role spec tr = Some (err, tr') \<Longrightarrow>
      tr' = tr \<or> ReconcileServices R job services role spec tr = Some (err, tr')"
    and "fw_ReconcileJobs (b E) = None \<or> fw_ReconcileJobs (b E) = Some Demo_ReconcileJobs"
  using assms
  by (auto simp: registrations_def BaguaFramework_def CustomFramework_def DaskFramework_def DemoFramework_def MPIFramework_def
      PytorchFramework_def StandaloneFramework_def TensorflowFramework_def Pytorch_names_def TF_names_def base_controller_def
      Dask_ReconcileServices_def Demo_ReconcileServices_def MPI_ReconcileServices_def Pytorch_ReconcileServices_def
      Standalone_ReconcileServices_def ReconcileServices_except_def split: if_splits)

end
