(* ===== verification/Controller.thy ===== *)
theory Controller
  imports Jobs Frameworks
begin

text \<open>
  \<open>controllers/aresjob_controller.go\<close> and \<open>controllers/job.go\<close>: the reconciliation of one job, with its defaults, its
  validation, the gate of the expectations, the pod group, kubeflow's reconciliation of pods and services, the
  propagation of metadata and role phases, and the delayed clean-up; and the queue worker and finalization behind it.

  The state a round threads is the trace of calls and the role cache. The job object is read afresh in each round.
\<close>

section \<open>The controller\<close>

record AresJobReconciler =
  c_Reconciler :: Reconciler
  c_Frameworks :: "(string, Framework) gomap"

record Result =
  Requeue :: bool
  RequeueAfter :: int

abbreviation done_result :: Result where "done_result \<equiv> \<lparr>Requeue = False, RequeueAfter = 0\<rparr>"
abbreviation requeue_result :: Result where "requeue_result \<equiv> \<lparr>Requeue = True, RequeueAfter = 0\<rparr>"

text \<open>
  The third-party functions of a round: the defaulting functions registered in client-go's scheme, and kubeflow's
  \<open>ReconcileJobs\<close>.
\<close>

record Libs =
  scheme_Default :: "AresJob \<Rightarrow> AresJob"
  JC_ReconcileJobs :: JobController_ReconcileJobs

section \<open>Defaults and validation\<close>

definition setInvalidDefinition :: "AresJobReconciler \<Rightarrow> AresJob \<Rightarrow> string \<Rightarrow> effect list \<Rightarrow> go_error option \<times> effect list" where
  "setInvalidDefinition r job msg tr =
     (let R = c_Reconciler r;
          call = UpdateStatus (job\<lparr>job_Status := SetInvalidDefinition (r_ext R) (job_Status job) msg\<rparr>)
      in (answer_err (r_server R tr call), tr @ [call]))"

text \<open>
  The specs are compared with \<open>reflect.DeepEqual\<close>. Maps are lists of entries here and defaulting keeps their order, so equality of
  the model's values decides it for the pairs that occur.
\<close>

definition setDefault ::
  "AresJobReconciler \<Rightarrow> Libs \<Rightarrow> AresJob \<Rightarrow> AresJob \<Rightarrow> Framework \<Rightarrow> effect list \<Rightarrow> (bool result \<times> AresJob \<times> effect list) option" where
  "setDefault r L old job framework tr = do {
     let R = c_Reconciler r;
     let job1 = scheme_Default L job;
     spec \<leftarrow> SetDefault framework (job_Spec job1);
     job2 \<leftarrow> Default (r_ext R) (job1\<lparr>job_Spec := spec\<rparr>);
     if job_Spec old = job_Spec job2 then Some (Inr False, job2, tr)
     else
       let call = UpdateJob job2
       in Some (case answer_err (r_server R tr call) of
            Some err \<Rightarrow> (Inl err, job2, tr @ [call])
          | None \<Rightarrow> (Inr True, job2, tr @ [call])) }"

definition validate :: "AresJobReconciler \<Rightarrow> AresJob \<Rightarrow> Framework \<Rightarrow> effect list \<Rightarrow> (go_error option \<times> effect list) option" where
  "validate r job framework tr = do {
     err1 \<leftarrow> ValidateCreate job;
     case err1 of
       Some err \<Rightarrow> Some (err1, snd (setInvalidDefinition r job (''common validation failed: '' @ ErrorText (r_ext (c_Reconciler r)) err) tr))
     | None \<Rightarrow> do {
         err2 \<leftarrow> Validate framework job;
         case err2 of
           Some err \<Rightarrow> Some (err2, snd (setInvalidDefinition r job (''framework validation failed: '' @ ErrorText (r_ext (c_Reconciler r)) err) tr))
         | None \<Rightarrow> Some (None, tr) } }"

section \<open>controllers/job.go\<close>

text \<open>\<open>time.Time.Sub\<close>, which saturates.\<close>

definition time_Sub :: "int \<Rightarrow> int \<Rightarrow> int" where
  "time_Sub t u = max (- (2 ^ 63)) (min (2 ^ 63 - 1) (t - u))"

definition transition_time :: "AresJobStatus \<Rightarrow> JobConditionType \<Rightarrow> int \<Rightarrow> int" where
  "transition_time status ctype now =
     (case GetCondition status ctype of
        Some cond \<Rightarrow> (case jc_LastTransitionTime cond of Some t \<Rightarrow> t | None \<Rightarrow> now)
      | None \<Rightarrow> now)"

definition OnJobFinished :: "AresJobReconciler \<Rightarrow> int \<Rightarrow> AresJob \<Rightarrow> effect list \<Rightarrow> effect list" where
  "OnJobFinished r now job tr =
     (let phase = st_Phase (job_Status job);
          add = (\<lambda>ttl ctype.
            let duration0 = wrap64 (ttl - time_Sub now (transition_time (job_Status job) ctype now));
                duration = (if duration0 < 0 then 0 else duration0)
            in tr @ [CleanUpAddAfter (job_Namespace job) (job_Name job) duration])
      in if \<not> IsFinished phase then tr
         else if phase = JobPhaseFailed then
           (case spec_TTLSecondsAfterFailed (job_Spec job) of
              None \<Rightarrow> tr
            | Some seconds \<Rightarrow> add (wrap64 (sint seconds * Second)) JobFailed)
         else
           (case TTLSecondsAfterSucceeded (r_conf (c_Reconciler r)) of
              None \<Rightarrow> tr
            | Some ttl \<Rightarrow> add ttl JobSucceeded))"

text \<open>\<open>cleanupNextItem\<close>: \<open>item\<close> is what \<open>Get\<close> returns, none on shutdown; \<open>W\<close> answers for the job of the item.\<close>

definition cleanupNextItem ::
  "AresJobReconciler \<Rightarrow> World \<Rightarrow> (string \<times> string) option \<Rightarrow> effect list \<Rightarrow> bool \<times> effect list" where
  "cleanupNextItem r W item tr =
     (case item of
        None \<Rightarrow> (False, tr)
      | Some (ns, name) \<Rightarrow>
          let tr1 =
            (case GetJobFromInformerCache W tr of
               Inl err \<Rightarrow> if IsNotFound err then tr @ [CleanUpForget ns name] else tr @ [CleanUpAddRateLimited ns name]
             | Inr aresjob \<Rightarrow>
                 (case getFramework (c_Frameworks r) (spec_FrameworkType (job_Spec aresjob)) of
                    None \<Rightarrow> tr @ [CleanUpForget ns name]
                  | Some framework \<Rightarrow>
                      let (err, tr2) = CleanUpResources (framework_reconciler (c_Reconciler r) framework) W aresjob tr
                      in if err \<noteq> None then tr2 @ [CleanUpAddRateLimited ns name] else tr2 @ [CleanUpForget ns name]))
          in (True, tr1 @ [CleanUpDone ns name]))"

fun handle_roles ::
  "ext \<Rightarrow> World \<Rightarrow> effect list \<Rightarrow> AresJob \<Rightarrow> AresJob \<Rightarrow> (ReplicaType \<times> RoleStatus option) list \<Rightarrow> Cache option
     \<Rightarrow> (go_error option \<times> Cache option) option" where
  "handle_roles E W tr old job [] c = Some (None, c)"
| "handle_roles E W tr old job ((roleName, p) # rest) c = do {
     oldPhase \<leftarrow> (case gm_get (st_RoleStatuses (job_Status old)) roleName of
                    None \<Rightarrow> Some RolePhasePending
                  | Some q \<Rightarrow> do { status \<leftarrow> q; Some (role_Phase status) });
     roleStatus \<leftarrow> p;
     if oldPhase = role_Phase roleStatus \<and> role_Phase roleStatus \<noteq> RolePhaseRunning
     then handle_roles E W tr old job rest c
     else do {
       (err, c') \<leftarrow> OnRolePhaseChanged E c (w_role_pods W tr roleName) job roleName (role_Phase roleStatus);
       if err \<noteq> None then Some (err, c') else handle_roles E W tr old job rest c' } }"

definition HandleRolePhases ::
  "AresJobReconciler \<Rightarrow> World \<Rightarrow> effect list \<Rightarrow> AresJob \<Rightarrow> AresJob \<Rightarrow> Cache option \<Rightarrow> (go_error option \<times> Cache option) option" where
  "HandleRolePhases r W tr old job c = do {
     dep \<leftarrow> HasDependence (job_Spec job);
     if \<not> dep then Some (None, c)
     else case getFramework (c_Frameworks r) (spec_FrameworkType (job_Spec job)) of
       None \<Rightarrow> Some (None, c)
     | Some framework \<Rightarrow>
         handle_roles (r_ext (c_Reconciler r)) W tr old job (gm_entries (st_RoleStatuses (job_Status job))) c }"

definition deleteJobCache :: "string \<Rightarrow> string \<Rightarrow> Cache option \<Rightarrow> go_error option \<times> Cache option" where
  "deleteJobCache ns name c =
     (case c of
        None \<Rightarrow> (None, None)
      | Some ch \<Rightarrow> let (err, ch') = DeleteJobCache ch (NamespacedNameToKey ns name) in (err, Some ch'))"

definition finalize :: "AresJobReconciler \<Rightarrow> AresJob \<Rightarrow> Cache option \<Rightarrow> effect list \<Rightarrow> go_error option \<times> Cache option \<times> effect list" where
  "finalize r job c tr =
     (let R = c_Reconciler r;
          tr1 = CleanForJob (r_ext R) job tr
      in if \<not> ContainsFinalizer (r_ext R) (job_Finalizers job) AresJobFinalizer then (None, c, tr1)
         else
           let (err, c') = deleteJobCache (job_Namespace job) (job_Name job) c
           in if err \<noteq> None then (err, c', tr1)
              else
                let call = UpdateJob (job\<lparr>job_Finalizers := RemoveFinalizer (r_ext R) (job_Finalizers job) AresJobFinalizer\<rparr>)
                in (answer_err (r_server R tr1 call), c', tr1 @ [call]))"

section \<open>Reconcile\<close>

text \<open>What happens to the error of the framework's reconciliation.\<close>

definition reconcile_failed ::
  "AresJobReconciler \<Rightarrow> AresJob \<Rightarrow> go_error \<Rightarrow> effect list \<Rightarrow> (Result \<times> go_error option) \<times> effect list" where
  "reconcile_failed r job err tr =
     (if IsInvalid err then ((done_result, None), snd (setInvalidDefinition r job (''failed to reconcile: '' @ ErrorText (r_ext (c_Reconciler r)) err) tr))
      else case IsReconcileError err of
        Some e \<Rightarrow> ((\<lparr>Requeue = False, RequeueAfter = RetryAfter e\<rparr>, ReconcileError_Err e), tr)
      | None \<Rightarrow> ((requeue_result, Some err), tr))"

text \<open>The end of a round whose reconciliation reported no error.\<close>

definition reconcile_finish ::
  "AresJobReconciler \<Rightarrow> World \<Rightarrow> AresJob \<Rightarrow> AresJob \<Rightarrow> Cache option \<Rightarrow> effect list
     \<Rightarrow> ((Result \<times> go_error option) \<times> Cache option \<times> effect list) option" where
  "reconcile_finish r W aresjob job c tr =
     (let (err, tr1) = SyncFromJob (c_Reconciler r) W job tr
      in if err \<noteq> None then Some ((requeue_result, err), c, tr1)
         else do {
           (err2, c') \<leftarrow> HandleRolePhases r W tr1 aresjob job c;
           if err2 \<noteq> None then Some ((requeue_result, err2), c', tr1)
           else Some ((done_result, None), c',
                      if IsFinished (st_Phase (job_Status job)) then OnJobFinished r (w_now W) job tr1 else tr1) })"

text \<open>\<open>framework.ReconcileJobs\<close>: the method of the framework, or the inherited one.\<close>

definition framework_ReconcileJobs ::
  "AresJobReconciler \<Rightarrow> World \<Rightarrow> Libs \<Rightarrow> Framework \<Rightarrow> AresJob \<Rightarrow> (ReplicaType, ReplicaSpec option) gomap \<Rightarrow> JobStatus \<Rightarrow> RunPolicy
     \<Rightarrow> effect list \<Rightarrow> (go_error option \<times> AresJob \<times> effect list) option" where
  "framework_ReconcileJobs r W L framework =
     (case fw_ReconcileJobs framework of
        Some f \<Rightarrow> f
      | None \<Rightarrow> ReconcileJobs (framework_reconciler (c_Reconciler r) framework) W (JC_ReconcileJobs L))"

text \<open>From the pod group on.\<close>

definition reconcile_objects ::
  "AresJobReconciler \<Rightarrow> World \<Rightarrow> Libs \<Rightarrow> Framework \<Rightarrow> AresJob \<Rightarrow> AresJob \<Rightarrow> Cache option \<Rightarrow> effect list
     \<Rightarrow> ((Result \<times> go_error option) \<times> Cache option \<times> effect list) option" where
  "reconcile_objects r W L framework aresjob job c tr = do {
     (action, job1, tr1) \<leftarrow> SyncFromPodGroup (c_Reconciler r) W job tr;
     case action of
       Inl err \<Rightarrow> Some ((requeue_result, Some err), c, tr1)
     | Inr ActionBreak \<Rightarrow> Some ((done_result, None), c, tr1)
     | Inr ActionSkip \<Rightarrow> reconcile_finish r W aresjob job1 c tr1
     | Inr ActionContinue \<Rightarrow> do {
         replicas \<leftarrow> GetReplicaSpecs (job_Spec job1);
         jobStatus \<leftarrow> st_JobStatus (job_Status job1);
         (err, job2, tr2) \<leftarrow> framework_ReconcileJobs r W L framework job1 replicas
            jobStatus (spec_RunPolicy (job_Spec job1)) tr1;
         case err of
           Some e \<Rightarrow> (let (res, tr3) = reconcile_failed r job2 e tr2 in Some (res, c, tr3))
         | None \<Rightarrow> reconcile_finish r W aresjob job2 c tr2 } }"

definition Reconcile ::
  "AresJobReconciler \<Rightarrow> World \<Rightarrow> Libs \<Rightarrow> Cache option \<Rightarrow> effect list
     \<Rightarrow> ((Result \<times> go_error option) \<times> Cache option \<times> effect list) option" where
  "Reconcile r W L c tr =
     (case w_getJob W tr of
        Inl err \<Rightarrow> Some (if IsNotFound err then (done_result, None) else (requeue_result, Some err), c, tr)
      | Inr aresjob \<Rightarrow>
          if job_DeletionTimestamp aresjob \<noteq> None then
            (let (err, c', tr1) = finalize r aresjob c tr
             in Some ((if err \<noteq> None then requeue_result else done_result, None), c', tr1))
          else if IsInvalidDefinition (job_Status aresjob) then Some ((done_result, None), c, tr)
          else case getFramework (c_Frameworks r) (spec_FrameworkType (job_Spec aresjob)) of
            None \<Rightarrow> Some ((done_result, None), c,
                      snd (setInvalidDefinition r aresjob (''unknown framework: '' @ spec_FrameworkType (job_Spec aresjob)) tr))
          | Some framework \<Rightarrow> do {
              (updated, job, tr1) \<leftarrow> setDefault r L aresjob aresjob framework tr;
              case updated of
                Inl err \<Rightarrow> Some ((requeue_result, Some err), c, tr1)
              | Inr True \<Rightarrow> Some ((done_result, None), c, tr1)
              | Inr False \<Rightarrow> do {
                  (err, tr2) \<leftarrow> validate r job framework tr1;
                  if err \<noteq> None then Some ((done_result, None), c, tr2)
                  else if \<not> SatisfiedExpectations (r_ext (c_Reconciler r)) (w_satisfied W tr2) job
                  then Some ((done_result, None), c, tr2)
                  else reconcile_objects r W L framework aresjob job c tr2 } })"

section \<open>Lemmas\<close>

text \<open>Calls that create, change or delete an object other than the job itself.\<close>

fun object_call :: "effect \<Rightarrow> bool" where
  "object_call (PodsCreate ns p) = True"
| "object_call (DeletePod ns n) = True"
| "object_call (CreateService ns s ref) = True"
| "object_call (DeleteService ns n) = True"
| "object_call (DeletePodGroup ns n) = True"
| "object_call (SyncPodGroup ns n m) = True"
| "object_call (PatchObject ns n p) = True"
| "object_call _ = False"

lemma setInvalidDefinition_call: "\<exists>j. snd (setInvalidDefinition r job msg tr) = tr @ [UpdateStatus j]"
  by (simp add: setInvalidDefinition_def Let_def)

lemma CleanForJob_calls: "\<exists>ks. CleanForJob E job tr = tr @ map effect.DeleteExpectations ks"
  by (cases "KeyFunc E (job_Namespace job) (job_Name job)")
    (auto simp: CleanForJob_def Expectations.DeleteExpectations_def ExpectationsFuncApply_def apply_keys_append intro: exI[of _ "[]"])

lemma setDefault_outcome:
  assumes "setDefault r L old job f tr = Some (res, job2, tr')"
  shows "res = Inr False \<and> tr' = tr \<and> job_Spec job2 = job_Spec old \<or>
    (res = Inr True \<or> (\<exists>e. res = Inl e)) \<and> tr' = tr @ [UpdateJob job2]"
  using assms by (auto simp: setDefault_def Let_def Option.bind_eq_Some_conv split: if_splits option.splits)

lemma validate_outcome:
  assumes "validate r job f tr = Some (err, tr')"
  shows "err = None \<and> tr' = tr \<and> ValidateCreate job = Some None \<and> Validate f job = Some None \<or>
    err \<noteq> None \<and> (\<exists>j. tr' = tr @ [UpdateStatus j])"
proof -
  from assms obtain e1 where 1: "ValidateCreate job = Some e1" by (auto simp: validate_def Option.bind_eq_Some_conv)
  show ?thesis
  proof (cases e1)
    case (Some e)
    then show ?thesis using assms 1 by (auto simp: validate_def setInvalidDefinition_def Let_def)
  next
    case None
    with assms 1 obtain e2 where 2: "Validate f job = Some e2" by (auto simp: validate_def Option.bind_eq_Some_conv)
    then show ?thesis
      using assms 1 None by (cases e2) (auto simp: validate_def setInvalidDefinition_def Let_def)
  qed
qed

lemma finalize_calls:
  assumes "finalize r job c tr = (err, c', tr')"
  shows "grows (\<lambda>e. \<not> object_call e) tr tr'"
proof -
  obtain ks where ks: "CleanForJob (r_ext (c_Reconciler r)) job tr = tr @ map effect.DeleteExpectations ks" using CleanForJob_calls by blast
  have 1: "grows (\<lambda>e. \<not> object_call e) tr (tr @ map effect.DeleteExpectations ks)" by (rule grows_append) auto
  from assms ks have "tr' = tr @ map effect.DeleteExpectations ks \<or> (\<exists>j. tr' = (tr @ map effect.DeleteExpectations ks) @ [UpdateJob j])"
    by (auto simp: finalize_def Let_def split: if_splits prod.splits)
  with 1 show ?thesis by (auto intro: grows_snoc[OF 1, simplified])
qed

section \<open>What a round may touch\<close>

text \<open>A job that is ready for its objects to be reconciled.\<close>

definition ready_for_objects :: "AresJobReconciler \<Rightarrow> World \<Rightarrow> Libs \<Rightarrow> effect list \<Rightarrow> AresJob \<Rightarrow> Framework \<Rightarrow> AresJob \<Rightarrow> bool" where
  "ready_for_objects r W L tr aresjob f job \<longleftrightarrow>
     job_DeletionTimestamp aresjob = None \<and> \<not> IsInvalidDefinition (job_Status aresjob) \<and>
     getFramework (c_Frameworks r) (spec_FrameworkType (job_Spec aresjob)) = Some f \<and>
     setDefault r L aresjob aresjob f tr = Some (Inr False, job, tr) \<and> job_Spec job = job_Spec aresjob \<and>
     ValidateCreate job = Some None \<and> Validate f job = Some None \<and>
     SatisfiedExpectations (r_ext (c_Reconciler r)) (w_satisfied W tr) job"

text \<open>A framework that panics on its defaults takes the whole round with it: validation, which comes later, cannot prevent it.\<close>

lemma Reconcile_panics:
  assumes "w_getJob W tr = Inr job" "job_DeletionTimestamp job = None" "\<not> IsInvalidDefinition (job_Status job)"
    and "getFramework (c_Frameworks r) (spec_FrameworkType (job_Spec job)) = Some f" "SetDefault f (job_Spec (scheme_Default L job)) = None"
  shows "Reconcile r W L c tr = None"
  using assms by (simp add: Reconcile_def setDefault_def Let_def)

lemma Reconcile_cases:
  assumes run: "Reconcile r W L c tr = Some (res, c', tr')"
  shows "grows (\<lambda>e. \<not> object_call e) tr tr' \<or>
    (\<exists>aresjob f job. w_getJob W tr = Inr aresjob \<and> ready_for_objects r W L tr aresjob f job \<and>
       reconcile_objects r W L f aresjob job c tr = Some (res, c', tr'))"
proof (cases "w_getJob W tr")
  case (Inl e)
  with run show ?thesis by (auto simp: Reconcile_def)
next
  case (Inr aresjob)
  note step = run[unfolded Reconcile_def Inr sum.case]
  show ?thesis
  proof (cases "job_DeletionTimestamp aresjob \<noteq> None \<or> IsInvalidDefinition (job_Status aresjob)")
    case True
    obtain err c1 tr1 where f: "finalize r aresjob c tr = (err, c1, tr1)" by (cases "finalize r aresjob c tr")
    from True step f have "tr' = tr1 \<or> tr' = tr" by (auto split: if_splits)
    with finalize_calls[OF f] show ?thesis by auto
  next
    case live: False
    show ?thesis
    proof (cases "getFramework (c_Frameworks r) (spec_FrameworkType (job_Spec aresjob))")
      case None
      obtain j where "snd (setInvalidDefinition r aresjob (''unknown framework: '' @ spec_FrameworkType (job_Spec aresjob)) tr) = tr @ [UpdateStatus j]"
        using setInvalidDefinition_call by blast
      with step live None have "tr' = tr @ [UpdateStatus j]" by auto
      then show ?thesis by (auto intro!: grows_append)
    next
      case (Some f)
      with step live obtain upd job tr1 where d: "setDefault r L aresjob aresjob f tr = Some (upd, job, tr1)"
        by (auto simp: Option.bind_eq_Some_conv)
      show ?thesis
      proof (cases "upd = Inr False")
        case False
        with setDefault_outcome[OF d] have "tr1 = tr @ [UpdateJob job]" "upd = Inr True \<or> (\<exists>e. upd = Inl e)" by auto
        with step live Some d have "tr' = tr @ [UpdateJob job]" by auto
        then show ?thesis by (auto intro!: grows_append)
      next
        case True
        with setDefault_outcome[OF d] have tr1: "tr1 = tr" and spec: "job_Spec job = job_Spec aresjob" by auto
        with step live Some d True obtain err tr2 where v: "validate r job f tr = Some (err, tr2)"
          by (auto simp: Option.bind_eq_Some_conv)
        show ?thesis
        proof (cases "err = None \<and> SatisfiedExpectations (r_ext (c_Reconciler r)) (w_satisfied W tr) job")
          case False
          with step live Some d True tr1 v validate_outcome[OF v] have "tr' = tr \<or> (\<exists>j. tr' = tr @ [UpdateStatus j])" by auto
          then show ?thesis by (auto intro!: grows_append)
        next
          case ok: True
          with validate_outcome[OF v] have vv: "tr2 = tr" "ValidateCreate job = Some None" "Validate f job = Some None" by auto
          have "ready_for_objects r W L tr aresjob f job"
            using live Some d True tr1 spec vv ok by (simp add: ready_for_objects_def)
          moreover have "reconcile_objects r W L f aresjob job c tr = Some (res, c', tr')"
            using step live Some d True tr1 v ok vv by simp
          ultimately show ?thesis using Inr by blast
        qed
      qed
    qed
  qed
qed

section \<open>Defaults\<close>

definition standard_frameworks :: "AresJobReconciler \<Rightarrow> bool" where
  "standard_frameworks r \<longleftrightarrow> (\<exists>builders. set builders = set Factory \<and> distinct (map fst builders) \<and>
     c_Frameworks r = setupFrameworks (r_ext (c_Reconciler r)) builders)"

lemma standard_framework_interfaces:
  assumes "standard_frameworks r" "getFramework (c_Frameworks r) name = Some f"
  shows "GetName f = name" "framework_defaults (SetDefault f)" "pod_identity (fw_controller f)"
proof -
  from assms(1) obtain builders where b: "set builders = set registrations" "distinct (map fst builders)"
    "c_Frameworks r = setupFrameworks (r_ext (c_Reconciler r)) builders" by (auto simp: standard_frameworks_def Factory_registrations)
  from assms(2) getFramework_setup[OF b(1,2), of "r_ext (c_Reconciler r)" name] b(3)
  obtain bu where m: "map_of registrations name = Some bu" and f: "f = bu (r_ext (c_Reconciler r))" by auto
  have mem: "(name, bu) \<in> set registrations" using m by (rule map_of_SomeD)
  show "GetName f = name" using GetName_registrations[OF mem] f by simp
  show "framework_defaults (SetDefault f)" "pod_identity (fw_controller f)" using registered_interfaces[OF mem] f by simp_all
qed

lemma standard_framework_services:
  assumes "standard_frameworks r" "getFramework (c_Frameworks r) name = Some f" "E = r_ext (c_Reconciler r)"
  shows "GenerateServiceName (fw_controller f) = GetGeneralSharedName" "GeneratePodName (fw_controller f) = GenGeneralName E"
    and "fw_ReconcileServices f R job services role spec tr = Some (err, tr') \<Longrightarrow>
      tr' = tr \<or> ReconcileServices R job services role spec tr = Some (err, tr')"
    and "fw_ReconcileJobs f = None \<or> fw_ReconcileJobs f = Some Demo_ReconcileJobs"
proof -
  from assms(1) obtain builders where b: "set builders = set registrations" "distinct (map fst builders)"
    "c_Frameworks r = setupFrameworks E builders" by (auto simp: standard_frameworks_def Factory_registrations assms(3))
  from assms(2) getFramework_setup[OF b(1,2), of E name] b(3)
  obtain bu where m: "map_of registrations name = Some bu" and f: "f = bu E" by auto
  note mem = map_of_SomeD[OF m]
  show "GenerateServiceName (fw_controller f) = GetGeneralSharedName" "GeneratePodName (fw_controller f) = GenGeneralName E"
    using registered_services(1,2)[OF mem] f by simp_all
  show "fw_ReconcileServices f R job services role spec tr = Some (err, tr') \<Longrightarrow>
      tr' = tr \<or> ReconcileServices R job services role spec tr = Some (err, tr')"
    using registered_services(3)[OF mem] f by simp
  show "fw_ReconcileJobs f = None \<or> fw_ReconcileJobs f = Some Demo_ReconcileJobs"
    using registered_services(4)[OF mem] f by simp
qed

lemma setDefault_spec:
  assumes "setDefault r L old job f tr = Some (res, job2, tr')"
  obtains spec where "SetDefault f (job_Spec (scheme_Default L job)) = Some spec" "Default_spec spec = Some (job_Spec job2)"
  using assms by (auto simp: setDefault_def Let_def Option.bind_eq_Some_conv Default_Some_conv split: if_splits option.splits)

lemma setDefault_fixed:
  assumes "SetDefault f (job_Spec job) = Some (job_Spec job)" "Default_spec (job_Spec job) = Some (job_Spec job)" "scheme_Default L job = job"
  shows "\<exists>job'. setDefault r L job job f tr = Some (Inr False, job', tr) \<and> job_Spec job' = job_Spec job"
proof -
  have "\<forall>(k, p) \<in> set (gm_entries (spec_RoleSpecs (job_Spec job))). p \<noteq> None" using assms(2) by (simp add: Default_spec_Some_conv)
  from Default_total[OF this, of "r_ext (c_Reconciler r)"] obtain job' where d: "Default (r_ext (c_Reconciler r)) job = Some job'" by blast
  then have "job_Spec job' = job_Spec job" using assms(2) by (auto simp: Default_Some_conv)
  moreover have "job\<lparr>job_Spec := job_Spec job\<rparr> = job" by simp
  ultimately show ?thesis using assms(1,3) d by (simp add: setDefault_def Let_def)
qed

section \<open>Role phases\<close>

lemma OnRolePhaseChanged_view:
  assumes "OnRolePhaseChanged E (Some ch) listed job r ph = Some (None, c')" "backend ch \<noteq> None"
  obtains ch' data where "c' = Some ch'" "backend ch' \<noteq> None" "rc_Phase data = ph"
    "\<And>k q. cache_view (backend ch') k q =
       (if k = NamespacedNameToKey (job_Namespace job) (job_Name job) \<and> q = r then Some data else cache_view (backend ch) k q)"
proof -
  let ?k = "NamespacedNameToKey (job_Namespace job) (job_Name job)"
  from assms(1) obtain pods data where l: "listed = Inr pods" "BuildRoleCache E job r ph pods = Some data"
    "c' = Some (snd (SetRoleCache ch ?k r (Some data)))"
    by (auto simp: OnRolePhaseChanged_def Let_def Option.bind_eq_Some_conv case_prod_beta split: sum.splits)
  have "rc_Phase data = ph" using l(2) by (auto simp: BuildRoleCache_def NewRoleCache_def WithIPs_def Let_def Option.bind_eq_Some_conv)
  with l(3) rc.set_ok[OF assms(2)] rc.set_view[OF assms(2)] that show ?thesis by simp
qed

definition published :: "Cache option \<Rightarrow> AresJob \<Rightarrow> ReplicaType \<Rightarrow> RolePhase \<Rightarrow> bool" where
  "published c job r ph \<longleftrightarrow> (\<exists>ch data. c = Some ch \<and> rc_Phase data = ph \<and>
     cache_view (backend ch) (NamespacedNameToKey (job_Namespace job) (job_Name job)) r = Some data)"

text \<open>The phase of a role before the round.\<close>

definition phase_before :: "AresJob \<Rightarrow> ReplicaType \<Rightarrow> RolePhase" where
  "phase_before old r = (case gm_ptr (st_RoleStatuses (job_Status old)) r of None \<Rightarrow> RolePhasePending | Some s \<Rightarrow> role_Phase s)"

lemma handle_roles_publishes:
  assumes "handle_roles E W tr old job xs (Some ch) = Some (None, c')" "backend ch \<noteq> None" "distinct (map fst xs)"
  shows "(\<forall>(r, p) \<in> set xs. \<forall>s. p = Some s \<longrightarrow> role_Phase s \<noteq> phase_before old r \<or> role_Phase s = RolePhaseRunning \<longrightarrow>
      published c' job r (role_Phase s)) \<and>
    (\<forall>r ph. r \<notin> fst ` set xs \<longrightarrow> published (Some ch) job r ph \<longrightarrow> published c' job r ph)"
  using assms
proof (induction xs arbitrary: ch)
  case (Cons x xs)
  obtain r p where x: "x = (r, p)" by (cases x)
  from Cons.prems(1) x obtain oldPhase s where p: "p = Some s"
    and oldp: "(case gm_get (st_RoleStatuses (job_Status old)) r of None \<Rightarrow> Some RolePhasePending
        | Some q \<Rightarrow> do { status \<leftarrow> q; Some (role_Phase status) }) = Some oldPhase"
    by (auto simp: Option.bind_eq_Some_conv)
  then have before: "phase_before old r = oldPhase"
    by (auto simp: phase_before_def gm_ptr_def Option.bind_eq_Some_conv split: option.splits)
  have r: "r \<notin> fst ` set xs" "distinct (map fst xs)" using Cons.prems(3) x by auto
  show ?case
  proof (cases "oldPhase = role_Phase s \<and> role_Phase s \<noteq> RolePhaseRunning")
    case True
    with Cons.prems(1) x p oldp have "handle_roles E W tr old job xs (Some ch) = Some (None, c')" by simp
    from Cons.IH[OF this Cons.prems(2) r(2)] True before x p show ?thesis by auto
  next
    case False
    with Cons.prems(1) x p oldp obtain err c1 where o: "OnRolePhaseChanged E (Some ch) (w_role_pods W tr r) job r (role_Phase s) = Some (err, c1)"
      by (auto simp: Option.bind_eq_Some_conv)
    with Cons.prems(1) x p oldp False have e: "err = None" and rest: "handle_roles E W tr old job xs c1 = Some (None, c')"
      by (cases err; simp)+
    from OnRolePhaseChanged_view[OF o[unfolded e] Cons.prems(2)] obtain ch' data where
      ch': "c1 = Some ch'" "backend ch' \<noteq> None" "rc_Phase data = role_Phase s"
      "\<And>k q. cache_view (backend ch') k q =
         (if k = NamespacedNameToKey (job_Namespace job) (job_Name job) \<and> q = r then Some data else cache_view (backend ch) k q)" by metis
    note IH = Cons.IH[OF rest[unfolded ch'(1)] ch'(2) r(2)]
    have new: "published (Some ch') job r (role_Phase s)" using ch'(3,4) by (simp add: published_def)
    have keep: "published (Some ch) job q ph \<Longrightarrow> q \<noteq> r \<Longrightarrow> published (Some ch') job q ph" for q ph
      using ch'(4) by (simp add: published_def)
    show ?thesis using IH new keep r(1) x p by auto
  qed
qed simp

section \<open>Clean-up\<close>

text \<open>The seconds to live of a finished job and the condition that starts them.\<close>

definition ttl_seconds :: "AresJobReconciler \<Rightarrow> AresJob \<Rightarrow> int32 option" where
  "ttl_seconds r job = (if st_Phase (job_Status job) = JobPhaseFailed then spec_TTLSecondsAfterFailed (job_Spec job)
     else ajc_TTLSecondsAfterSucceeded (oc_AresJob (cf_Operator (r_conf (c_Reconciler r)))))"

definition finished_at :: "AresJob \<Rightarrow> int \<Rightarrow> int" where
  "finished_at job now = transition_time (job_Status job) (if st_Phase (job_Status job) = JobPhaseFailed then JobFailed else JobSucceeded) now"

lemma sint_seconds: "wrap64 (sint (n :: int32) * Second) = sint n * Second" "\<bar>sint n * Second\<bar> \<le> 2 ^ 31 * 1000000000"
  using sint_range32[of n] by (simp_all add: wrap64_def signed_take_bit_int_eq_self Second_def)

lemma OnJobFinished_add:
  assumes "IsFinished (st_Phase (job_Status job))"
  shows "OnJobFinished r now job tr =
    (case ttl_seconds r job of None \<Rightarrow> tr
     | Some n \<Rightarrow> tr @ [CleanUpAddAfter (job_Namespace job) (job_Name job) (max 0 (wrap64 (sint n * Second - time_Sub now (finished_at job now))))])"
  using assms by (auto simp: OnJobFinished_def ttl_seconds_def finished_at_def TTLSecondsAfterSucceeded_def Let_def sint_seconds(1) max_def
      split: option.splits)

section \<open>Properties\<close>

text \<open>
  C4. A round touches pods, services, pod groups or their metadata only for a job that is ready: it is not being deleted and not
  marked as invalid, its framework is registered, its defaults are all in place, both validations accept it, and every expectation
  of its roles is satisfied. This holds whatever the API server answers and whatever kubeflow's reconciliation does.
\<close>

theorem Reconcile_touches_ready:
  assumes "Reconcile r W L c tr = Some (res, c', tr @ es)" "e \<in> set es" "object_call e"
  shows "\<exists>aresjob f job. w_getJob W tr = Inr aresjob \<and> ready_for_objects r W L tr aresjob f job"
  using Reconcile_cases[OF assms(1)] assms(2,3) by (auto simp: grows_def)

text \<open>
  C9. Defaulting terminates. Once the defaults of a job have been written back, every later round with that spec, whatever the
  rest of the job has become, finds nothing to default and goes on: there is at most one such update. The roles of the spec then all have
  a replica spec and a number of replicas.
\<close>

theorem defaulting_settles:
  assumes "standard_frameworks r" "getFramework (c_Frameworks r) (spec_FrameworkType (job_Spec job)) = Some f"
    and "\<forall>j. scheme_Default L j = j"
    and "setDefault r L job job f tr = Some (Inr True, job1, tr1)"
    and "gm_ok (spec_RoleSpecs (job_Spec job))" "job_Spec later = job_Spec job1"
  shows "tr1 = tr @ [UpdateJob job1] \<and> roles_ok (spec_RoleSpecs (job_Spec later)) \<and>
    (\<exists>job2. setDefault r L later later f tr2 = Some (Inr False, job2, tr2) \<and> job_Spec job2 = job_Spec later)"
proof -
  have fd: "framework_defaults (SetDefault f)" using standard_framework_interfaces[OF assms(1,2)] by blast
  from setDefault_spec[OF assms(4)] assms(3) obtain spec where
    s: "SetDefault f (job_Spec job) = Some spec" "Default_spec spec = Some (job_Spec job1)" by auto
  have fixed: "SetDefault f (job_Spec later) = Some (job_Spec later) \<and> Default_spec (job_Spec later) = Some (job_Spec later)"
    using framework_defaults.defaulted_stable[OF fd s] assms(6) by simp
  have "\<exists>job2. setDefault r L later later f tr2 = Some (Inr False, job2, tr2) \<and> job_Spec job2 = job_Spec later"
    by (rule setDefault_fixed) (use fixed assms(3) in simp_all)
  moreover have "roles_ok (spec_RoleSpecs (job_Spec later))"
    using framework_defaults.defaulted_roles_ok(1)[OF fd s assms(5)] assms(6) by simp
  ultimately show ?thesis using setDefault_outcome[OF assms(4)] by auto
qed

text \<open>
  C21. Waiting containers read current phases. When the phases of the roles of a job with dependences have been handled without an
  error, the cache holds, for every role that is running or has changed its phase in this round, an entry with its present phase.
\<close>

theorem role_phases_published:
  assumes "HandleRolePhases r W tr old job (Some ch) = Some (None, c')" "backend ch \<noteq> None"
    and "HasDependence (job_Spec job) = Some True"
    and "getFramework (c_Frameworks r) (spec_FrameworkType (job_Spec job)) \<noteq> None"
    and "gm_ok (st_RoleStatuses (job_Status job))"
    and "gm_ptr (st_RoleStatuses (job_Status job)) role = Some s"
    and "role_Phase s \<noteq> phase_before old role \<or> role_Phase s = RolePhaseRunning"
  shows "published c' job role (role_Phase s)"
proof -
  have h: "handle_roles (r_ext (c_Reconciler r)) W tr old job (gm_entries (st_RoleStatuses (job_Status job))) (Some ch) = Some (None, c')"
    using assms(1,3,4) by (auto simp: HandleRolePhases_def)
  have "distinct (map fst (gm_entries (st_RoleStatuses (job_Status job))))" using assms(5) by (simp add: gm_ok_def gm_keys_def)
  note pub = handle_roles_publishes[OF h assms(2) this]
  have "(role, Some s) \<in> set (gm_entries (st_RoleStatuses (job_Status job)))"
    using assms(6) by (auto simp: gm_ptr_def gm_get_def gm_entries_def dest: map_of_SomeD split: option.splits)
  with pub assms(7) show ?thesis by blast
qed

text \<open>
  C31. The clean-up of a finished job is scheduled for the moment its time to live ends, counted from the transition into its final
  phase: with clocks below \<open>2 ^ 62\<close> nanoseconds there is no overflow, the moment of the clean-up is the later of now and the end of
  the time to live, and a job without a time to live is never scheduled.
\<close>

theorem cleanup_delay:
  assumes "IsFinished (st_Phase (job_Status job))" "0 \<le> finished_at job now" "finished_at job now \<le> now" "now < 2 ^ 62"
  shows "OnJobFinished r now job tr =
    (case ttl_seconds r job of
       None \<Rightarrow> tr
     | Some n \<Rightarrow> tr @ [CleanUpAddAfter (job_Namespace job) (job_Name job) (max now (finished_at job now + sint n * Second) - now)])"
proof -
  have "time_Sub now (finished_at job now) = now - finished_at job now" using assms(2-4) by (simp add: time_Sub_def)
  moreover have "wrap64 (sint n * Second - (now - finished_at job now)) = sint n * Second - (now - finished_at job now)" for n :: int32
    using assms(2-4) sint_seconds(2)[of n] by (intro wrap64_id) simp_all
  ultimately show ?thesis unfolding OnJobFinished_add[OF assms(1)] by (auto simp: max_def split: option.split)
qed

text \<open>
  C30. A finalized job leaves nothing behind: when finalization of a job that carries the finalizer reports no error, the role cache has
  no entry for the job and those of all others are untouched, the expectations of all its roles have been deleted, and the last call
  writes the job without the finalizer, all others kept.
\<close>

theorem finalize_cleans:
  assumes "finalizers_ok (r_ext (c_Reconciler r))" "AresJobFinalizer \<in> set (job_Finalizers job)"
    and "finalize r job (Some ch) tr = (None, c', tr')" "backend ch \<noteq> None"
    and "KeyFunc (r_ext (c_Reconciler r)) (job_Namespace job) (job_Name job) = Inr key"
  shows "\<exists>ch' job'. c' = Some ch' \<and>
    (\<forall>k q. cache_view (backend ch') k q =
       (if k = NamespacedNameToKey (job_Namespace job) (job_Name job) then None else cache_view (backend ch) k q)) \<and>
    tr' = tr @ map effect.DeleteExpectations (expectation_keys (r_ext (c_Reconciler r)) job key) @ [UpdateJob job'] \<and>
    job' = job\<lparr>job_Finalizers := filter (\<lambda>g. g \<noteq> AresJobFinalizer) (job_Finalizers job)\<rparr>"
proof -
  let ?E = "r_ext (c_Reconciler r)" and ?k = "NamespacedNameToKey (job_Namespace job) (job_Name job)"
  have fin: "ContainsFinalizer ?E (job_Finalizers job) AresJobFinalizer"
    "RemoveFinalizer ?E (job_Finalizers job) AresJobFinalizer = filter (\<lambda>g. g \<noteq> AresJobFinalizer) (job_Finalizers job)"
    using assms(1,2) by (auto simp: finalizers_ok_def)
  have clean: "CleanForJob ?E job tr = tr @ map effect.DeleteExpectations (expectation_keys ?E job key)"
    using assms(5) by (simp add: CleanForJob_def Expectations.DeleteExpectations_def ExpectationsFuncApply_def apply_keys_append)
  obtain ch' where d: "DeleteJobCache ch ?k = (None, ch')" using rc.delete_ok[OF assms(4)] by (metis prod.collapse)
  have c': "c' = Some ch'" and tr': "tr' = (tr @ map effect.DeleteExpectations (expectation_keys ?E job key)) @
      [UpdateJob (job\<lparr>job_Finalizers := filter (\<lambda>g. g \<noteq> AresJobFinalizer) (job_Finalizers job)\<rparr>)]"
    using assms(3) unfolding finalize_def Let_def clean fin(2) using fin(1) by (simp_all add: deleteJobCache_def d)
  have "\<forall>k q. cache_view (backend ch') k q = (if k = ?k then None else cache_view (backend ch) k q)"
    using rc.delete_view[OF assms(4), of ?k] d by simp
  with c' tr' show ?thesis by auto
qed

section \<open>A standalone job\<close>

definition plain_controller :: AresJobReconciler where
  "plain_controller = \<lparr>c_Reconciler = plain_reconciler, c_Frameworks = setupFrameworks plain_ext Factory\<rparr>"

definition plain_libs :: Libs where
  "plain_libs = \<lparr>scheme_Default = (\<lambda>j. j), JC_ReconcileJobs = (\<lambda>R job replicas js rp tr. Some (None, job, tr @ [DeletePod ''ns'' ''old'']))\<rparr>"

definition new_job :: AresJob where
  "new_job = plain_job FrameworkStandalone [(RoleWorker, Some (plain_role 1 [] [plain_container FrameworkStandalone []]))]"

definition ready_job :: AresJob where
  "ready_job = (case setDefault plain_controller plain_libs new_job new_job (StandaloneFramework plain_ext) [] of
     Some (_, job, _) \<Rightarrow> job | None \<Rightarrow> new_job)"

definition world_of :: "AresJob \<Rightarrow> World" where
  "world_of job = (plain_world evicted_group)\<lparr>w_getJob := \<lambda>tr. Inr job\<rparr>"

lemma plain_standard: "standard_frameworks plain_controller"
  unfolding standard_frameworks_def
  by (rule exI[of _ Factory]) (simp add: plain_controller_def plain_reconciler_def Factory_registrations framework_names_distinct)

lemma plain_framework:
  "getFramework (c_Frameworks plain_controller) FrameworkStandalone = Some (StandaloneFramework plain_ext)"
proof -
  have "map_of registrations FrameworkStandalone = Some StandaloneFramework" by (simp add: registrations_def go_consts)
  then show ?thesis
    using getFramework_setup[of Factory plain_ext FrameworkStandalone] framework_names_distinct
    by (simp add: plain_controller_def Factory_registrations)
qed

theorem Reconcile_touches_ready_witness:
  "\<exists>f job. ready_for_objects plain_controller (world_of ready_job) plain_libs [] ready_job f job"
proof -
  have "case Reconcile plain_controller (world_of ready_job) plain_libs None [] of
      Some (res, c, tr) \<Rightarrow> list_ex object_call tr | None \<Rightarrow> False" by code_simp
  then obtain res c tr e where run: "Reconcile plain_controller (world_of ready_job) plain_libs None [] = Some (res, c, [] @ tr)"
    and e: "e \<in> set tr" "object_call e" by (auto simp: list_ex_iff split: option.splits)
  from Reconcile_touches_ready[OF run e] show ?thesis by (auto simp: world_of_def)
qed

lemma updated_cases: "(case x of Some (Inr True, _, _) \<Rightarrow> True | _ \<Rightarrow> False) \<Longrightarrow> \<exists>j tr. x = Some (Inr True, j, tr)"
proof (cases x)
  case (Some y)
  moreover obtain a j tr where "y = (a, j, tr)" by (cases y)
  moreover assume "case x of Some (Inr True, _, _) \<Rightarrow> True | _ \<Rightarrow> False"
  ultimately show ?thesis by (cases a) (simp_all split: bool.splits)
qed simp

theorem defaulting_settles_witness:
  "\<exists>job2. setDefault plain_controller plain_libs ready_job ready_job (StandaloneFramework plain_ext) [] = Some (Inr False, job2, []) \<and>
     job_Spec job2 = job_Spec ready_job"
proof -
  have "case setDefault plain_controller plain_libs new_job new_job (StandaloneFramework plain_ext) [] of
      Some (Inr True, _, _) \<Rightarrow> True | _ \<Rightarrow> False" by code_simp
  then obtain j tr where run: "setDefault plain_controller plain_libs new_job new_job (StandaloneFramework plain_ext) [] = Some (Inr True, j, tr)"
    using updated_cases by blast
  then have j: "ready_job = j" by (simp add: ready_job_def)
  have f: "getFramework (c_Frameworks plain_controller) (spec_FrameworkType (job_Spec new_job)) = Some (StandaloneFramework plain_ext)"
    using plain_framework by (simp add: new_job_def plain_defs)
  have lib: "\<forall>j. scheme_Default plain_libs j = j" by (simp add: plain_libs_def)
  have ok: "gm_ok (spec_RoleSpecs (job_Spec new_job))" by (simp add: new_job_def plain_defs gm_ok_def gm_keys_def)
  from defaulting_settles[OF plain_standard f lib run ok, of ready_job "[]"] j show ?thesis by simp
qed

definition worker_up :: AresJob where
  "worker_up = (let sp = the (gm_ptr (spec_RoleSpecs (job_Spec ready_job)) RoleWorker)\<lparr>role_Dependence := Some (run_after RoleMaster)\<rparr> in
     ready_job\<lparr>job_Spec := (job_Spec ready_job)\<lparr>spec_RoleSpecs := Some [(RoleWorker, Some sp)]\<rparr>,
       job_Status := (job_Status ready_job)\<lparr>st_RoleStatuses := Some [(RoleWorker, Some (new_RoleStatus RolePhaseRunning))]\<rparr>\<rparr>)"

theorem role_phases_published_witness:
  "\<exists>c'. HandleRolePhases plain_controller (world_of ready_job) [] ready_job worker_up (Some \<lparr>backend = NewMemoryCache\<rparr>) = Some (None, c') \<and>
     published c' worker_up RoleWorker RolePhaseRunning"
proof -
  let ?run = "HandleRolePhases plain_controller (world_of ready_job) [] ready_job worker_up (Some \<lparr>backend = NewMemoryCache\<rparr>)"
  have "case ?run of Some (None, _) \<Rightarrow> True | _ \<Rightarrow> False" by code_simp
  then obtain c' where run: "?run = Some (None, c')" by (auto split: option.splits)
  have b: "backend \<lparr>backend = NewMemoryCache\<rparr> \<noteq> None" by (simp add: NewMemoryCache_def)
  have dep: "HasDependence (job_Spec worker_up) = Some True" by code_simp
  have "spec_FrameworkType (job_Spec worker_up) = FrameworkStandalone" by code_simp
  then have f: "getFramework (c_Frameworks plain_controller) (spec_FrameworkType (job_Spec worker_up)) \<noteq> None" using plain_framework by simp
  have st: "gm_ok (st_RoleStatuses (job_Status worker_up))" "gm_ptr (st_RoleStatuses (job_Status worker_up)) RoleWorker = Some (new_RoleStatus RolePhaseRunning)"
    by (simp_all add: worker_up_def Let_def gm_ok_def gm_keys_def gm_ptr_def gm_get_def)
  have "role_Phase (new_RoleStatus RolePhaseRunning) = RolePhaseRunning" by (simp add: new_RoleStatus_def)
  with role_phases_published[OF run b dep f st] run show ?thesis by simp
qed

theorem cleanup_delay_witness:
  "OnJobFinished plain_controller 5000000000 (ready_job\<lparr>job_Status := (job_Status ready_job)\<lparr>st_Phase := JobPhaseSucceeded\<rparr>\<rparr>) [] =
     [CleanUpAddAfter ''ns'' ''job'' 60000000000]"
proof -
  let ?job = "ready_job\<lparr>job_Status := (job_Status ready_job)\<lparr>st_Phase := JobPhaseSucceeded\<rparr>\<rparr>"
  have 1: "IsFinished (st_Phase (job_Status ?job))" by (simp add: IsFinished_def)
  have 2: "finished_at ?job 5000000000 = 5000000000" by code_simp
  have 3: "ttl_seconds plain_controller ?job = Some 60" "job_Namespace ?job = ''ns''" "job_Name ?job = ''job''" by code_simp+
  from cleanup_delay[OF 1, of 5000000000 plain_controller "[]"] 2 3 show ?thesis by (simp add: Second_def)
qed

theorem finalize_cleans_witness:
  "\<exists>ch'. finalize plain_controller (ready_job\<lparr>job_Finalizers := [AresJobFinalizer]\<rparr>) (Some \<lparr>backend = NewMemoryCache\<rparr>) [] =
     (None, Some ch', [effect.DeleteExpectations ''ns/job/worker/pods'', effect.DeleteExpectations ''ns/job/worker/services'',
        UpdateJob (ready_job\<lparr>job_Finalizers := []\<rparr>)])"
proof -
  let ?job = "ready_job\<lparr>job_Finalizers := [AresJobFinalizer]\<rparr>"
  have E: "r_ext (c_Reconciler plain_controller) = plain_ext" by (simp add: plain_controller_def plain_reconciler_def)
  have 1: "finalizers_ok (r_ext (c_Reconciler plain_controller))" unfolding E by (simp add: finalizers_ok_def plain_ext_def)
  have 2: "AresJobFinalizer \<in> set (job_Finalizers ?job)" by simp
  have "fst (finalize plain_controller ?job (Some \<lparr>backend = NewMemoryCache\<rparr>) []) = None" by code_simp
  then obtain c' tr' where run: "finalize plain_controller ?job (Some \<lparr>backend = NewMemoryCache\<rparr>) [] = (None, c', tr')" by (metis prod.collapse)
  have b: "backend \<lparr>backend = NewMemoryCache\<rparr> \<noteq> None" by (simp add: NewMemoryCache_def)
  have k: "KeyFunc (r_ext (c_Reconciler plain_controller)) (job_Namespace ?job) (job_Name ?job) = Inr ''ns/job''" by code_simp
  have "expectation_keys (r_ext (c_Reconciler plain_controller)) ?job ''ns/job'' = [''ns/job/worker/pods'', ''ns/job/worker/services'']" by code_simp
  with finalize_cleans[OF 1 2 run b k] run show ?thesis by auto
qed

end
