(* ===== verification/Events.thy ===== *)
theory Events
  imports Controller
begin

text \<open>
  \<open>controllers/event_handler.go\<close>, \<open>controllers/index.go\<close> and the lists of \<open>reconciler/pod.go\<close> and \<open>reconciler/service.go\<close>
  that use these indices: how the operator learns of the objects it owns. The cache behind the lists is controller-runtime's; a
  list is a call with a namespace, an index and a value. The theorem at the end closes the loop of a pod: what
  \<open>ReconcilePods\<close> requests for an index is listed, counted at that index, and observed under the key that expects it.
\<close>

section \<open>Owners\<close>

definition ResolveOwner :: "(string \<Rightarrow> string \<Rightarrow> AresJob result) \<Rightarrow> string \<Rightarrow> OwnerReference \<Rightarrow> AresJob option" where
  "ResolveOwner get ns ref =
     (if or_Kind ref \<noteq> GroupVersionKind_Kind then None
      else case get ns (or_Name ref) of
        Inl err \<Rightarrow> None
      | Inr job \<Rightarrow> if job_UID job \<noteq> or_UID ref then None else Some job)"

section \<open>Objects of a job\<close>

definition owned_event ::
  "(ext \<Rightarrow> AresJob \<Rightarrow> Object \<Rightarrow> effect list \<Rightarrow> effect list) \<Rightarrow> AresJobReconciler \<Rightarrow> (string \<Rightarrow> string \<Rightarrow> AresJob result)
     \<Rightarrow> Object \<Rightarrow> effect list \<Rightarrow> bool \<times> effect list" where
  "owned_event handle r get obj tr =
     (case obj_Controller obj of
        None \<Rightarrow> (True, tr)
      | Some ref \<Rightarrow>
          (case ResolveOwner get (obj_Namespace obj) ref of
             None \<Rightarrow> (True, tr)
           | Some job \<Rightarrow>
               (case getFramework (c_Frameworks r) (spec_FrameworkType (job_Spec job)) of
                  None \<Rightarrow> (False, tr)
                | Some f \<Rightarrow> (True, handle (r_ext (c_Reconciler r)) job obj tr))))"

definition AddObject_event ::
  "AresJobReconciler \<Rightarrow> (string \<Rightarrow> string \<Rightarrow> AresJob result) \<Rightarrow> Object \<Rightarrow> effect list \<Rightarrow> bool \<times> effect list" where
  "AddObject_event = owned_event AddObject"

definition DeleteObject_event ::
  "AresJobReconciler \<Rightarrow> (string \<Rightarrow> string \<Rightarrow> AresJob result) \<Rightarrow> Object \<Rightarrow> effect list \<Rightarrow> bool \<times> effect list" where
  "DeleteObject_event = owned_event DeleteObject"

definition PodScheduled :: string where [go_consts]: "PodScheduled = ''PodScheduled''"
definition PodGroupUnschedulableType :: string where [go_consts]: "PodGroupUnschedulableType = ''Unschedulable''"

datatype UpdatedObject = UpdatedPod Pod | UpdatedPodGroup PodGroup | UpdatedOther

definition UpdateObject :: "UpdatedObject \<Rightarrow> bool" where
  "UpdateObject obj =
     (case obj of
        UpdatedPod pod \<Rightarrow>
          (case pod_Conditions pod of
             [cond] \<Rightarrow> \<not> (pc_Type cond = PodScheduled \<and> pc_Status cond = ConditionFalse)
           | _ \<Rightarrow> True)
      | UpdatedPodGroup pg \<Rightarrow>
          (case pg_Conditions pg of
             [cond] \<Rightarrow> \<not> (pgc_Type cond = PodGroupUnschedulableType \<and> pgc_Status cond = ConditionTrue)
           | _ \<Rightarrow> True)
      | UpdatedOther \<Rightarrow> True)"

section \<open>Nodes\<close>

type_synonym Request = "string \<times> string"

text \<open>The requests that \<open>handlePods\<close> adds to the queue; an error of the list leaves none.\<close>

definition handlePods :: "Pod list result \<Rightarrow> Request list" where
  "handlePods listed =
     (case listed of
        Inl err \<Rightarrow> []
      | Inr pods \<Rightarrow> map (\<lambda>pod. (pod_Namespace pod, or_Name (the (pod_Controller pod)))) (filter (\<lambda>pod. IsAresJob (pod_Controller pod)) pods))"

definition NodeEvent_Create :: "Manager \<Rightarrow> Node \<Rightarrow> Manager" where
  "NodeEvent_Create m node = fst (RemoveNode m (node_Name node))"

definition NodeEvent_Delete :: "Manager \<Rightarrow> Node \<Rightarrow> Manager" where
  "NodeEvent_Delete m node = fst (RemoveNode m (node_Name node))"

definition NodeEvent_Update :: "Manager \<Rightarrow> (string \<Rightarrow> Pod list result) \<Rightarrow> Node \<Rightarrow> Node \<Rightarrow> Manager \<times> Request list" where
  "NodeEvent_Update m pods_on old node =
     (let (m', nodeDown) = HandleUpdate m old node
      in (m', if \<not> nodeDown then [] else handlePods (pods_on (node_Name node))))"

definition NodeEvent_Generic :: "Manager \<Rightarrow> (string \<Rightarrow> Pod list result) \<Rightarrow> Node \<Rightarrow> Manager \<times> Request list" where
  "NodeEvent_Generic m pods_on node =
     (let (m', nodeDown) = HandleGeneric m node
      in (m', if \<not> nodeDown then [] else handlePods (pods_on (node_Name node))))"

section \<open>Indices\<close>

definition JobOwnerKey :: string where [go_consts]: "JobOwnerKey = ''.metadata.controller''"
definition ReplicaOwnerKey :: string where [go_consts]: "ReplicaOwnerKey = ''.metadata.replica-type''"
definition NodeNameKey :: string where [go_consts]: "NodeNameKey = ''.spec.nodeName''"

definition IndexObjectOwner :: "OwnerReference option \<Rightarrow> string list" where
  "IndexObjectOwner owner = (case owner of Some ow \<Rightarrow> if IsAresJob owner then [or_Name ow] else [] | None \<Rightarrow> [])"

definition IndexReplicaOwner :: "ext \<Rightarrow> OwnerReference option \<Rightarrow> labels \<Rightarrow> string list" where
  "IndexReplicaOwner E owner lbls =
     (case owner of
        Some ow \<Rightarrow>
          if IsAresJob owner then
            (let rtype = GetReplicaType E lbls in if 0 < length rtype then [MetaReplicaKeyFormat (or_Name ow) rtype] else [])
          else []
      | None \<Rightarrow> [])"

definition IndexNodeName :: "Pod \<Rightarrow> string list" where
  "IndexNodeName pod = (if \<not> IsAresJob (pod_Controller pod) then [] else if 0 < length (pod_NodeName pod) then [pod_NodeName pod] else [])"

text \<open>The functions \<open>setupIndexer\<close> registers for pods.\<close>

definition pod_indexer :: "ext \<Rightarrow> string \<Rightarrow> Pod \<Rightarrow> string list" where
  "pod_indexer E key pod =
     (if key = JobOwnerKey then IndexObjectOwner (pod_Controller pod)
      else if key = ReplicaOwnerKey then IndexReplicaOwner E (pod_Controller pod) (pod_Labels pod)
      else if key = NodeNameKey then IndexNodeName pod
      else [])"

section \<open>Lists\<close>

type_synonym pod_client = "string option \<Rightarrow> string \<Rightarrow> string \<Rightarrow> Pod list result"

definition GetPodsForJob :: "pod_client \<Rightarrow> AresJob \<Rightarrow> Pod list result" where
  "GetPodsForJob c job = c (Some (job_Namespace job)) JobOwnerKey (job_Name job)"

definition GetPodsForReplica :: "pod_client \<Rightarrow> AresJob \<Rightarrow> ReplicaType \<Rightarrow> Pod list result" where
  "GetPodsForReplica c job rtype = c (Some (job_Namespace job)) ReplicaOwnerKey (MetaReplicaKeyFormat (job_Name job) rtype)"

definition GetPodsForNode :: "pod_client \<Rightarrow> string \<Rightarrow> Pod list result" where
  "GetPodsForNode c name = c None NodeNameKey name"

definition GetServicesForJob :: "(string option \<Rightarrow> string \<Rightarrow> string \<Rightarrow> Service list result) \<Rightarrow> AresJob \<Rightarrow> Service list result" where
  "GetServicesForJob c job = c (Some (job_Namespace job)) JobOwnerKey (job_Name job)"

text \<open>The documented answer of a list: the pods of the namespace with the value among those of the index.\<close>

definition lists_by_index :: "ext \<Rightarrow> Pod list \<Rightarrow> pod_client \<Rightarrow> bool" where
  "lists_by_index E pods c \<longleftrightarrow> (\<forall>ns key v. c ns key v =
     Inr (filter (\<lambda>p. (ns = None \<or> ns = Some (pod_Namespace p)) \<and> v \<in> set (pod_indexer E key p)) pods))"

section \<open>Lemmas\<close>

text \<open>What is documented of kubeflow's owner reference and of label selectors.\<close>

definition owner_refs_ok :: "ext \<Rightarrow> bool" where
  "owner_refs_ok E \<longleftrightarrow> (\<forall>job. GenOwnerReference E job =
     \<lparr>or_APIVersion = GroupVersion, or_Kind = GroupVersionKind_Kind, or_Name = job_Name job, or_UID = job_UID job\<rparr>)"

definition selectors_ok :: "ext \<Rightarrow> bool" where
  "selectors_ok E \<longleftrightarrow> (\<forall>k v ls. SelectorMatches E k v ls \<longleftrightarrow> gm_get ls k = Some v)"

lemma plain_owner_refs: "owner_refs_ok plain_ext" "selectors_ok plain_ext"
  by (simp_all add: owner_refs_ok_def selectors_ok_def plain_ext_def)

lemma ResolveOwner_own:
  assumes "owner_refs_ok E" "get (job_Namespace job) (job_Name job) = Inr now" "job_UID now = job_UID job"
  shows "ResolveOwner get (job_Namespace job) (GenOwnerReference E job) = Some now"
  using assms by (simp add: ResolveOwner_def owner_refs_ok_def)

lemma IsAresJob_own: "owner_refs_ok E \<Longrightarrow> IsAresJob (Some (GenOwnerReference E job))"
  by (simp add: owner_refs_ok_def IsAresJob_def)

text \<open>A pod of the cluster that was made from a requested pod.\<close>

definition made_from :: "AresJob \<Rightarrow> new_pod \<Rightarrow> Pod \<Rightarrow> bool" where
  "made_from job p pod \<longleftrightarrow> pod_Namespace pod = job_Namespace job \<and> pod_Labels pod = pt_Labels (np_Object p) \<and>
     pod_Controller pod = np_Controller p"

definition pod_object :: "Pod \<Rightarrow> Object" where
  "pod_object pod = \<lparr>obj_Kind = KPod, obj_Namespace = pod_Namespace pod, obj_Name = pod_Name pod, obj_Labels = pod_Labels pod,
     obj_Controller = pod_Controller pod\<rparr>"

lemma GetLabelByName_first: "gm_get lbls l = Some v \<Longrightarrow> GetLabelByName lbls (l # ls) = v"
  by (cases lbls) (simp_all add: gm_get_def)

lemma made_from_index:
  assumes "wanted_pod ctl E job rt (itoa (int i)) p" "made_from job p pod" "int i < 2 ^ 31"
  shows "pod_index E pod = Some (int i)" "GetReplicaType E (pod_Labels pod) = rt" "pod_Controller pod = Some (GenOwnerReference E job)"
proof -
  have "atoi (itoa (int i)) = (int i, None)" using assms(3) by (intro atoi_itoa_nat) simp
  moreover have "itoa (int i) \<noteq> []" by (auto simp: itoa_def nat_digits.simps[of i])
  moreover have "GetReplicaIndex E (pod_Labels pod) = itoa (int i)"
    using assms(1,2) by (simp add: GetReplicaIndex_def GetLabelByName_first wanted_pod_def made_from_def del: GetLabelByName.simps)
  ultimately show "pod_index E pod = Some (int i)" by (simp add: pod_index_def)
  show "GetReplicaType E (pod_Labels pod) = rt"
    using assms(1,2) by (simp add: GetReplicaType_def GetLabelByName_first wanted_pod_def made_from_def del: GetLabelByName.simps)
  show "pod_Controller pod = Some (GenOwnerReference E job)" using assms(1,2) by (simp add: wanted_pod_def made_from_def)
qed

text \<open>A service made for a role is recognised by the next round, which then leaves the role alone.\<close>

lemma made_service_suffices:
  assumes "selectors_ok (r_ext R)" "GetServicesForJob c job = Inr services" "svc \<in> set services"
    and "svc_Labels svc = svc_Labels (new_service ctl job (ToLower rtype) ports)"
  shows "ReconcileServices R job services rtype spec tr = Some (None, tr)"
proof -
  have "gm_get (svc_Labels svc) ReplicaTypeLabel = Some (ToLower rtype)"
    unfolding assms(4) new_service_selector(3) by (simp add: gm_get_def update_conv')
  then have "svc \<in> set (FilterServicesForReplicaType (r_ext R) services (ToLower rtype))"
    using assms(1,3) by (simp add: FilterServicesForReplicaType_def selectors_ok_def)
  then have "0 < length (FilterServicesForReplicaType (r_ext R) services (ToLower rtype))" by (rule length_pos_if_in_set)
  then show ?thesis by (simp add: ReconcileServices_def Let_def)
qed

section \<open>Properties\<close>

text \<open>
  C13. The operator finds the pods it asked for. A pod that the cluster makes from the pod requested for index \<open>i\<close> of a role is
  among the pods listed for the job and for the role, it passes the filter of the role and is counted at index \<open>i\<close>, so that the next
  round sees no gap there; and its creation event resolves to the job, is let through, and lowers exactly the expectation of the role's pods.
\<close>

theorem requested_pod_found:
  assumes "owner_refs_ok E" "selectors_ok E" "lists_by_index E pods c"
    and "wanted_pod ctl E job (ToLower rtype) (itoa (int i)) p" "int i < 2 ^ 31" "ToLower rtype = rtype" "rtype \<noteq> []"
    and "pod \<in> set pods" "made_from job p pod"
    and "E = r_ext (c_Reconciler r)" "get (job_Namespace job) (job_Name job) = Inr job" "KeyFunc E (job_Namespace job) (job_Name job) = Inr key"
    and "getFramework (c_Frameworks r) (spec_FrameworkType (job_Spec job)) \<noteq> None"
  shows "\<exists>jobs roles. GetPodsForJob c job = Inr jobs \<and> GetPodsForReplica c job rtype = Inr roles \<and>
    pod \<in> set roles \<and> pod \<in> set (pods_at E (FilterPodsForReplicaType E jobs (ToLower rtype)) i) \<and>
    AddObject_event r get (pod_object pod) tr = (True, tr @ [CreationObserved (GenExpectationPodsKey E key rtype)])"
proof -
  note found = made_from_index[OF assms(4,9,5)]
  have ns: "pod_Namespace pod = job_Namespace job" using assms(9) by (simp add: made_from_def)
  have own: "IsAresJob (Some (GenOwnerReference E job))" "or_Name (GenOwnerReference E job) = job_Name job"
    using IsAresJob_own[OF assms(1)] assms(1) by (simp_all add: owner_refs_ok_def)
  have keys: "ReplicaOwnerKey \<noteq> JobOwnerKey" by (simp add: go_consts)
  let ?jobs = "filter (\<lambda>p. Some (job_Namespace job) = Some (pod_Namespace p) \<and> job_Name job \<in> set (pod_indexer E JobOwnerKey p)) pods"
  let ?roles = "filter (\<lambda>p. Some (job_Namespace job) = Some (pod_Namespace p) \<and>
      MetaReplicaKeyFormat (job_Name job) rtype \<in> set (pod_indexer E ReplicaOwnerKey p)) pods"
  have l: "GetPodsForJob c job = Inr ?jobs" "GetPodsForReplica c job rtype = Inr ?roles"
    using assms(3) by (simp_all add: lists_by_index_def GetPodsForJob_def GetPodsForReplica_def)
  have "pod \<in> set ?jobs" using assms(8) ns found(3) own by (simp add: pod_indexer_def IndexObjectOwner_def)
  moreover have "SelectorMatches E ReplicaTypeLabel (ToLower rtype) (pod_Labels pod)"
    using assms(2,4,9) by (simp add: selectors_ok_def wanted_pod_def made_from_def)
  ultimately have "pod \<in> set (pods_at E (FilterPodsForReplicaType E ?jobs (ToLower rtype)) i)"
    using found(1) by (simp add: pods_at_def FilterPodsForReplicaType_def)
  moreover have "pod \<in> set ?roles"
    using assms(6,7,8) ns found(2,3) own keys by (simp add: pod_indexer_def IndexReplicaOwner_def)
  moreover have "AddObject_event r get (pod_object pod) tr = (True, tr @ [CreationObserved (GenExpectationPodsKey E key rtype)])"
    using assms(6,7,11,12,13) found(2,3) ns ResolveOwner_own[OF assms(1), of get job job] unfolding assms(10)
    by (auto simp: AddObject_event_def owned_event_def pod_object_def AddObject_def observe_def expectation_key_def)
  ultimately show ?thesis using l by blast
qed

definition worker_request :: new_pod where
  "worker_request = \<lparr>np_Object = new_template (base_controller plain_ext) ready_job RoleWorker ''0'' worker_spec False,
     np_Controller = Some (GenOwnerReference plain_ext ready_job)\<rparr>"

definition worker_made :: Pod where
  "worker_made = (worker 0)\<lparr>pod_Labels := pt_Labels (np_Object worker_request), pod_Controller := np_Controller worker_request\<rparr>"

theorem requested_pod_found_witness:
  "AddObject_event plain_controller (\<lambda>ns name. Inr ready_job) (pod_object worker_made) [] =
     (True, [CreationObserved ''ns/job/worker/pods''])"
proof -
  let ?c = "\<lambda>ns key v. Inr (filter (\<lambda>p. (ns = None \<or> ns = Some (pod_Namespace p)) \<and> v \<in> set (pod_indexer plain_ext key p)) [worker_made])"
  have c: "lists_by_index plain_ext [worker_made] ?c" by (simp add: lists_by_index_def)
  have low: "ToLower RoleWorker = RoleWorker" "RoleWorker \<noteq> []" by code_simp+
  have "wanted_pod (base_controller plain_ext) plain_ext ready_job (ToLower RoleWorker) ''0'' worker_request"
    unfolding low by (rule wanted_podI[OF same_identity_refl]) (simp_all add: worker_request_def)
  then have w: "wanted_pod (base_controller plain_ext) plain_ext ready_job (ToLower RoleWorker) (itoa (int 0)) worker_request"
    using itoa_small(1) by simp
  have ns: "job_Namespace ready_job = ''ns''" "spec_FrameworkType (job_Spec ready_job) = FrameworkStandalone"
    "KeyFunc plain_ext (job_Namespace ready_job) (job_Name ready_job) = Inr ''ns/job''"
    "GenExpectationPodsKey plain_ext ''ns/job'' RoleWorker = ''ns/job/worker/pods''" by code_simp+
  have m: "made_from ready_job worker_request worker_made"
    using ns(1) by (simp add: made_from_def worker_made_def worker_def plain_defs)
  have E: "plain_ext = r_ext (c_Reconciler plain_controller)" by (simp add: plain_controller_def plain_reconciler_def)
  have f: "getFramework (c_Frameworks plain_controller) (spec_FrameworkType (job_Spec ready_job)) \<noteq> None" using plain_framework ns(2) by simp
  have i: "int 0 < 2 ^ 31" by simp
  have mem: "worker_made \<in> set [worker_made]" by simp
  have get: "(\<lambda>ns name. Inr ready_job) (job_Namespace ready_job) (job_Name ready_job) = (Inr ready_job :: AresJob result)" by simp
  from requested_pod_found[OF plain_owner_refs c w i low mem m E get ns(3) f, of "[]"] show ?thesis using ns(4) by auto
qed

text \<open>
  C37. A node that goes down brings its jobs back into the queue, once. On an update of a node that was not down before and is down
  after it, the requests are exactly the owning jobs of the pods on that node; on every other update there is none.
\<close>

theorem node_down_requeues:
  assumes "manager_ok m" "lists_by_index E pods c" "node_Name node \<noteq> []"
    and "NodeEvent_Update m (GetPodsForNode c) old node = (m', requests)"
  shows "set requests =
    (if \<not> fst (IsNodeDown m (node_Name node)) \<and> fst (IsNodeDown m' (node_Name node))
     then {(pod_Namespace pod, or_Name ow) | pod ow. pod \<in> set pods \<and> pod_NodeName pod = node_Name node \<and>
             pod_Controller pod = Some ow \<and> IsAresJob (Some ow)} else {})"
proof -
  have down: "snd (HandleGeneric m node) \<longleftrightarrow> \<not> fst (IsNodeDown m (node_Name node)) \<and> fst (IsNodeDown m' (node_Name node))"
    and req: "requests = (if snd (HandleGeneric m node) then handlePods (GetPodsForNode c (node_Name node)) else [])"
    using assms(4) HandleGeneric_edge[OF assms(1), of node]
    by (auto simp: NodeEvent_Update_def HandleUpdate_def Let_def case_prod_beta)
  have keys: "NodeNameKey \<noteq> JobOwnerKey" "NodeNameKey \<noteq> ReplicaOwnerKey" by (simp_all add: go_consts)
  have "GetPodsForNode c (node_Name node) = Inr (filter (\<lambda>p. node_Name node \<in> set (IndexNodeName p)) pods)"
    using assms(2) keys by (simp add: lists_by_index_def GetPodsForNode_def pod_indexer_def)
  then have "set (handlePods (GetPodsForNode c (node_Name node))) =
      {(pod_Namespace pod, or_Name ow) | pod ow. pod \<in> set pods \<and> pod_NodeName pod = node_Name node \<and>
             pod_Controller pod = Some ow \<and> IsAresJob (Some ow)}"
    using assms(3) by (force simp: handlePods_def IndexNodeName_def IsAresJob_def split: option.splits if_splits)
  then show ?thesis using down req by simp
qed

definition lost_node :: Node where
  "lost_node = \<lparr>node_Name = ''n1'', node_Conditions = [\<lparr>nc_Type = NodeReady, nc_Status = ConditionUnknown, nc_Message = ''lost''\<rparr>]\<rparr>"

theorem node_down_requeues_witness:
  "set (snd (NodeEvent_Update NewManager (GetPodsForNode (\<lambda>ns key v. Inr (filter (\<lambda>p. (ns = None \<or> ns = Some (pod_Namespace p)) \<and>
      v \<in> set (pod_indexer plain_ext key p)) [worker_made\<lparr>pod_NodeName := ''n1''\<rparr>]))) lost_node lost_node)) = {(''ns'', ''job'')}"
proof -
  let ?pod = "worker_made\<lparr>pod_NodeName := ''n1''\<rparr>"
  let ?c = "\<lambda>ns key v. Inr (filter (\<lambda>p. (ns = None \<or> ns = Some (pod_Namespace p)) \<and> v \<in> set (pod_indexer plain_ext key p)) [?pod])"
  let ?e = "NodeEvent_Update NewManager (GetPodsForNode ?c) lost_node lost_node"
  have c: "lists_by_index plain_ext [?pod] ?c" by (simp add: lists_by_index_def)
  have n: "node_Name lost_node \<noteq> []" by (simp add: lost_node_def)
  have run: "?e = (fst ?e, snd ?e)" by simp
  have down: "\<not> fst (IsNodeDown NewManager (node_Name lost_node))" by (simp add: nm.down_empty)
  have "fst ?e = fst (HandleGeneric NewManager lost_node)" by (simp add: NodeEvent_Update_def HandleUpdate_def Let_def case_prod_beta)
  moreover have "fst (IsNodeDown (fst (HandleGeneric NewManager lost_node)) (node_Name lost_node))"
    by (simp add: lost_node_def HandleGeneric_def unknown_conds_def SetNode_def IsNodeDown_iff NewManager_def)
  ultimately have up: "fst (IsNodeDown (fst ?e) (node_Name lost_node))" by simp
  have ref: "pod_Controller ?pod = Some (GenOwnerReference plain_ext ready_job)" by (simp add: worker_made_def worker_request_def)
  have own: "IsAresJob (Some (GenOwnerReference plain_ext ready_job))" "or_Name (GenOwnerReference plain_ext ready_job) = ''job''"
    by (rule IsAresJob_own[OF plain_owner_refs(1)], code_simp)
  have "pod_Namespace ?pod = ''ns''" by (simp add: worker_made_def worker_def plain_defs)
  with node_down_requeues[OF manager_ok_NewManager c n run] down up ref own show ?thesis by (simp add: lost_node_def)
qed

end
