(* ===== verification/Observer.thy ===== *)
theory Observer
  imports Events
begin

text \<open>
  The HTTP server that waiting pods poll for the phases and addresses of roles (\<open>observer/\<close>). Gin's context is modelled by what a
  handler writes to it, and the outcome of \<open>ShouldBindUri\<close> is the argument of a handler; a handler that panics has no value, and gin's recovery, through which the router sends every
  request, answers in its place (\<open>recovers\<close>). The
  observer reads the API server through the client of controller-runtime, whose lists use the indices of the theory \<open>Events\<close>.
  Error values are printed by \<open>ErrorText\<close>.
\<close>

section \<open>observer/server\<close>

record ErrorCode =
  ec_Code :: string
  ec_Reason :: string
  ec_HttpCode :: int

definition NewErrorCode :: "string \<Rightarrow> string \<Rightarrow> int \<Rightarrow> ErrorCode" where
  "NewErrorCode code reason httpCode = \<lparr>ec_Code = code, ec_Reason = reason, ec_HttpCode = httpCode\<rparr>"

definition NewBadRequest :: "string \<Rightarrow> string \<Rightarrow> ErrorCode" where
  "NewBadRequest code reason = \<lparr>ec_Code = code, ec_Reason = reason, ec_HttpCode = 400\<rparr>"

definition NewNotFound :: "string \<Rightarrow> string \<Rightarrow> ErrorCode" where
  "NewNotFound code reason = \<lparr>ec_Code = code, ec_Reason = reason, ec_HttpCode = 404\<rparr>"

definition NewInternalError :: "string \<Rightarrow> string \<Rightarrow> ErrorCode" where
  "NewInternalError code reason = \<lparr>ec_Code = code, ec_Reason = reason, ec_HttpCode = 500\<rparr>"

definition ErrorCode_String :: "ErrorCode \<Rightarrow> string" where
  "ErrorCode_String code = ''HTTPCode='' @ itoa (ec_HttpCode code) @ '', '' @ ec_Reason code @ ''('' @ ec_Code code @ '')''"

text \<open>The dynamic values passed as \<open>msgAndArgs\<close>.\<close>

datatype go_any = AnyString string | AnyError go_error

primrec any_text :: "ext \<Rightarrow> go_any \<Rightarrow> string" where
  "any_text E (AnyString s) = s"
| "any_text E (AnyError e) = ErrorText E e"

text \<open>\<open>fmt.Sprintf\<close> for the verbs \<open>%s\<close> and \<open>%v\<close>, one argument for each.\<close>

fun Sprintf :: "string \<Rightarrow> string list \<Rightarrow> string" where
  "Sprintf (c # v # fs) (a # args) =
     (if c = CHR ''%'' \<and> (v = CHR ''s'' \<or> v = CHR ''v'') then a @ Sprintf fs args else c # Sprintf (v # fs) (a # args))"
| "Sprintf fs args = fs"

definition BuildMessage :: "ext \<Rightarrow> go_any list \<Rightarrow> string option" where
  "BuildMessage E msgAndArgs =
     (case msgAndArgs of
        [] \<Rightarrow> Some []
      | [msg] \<Rightarrow> Some (any_text E msg)
      | AnyString f # args \<Rightarrow> Some (Sprintf f (map (any_text E) args))
      | AnyError e # args \<Rightarrow> None)"

record ServiceError =
  se_Code :: ErrorCode
  se_Message :: string

definition NewServiceError :: "ext \<Rightarrow> ErrorCode \<Rightarrow> go_any list \<Rightarrow> ServiceError option" where
  "NewServiceError E code msgAndArgs = do {
     message \<leftarrow> BuildMessage E msgAndArgs;
     Some \<lparr>se_Code = code, se_Message = message\<rparr> }"

definition ServiceError_Error :: "ServiceError \<Rightarrow> string" where
  "ServiceError_Error e = ErrorCode_String (se_Code e) @ '': '' @ se_Message e"

record ErrorResponse =
  er_Code :: string
  er_Message :: string
  er_Error :: string

datatype Body = StringBody string | JobCacheBody JobCache | ErrorBody ErrorResponse | NoBody

record Response =
  resp_Status :: int
  resp_Body :: Body
  resp_Aborted :: bool

definition Success :: "Body \<Rightarrow> Response" where
  "Success obj = \<lparr>resp_Status = 200, resp_Body = obj, resp_Aborted = False\<rparr>"

definition Failure :: "ext \<Rightarrow> ErrorCode \<Rightarrow> go_any list \<Rightarrow> Response option" where
  "Failure E errorCode msgAndArgs = do {
     message \<leftarrow> BuildMessage E msgAndArgs;
     Some \<lparr>resp_Status = ec_HttpCode errorCode,
       resp_Body = ErrorBody \<lparr>er_Code = ec_Code errorCode, er_Message = ec_Reason errorCode, er_Error = message\<rparr>,
       resp_Aborted = True\<rparr> }"

section \<open>observer\<close>

definition InvalidParam :: ErrorCode where "InvalidParam = NewBadRequest ''230400'' ''InvalidParam''"
definition NotFound :: ErrorCode where "NotFound = NewNotFound ''230404'' ''NotFound''"
definition UnknownError :: ErrorCode where "UnknownError = NewInternalError ''230500'' ''UnknownError''"

text \<open>The two kinds of error values that the type assertion of \<open>HandleError\<close> tells apart.\<close>

datatype observer_error = Service ServiceError | Plain go_error

definition HandleError :: "ext \<Rightarrow> observer_error \<Rightarrow> Response option" where
  "HandleError E err =
     (case err of
        Service serviceError \<Rightarrow> Failure E (se_Code serviceError) [AnyString (se_Message serviceError)]
      | Plain e \<Rightarrow> Failure E UnknownError [AnyError e])"

record AresJobObserver =
  ob_Get :: "string \<Rightarrow> string \<Rightarrow> AresJob result"
  ob_List :: pod_client

definition Observer_GetJob :: "AresJobObserver \<Rightarrow> string \<Rightarrow> string \<Rightarrow> AresJob result" where
  "Observer_GetJob r ns name = ob_Get r ns name"

definition Observer_GetPodsForJob :: "AresJobObserver \<Rightarrow> AresJob \<Rightarrow> Pod list result" where
  "Observer_GetPodsForJob r job = GetPodsForJob (ob_List r) job"

text \<open>The loop over the role statuses, which are a map: each role is written once.\<close>

fun cache_roles :: "ext \<Rightarrow> AresJob \<Rightarrow> Pod list \<Rightarrow> (ReplicaType \<times> RoleStatus option) list \<Rightarrow> JobCache \<Rightarrow> JobCache option" where
  "cache_roles E job pods [] jobCache = Some jobCache"
| "cache_roles E job pods ((role, p) # rest) jobCache = do {
     status \<leftarrow> p;
     roleCache \<leftarrow> BuildRoleCache E job role (role_Phase status) pods;
     cache_roles E job pods rest (AList.update role (Some roleCache) jobCache) }"

definition Observer_GetJobCache ::
  "ext \<Rightarrow> AresJobObserver \<Rightarrow> string \<Rightarrow> string \<Rightarrow> (observer_error + JobCache) option" where
  "Observer_GetJobCache E r ns name =
     (case Observer_GetJob r ns name of
        Inl err \<Rightarrow> do {
          let code = (if IsNotFound err then NotFound else UnknownError);
          e \<leftarrow> NewServiceError E code
            [AnyString ''failed to get aresjob for '%s/%s': %v'', AnyString ns, AnyString name, AnyError err];
          Some (Inl (Service e)) }
      | Inr job \<Rightarrow>
          (case Observer_GetPodsForJob r job of
             Inl err \<Rightarrow> Some (Inl (Plain (Errorf
               (Sprintf ''failed to get pods for '%s/%s': %v'' [ns, name, ErrorText E err]))))
           | Inr pods \<Rightarrow> do {
               jobCache \<leftarrow> cache_roles E job pods (gm_entries (st_RoleStatuses (job_Status job))) [];
               Some (Inr jobCache) }))"

section \<open>observer/handler\<close>

record JobKeyParam =
  param_Key :: string


definition Handler_GetJobCache ::
  "ext \<Rightarrow> AresJobObserver \<Rightarrow> JobKeyParam result \<Rightarrow> Response option" where
  "Handler_GetJobCache E r bound =
     (case bound of
        Inl err \<Rightarrow> Failure E InvalidParam [AnyError err]
      | Inr param \<Rightarrow>
          (case KeyToNamespacedName (param_Key param) of
             Inl err \<Rightarrow> Failure E InvalidParam [AnyError err]
           | Inr (ns, name) \<Rightarrow> do {
               res \<leftarrow> Observer_GetJobCache E r ns name;
               (case res of
                  Inl err \<Rightarrow> HandleError E err
                | Inr jobCache \<Rightarrow> Some (Success (JobCacheBody jobCache))) }))"



section \<open>Lemmas\<close>



lemma sorted_key_unique:
  fixes f :: "'a \<Rightarrow> nat"
  assumes "sorted_wrt (\<lambda>p q. f p \<le> f q) xs" "mset xs = mset ys" "inj_on f (set ys)"
  shows "xs = sort_key f ys"
proof -
  have "sorted (map f xs)" using assms(1) by (simp add: sorted_wrt_map)
  then have "map f xs = map f (sort_key f ys)"
    by (metis assms(2) mset_map mset_sort properties_for_sort sorted_sort_key sorted_sort_id)
  moreover have "set xs = set ys" using assms(2) by (rule mset_eq_setD)
  ultimately show ?thesis using inj_on_map_eq_map[of f xs "sort_key f ys"] assms(3) by simp
qed

text \<open>The addresses of a role, by a reference definition over the pods of the cluster.\<close>

definition pods_of_role :: "ext \<Rightarrow> AresJob \<Rightarrow> ReplicaType \<Rightarrow> Pod list \<Rightarrow> Pod list" where
  "pods_of_role E job role pods = filter (\<lambda>p. pod_Namespace p = job_Namespace job \<and> job_Name job \<in> set (IndexObjectOwner (pod_Controller p)) \<and>
     GetReplicaType E (pod_Labels p) = role \<and> pod_DeletionTimestamp p = None) pods"

definition role_ip :: "AresJob \<Rightarrow> ReplicaType \<Rightarrow> Pod \<Rightarrow> string" where
  "role_ip job role = (if map_option (\<lambda>rs. ps_HostNetwork (pt_Spec (rs_Template rs)))
       (Option.bind (gm_ptr (spec_RoleSpecs (job_Spec job)) role) role_ReplicaSpec) = Some True then pod_HostIP else pod_PodIP)"

definition role_data :: "ext \<Rightarrow> AresJob \<Rightarrow> (Pod \<Rightarrow> nat) \<Rightarrow> ReplicaType \<Rightarrow> RolePhase \<Rightarrow> Pod list \<Rightarrow> RoleCache" where
  "role_data E job idx role phase pods = \<lparr>rc_Phase = phase, rc_Running = (phase = RolePhaseRunning),
     rc_IPs = map (role_ip job role) (sort_key idx (filter (\<lambda>p. role_ip job role p \<noteq> []) (pods_of_role E job role pods)))\<rparr>"

lemma BuildRoleCache_reference:
  assumes "gm_ptr (spec_RoleSpecs (job_Spec job)) role = Some sp" "role_ReplicaSpec sp = Some rspec"
    and "filter (\<lambda>p. GetReplicaType E (pod_Labels p) = role) (FilterAlivePods xs) = pods_of_role E job role pods"
    and "\<forall>p \<in> set (FilterAlivePods xs). GetReplicaIndex E (pod_Labels p) = itoa (int (idx p))"
    and "inj_on idx (set (pods_of_role E job role pods))"
  shows "BuildRoleCache E job role phase xs = Some (role_data E job idx role phase pods)"
proof -
  let ?ip = "role_ip job role"
  let ?ys = "filter (\<lambda>p. ?ip p \<noteq> []) (pods_of_role E job role pods)"
  have ip: "?ip = (if ps_HostNetwork (pt_Spec (rs_Template rspec)) then pod_HostIP else pod_PodIP)"
    using assms(1,2) by (simp add: role_ip_def)
  from BuildRoleCache_addresses[OF assms(1,2) ip assms(4), of phase] obtain ps where
    ps: "BuildRoleCache E job role phase xs = Some \<lparr>rc_Phase = phase, rc_Running = (phase = RolePhaseRunning), rc_IPs = map ?ip ps\<rparr>"
      "mset ps = filter_mset (\<lambda>p. GetReplicaType E (pod_Labels p) = role \<and> ?ip p \<noteq> []) (mset (FilterAlivePods xs))"
      "sorted_wrt (\<lambda>p q. idx p \<le> idx q) ps" by blast
  have "mset ps = mset ?ys" unfolding assms(3)[symmetric] using ps(2) by (simp add: conj_commute flip: mset_filter)
  moreover have "inj_on idx (set ?ys)" using assms(5) by (rule inj_on_subset) auto
  ultimately have "ps = sort_key idx ?ys" using sorted_key_unique[OF ps(3)] by blast
  with ps(1) show ?thesis by (simp add: role_data_def)
qed

text \<open>The two lists from which the observer and the operator build the data of a role hold the same alive pods of it.\<close>

lemma listed_pods_of_role:
  assumes "lists_by_index E pods c" "role \<noteq> []"
  obtains jobs roles where "GetPodsForJob c job = Inr jobs" "GetPodsForReplica c job role = Inr roles"
    "filter (\<lambda>p. GetReplicaType E (pod_Labels p) = role) (FilterAlivePods jobs) = pods_of_role E job role pods"
    "filter (\<lambda>p. GetReplicaType E (pod_Labels p) = role) (FilterAlivePods roles) = pods_of_role E job role pods"
    "set jobs \<subseteq> set pods" "set roles \<subseteq> set pods"
proof -
  have keys: "ReplicaOwnerKey \<noteq> JobOwnerKey" by (simp add: go_consts)
  let ?jobs = "filter (\<lambda>p. Some (job_Namespace job) = Some (pod_Namespace p) \<and> job_Name job \<in> set (pod_indexer E JobOwnerKey p)) pods"
  let ?roles = "filter (\<lambda>p. Some (job_Namespace job) = Some (pod_Namespace p) \<and>
      MetaReplicaKeyFormat (job_Name job) role \<in> set (pod_indexer E ReplicaOwnerKey p)) pods"
  have l: "GetPodsForJob c job = Inr ?jobs" "GetPodsForReplica c job role = Inr ?roles"
    using assms(1) by (simp_all add: lists_by_index_def GetPodsForJob_def GetPodsForReplica_def)
  have owner: "job_Name job \<in> set (IndexObjectOwner (pod_Controller p)) \<longleftrightarrow>
      MetaReplicaKeyFormat (job_Name job) role \<in> set (IndexReplicaOwner E (pod_Controller p) (pod_Labels p))"
    if "GetReplicaType E (pod_Labels p) = role" for p
    using that assms(2) by (auto simp: IndexObjectOwner_def IndexReplicaOwner_def MetaReplicaKeyFormat_def split: option.splits)
  have "filter (\<lambda>p. GetReplicaType E (pod_Labels p) = role) (FilterAlivePods ?jobs) = pods_of_role E job role pods"
    "filter (\<lambda>p. GetReplicaType E (pod_Labels p) = role) (FilterAlivePods ?roles) = pods_of_role E job role pods"
    using owner keys
    by (auto simp: FilterAlivePods_def FilterPods_def pods_of_role_def pod_indexer_def intro!: filter_cong)
  then show ?thesis using l by (intro that[of ?jobs ?roles]) auto
qed

lemma listed_role_data:
  assumes "lists_by_index E pods c" "role \<noteq> []" "gm_ptr (spec_RoleSpecs (job_Spec job)) role = Some sp" "role_ReplicaSpec sp = Some rspec"
    and "\<forall>p \<in> set pods. GetReplicaIndex E (pod_Labels p) = itoa (int (idx p))" "inj_on idx (set (pods_of_role E job role pods))"
    and "GetPodsForJob c job = Inr jobs"
  shows "BuildRoleCache E job role ph jobs = Some (role_data E job idx role ph pods)"
    "\<exists>roles. GetPodsForReplica c job role = Inr roles \<and> BuildRoleCache E job role ph roles = Some (role_data E job idx role ph pods)"
proof -
  obtain xs ys where l: "GetPodsForJob c job = Inr xs" "GetPodsForReplica c job role = Inr ys"
    "filter (\<lambda>p. GetReplicaType E (pod_Labels p) = role) (FilterAlivePods xs) = pods_of_role E job role pods"
    "filter (\<lambda>p. GetReplicaType E (pod_Labels p) = role) (FilterAlivePods ys) = pods_of_role E job role pods"
    "set xs \<subseteq> set pods" "set ys \<subseteq> set pods" using listed_pods_of_role[OF assms(1,2)] by metis
  have lbl: "\<forall>p \<in> set (FilterAlivePods zs). GetReplicaIndex E (pod_Labels p) = itoa (int (idx p))" if "set zs \<subseteq> set pods" for zs
    using that assms(5) by (auto simp: FilterAlivePods_def FilterPods_def)
  note ref = BuildRoleCache_reference[OF assms(3,4) _ lbl assms(6)]
  show "BuildRoleCache E job role ph jobs = Some (role_data E job idx role ph pods)" using ref[OF l(3,5)] l(1) assms(7) by simp
  show "\<exists>roles. GetPodsForReplica c job role = Inr roles \<and> BuildRoleCache E job role ph roles = Some (role_data E job idx role ph pods)"
    using ref[OF l(4,6)] l(2) by blast
qed

lemma cache_roles_run:
  assumes "distinct (map fst xs)" "\<forall>(role, p) \<in> set xs. \<exists>s. p = Some s \<and> BuildRoleCache E job role (role_Phase s) pods \<noteq> None"
  shows "\<exists>jc. cache_roles E job pods xs acc = Some jc \<and> (\<forall>role. map_of jc role =
    (case map_of xs role of Some (Some s) \<Rightarrow> Some (BuildRoleCache E job role (role_Phase s) pods) | _ \<Rightarrow> map_of acc role))"
  using assms
proof (induction xs arbitrary: acc)
  case (Cons x xs)
  obtain role s data where x: "x = (role, Some s)" "BuildRoleCache E job role (role_Phase s) pods = Some data"
    using Cons.prems(2) by (cases x) fastforce
  have r: "map_of xs role = None" using Cons.prems(1) x(1) by (simp add: map_of_eq_None_iff)
  from Cons.IH[of "AList.update role (Some data) acc"] Cons.prems obtain jc where
    jc: "cache_roles E job pods xs (AList.update role (Some data) acc) = Some jc"
      "\<And>q. map_of jc q = (case map_of xs q of Some (Some s) \<Rightarrow> Some (BuildRoleCache E job q (role_Phase s) pods)
         | _ \<Rightarrow> map_of (AList.update role (Some data) acc) q)" by auto
  have "map_of jc q = (case map_of (x # xs) q of Some (Some s) \<Rightarrow> Some (BuildRoleCache E job q (role_Phase s) pods) | _ \<Rightarrow> map_of acc q)" for q
    using jc(2)[of q] x r by (cases "q = role") (simp_all add: update_conv' split: option.splits)
  with jc(1) x show ?case by auto
qed simp


section \<open>Properties\<close>

text \<open>
  C22. The observer answers what the operator knows. Asked for the key that the operator gives to the waiting pods of a job, it replies
  with status 200 and exactly one entry per role with a status: the phase of the role and the addresses of its alive pods in the order
  of their indices, as the reference definition has them; and this entry is the one that the operator itself
  writes to its own cache for the role, although the one lists the pods of the job and the other those of the role.
\<close>

theorem observer_agrees:
  assumes "lists_by_index E pods (ob_List r)" "ob_Get r (job_Namespace job) (job_Name job) = Inr job" "CHR ''.'' \<notin> set (job_Namespace job)"
    and "gm_ok (st_RoleStatuses (job_Status job))"
    and "\<forall>(role, p) \<in> set (gm_entries (st_RoleStatuses (job_Status job))). role \<noteq> [] \<and> p \<noteq> None \<and>
      (\<exists>sp rspec. gm_ptr (spec_RoleSpecs (job_Spec job)) role = Some sp \<and> role_ReplicaSpec sp = Some rspec)"
    and "\<forall>p \<in> set pods. GetReplicaIndex E (pod_Labels p) = itoa (int (idx p))"
    and "\<forall>role. inj_on idx (set (pods_of_role E job role pods))"
    and "key = NamespacedNameToKey (job_Namespace job) (job_Name job)"
  shows "\<exists>jc. Handler_GetJobCache E r (Inr \<lparr>param_Key = key\<rparr>) = Some (Success (JobCacheBody jc)) \<and>
    (\<forall>role. map_of jc role = map_option (\<lambda>s. Some (role_data E job idx role (role_Phase s) pods)) (gm_ptr (st_RoleStatuses (job_Status job)) role)) \<and>
    (\<forall>role s ch. gm_ptr (st_RoleStatuses (job_Status job)) role = Some s \<longrightarrow> backend ch \<noteq> None \<longrightarrow>
      (\<exists>ch'. OnRolePhaseChanged E (Some ch) (GetPodsForReplica (ob_List r) job role) job role (role_Phase s) = Some (None, Some ch') \<and>
        map_of jc role = Some (cache_view (backend ch') key role)))"
proof -
  let ?st = "st_RoleStatuses (job_Status job)"
  obtain jobs where jobs: "GetPodsForJob (ob_List r) job = Inr jobs" using assms(1) by (simp add: lists_by_index_def GetPodsForJob_def)
  have build: "BuildRoleCache E job role ph jobs = Some (role_data E job idx role ph pods) \<and>
      (\<exists>roles. GetPodsForReplica (ob_List r) job role = Inr roles \<and>
        BuildRoleCache E job role ph roles = Some (role_data E job idx role ph pods))"
    if role: "(role, p) \<in> set (gm_entries ?st)" for role p ph
  proof -
    from role assms(5) obtain sp rspec where "role \<noteq> []" "gm_ptr (spec_RoleSpecs (job_Spec job)) role = Some sp"
      "role_ReplicaSpec sp = Some rspec" by fastforce
    from listed_role_data[OF assms(1) this assms(6) spec[OF assms(7)] jobs] show ?thesis by blast
  qed
  have entry: "(role, Some s) \<in> set (gm_entries ?st)" if "gm_ptr ?st role = Some s" for role s
    using that by (auto simp: gm_ptr_def gm_get_def gm_entries_def dest: map_of_SomeD split: option.splits)
  have "distinct (map fst (gm_entries ?st))" using assms(4) by (simp add: gm_ok_def gm_keys_def)
  from cache_roles_run[OF this, of E job jobs "[]"] assms(5) build obtain jc where
    jc: "cache_roles E job jobs (gm_entries ?st) [] = Some jc" "\<And>role. map_of jc role = (case map_of (gm_entries ?st) role of
      Some (Some s) \<Rightarrow> Some (BuildRoleCache E job role (role_Phase s) jobs) | _ \<Rightarrow> map_of [] role)" by fastforce
  have roles: "map_of jc role = map_option (\<lambda>s. Some (role_data E job idx role (role_Phase s) pods)) (gm_ptr ?st role)" for role
  proof -
    have "map_of jc role = (case gm_ptr ?st role of Some s \<Rightarrow> Some (BuildRoleCache E job role (role_Phase s) jobs) | None \<Rightarrow> None)"
      using jc(2)[of role] by (simp add: gm_ptr_def gm_get_def gm_entries_def split: option.splits)
    then show ?thesis using build[OF entry] by (cases "gm_ptr ?st role") simp_all
  qed
  have "Handler_GetJobCache E r (Inr \<lparr>param_Key = key\<rparr>) = Some (Success (JobCacheBody jc))"
    using job_key_roundtrip[of "job_Namespace job" "job_Name job"] assms(2,3,8) jobs jc(1)
    by (simp add: Handler_GetJobCache_def Observer_GetJobCache_def Observer_GetJob_def Observer_GetPodsForJob_def)
  moreover have "\<exists>ch'. OnRolePhaseChanged E (Some ch) (GetPodsForReplica (ob_List r) job role) job role (role_Phase s) = Some (None, Some ch') \<and>
        map_of jc role = Some (cache_view (backend ch') key role)"
    if s: "gm_ptr ?st role = Some s" and ch: "backend ch \<noteq> None" for role s ch
  proof -
    let ?d = "role_data E job idx role (role_Phase s) pods"
    obtain ch' where w: "SetRoleCache ch key role (Some ?d) = (None, ch')" using rc.set_ok[OF ch] by (metis prod.collapse)
    have "OnRolePhaseChanged E (Some ch) (GetPodsForReplica (ob_List r) job role) job role (role_Phase s) = Some (None, Some ch')"
      using build[OF entry[OF s], of "role_Phase s"] w assms(8) by (auto simp: OnRolePhaseChanged_def Let_def)
    moreover have "cache_view (backend ch') key role = Some ?d" using rc.set_view[OF ch, of key role "Some ?d" key role] w by simp
    ultimately show ?thesis using roles[of role] s by simp
  qed
  ultimately show ?thesis using roles by blast
qed

definition watched_job :: AresJob where
  "watched_job = two_workers\<lparr>job_Status := (job_Status two_workers)\<lparr>st_RoleStatuses := Some [(RoleWorker, Some (new_RoleStatus RolePhaseRunning))]\<rparr>\<rparr>"

definition watched_pod :: "string \<Rightarrow> string \<Rightarrow> string \<Rightarrow> Pod" where
  "watched_pod name index ip = (plain_pod name ''worker'' index PodRunning)\<lparr>pod_PodIP := ip, pod_Controller := Some (GenOwnerReference plain_ext watched_job)\<rparr>"

definition watched_pods :: "Pod list" where
  "watched_pods = [watched_pod ''p1'' ''1'' ''10.1.0.2'', watched_pod ''p0'' ''0'' ''10.1.0.1'']"

definition watching :: AresJobObserver where
  "watching = \<lparr>ob_Get = (\<lambda>ns name. if (ns, name) = (''ns'', ''job'') then Inr watched_job else Inl ApiNotFound),
     ob_List = (\<lambda>ns key v. Inr (filter (\<lambda>p. (ns = None \<or> ns = Some (pod_Namespace p)) \<and> v \<in> set (pod_indexer plain_ext key p)) watched_pods))\<rparr>"

theorem observer_agrees_witness:
  "\<exists>jc. Handler_GetJobCache plain_ext watching (Inr \<lparr>param_Key = ''ns.job''\<rparr>) = Some (Success (JobCacheBody jc)) \<and>
    map_of jc RoleWorker = Some (Some \<lparr>rc_Phase = RolePhaseRunning, rc_Running = True, rc_IPs = [''10.1.0.1'', ''10.1.0.2'']\<rparr>)"
proof -
  let ?st = "st_RoleStatuses (job_Status watched_job)" and ?idx = "\<lambda>p. if pod_Name p = ''p0'' then 0 else 1 :: nat"
  let ?s = "new_RoleStatus RolePhaseRunning"
  have st: "?st = Some [(RoleWorker, Some ?s)]" by (simp add: watched_job_def)
  have names: "job_Namespace watched_job = ''ns''" "job_Name watched_job = ''job''" "job_Spec watched_job = job_Spec two_workers"
    by (simp_all add: watched_job_def two_workers_def plain_defs)
  have lists: "lists_by_index plain_ext watched_pods (ob_List watching)" by (simp add: lists_by_index_def watching_def)
  have get: "ob_Get watching (job_Namespace watched_job) (job_Name watched_job) = Inr watched_job" by (simp add: watching_def names)
  have dot: "CHR ''.'' \<notin> set (job_Namespace watched_job)" by (simp add: names)
  have ok: "gm_ok ?st" by (simp add: st gm_ok_def gm_keys_def)
  have roles: "\<forall>(role, p) \<in> set (gm_entries ?st). role \<noteq> [] \<and> p \<noteq> None \<and>
      (\<exists>sp rspec. gm_ptr (spec_RoleSpecs (job_Spec watched_job)) role = Some sp \<and> role_ReplicaSpec sp = Some rspec)"
    using two_workers_facts(1) by (simp add: st gm_entries_def names plain_role_def go_consts)
  have lbl: "\<forall>p \<in> set watched_pods. GetReplicaIndex plain_ext (pod_Labels p) = itoa (int (?idx p))"
    by (simp add: watched_pods_def watched_pod_def GetReplicaIndex_def plain_pod_def gm_get_def go_consts itoa_small)
  have inj: "\<forall>role. inj_on ?idx (set (pods_of_role plain_ext watched_job role watched_pods))"
    by (auto simp: inj_on_def pods_of_role_def watched_pods_def watched_pod_def plain_pod_def)
  have key: "''ns.job'' = NamespacedNameToKey (job_Namespace watched_job) (job_Name watched_job)" by (simp add: names NamespacedNameToKey_def)
  have data: "role_data plain_ext watched_job ?idx RoleWorker (role_Phase ?s) watched_pods =
      \<lparr>rc_Phase = RolePhaseRunning, rc_Running = True, rc_IPs = [''10.1.0.1'', ''10.1.0.2'']\<rparr>" by code_simp
  have ptr: "gm_ptr ?st RoleWorker = Some ?s" by (simp add: st gm_ptr_def gm_get_def)
  from observer_agrees[OF lists get dot ok roles lbl inj key] obtain jc where
    "Handler_GetJobCache plain_ext watching (Inr \<lparr>param_Key = ''ns.job''\<rparr>) = Some (Success (JobCacheBody jc))"
    "map_of jc RoleWorker = map_option (\<lambda>s. Some (role_data plain_ext watched_job ?idx RoleWorker (role_Phase s) watched_pods)) (gm_ptr ?st RoleWorker)"
    by blast
  then show ?thesis using data ptr by auto
qed












end
