(* ===== verification/Startup.thy ===== *)
theory Startup
  imports Observer
begin

text \<open>
  How the two programs come up: \<open>cmd/\<close>, \<open>SetupWithManager\<close> and its helpers in \<open>controllers/aresjob_controller.go\<close>, and the same of
  \<open>observer/observer.go\<close>. What they set up lives in controller-runtime and client-go; the code decides what is asked for, in which
  order, and what happens when a step fails. So a start is the sequence of calls it makes, and a parameter answers each of them with
  an error or none, as it likes. The theorems say that a manager starts only after everything it needs has been registered, that the first
  error ends the start and is returned, and that the lists of \<open>Events\<close> find the indices they ask for. Metrics, health probes, leader
  election and the signal handler are settings handed to the library; logging is left out.
\<close>

section \<open>Options\<close>

record ServerOption =
  so_MetricsAddr :: string
  so_ProbeAddr :: string
  so_ConfigPath :: string
  so_Namespace :: string

record OperatorOption =
  op_Option :: ServerOption
  op_EnableLeaderElection :: bool

record ObserverOption =
  ob_Option :: ServerOption
  ob_Port :: int

definition Server_NewOption :: ServerOption where
  "Server_NewOption = \<lparr>so_MetricsAddr = [], so_ProbeAddr = [], so_ConfigPath = [], so_Namespace = []\<rparr>"

definition Operator_NewOption :: OperatorOption where
  "Operator_NewOption = \<lparr>op_Option = Server_NewOption, op_EnableLeaderElection = False\<rparr>"

definition Observer_NewOption :: ObserverOption where
  "Observer_NewOption = \<lparr>ob_Option = Server_NewOption, ob_Port = 0\<rparr>"

text \<open>Binding a flag to a variable stores the default in it.\<close>

definition Server_Bind :: "ServerOption \<Rightarrow> ServerOption" where
  "Server_Bind opts = opts\<lparr>so_MetricsAddr := '':8080'', so_ProbeAddr := '':8081'', so_ConfigPath := ''./conf/staging.yaml'', so_Namespace := []\<rparr>"

definition Operator_Bind :: "OperatorOption \<Rightarrow> OperatorOption" where
  "Operator_Bind opts = opts\<lparr>op_EnableLeaderElection := False\<rparr>"

definition Observer_Bind :: "ObserverOption \<Rightarrow> ObserverOption" where
  "Observer_Bind opts = opts\<lparr>ob_Port := 80\<rparr>"

section \<open>Calls\<close>

record ManagerOptions =
  mo_MetricsBindAddress :: string
  mo_Port :: int
  mo_HealthProbeBindAddress :: string
  mo_LeaderElectionID :: string
  mo_LeaderElection :: bool
  mo_Namespace :: string

datatype watched = WAresJob | WPod | WService | WPodGroup | WNode

text \<open>The methods of the reconciler that serve as predicates, and the functions that serve as indexers.\<close>

datatype create_predicate = P_AddObject
datatype update_predicate = P_UpdateObject
datatype delete_predicate = P_DeleteObject
datatype indexer = I_ObjectOwner | I_ReplicaOwner | I_NodeName

record Funcs =
  CreateFunc :: "create_predicate option"
  UpdateFunc :: "update_predicate option"
  DeleteFunc :: "delete_predicate option"

record Registration =
  reg_For :: watched
  reg_Owns :: "(watched \<times> Funcs) list"
  reg_Watches :: "watched list"
  reg_MaxConcurrentReconciles :: int

datatype boot_call =
    GetConfigOrDie
  | CtrlNewManager ManagerOptions
  | KubeNewForConfigOrDie RestConfig
  | VolcanoNewForConfigOrDie RestConfig
  | GoCleanUp
  | IndexField watched string indexer
  | Complete Registration
  | AddHealthzCheck string
  | AddReadyzCheck string
  | AddRunnable string
  | StartManager

type_synonym boot_env = "boot_call list \<Rightarrow> boot_call \<Rightarrow> go_error option"

text \<open>
  Statements of the form \<open>if err := f(); err != nil { return err }\<close> in a row: the first error ends them. A call \<open>OrDie\<close> that fails ends
  the process, the value \<^term>\<open>None\<close>.
\<close>

fun do_calls :: "boot_env \<Rightarrow> boot_call list \<Rightarrow> boot_call list \<Rightarrow> go_error option \<times> boot_call list" where
  "do_calls env [] tr = (None, tr)"
| "do_calls env (c # cs) tr = (case env tr c of None \<Rightarrow> do_calls env cs (tr @ [c]) | Some err \<Rightarrow> (Some err, tr @ [c]))"

definition or_die :: "boot_env \<Rightarrow> boot_call \<Rightarrow> boot_call list \<Rightarrow> boot_call list option" where
  "or_die env c tr = (if env tr c = None then Some (tr @ [c]) else None)"

section \<open>The controller\<close>

definition ControllerName :: string where
  "ControllerName = ''ares-operator''"

text \<open>The settings of kubeflow's controller; its recorder is the manager's for the name of the controller.\<close>

record JobControllerSettings =
  jcs_EnableGangScheduling :: bool
  jcs_Recorder :: string
  jcs_Rest :: RestConfig

definition setupUnderlyingJobController :: "boot_env \<Rightarrow> Configuration \<Rightarrow> boot_call list \<Rightarrow> (JobControllerSettings \<times> boot_call list) option" where
  "setupUnderlyingJobController env config tr = do {
     let recorder = ControllerName;
     let restConfig = \<lparr>QPS = QPS (GetRestConfig config), Burst = Burst (GetRestConfig config)\<rparr>;
     tr \<leftarrow> or_die env (KubeNewForConfigOrDie restConfig) tr;
     tr \<leftarrow> or_die env (KubeNewForConfigOrDie restConfig) tr;
     tr \<leftarrow> or_die env (VolcanoNewForConfigOrDie restConfig) tr;
     Some (\<lparr>jcs_EnableGangScheduling = False, jcs_Recorder = recorder, jcs_Rest = restConfig\<rparr>, tr) }"

definition setupCleanUpQueue :: "boot_call list \<Rightarrow> boot_call list" where
  "setupCleanUpQueue tr = tr @ [GoCleanUp]"

definition setupIndexer :: "boot_env \<Rightarrow> boot_call list \<Rightarrow> go_error option \<times> boot_call list" where
  "setupIndexer env tr = do_calls env
     [IndexField WPod JobOwnerKey I_ObjectOwner,
      IndexField WPod ReplicaOwnerKey I_ReplicaOwner,
      IndexField WService JobOwnerKey I_ObjectOwner,
      IndexField WService ReplicaOwnerKey I_ReplicaOwner,
      IndexField WPod NodeNameKey I_NodeName] tr"

definition operator_registration :: Registration where
  "operator_registration = \<lparr>reg_For = WAresJob,
     reg_Owns =
       [(WPod, \<lparr>CreateFunc = Some P_AddObject, UpdateFunc = Some P_UpdateObject, DeleteFunc = Some P_DeleteObject\<rparr>),
        (WService, \<lparr>CreateFunc = Some P_AddObject, UpdateFunc = None, DeleteFunc = Some P_DeleteObject\<rparr>),
        (WPodGroup, \<lparr>CreateFunc = None, UpdateFunc = Some P_UpdateObject, DeleteFunc = None\<rparr>)],
     reg_Watches = [WNode],
     reg_MaxConcurrentReconciles = 10\<rparr>"

text \<open>The table of frameworks is built from the builders in the order in which Go visits them.\<close>

definition SetupWithManager ::
  "boot_env \<Rightarrow> ext \<Rightarrow> frameworkFactory \<Rightarrow> Configuration \<Rightarrow> Reconciler \<Rightarrow> boot_call list
     \<Rightarrow> (go_error option \<times> AresJobReconciler \<times> boot_call list) option" where
  "SetupWithManager env E builders config R tr = do {
     (settings, tr) \<leftarrow> setupUnderlyingJobController env config tr;
     let r = \<lparr>c_Reconciler = R, c_Frameworks = setupFrameworks E builders\<rparr>;
     let tr = setupCleanUpQueue tr;
     let (err, tr) = setupIndexer env tr;
     if err \<noteq> None then Some (err, r, tr)
     else let (err, tr) = do_calls env [Complete operator_registration] tr in Some (err, r, tr) }"

section \<open>The programs\<close>

definition BuildManagerOptions :: "boot_env \<Rightarrow> ServerOption \<Rightarrow> boot_call list \<Rightarrow> (ManagerOptions \<times> boot_call list) option" where
  "BuildManagerOptions env opts tr = do {
     tr \<leftarrow> or_die env GetConfigOrDie tr;
     Some (\<lparr>mo_MetricsBindAddress = so_MetricsAddr opts, mo_Port = 9443, mo_HealthProbeBindAddress = so_ProbeAddr opts,
       mo_LeaderElectionID = ''963c7a0b.kuaishou.com'', mo_LeaderElection = False, mo_Namespace = so_Namespace opts\<rparr>, tr) }"

text \<open>The scheme of the URI is what \<open>url.Parse\<close> finds in it.\<close>

definition open_cache :: "(string \<Rightarrow> string result) \<Rightarrow> Configuration \<Rightarrow> Cache option result" where
  "open_cache scheme_of config =
     (if 0 < length (cc_URI (cf_Cache config)) then
        case scheme_of (cc_URI (cf_Cache config)) of
          Inl err \<Rightarrow> Inl err
        | Inr scheme \<Rightarrow> (case New scheme of Inl err \<Rightarrow> Inl err | Inr c \<Rightarrow> Inr (Some c))
      else Inr None)"

definition Reconciler_Close :: "Cache option \<Rightarrow> Cache option" where
  "Reconciler_Close c = (case c of None \<Rightarrow> None | Some c \<Rightarrow> Some (Close c))"

text \<open>\<open>R\<close> holds the client and the scheme of the manager; \<open>served\<close> is what the rounds leave of the cache.\<close>

definition Operator_run ::
  "boot_env \<Rightarrow> ext \<Rightarrow> frameworkFactory \<Rightarrow> (string \<Rightarrow> string result) \<Rightarrow> Reconciler \<Rightarrow> (Cache option \<Rightarrow> Cache option)
     \<Rightarrow> OperatorOption \<Rightarrow> Configuration \<Rightarrow> (go_error option \<times> Cache option \<times> boot_call list) option" where
  "Operator_run env E builders scheme_of R served opts config = do {
     (managerOpts, tr) \<leftarrow> BuildManagerOptions env (op_Option opts) [];
     let managerOpts = managerOpts\<lparr>mo_LeaderElection := op_EnableLeaderElection opts\<rparr>;
     let (err, tr) = do_calls env [CtrlNewManager managerOpts] tr;
     if err \<noteq> None then Some (err, None, tr)
     else case open_cache scheme_of config of
       Inl err \<Rightarrow> Some (Some err, None, tr)
     | Inr c \<Rightarrow> do {
         (err, r, tr) \<leftarrow> SetupWithManager env E builders config (R\<lparr>r_conf := config, r_nodes := NewManager\<rparr>) tr;
         if err \<noteq> None then Some (err, c, tr)
         else
           let (err, tr) = do_calls env [AddHealthzCheck ''healthz'', AddReadyzCheck ''readyz''] tr
           in if err \<noteq> None then Some (err, c, tr)
              else
                let (err, tr) = do_calls env [StartManager] tr
                in if err \<noteq> None then Some (err, served c, tr)
                   else Some (None, Reconciler_Close (served c), tr) } }"

definition Observer_setupIndexer :: "boot_env \<Rightarrow> boot_call list \<Rightarrow> go_error option \<times> boot_call list" where
  "Observer_setupIndexer env tr = do_calls env
     [IndexField WPod JobOwnerKey I_ObjectOwner,
      IndexField WPod ReplicaOwnerKey I_ReplicaOwner] tr"

definition observer_registration :: Registration where
  "observer_registration = \<lparr>reg_For = WAresJob, reg_Owns = [(WPod, \<lparr>CreateFunc = None, UpdateFunc = None, DeleteFunc = None\<rparr>)],
     reg_Watches = [], reg_MaxConcurrentReconciles = 0\<rparr>"

definition Observer_SetupWithManager :: "boot_env \<Rightarrow> boot_call list \<Rightarrow> go_error option \<times> boot_call list" where
  "Observer_SetupWithManager env tr =
     (let (err, tr) = Observer_setupIndexer env tr
      in if err \<noteq> None then (err, tr) else do_calls env [Complete observer_registration] tr)"

definition Observer_Reconcile :: "Result \<times> go_error option" where
  "Observer_Reconcile = (done_result, None)"

text \<open>
  The observer that \<open>Register\<close> makes the one of the package is what \<open>GetJobCache\<close> asks; it is \<^term>\<open>None\<close> until then. An
  error of \<open>mgr.Add\<close> is dropped.
\<close>

definition NewObserver :: "AresJobObserver \<Rightarrow> AresJobObserver" where
  "NewObserver c = c"

definition Observer_run ::
  "boot_env \<Rightarrow> AresJobObserver \<Rightarrow> ObserverOption \<Rightarrow> (go_error option \<times> AresJobObserver option \<times> boot_call list) option" where
  "Observer_run env client opts = do {
     (managerOpts, tr) \<leftarrow> BuildManagerOptions env (ob_Option opts) [];
     let (err, tr) = do_calls env [CtrlNewManager managerOpts] tr;
     if err \<noteq> None then Some (err, None, tr)
     else
       let r = NewObserver client;
           (err, tr) = Observer_SetupWithManager env tr
       in if err \<noteq> None then Some (err, None, tr)
          else
            let observer = Some r;
                tr = tr @ [AddRunnable (''0.0.0.0:'' @ itoa (ob_Port opts))];
                (err, tr) = do_calls env [StartManager] tr
            in Some (err, observer, tr) }"

text \<open>
  \<open>serve\<close>: the listener runs beside a \<open>select\<close>. \<open>listen\<close> is what \<open>ListenAndServe\<close> has returned, if it has, and \<open>is_closed\<close> recognises
  \<open>http.ErrServerClosed\<close>, which is not sent. When both cases are ready either may be taken.
\<close>

inductive serve :: "(go_error \<Rightarrow> bool) \<Rightarrow> go_error option option \<Rightarrow> bool \<Rightarrow> go_error option \<Rightarrow> bool"
  for is_closed listen ctx_done where
  failed: "listen = Some (Some err) \<Longrightarrow> \<not> is_closed err \<Longrightarrow> serve is_closed listen ctx_done (Some err)"
| stopped: "ctx_done \<Longrightarrow> serve is_closed listen ctx_done None"

inductive_simps serve_iff: "serve is_closed listen ctx_done res"

section \<open>The command line\<close>

record globals =
  CommonOptions :: "ServerOption option"
  OperatorConfig :: "Configuration option"

definition PersistentPreRunE ::
  "(string \<Rightarrow> cmd_template result) \<Rightarrow> (string \<Rightarrow> Configuration result) \<Rightarrow> ServerOption \<Rightarrow> globals \<Rightarrow> (go_error option \<times> globals) option" where
  "PersistentPreRunE parse decode opts g = do {
     res \<leftarrow> Load parse (decode (so_ConfigPath opts));
     Some (case res of
       Inl err \<Rightarrow> (Some err, g)
     | Inr config \<Rightarrow> (None, g\<lparr>CommonOptions := Some opts, OperatorConfig := Some config\<rparr>)) }"

text \<open>The surroundings of a process, and the command that the arguments select with the options they set.\<close>

record process =
  p_env :: boot_env
  p_ext :: ext
  p_builders :: frameworkFactory
  p_scheme_of :: "string \<Rightarrow> string result"
  p_reconciler :: Reconciler
  p_served :: "Cache option \<Rightarrow> Cache option"
  p_client :: AresJobObserver
  p_parse :: "string \<Rightarrow> cmd_template result"
  p_decode :: "string \<Rightarrow> Configuration result"

datatype command = OperatorCommand OperatorOption | ObserverCommand ObserverOption

text \<open>\<open>RunE\<close> of the two commands: the options common to both come from the globals.\<close>

definition RunE :: "process \<Rightarrow> command \<Rightarrow> globals \<Rightarrow> (go_error option \<times> boot_call list) option" where
  "RunE P cmd g = do {
     common \<leftarrow> CommonOptions g;
     config \<leftarrow> OperatorConfig g;
     case cmd of
       OperatorCommand opts \<Rightarrow> do {
         (err, c, tr) \<leftarrow> Operator_run (p_env P) (p_ext P) (p_builders P) (p_scheme_of P) (p_reconciler P) (p_served P)
           (opts\<lparr>op_Option := common\<rparr>) config;
         Some (err, tr) }
     | ObserverCommand opts \<Rightarrow> do {
         (err, r, tr) \<leftarrow> Observer_run (p_env P) (p_client P) (opts\<lparr>ob_Option := common\<rparr>);
         Some (err, tr) } }"

text \<open>\<open>main\<close>: the exit status, with the calls that were made.\<close>

definition main_exit :: "process \<Rightarrow> ServerOption \<Rightarrow> command \<Rightarrow> (int \<times> boot_call list) option" where
  "main_exit P opts cmd = do {
     (err, g) \<leftarrow> PersistentPreRunE (p_parse P) (p_decode P) opts \<lparr>CommonOptions = None, OperatorConfig = None\<rparr>;
     if err \<noteq> None then Some (1, [])
     else do {
       (err, tr) \<leftarrow> RunE P cmd g;
       Some (if err \<noteq> None then 1 else 0, tr) } }"

section \<open>What the registrations do\<close>

text \<open>Events of owned objects pass the predicates; one that is not set lets everything pass.\<close>

definition deliver_create ::
  "Registration \<Rightarrow> AresJobReconciler \<Rightarrow> (string \<Rightarrow> string \<Rightarrow> AresJob result) \<Rightarrow> watched \<Rightarrow> Object \<Rightarrow> effect list \<Rightarrow> bool \<times> effect list" where
  "deliver_create reg r get kind obj tr =
     (case map_of (reg_Owns reg) kind of
        None \<Rightarrow> (False, tr)
      | Some f \<Rightarrow> (case CreateFunc f of None \<Rightarrow> (True, tr) | Some P_AddObject \<Rightarrow> AddObject_event r get obj tr))"

definition deliver_delete ::
  "Registration \<Rightarrow> AresJobReconciler \<Rightarrow> (string \<Rightarrow> string \<Rightarrow> AresJob result) \<Rightarrow> watched \<Rightarrow> Object \<Rightarrow> effect list \<Rightarrow> bool \<times> effect list" where
  "deliver_delete reg r get kind obj tr =
     (case map_of (reg_Owns reg) kind of
        None \<Rightarrow> (False, tr)
      | Some f \<Rightarrow> (case DeleteFunc f of None \<Rightarrow> (True, tr) | Some P_DeleteObject \<Rightarrow> DeleteObject_event r get obj tr))"

definition deliver_update :: "Registration \<Rightarrow> watched \<Rightarrow> UpdatedObject \<Rightarrow> bool" where
  "deliver_update reg kind obj =
     (case map_of (reg_Owns reg) kind of
        None \<Rightarrow> False
      | Some f \<Rightarrow> (case UpdateFunc f of None \<Rightarrow> True | Some P_UpdateObject \<Rightarrow> UpdateObject obj))"

text \<open>A list by an index that nobody registered is an error; one that was registered selects by the values of its function.\<close>

fun index_values :: "ext \<Rightarrow> indexer \<Rightarrow> Pod \<Rightarrow> string list" where
  "index_values E I_ObjectOwner pod = IndexObjectOwner (pod_Controller pod)"
| "index_values E I_ReplicaOwner pod = IndexReplicaOwner E (pod_Controller pod) (pod_Labels pod)"
| "index_values E I_NodeName pod = IndexNodeName pod"

definition pod_indices :: "boot_call list \<Rightarrow> (string \<times> indexer) list" where
  "pod_indices tr = concat (map (\<lambda>c. case c of IndexField WPod key f \<Rightarrow> [(key, f)] | _ \<Rightarrow> []) tr)"

definition indexed_pods :: "boot_call list \<Rightarrow> ext \<Rightarrow> Pod list \<Rightarrow> pod_client" where
  "indexed_pods tr E pods ns key v =
     (case map_of (pod_indices tr) key of
        None \<Rightarrow> Inl (Errorf (''Index with name field:'' @ key @ '' does not exist''))
      | Some f \<Rightarrow> Inr (filter (\<lambda>p. (ns = None \<or> ns = Some (pod_Namespace p)) \<and> v \<in> set (index_values E f p)) pods))"

section \<open>Lemmas\<close>

text \<open>Calls whose error, if any, is not returned.\<close>

fun unheeded :: "boot_call \<Rightarrow> bool" where
  "unheeded GoCleanUp = True"
| "unheeded (AddRunnable addr) = True"
| "unheeded _ = False"

definition answer :: "boot_env \<Rightarrow> boot_call list \<Rightarrow> boot_call \<Rightarrow> go_error option" where
  "answer env tr c = (if unheeded c then None else env tr c)"

text \<open>A sequence of calls runs to its end, or to the first error.\<close>

definition runs_to :: "boot_env \<Rightarrow> boot_call list \<Rightarrow> boot_call list \<Rightarrow> go_error option \<Rightarrow> boot_call list \<Rightarrow> bool" where
  "runs_to env cs tr err tr' \<longleftrightarrow>
     (\<exists>k \<le> length cs. tr' = tr @ take k cs \<and> (\<forall>i < k - 1. answer env (tr @ take i cs) (cs ! i) = None) \<and>
        (if err = None then k = length cs \<and> (0 < k \<longrightarrow> answer env (tr @ take (k - 1) cs) (cs ! (k - 1)) = None)
         else 0 < k \<and> answer env (tr @ take (k - 1) cs) (cs ! (k - 1)) = err))"

lemma runs_to_ok: "runs_to env cs tr None tr' \<longleftrightarrow> tr' = tr @ cs \<and> (\<forall>i < length cs. answer env (tr @ take i cs) (cs ! i) = None)"
proof
  assume "runs_to env cs tr None tr'"
  then have r: "tr' = tr @ cs" "\<forall>i < length cs - 1. answer env (tr @ take i cs) (cs ! i) = None"
    "cs \<noteq> [] \<longrightarrow> answer env (tr @ take (length cs - 1) cs) (cs ! (length cs - 1)) = None" by (auto simp: runs_to_def)
  moreover have "i < length cs - 1 \<or> i = length cs - 1" if "i < length cs" for i using that by auto
  ultimately show "tr' = tr @ cs \<and> (\<forall>i < length cs. answer env (tr @ take i cs) (cs ! i) = None)" by fastforce
next
  assume "tr' = tr @ cs \<and> (\<forall>i < length cs. answer env (tr @ take i cs) (cs ! i) = None)"
  then show "runs_to env cs tr None tr'" by (auto simp: runs_to_def intro!: exI[of _ "length cs"])
qed

lemma runs_to_first: "runs_to env cs tr (Some e) tr' \<Longrightarrow> runs_to env (cs @ ds) tr (Some e) tr'"
  unfolding runs_to_def by (elim exE, rule_tac x = k in exI) (auto simp: nth_append)

lemma runs_to_append:
  assumes "runs_to env cs tr None tr1" "runs_to env ds tr1 err tr'"
  shows "runs_to env (cs @ ds) tr err tr'"
proof -
  from assms(1) have cs: "tr1 = tr @ cs" "\<forall>i < length cs. answer env (tr @ take i cs) (cs ! i) = None" by (simp_all add: runs_to_ok)
  from assms(2) obtain k where k: "k \<le> length ds" "tr' = tr1 @ take k ds" "\<forall>i < k - 1. answer env (tr1 @ take i ds) (ds ! i) = None"
    "if err = None then k = length ds \<and> (0 < k \<longrightarrow> answer env (tr1 @ take (k - 1) ds) (ds ! (k - 1)) = None)
     else 0 < k \<and> answer env (tr1 @ take (k - 1) ds) (ds ! (k - 1)) = err" unfolding runs_to_def by blast
  have shift: "answer env (tr @ take (length cs + i) (cs @ ds)) ((cs @ ds) ! (length cs + i)) = answer env (tr1 @ take i ds) (ds ! i)" for i
    by (simp add: cs(1))
  have old: "answer env (tr @ take i (cs @ ds)) ((cs @ ds) ! i) = None" if "i < length cs" for i
    using cs(2) that by (simp add: nth_append)
  show ?thesis
  proof (cases err)
    case None
    have "answer env (tr @ take i (cs @ ds)) ((cs @ ds) ! i) = None" if "i < length (cs @ ds)" for i
    proof (cases "i < length cs")
      case False
      then obtain j where j: "i = length cs + j" by (metis le_iff_add not_less)
      with that have "j < length ds" by simp
      then have "j < k - 1 \<or> j = k - 1 \<and> 0 < k" using k(4) None by auto
      then show ?thesis using shift[of j] k(3,4) None j by auto
    qed (rule old)
    then show ?thesis using k(2,4) None cs(1) by (simp add: runs_to_ok)
  next
    case (Some e)
    have "answer env (tr @ take i (cs @ ds)) ((cs @ ds) ! i) = None" if "i < length cs + k - 1" for i
    proof (cases "i < length cs")
      case False
      then obtain j where j: "i = length cs + j" by (metis le_iff_add not_less)
      with that have "j < k - 1" by simp
      then show ?thesis using shift[of j] k(3) j by simp
    qed (rule old)
    moreover have "0 < k" using k(4) Some by simp
    moreover from this have last: "length cs + k - 1 = length cs + (k - 1)" by simp
    have "answer env (tr @ take (length cs + k - 1) (cs @ ds)) ((cs @ ds) ! (length cs + k - 1)) = err"
      unfolding last shift using k(4) Some by simp
    ultimately show ?thesis using k(1,2) cs(1) Some unfolding runs_to_def by (intro exI[of _ "length cs + k"]) simp
  qed
qed

lemma runs_to_set: "runs_to env cs tr err tr' \<Longrightarrow> set tr' \<subseteq> set tr \<union> set cs"
  by (auto simp: runs_to_def dest: in_set_takeD)

lemma runs_to_one: "runs_to env [c] tr (answer env tr c) (tr @ [c])"
  by (auto simp: runs_to_def intro!: exI[of _ 1])

lemma do_calls_runs:
  assumes "do_calls env cs tr = (err, tr')" "\<forall>c \<in> set cs. \<not> unheeded c"
  shows "runs_to env cs tr err tr'"
  using assms
proof (induction cs arbitrary: tr)
  case Nil
  then show ?case by (simp add: runs_to_ok)
next
  case (Cons c cs)
  note one = runs_to_one[of env c tr]
  show ?case
  proof (cases "env tr c")
    case None
    with Cons have "runs_to env cs (tr @ [c]) err tr'" by simp
    with one None Cons.prems(2) runs_to_append[of env "[c]" tr "tr @ [c]" cs err tr'] show ?thesis by (simp add: answer_def)
  next
    case (Some e)
    with one Cons.prems runs_to_first[of env "[c]" tr e tr' cs] show ?thesis by (auto simp: answer_def)
  qed
qed

lemma or_die_runs: "or_die env c tr = Some tr' \<Longrightarrow> \<not> unheeded c \<Longrightarrow> runs_to env [c] tr None tr'"
  by (auto simp: or_die_def runs_to_ok answer_def split: if_splits)

text \<open>All calls of the operator, in order.\<close>

definition setup_calls :: "Configuration \<Rightarrow> boot_call list" where
  "setup_calls config =
     (let rest = \<lparr>QPS = QPS (GetRestConfig config), Burst = Burst (GetRestConfig config)\<rparr>
      in [KubeNewForConfigOrDie rest, KubeNewForConfigOrDie rest, VolcanoNewForConfigOrDie rest, GoCleanUp,
          IndexField WPod JobOwnerKey I_ObjectOwner, IndexField WPod ReplicaOwnerKey I_ReplicaOwner,
          IndexField WService JobOwnerKey I_ObjectOwner, IndexField WService ReplicaOwnerKey I_ReplicaOwner,
          IndexField WPod NodeNameKey I_NodeName, Complete operator_registration])"

definition manager_options :: "ServerOption \<Rightarrow> bool \<Rightarrow> ManagerOptions" where
  "manager_options opts elect = \<lparr>mo_MetricsBindAddress = so_MetricsAddr opts, mo_Port = 9443, mo_HealthProbeBindAddress = so_ProbeAddr opts,
     mo_LeaderElectionID = ''963c7a0b.kuaishou.com'', mo_LeaderElection = elect, mo_Namespace = so_Namespace opts\<rparr>"

definition operator_calls :: "OperatorOption \<Rightarrow> Configuration \<Rightarrow> boot_call list" where
  "operator_calls opts config =
     [GetConfigOrDie, CtrlNewManager (manager_options (op_Option opts) (op_EnableLeaderElection opts))] @ setup_calls config @
     [AddHealthzCheck ''healthz'', AddReadyzCheck ''readyz'', StartManager]"

lemma SetupWithManager_runs:
  assumes "SetupWithManager env E builders config R tr = Some (err, r, tr')"
  shows "runs_to env (setup_calls config) tr err tr'" "r = \<lparr>c_Reconciler = R, c_Frameworks = setupFrameworks E builders\<rparr>"
proof -
  let ?rest = "\<lparr>QPS = QPS (GetRestConfig config), Burst = Burst (GetRestConfig config)\<rparr>"
  let ?ix = "[IndexField WPod JobOwnerKey I_ObjectOwner, IndexField WPod ReplicaOwnerKey I_ReplicaOwner,
      IndexField WService JobOwnerKey I_ObjectOwner, IndexField WService ReplicaOwnerKey I_ReplicaOwner,
      IndexField WPod NodeNameKey I_NodeName]"
  from assms obtain tr1 tr2 tr3 where d: "or_die env (KubeNewForConfigOrDie ?rest) tr = Some tr1"
    "or_die env (KubeNewForConfigOrDie ?rest) tr1 = Some tr2" "or_die env (VolcanoNewForConfigOrDie ?rest) tr2 = Some tr3"
    by (auto simp: SetupWithManager_def setupUnderlyingJobController_def Let_def Option.bind_eq_Some_conv)
  obtain e tr4 where ix: "do_calls env ?ix (tr3 @ [GoCleanUp]) = (e, tr4)" by fastforce
  obtain e' tr5 where co: "do_calls env [Complete operator_registration] tr4 = (e', tr5)" by fastforce
  have "SetupWithManager env E builders config R tr = Some (if e \<noteq> None then (e, \<lparr>c_Reconciler = R, c_Frameworks = setupFrameworks E builders\<rparr>, tr4)
      else (e', \<lparr>c_Reconciler = R, c_Frameworks = setupFrameworks E builders\<rparr>, tr5))"
    using d ix co
    by (simp add: SetupWithManager_def setupUnderlyingJobController_def setupCleanUpQueue_def setupIndexer_def Let_def del: do_calls.simps)
  with assms have res: "(err, r, tr') = (if e \<noteq> None then (e, \<lparr>c_Reconciler = R, c_Frameworks = setupFrameworks E builders\<rparr>, tr4)
      else (e', \<lparr>c_Reconciler = R, c_Frameworks = setupFrameworks E builders\<rparr>, tr5))" by simp
  then show "r = \<lparr>c_Reconciler = R, c_Frameworks = setupFrameworks E builders\<rparr>" by (simp split: if_splits)
  have go: "runs_to env [GoCleanUp] tr3 None (tr3 @ [GoCleanUp])" by (simp add: runs_to_ok answer_def)
  have pre: "runs_to env ([KubeNewForConfigOrDie ?rest] @ [KubeNewForConfigOrDie ?rest] @ [VolcanoNewForConfigOrDie ?rest] @ [GoCleanUp]) tr None (tr3 @ [GoCleanUp])"
    by (intro runs_to_append[OF or_die_runs[OF d(1)]] runs_to_append[OF or_die_runs[OF d(2)]] runs_to_append[OF or_die_runs[OF d(3)]] go) simp_all
  have ixr: "runs_to env ?ix (tr3 @ [GoCleanUp]) e tr4" by (rule do_calls_runs[OF ix]) simp
  have "runs_to env (?ix @ [Complete operator_registration]) (tr3 @ [GoCleanUp]) err tr'"
  proof (cases e)
    case None
    with res have "err = e'" "tr' = tr5" by simp_all
    with ixr None runs_to_append do_calls_runs[OF co] show ?thesis by fastforce
  next
    case (Some x)
    with res ixr runs_to_first show ?thesis by fastforce
  qed
  from runs_to_append[OF pre this] show "runs_to env (setup_calls config) tr err tr'" by (simp add: setup_calls_def Let_def)
qed

lemma BuildManagerOptions_runs:
  assumes "BuildManagerOptions env opts tr = Some (mo, tr')"
  shows "mo = manager_options opts False" "runs_to env [GetConfigOrDie] tr None tr'"
  using assms by (auto simp: BuildManagerOptions_def manager_options_def Option.bind_eq_Some_conv intro: or_die_runs)

lemma do_one: "\<not> unheeded c \<Longrightarrow> runs_to env [c] tr (fst (do_calls env [c] tr)) (snd (do_calls env [c] tr))"
  by (rule do_calls_runs) auto

lemma Operator_run_runs:
  assumes "Operator_run env E builders scheme_of R served opts config = Some (err, c, tr)"
  obtains (cache) e where "open_cache scheme_of config = Inl e" "err \<noteq> None" "StartManager \<notin> set tr"
  | (calls) "runs_to env (operator_calls opts config) [] err tr"
      "err = None \<Longrightarrow> \<exists>c0. open_cache scheme_of config = Inr c0 \<and> c = Reconciler_Close (served c0)"
proof -
  let ?mo = "manager_options (op_Option opts) (op_EnableLeaderElection opts)"
  let ?h = "[AddHealthzCheck ''healthz'', AddReadyzCheck ''readyz'']"
  from assms obtain mo tr1 where b: "BuildManagerOptions env (op_Option opts) [] = Some (mo, tr1)"
    by (auto simp: Operator_run_def Option.bind_eq_Some_conv)
  note B = BuildManagerOptions_runs[OF b]
  have mo: "mo\<lparr>mo_LeaderElection := op_EnableLeaderElection opts\<rparr> = ?mo" by (simp add: B(1) manager_options_def)
  obtain e2 tr2 where nm: "do_calls env [CtrlNewManager ?mo] tr1 = (e2, tr2)" by fastforce
  from do_one[of "CtrlNewManager ?mo" env tr1] nm have NM: "runs_to env [CtrlNewManager ?mo] tr1 e2 tr2" by simp
  have two: "runs_to env [GetConfigOrDie, CtrlNewManager ?mo] [] e2 tr2" using runs_to_append[OF B(2) NM] by simp
  have ops: "operator_calls opts config = [GetConfigOrDie, CtrlNewManager ?mo] @ setup_calls config @ ?h @ [StartManager]"
    by (simp add: operator_calls_def)
  show thesis
  proof (cases e2)
    case (Some x)
    with assms b mo nm have "err = e2" "tr = tr2" by (auto simp: Operator_run_def Let_def simp del: do_calls.simps)
    moreover have "runs_to env (operator_calls opts config) [] (Some x) tr2" unfolding ops by (rule runs_to_first[OF two[unfolded Some]])
    ultimately show thesis using Some by (intro calls) auto
  next
    case None
    show thesis
    proof (cases "open_cache scheme_of config")
      case (Inl x)
      with assms b mo nm None have "err \<noteq> None" "tr = tr2" by (auto simp: Operator_run_def Let_def simp del: do_calls.simps)
      moreover have "tr2 = [GetConfigOrDie, CtrlNewManager ?mo]" using two None by (simp add: runs_to_ok)
      ultimately show thesis using Inl by (intro cache) auto
    next
      case (Inr c0)
      with assms b mo nm None obtain e3 r tr3 where sm: "SetupWithManager env E builders config (R\<lparr>r_conf := config, r_nodes := NewManager\<rparr>) tr2 = Some (e3, r, tr3)"
        by (auto simp: Operator_run_def Let_def Option.bind_eq_Some_conv simp del: do_calls.simps)
      note SM = SetupWithManager_runs(1)[OF sm]
      obtain e4 tr4 where hc: "do_calls env ?h tr3 = (e4, tr4)" by fastforce
      obtain e5 tr5 where st: "do_calls env [StartManager] tr4 = (e5, tr5)" by fastforce
      have HC: "runs_to env ?h tr3 e4 tr4" by (rule do_calls_runs[OF hc]) simp
      have ST: "runs_to env [StartManager] tr4 e5 tr5" by (rule do_calls_runs[OF st]) simp
      have "Operator_run env E builders scheme_of R served opts config = Some (if e3 \<noteq> None then (e3, c0, tr3)
          else if e4 \<noteq> None then (e4, c0, tr4) else if e5 \<noteq> None then (e5, served c0, tr5) else (None, Reconciler_Close (served c0), tr5))"
        using b mo nm None Inr sm hc st by (simp add: Operator_run_def Let_def del: do_calls.simps)
      with assms have res: "(err, c, tr) = (if e3 \<noteq> None then (e3, c0, tr3)
          else if e4 \<noteq> None then (e4, c0, tr4) else if e5 \<noteq> None then (e5, served c0, tr5) else (None, Reconciler_Close (served c0), tr5))" by simp
      have "runs_to env (setup_calls config @ ?h @ [StartManager]) tr2 err tr"
      proof (cases e3)
        case (Some x)
        with res SM show ?thesis by (auto intro: runs_to_first)
      next
        case e3: None
        have "runs_to env (?h @ [StartManager]) tr3 err tr"
        proof (cases e4)
          case (Some x)
          with e3 res HC runs_to_first[of env ?h tr3 x tr4 "[StartManager]"] show ?thesis by simp
        next
          case e4: None
          with e3 res have "err = e5" "tr = tr5" by (simp_all split: if_splits)
          with runs_to_append[OF HC[unfolded e4] ST] show ?thesis by simp
        qed
        with runs_to_append[OF SM[unfolded e3]] show ?thesis by simp
      qed
      from runs_to_append[OF two[unfolded None] this] have "runs_to env (operator_calls opts config) [] err tr" unfolding ops .
      then show thesis using res Inr by (intro calls) (auto split: if_splits)
    qed
  qed
qed

text \<open>A start that reaches the last call has made all the others, without an error.\<close>

lemma runs_to_last:
  assumes "runs_to env (cs @ [c]) [] err tr" "c \<in> set tr" "c \<notin> set cs" "\<not> unheeded c"
  shows "tr = cs @ [c]" "\<forall>i < length cs. answer env (take i tr) (tr ! i) = None" "err = env cs c"
proof -
  from assms(1) obtain k where k: "k \<le> length (cs @ [c])" "tr = [] @ take k (cs @ [c])"
    "\<forall>i < k - 1. answer env ([] @ take i (cs @ [c])) ((cs @ [c]) ! i) = None"
    "if err = None then k = length (cs @ [c]) \<and> (0 < k \<longrightarrow> answer env ([] @ take (k - 1) (cs @ [c])) ((cs @ [c]) ! (k - 1)) = None)
     else 0 < k \<and> answer env ([] @ take (k - 1) (cs @ [c])) ((cs @ [c]) ! (k - 1)) = err" unfolding runs_to_def by blast
  have "\<not> k \<le> length cs" using assms(2,3) k(2) by (auto dest: in_set_takeD)
  with k(1) have eq: "k = length cs + 1" by simp
  then show tr: "tr = cs @ [c]" using k(2) by simp
  show "\<forall>i < length cs. answer env (take i tr) (tr ! i) = None" using k(3) eq tr by simp
  show "err = env cs c" using k(4) eq assms(4) by (auto simp: answer_def split: if_splits)
qed

definition observer_calls :: "ObserverOption \<Rightarrow> boot_call list" where
  "observer_calls opts =
     [GetConfigOrDie, CtrlNewManager (manager_options (ob_Option opts) False),
      IndexField WPod JobOwnerKey I_ObjectOwner, IndexField WPod ReplicaOwnerKey I_ReplicaOwner, Complete observer_registration,
      AddRunnable (''0.0.0.0:'' @ itoa (ob_Port opts)), StartManager]"

lemma Observer_run_runs:
  assumes "Observer_run env client opts = Some (err, r, tr)"
  shows "runs_to env (observer_calls opts) [] err tr" "StartManager \<in> set tr \<Longrightarrow> r = Some client"
proof -
  let ?mo = "manager_options (ob_Option opts) False" and ?add = "AddRunnable (''0.0.0.0:'' @ itoa (ob_Port opts))"
  let ?ix = "[IndexField WPod JobOwnerKey I_ObjectOwner, IndexField WPod ReplicaOwnerKey I_ReplicaOwner]"
  from assms obtain mo tr1 where b: "BuildManagerOptions env (ob_Option opts) [] = Some (mo, tr1)"
    by (auto simp: Observer_run_def Option.bind_eq_Some_conv)
  note B = BuildManagerOptions_runs[OF b]
  obtain e2 tr2 where nm: "do_calls env [CtrlNewManager ?mo] tr1 = (e2, tr2)" by fastforce
  obtain e3 tr3 where ix: "do_calls env ?ix tr2 = (e3, tr3)" by fastforce
  obtain e4 tr4 where co: "do_calls env [Complete observer_registration] tr3 = (e4, tr4)" by fastforce
  obtain e5 tr5 where st: "do_calls env [StartManager] (tr4 @ [?add]) = (e5, tr5)" by fastforce
  have R: "runs_to env [CtrlNewManager ?mo] tr1 e2 tr2" "runs_to env ?ix tr2 e3 tr3"
    "runs_to env [Complete observer_registration] tr3 e4 tr4" "runs_to env [StartManager] (tr4 @ [?add]) e5 tr5"
    by (rule do_calls_runs[OF nm] do_calls_runs[OF ix] do_calls_runs[OF co] do_calls_runs[OF st]; simp)+
  have add: "runs_to env [?add] tr4 None (tr4 @ [?add])" by (simp add: runs_to_ok answer_def)
  have "Observer_run env client opts = Some (if e2 \<noteq> None then (e2, None, tr2) else if e3 \<noteq> None then (e3, None, tr3)
      else if e4 \<noteq> None then (e4, None, tr4) else (e5, Some client, tr5))"
    using b B(1) nm ix co st
    by (simp add: Observer_run_def Observer_SetupWithManager_def Observer_setupIndexer_def NewObserver_def Let_def del: do_calls.simps)
  with assms have res: "(err, r, tr) = (if e2 \<noteq> None then (e2, None, tr2) else if e3 \<noteq> None then (e3, None, tr3)
      else if e4 \<noteq> None then (e4, None, tr4) else (e5, Some client, tr5))" by simp
  have ops: "observer_calls opts = [GetConfigOrDie] @ [CtrlNewManager ?mo] @ ?ix @ [Complete observer_registration] @ [?add] @ [StartManager]"
    by (simp add: observer_calls_def)
  have "runs_to env ([CtrlNewManager ?mo] @ ?ix @ [Complete observer_registration] @ [?add] @ [StartManager]) tr1 err tr"
  proof (cases e2)
    case (Some x)
    with res R(1) runs_to_first[of env "[CtrlNewManager ?mo]" tr1 x tr2] show ?thesis by simp
  next
    case e2: None
    have "runs_to env (?ix @ [Complete observer_registration] @ [?add] @ [StartManager]) tr2 err tr"
    proof (cases e3)
      case (Some x)
      with res e2 runs_to_first[of env ?ix tr2 x tr3] R(2) show ?thesis by simp
    next
      case e3: None
      have "runs_to env ([Complete observer_registration] @ [?add] @ [StartManager]) tr3 err tr"
      proof (cases e4)
        case (Some x)
        with res e2 e3 runs_to_first[of env "[Complete observer_registration]" tr3 x tr4] R(3) show ?thesis by simp
      next
        case e4: None
        with res e2 e3 have "err = e5" "tr = tr5" by simp_all
        with runs_to_append[OF R(3)[unfolded e4] runs_to_append[OF add R(4)]] show ?thesis by simp
      qed
      with runs_to_append[OF R(2)[unfolded e3]] show ?thesis by blast
    qed
    with runs_to_append[OF R(1)[unfolded e2]] show ?thesis by blast
  qed
  from runs_to_append[OF B(2) this] show "runs_to env (observer_calls opts) [] err tr" unfolding ops .
  have "set tr1 \<subseteq> {GetConfigOrDie}" "set tr2 \<subseteq> set tr1 \<union> {CtrlNewManager ?mo}" "set tr3 \<subseteq> set tr2 \<union> set ?ix"
    "set tr4 \<subseteq> set tr3 \<union> {Complete observer_registration}"
    using runs_to_set[OF B(2)] runs_to_set[OF R(1)] runs_to_set[OF R(2)] runs_to_set[OF R(3)] by simp_all
  then have "StartManager \<notin> set tr2" "StartManager \<notin> set tr3" "StartManager \<notin> set tr4" by auto
  then have "StartManager \<notin> set tr" if "r \<noteq> Some client"
    using that res by (auto split: if_splits)
  then show "StartManager \<in> set tr \<Longrightarrow> r = Some client" by blast
qed

text \<open>The lists of \<open>reconciler/pod.go\<close> as the operator needs them.\<close>

definition lists_pods :: "ext \<Rightarrow> Pod list \<Rightarrow> pod_client \<Rightarrow> bool" where
  "lists_pods E pods c \<longleftrightarrow>
     (\<forall>job. GetPodsForJob c job = Inr (filter (\<lambda>p. pod_Namespace p = job_Namespace job \<and> job_Name job \<in> set (pod_indexer E JobOwnerKey p)) pods)) \<and>
     (\<forall>job rtype. GetPodsForReplica c job rtype = Inr (filter (\<lambda>p. pod_Namespace p = job_Namespace job \<and>
        MetaReplicaKeyFormat (job_Name job) rtype \<in> set (pod_indexer E ReplicaOwnerKey p)) pods)) \<and>
     (\<forall>name. GetPodsForNode c name = Inr (filter (\<lambda>p. name \<in> set (pod_indexer E NodeNameKey p)) pods))"

lemma operator_lists: "lists_pods E pods (indexed_pods (operator_calls opts config) E pods)"
proof -
  have ix: "pod_indices (operator_calls opts config) = [(JobOwnerKey, I_ObjectOwner), (ReplicaOwnerKey, I_ReplicaOwner), (NodeNameKey, I_NodeName)]"
    by (simp add: pod_indices_def operator_calls_def setup_calls_def Let_def)
  have k: "JobOwnerKey \<noteq> ReplicaOwnerKey" "JobOwnerKey \<noteq> NodeNameKey" "ReplicaOwnerKey \<noteq> NodeNameKey" by (simp_all add: go_consts)
  show ?thesis
    using k by (simp add: lists_pods_def indexed_pods_def ix GetPodsForJob_def GetPodsForReplica_def GetPodsForNode_def pod_indexer_def
        conj_commute eq_commute[of _ "pod_Namespace _"])
qed

lemma observer_lists:
  "GetPodsForJob (indexed_pods (observer_calls opts) E pods) job =
     Inr (filter (\<lambda>p. pod_Namespace p = job_Namespace job \<and> job_Name job \<in> set (IndexObjectOwner (pod_Controller p))) pods)"
  by (simp add: indexed_pods_def pod_indices_def observer_calls_def GetPodsForJob_def eq_commute[of _ "pod_Namespace _"])

text \<open>Pods and services report to the expectations when they come and go; the updates of pods and pod groups are filtered.\<close>

lemma operator_delivers:
  "deliver_create operator_registration r get WPod obj tr = AddObject_event r get obj tr"
  "deliver_delete operator_registration r get WPod obj tr = DeleteObject_event r get obj tr"
  "deliver_create operator_registration r get WService obj tr = AddObject_event r get obj tr"
  "deliver_delete operator_registration r get WService obj tr = DeleteObject_event r get obj tr"
  "deliver_update operator_registration WPod upd = UpdateObject upd"
  "deliver_update operator_registration WPodGroup upd = UpdateObject upd"
  "deliver_update operator_registration WService upd"
  by (simp_all add: deliver_create_def deliver_delete_def deliver_update_def operator_registration_def)

lemma main_operator:
  assumes "main_exit P opts (OperatorCommand oopts) = Some (status, tr)"
  shows "tr = [] \<and> status = 1 \<or> (\<exists>config err c. Load (p_parse P) (p_decode P (so_ConfigPath opts)) = Some (Inr config) \<and>
     Operator_run (p_env P) (p_ext P) (p_builders P) (p_scheme_of P) (p_reconciler P) (p_served P) (oopts\<lparr>op_Option := opts\<rparr>) config = Some (err, c, tr) \<and>
     status = (if err \<noteq> None then 1 else 0))"
proof -
  from assms obtain res where res: "Load (p_parse P) (p_decode P (so_ConfigPath opts)) = Some res"
    by (auto simp: main_exit_def PersistentPreRunE_def Option.bind_eq_Some_conv)
  show ?thesis
  proof (cases res)
    case (Inl e)
    with assms res show ?thesis by (simp add: main_exit_def PersistentPreRunE_def)
  next
    case (Inr config)
    with assms res show ?thesis by (auto simp: main_exit_def PersistentPreRunE_def RunE_def Option.bind_eq_Some_conv)
  qed
qed

section \<open>Properties\<close>

text \<open>
  C18. The operator starts wired or not at all. If the process gets as far as starting its manager, the configuration has been loaded, every
  call of the start has been made in order and none has failed, so that the lists by job, by role and by node answer as the
  reconciler expects; the exit status tells whether the manager ended with an error. If it does not get that far, the exit
  status is 1.
\<close>

theorem operator_starts_wired:
  assumes run: "main_exit P opts (OperatorCommand oopts) = Some (status, tr)"
  shows "if StartManager \<in> set tr then
      \<exists>config. Load (p_parse P) (p_decode P (so_ConfigPath opts)) = Some (Inr config) \<and> tr = operator_calls (oopts\<lparr>op_Option := opts\<rparr>) config \<and>
        (\<forall>i. i < length tr - 1 \<and> \<not> unheeded (tr ! i) \<longrightarrow> p_env P (take i tr) (tr ! i) = None) \<and>
        (status = 0 \<longleftrightarrow> p_env P (butlast tr) StartManager = None) \<and>
        (\<forall>E pods. lists_pods E pods (indexed_pods tr E pods))
    else status = 1"
  using main_operator[OF run]
proof (elim disjE conjE exE)
  fix config err c
  assume load: "Load (p_parse P) (p_decode P (so_ConfigPath opts)) = Some (Inr config)" and status: "status = (if err \<noteq> None then 1 else 0)"
    and go: "Operator_run (p_env P) (p_ext P) (p_builders P) (p_scheme_of P) (p_reconciler P) (p_served P) (oopts\<lparr>op_Option := opts\<rparr>) config
      = Some (err, c, tr)"
  let ?calls = "operator_calls (oopts\<lparr>op_Option := opts\<rparr>) config"
  have split: "?calls = butlast ?calls @ [StartManager]" "StartManager \<notin> set (butlast ?calls)"
    by (simp_all add: operator_calls_def setup_calls_def Let_def)
  from go show ?thesis
  proof (cases rule: Operator_run_runs)
    case (cache e)
    with status show ?thesis by simp
  next
    case calls
    show ?thesis
    proof (cases "StartManager \<in> set tr")
      case True
      have r: "runs_to (p_env P) (butlast ?calls @ [StartManager]) [] err tr" unfolding split(1)[symmetric] by (rule calls(1))
      note l = runs_to_last[OF r True split(2)]
      have tr: "tr = ?calls" using l(1) split(1) by simp
      have "\<forall>i. i < length tr - 1 \<and> \<not> unheeded (tr ! i) \<longrightarrow> p_env P (take i tr) (tr ! i) = None"
        using l(2) unfolding tr by (auto simp: answer_def split: if_splits)
      moreover have "status = 0 \<longleftrightarrow> p_env P (butlast tr) StartManager = None" using l(3) status unfolding tr by simp
      ultimately show ?thesis using True load tr operator_lists by auto
    next
      case False
      have "err \<noteq> None"
      proof
        assume "err = None"
        with calls(1) have "tr = ?calls" by (simp add: runs_to_ok)
        with False show False by (simp add: operator_calls_def)
      qed
      with False status show ?thesis by simp
    qed
  qed
qed simp

definition calm_process :: process where
  "calm_process = \<lparr>p_env = (\<lambda>tr c. None), p_ext = plain_ext, p_builders = Factory, p_scheme_of = (\<lambda>uri. Inr ''memory''),
     p_reconciler = plain_reconciler, p_served = id, p_client = watching, p_parse = plain_parse, p_decode = (\<lambda>path. Inr sample_conf)\<rparr>"

theorem operator_starts_wired_witness:
  "\<exists>tr. main_exit calm_process (Server_Bind Server_NewOption) (OperatorCommand (Operator_Bind Operator_NewOption)) = Some (0, tr) \<and>
     StartManager \<in> set tr \<and> lists_pods plain_ext [worker 0] (indexed_pods tr plain_ext [worker 0])"
proof -
  let ?run = "main_exit calm_process (Server_Bind Server_NewOption) (OperatorCommand (Operator_Bind Operator_NewOption))"
  have "case ?run of Some (status, tr) \<Rightarrow> status = 0 | None \<Rightarrow> False" by code_simp
  then obtain tr where run: "?run = Some (0, tr)" by (auto split: option.splits)
  from operator_starts_wired[OF run] have "StartManager \<in> set tr" "lists_pods plain_ext [worker 0] (indexed_pods tr plain_ext [worker 0])"
    by (auto split: if_splits)
  with run show ?thesis by blast
qed

end
