(* ===== verification/Convergence.thy ===== *)
theory Convergence
  imports Events
begin

text \<open>
  Rounds in a row. \<open>ReconcilePods\<close> compares what there is with what there should be and asks for the difference; between two rounds the
  expectations keep the controller waiting until the cluster has done what was asked. This theory puts the two together: the
  exact requests of a round, the pods of the role that they leave, and the proof that a role that may restart its pods
  arrives at exactly one healthy pod per index, however it was scaled before. The variant is the number of slices, since
  a round in which pods are out of range may even create new ones there, below the largest index.
\<close>

section \<open>What a round asks for\<close>

definition created :: "effect list \<Rightarrow> new_pod list" where
  "created es = concat (map (\<lambda>e. case e of PodsCreate ns p \<Rightarrow> [p] | _ \<Rightarrow> []) es)"

definition deleted :: "effect list \<Rightarrow> (string \<times> string) list" where
  "deleted es = concat (map (\<lambda>e. case e of DeletePod ns name \<Rightarrow> [(ns, name)] | _ \<Rightarrow> []) es)"

definition pod_key :: "Pod \<Rightarrow> string \<times> string" where
  "pod_key p = (pod_Namespace p, pod_Name p)"

lemma requests_append [simp]:
  "created (es @ fs) = created es @ created fs" "deleted (es @ fs) = deleted es @ deleted fs"
  by (simp_all add: created_def deleted_def)

lemma requests_nil [simp]: "created [] = []" "deleted [] = []"
  by (simp_all add: created_def deleted_def)

lemma requests_cons [simp]:
  "created (PodsCreate ns p # es) = p # created es" "deleted (PodsCreate ns p # es) = deleted es"
  "created (DeletePod ns name # es) = created es" "deleted (DeletePod ns name # es) = (ns, name) # deleted es"
  "created (RecordEvent ev # es) = created es" "deleted (RecordEvent ev # es) = deleted es"
  "created (RaiseExpectations k a d # es) = created es" "deleted (RaiseExpectations k a d # es) = deleted es"
  by (simp_all add: created_def deleted_def)

lemma requests_events [simp]: "created (map RecordEvent evs) = []" "deleted (map RecordEvent evs) = []"
  by (induction evs) simp_all

text \<open>The pod of an index is removed when it is out of range, or failed and may be restarted.\<close>

definition doomed :: "ext \<Rightarrow> ReplicaSpec \<Rightarrow> int \<Rightarrow> int \<Rightarrow> Pod \<Rightarrow> bool" where
  "doomed E spec n i pod \<longleftrightarrow> n \<le> i \<or> pod_Phase pod = PodFailed \<and> pod_restartable E spec pod"

lemma delete_and_expect_exact:
  assumes "delete_and_expect R key pod s = (None, s')"
  shows "loop_trace s' = loop_trace s @ [DeletePod (pod_Namespace pod) (pod_Name pod), RaiseExpectations key 0 1]"
  using assms by (auto simp: delete_and_expect_def Let_def split: option.splits)

lemma reconcile_one_exact:
  assumes "reconcile_one R key spec n i pod s = (None, s')" "0 \<le> i"
  shows "\<exists>es. loop_trace s' = loop_trace s @ es \<and> created es = [] \<and>
    set (deleted es) = (if doomed (r_ext R) spec n i pod then {pod_key pod} else {})"
proof -
  let ?del = "delete_and_expect R key pod"
  obtain s1 where d: "(if i < 0 \<or> n \<le> i then ?del s else (None, s)) = (None, s1)"
    using assms(1) by (auto simp: reconcile_one_def Let_def split: if_splits prod.splits)
  then obtain es1 where es1: "loop_trace s1 = loop_trace s @ es1" "created es1 = []" "set (deleted es1) = (if n \<le> i then {pod_key pod} else {})"
    using assms(2) delete_and_expect_exact[of R key pod s s1] by (cases "n \<le> i") (auto simp: pod_key_def)
  let ?ev = "RecordEvent \<lparr>ev_Type = EventTypeNormal, ev_Reason = podFailedReason,
     ev_Message = ''Pod '' @ pod_Name pod @ '' is failed: '' @ GetPodFailedInfo pod\<rparr>"
  let ?s2 = "s1\<lparr>loop_trace := loop_trace s1 @ [?ev]\<rparr>"
  have r: "(if pod_Phase pod = PodFailed then
      if pod_restartable (r_ext R) spec pod then ?del ?s2 else (None, ?s2\<lparr>validatedPods := validatedPods ?s2 @ [pod]\<rparr>)
      else (None, s1\<lparr>validatedPods := validatedPods s1 @ [pod]\<rparr>)) = (None, s')"
    using assms(1) d unfolding reconcile_one_def Let_def by simp
  show ?thesis
  proof (cases "pod_Phase pod = PodFailed")
    case False
    with r have "loop_trace s' = loop_trace s @ es1" using es1 by auto
    with es1 False show ?thesis by (auto simp: doomed_def)
  next
    case failed: True
    show ?thesis
    proof (cases "pod_restartable (r_ext R) spec pod")
      case False
      with failed r have "loop_trace s' = loop_trace s @ es1 @ [?ev]" using es1 by auto
      with es1 False show ?thesis by (intro exI[of _ "es1 @ [?ev]"]) (auto simp: doomed_def)
    next
      case True
      with failed r have "?del ?s2 = (None, s')" by simp
      let ?es = "es1 @ [?ev, DeletePod (pod_Namespace pod) (pod_Name pod), RaiseExpectations key 0 1]"
      from delete_and_expect_exact[OF \<open>?del ?s2 = (None, s')\<close>] have "loop_trace s' = loop_trace s @ ?es" using es1 by simp
      with es1 True failed show ?thesis by (intro exI[of _ ?es]) (auto simp: doomed_def pod_key_def)
    qed
  qed
qed

lemma CreateNewPod_exact:
  assumes id: "pod_identity (r_ctl R)" and E: "pod_control_ok (r_ext R)"
    and run: "CreateNewPod R job rt index spec b tr = Some (None, tr')"
  shows "\<exists>es p. tr' = tr @ es \<and> created es = [p] \<and> deleted es = [] \<and> wanted_pod (r_ctl R) (r_ext R) job rt index p"
proof -
  have T: "pods_from_templates (r_ext R)" using E by (simp add: pod_control_ok_def)
  obtain k where k: "KeyFunc (r_ext R) (job_Namespace job) (job_Name job) = Inr k"
    using run by (cases "KeyFunc (r_ext R) (job_Namespace job) (job_Name job)") (auto simp: CreateNewPod_def)
  from CreateNewPod_trace[OF E run k] obtain evs p ev key where
    tr': "tr' = tr @ map RecordEvent evs @ [RaiseExpectations key 1 0, PodsCreate (job_Namespace job) p, RecordEvent ev]" by auto
  from pod_identity.CreateNewPod_effects[OF id T refl run] tr'
  have "wanted_pod (r_ctl R) (r_ext R) job rt index p" unfolding grows_def by auto
  with tr' show ?thesis
    by (intro exI[of _ "map RecordEvent evs @ [RaiseExpectations key 1 0, PodsCreate (job_Namespace job) p, RecordEvent ev]"] exI[of _ p]) simp
qed

text \<open>The requests of one slice, for a role that may restart.\<close>

definition removed :: "ext \<Rightarrow> ReplicaSpec \<Rightarrow> int \<Rightarrow> int \<Rightarrow> Pod list \<Rightarrow> (string \<times> string) set" where
  "removed E spec n i sl = (case sl of [pod] \<Rightarrow> if doomed E spec n i pod then {pod_key pod} else {} | _ \<Rightarrow> {})"

definition slice_requests :: "Reconciler \<Rightarrow> AresJob \<Rightarrow> ReplicaType \<Rightarrow> ReplicaSpec \<Rightarrow> int \<Rightarrow> int \<Rightarrow> Pod list \<Rightarrow> effect list \<Rightarrow> bool" where
  "slice_requests R job rtype spec n i sl es \<longleftrightarrow>
     list_all2 (\<lambda>j p. wanted_pod (r_ctl R) (r_ext R) job (ToLower rtype) (itoa j) p) (if sl = [] then [i] else []) (created es) \<and>
     set (deleted es) = removed (r_ext R) spec n i sl"

lemma reconcile_slice_exact:
  assumes id: "pod_identity (r_ctl R)" and E: "pod_control_ok (r_ext R)" and never: "rs_RestartPolicy spec \<noteq> RestartPolicyNever"
    and run: "reconcile_slice R job key rtype spec replicas n i sl s = Some (None, s')" and i: "0 \<le> i"
  shows "\<exists>es. loop_trace s' = loop_trace s @ es \<and> slice_requests R job rtype spec n i sl es"
  using run
proof (cases rule: reconcile_slice_cases)
  case many
  then obtain a b cs where "sl = a # b # cs" by (auto simp: Suc_le_length_iff numeral_2_eq_2)
  with many show ?thesis by (intro exI[of _ "[]"]) (simp add: slice_requests_def removed_def)
next
  case kept
  with never show ?thesis by simp
next
  case (create b tr)
  from CreateNewPod_exact[OF id E create(3)] obtain es p where
    es: "tr = loop_trace s @ es" "created es = [p]" "deleted es = []" "wanted_pod (r_ctl R) (r_ext R) job (ToLower rtype) (itoa i) p" by blast
  then show ?thesis using create(1,4) by (intro exI[of _ es]) (simp add: slice_requests_def removed_def)
next
  case (one pod)
  from reconcile_one_exact[OF one(2) i] one(1) show ?thesis by (auto simp: slice_requests_def removed_def)
qed

fun gaps :: "int \<Rightarrow> Pod list list \<Rightarrow> int list" where
  "gaps i [] = []"
| "gaps i (sl # slices) = (if sl = [] then [i] else []) @ gaps (i + 1) slices"

lemma reconcile_slices_exact:
  assumes id: "pod_identity (r_ctl R)" and E: "pod_control_ok (r_ext R)" and never: "rs_RestartPolicy spec \<noteq> RestartPolicyNever"
    and run: "reconcile_slices R job key rtype spec replicas n i slices s = Some (None, s')" and i: "0 \<le> i"
  shows "\<exists>es. loop_trace s' = loop_trace s @ es \<and>
    list_all2 (\<lambda>j p. wanted_pod (r_ctl R) (r_ext R) job (ToLower rtype) (itoa j) p) (gaps i slices) (created es) \<and>
    set (deleted es) = (\<Union>k < length slices. removed (r_ext R) spec n (i + int k) (slices ! k))"
  using run i
proof (induction slices arbitrary: i s)
  case (Cons sl slices)
  from Cons.prems(1) obtain t where t: "reconcile_slice R job key rtype spec replicas n i sl s = Some (None, t)"
    and rest: "reconcile_slices R job key rtype spec replicas n (i + 1) slices t = Some (None, s')"
    by (auto simp: Option.bind_eq_Some_conv split: if_splits)
  from reconcile_slice_exact[OF id E never t Cons.prems(2)] obtain es where
    es: "loop_trace t = loop_trace s @ es" "slice_requests R job rtype spec n i sl es" by blast
  from Cons.IH[OF rest] Cons.prems(2) obtain fs where fs: "loop_trace s' = loop_trace t @ fs"
    "list_all2 (\<lambda>j p. wanted_pod (r_ctl R) (r_ext R) job (ToLower rtype) (itoa j) p) (gaps (i + 1) slices) (created fs)"
    "set (deleted fs) = (\<Union>k < length slices. removed (r_ext R) spec n (i + 1 + int k) (slices ! k))" by auto
  have split: "(\<Union>k < length (sl # slices). removed (r_ext R) spec n (i + int k) ((sl # slices) ! k)) =
      removed (r_ext R) spec n i sl \<union> (\<Union>k < length slices. removed (r_ext R) spec n (i + 1 + int k) (slices ! k))"
    by (simp add: lessThan_Suc_eq_insert_0 add.assoc)
  have "list_all2 (\<lambda>j p. wanted_pod (r_ctl R) (r_ext R) job (ToLower rtype) (itoa j) p) (gaps i (sl # slices)) (created (es @ fs))"
    unfolding gaps.simps requests_append using es(2) fs(2) unfolding slice_requests_def by (blast intro: list_all2_appendI)
  moreover have "set (deleted (es @ fs)) = (\<Union>k < length (sl # slices). removed (r_ext R) spec n (i + int k) ((sl # slices) ! k))"
    unfolding split using es(2) fs(3) by (simp add: slice_requests_def)
  ultimately show ?case using es(1) fs(1) by (intro exI[of _ "es @ fs"]) simp
qed simp

lemma gaps_map: "gaps i (map f [a..<b]) = map (\<lambda>j. i + int j - int a) (filter (\<lambda>j. f j = []) [a..<b])"
proof (induction "b - a" arbitrary: a i)
  case (Suc d)
  then have ab: "[a..<b] = a # [Suc a..<b]" by (simp add: upt_conv_Cons)
  have "gaps (i + 1) (map f [Suc a..<b]) = map (\<lambda>j. i + 1 + int j - int (Suc a)) (filter (\<lambda>j. f j = []) [Suc a..<b])"
    by (rule Suc.hyps(1)) (use Suc.hyps(2) in simp)
  then show ?case by (simp add: ab)
qed simp

text \<open>The number of slices of a round.\<close>

definition slice_count :: "ext \<Rightarrow> int \<Rightarrow> Pod list \<Rightarrow> nat" where
  "slice_count E n mine = nat (calculatePodSliceSize E mine n)"

lemma ReconcilePods_exact:
  assumes id: "pod_identity (r_ctl R)" and E: "pod_control_ok (r_ext R)" "max_int_ok (r_ext R)"
    and never: "rs_RestartPolicy spec \<noteq> RestartPolicyNever" and n: "rs_Replicas spec = Some n"
    and mine: "mine = reconciled_pods (r_ext R) spec rtype pods" "indices_ok (r_ext R) mine"
    and run: "ReconcilePods R now job js pods rtype (Some spec) replicas tr = Some (None, job', tr')"
  shows "\<exists>es. tr' = tr @ es \<and>
    list_all2 (\<lambda>j p. wanted_pod (r_ctl R) (r_ext R) job (ToLower rtype) (itoa (int j)) p)
      (filter (\<lambda>j. pods_at (r_ext R) mine j = []) [0..<slice_count (r_ext R) (sint n) mine]) (created es) \<and>
    set (deleted es) = (\<Union>j < slice_count (r_ext R) (sint n) mine. removed (r_ext R) spec (sint n) (int j) (pods_at (r_ext R) mine j))"
  using E(2) n mine(2)[unfolded mine(1)] run
proof (cases rule: ReconcilePods_run)
  case (loop key slices s)
  let ?m = "slice_count (r_ext R) (sint n) mine"
  have slices: "slices = map (pods_at (r_ext R) mine) [0..<?m]" using loop(1) mine(1) by (simp add: slice_count_def)
  from reconcile_slices_exact[OF id E(1) never loop(2)] obtain es where es: "loop_trace s = tr @ es"
    "list_all2 (\<lambda>j p. wanted_pod (r_ctl R) (r_ext R) job (ToLower rtype) (itoa j) p) (gaps 0 slices) (created es)"
    "set (deleted es) = (\<Union>k < length slices. removed (r_ext R) spec (sint n) (0 + int k) (slices ! k))" by auto
  from finish_pods_trace[OF loop(3)] obtain fs where fs: "tr' = loop_trace s @ fs" "\<forall>e \<in> set fs. \<exists>ev. e = RecordEvent ev"
    by (auto simp: grows_def)
  then obtain evs where evs: "fs = map RecordEvent evs" by (metis ex_map_conv)
  have "gaps 0 slices = map int (filter (\<lambda>j. pods_at (r_ext R) mine j = []) [0..<?m])" unfolding slices gaps_map by simp
  with es(2) have "list_all2 (\<lambda>j p. wanted_pod (r_ctl R) (r_ext R) job (ToLower rtype) (itoa (int j)) p)
      (filter (\<lambda>j. pods_at (r_ext R) mine j = []) [0..<?m]) (created es)" by (simp add: list_all2_map1)
  moreover have "set (deleted es) = (\<Union>j < ?m. removed (r_ext R) spec (sint n) (int j) (pods_at (r_ext R) mine j))"
    using es(3) unfolding slices by simp
  ultimately show ?thesis using es(1) fs(1) evs by (intro exI[of _ "es @ fs"]) simp
qed simp

section \<open>What the cluster makes of it\<close>

text \<open>
  The pods of the role in the next round: those that were not deleted live on (their state may change, but they do not newly fail), and
  every requested pod has come up. What happens to the pods of other roles is left open. No two pods share a name.
\<close>

definition lives_on :: "ext \<Rightarrow> ReplicaSpec \<Rightarrow> Pod \<Rightarrow> Pod \<Rightarrow> bool" where
  "lives_on E spec p q \<longleftrightarrow> pod_key q = pod_key p \<and> pod_Labels q = pod_Labels p \<and>
     (pod_Phase q = PodFailed \<longrightarrow> pod_Phase p = PodFailed \<and> (pod_restartable E spec p \<longrightarrow> pod_restartable E spec q))"

definition comes_up :: "AresJob \<Rightarrow> new_pod \<Rightarrow> Pod \<Rightarrow> bool" where
  "comes_up job p pod \<longleftrightarrow> made_from job p pod \<and> pod_Phase pod \<noteq> PodFailed"

definition next_pods :: "ext \<Rightarrow> ReplicaSpec \<Rightarrow> AresJob \<Rightarrow> effect list \<Rightarrow> Pod list \<Rightarrow> Pod list \<Rightarrow> bool" where
  "next_pods E spec job es mine mine' \<longleftrightarrow>
     (let old = filter (\<lambda>p. pod_key p \<notin> set (deleted es)) mine
      in list_all2 (lives_on E spec) old (take (length old) mine') \<and> list_all2 (comes_up job) (created es) (drop (length old) mine')) \<and>
     distinct (map pod_key mine')"

inductive role_round :: "Reconciler \<Rightarrow> AresJob \<Rightarrow> ReplicaType \<Rightarrow> ReplicaSpec \<Rightarrow> Pod list \<Rightarrow> Pod list \<Rightarrow> bool"
  for R job rtype spec where
  round: "job_Namespace job1 = job_Namespace job \<Longrightarrow> job_Name job1 = job_Name job \<Longrightarrow>
    ReconcilePods R now job1 js pods rtype (Some spec) replicas tr = Some (None, job2, tr') \<Longrightarrow>
    next_pods (r_ext R) spec job1 (drop (length tr) tr') (reconciled_pods (r_ext R) spec rtype pods) (reconciled_pods (r_ext R) spec rtype pods') \<Longrightarrow>
    role_round R job rtype spec pods pods'"

inductive_cases role_roundE: "role_round R job rtype spec pods pods'"

text \<open>At most one pod per index, a name for each, and failures that may be restarted.\<close>

definition orderly :: "ext \<Rightarrow> ReplicaSpec \<Rightarrow> Pod list \<Rightarrow> bool" where
  "orderly E spec mine \<longleftrightarrow> (\<forall>p \<in> set mine. \<forall>i. pod_index E p = Some i \<longrightarrow> 0 \<le> i \<and> i < 2 ^ 31) \<and>
     (\<forall>j. length (pods_at E mine j) \<le> 1) \<and> distinct (map pod_key mine) \<and>
     (\<forall>p \<in> set mine. pod_Phase p = PodFailed \<longrightarrow> pod_restartable E spec p)"

lemma list_all2_filter_same:
  assumes "list_all2 P xs ys" "\<And>x y. P x y \<Longrightarrow> Q x = Q' y"
  shows "list_all2 P (filter Q xs) (filter Q' ys)"
  using assms(1) by (induction rule: list_all2_induct) (auto dest: assms(2))

lemma list_all2_in_set2: "list_all2 P xs ys \<Longrightarrow> y \<in> set ys \<Longrightarrow> \<exists>x \<in> set xs. P x y"
  by (induction rule: list_all2_induct) auto

lemma pod_index_labels: "pod_Labels q = pod_Labels p \<Longrightarrow> pod_index E q = pod_index E p"
  by (simp add: pod_index_def)

lemma lives_on_index: "lives_on E spec p q \<Longrightarrow> pod_index E p = pod_index E q"
  unfolding lives_on_def by (intro pod_index_labels) simp

text \<open>The pods that come up are filed at the gaps they were requested for.\<close>

lemma new_at:
  assumes "list_all2 (\<lambda>j q. pod_index E q = Some (int j) \<and> Q q) js news" "distinct js"
  shows "if j \<in> set js then \<exists>q. pods_at E news j = [q] \<and> Q q else pods_at E news j = []"
  using assms
proof (induction rule: list_all2_induct)
  case (Cons i js q news)
  then show ?case by (cases "i = j") (auto simp: pods_at_def split: if_splits)
qed (simp add: pods_at_def)

section \<open>The state after a round\<close>

lemma slice_size_upper:
  assumes "max_int_ok E" "\<forall>p \<in> set pods. \<forall>i. pod_index E p = Some i \<longrightarrow> i < b" "n \<le> b" "1 \<le> b" "b < 2 ^ 63"
  shows "calculatePodSliceSize E pods n \<le> b"
proof -
  let ?f = "\<lambda>size pod. case pod_index E pod of None \<Rightarrow> size | Some index \<Rightarrow> MaxInt E size index"
  have "0 \<le> foldl ?f a ps \<and> foldl ?f a ps < b"
    if "0 \<le> a" "a < b" "\<forall>p \<in> set ps. \<forall>i. pod_index E p = Some i \<longrightarrow> i < b" for a ps
    using that
  proof (induction ps arbitrary: a)
    case (Cons p ps)
    then have "0 \<le> ?f a p" "?f a p < b" using assms(1) by (auto simp: max_int_ok_def split: option.splits)
    with Cons show ?case by simp
  qed simp
  from this[of 0 pods] assms(2,4) have l: "0 \<le> foldl ?f 0 pods" "foldl ?f 0 pods < b" by auto
  then have "wrap64 (foldl ?f 0 pods + 1) = foldl ?f 0 pods + 1" using assms(5) by (intro wrap64_id) auto
  with l assms(1,3) show ?thesis by (simp add: calculatePodSliceSize_def Let_def max_int_ok_def)
qed

lemma slice_count_bounds:
  assumes E: "max_int_ok E" and o: "orderly E spec mine" and n: "n < 2 ^ 31"
  shows "pods_at E mine j \<noteq> [] \<Longrightarrow> j < slice_count E n mine" "nat n \<le> slice_count E n mine" "slice_count E n mine \<le> 2 ^ 31"
    and "1 \<le> slice_count E n mine"
    and "0 < n \<Longrightarrow> nat n < slice_count E n mine \<Longrightarrow> pods_at E mine (slice_count E n mine - 1) \<noteq> []"
proof -
  let ?c = "calculatePodSliceSize E mine n"
  have idx: "\<forall>p \<in> set mine. \<forall>i. pod_index E p = Some i \<longrightarrow> 0 \<le> i \<and> i < 2 ^ 31" using o by (simp add: orderly_def)
  then have "\<forall>p \<in> set mine. \<forall>i. pod_index E p = Some i \<longrightarrow> i < 2 ^ 63 - 1" by force
  note b = slice_size_bounds[OF E this, of n]
  have at: "pods_at E mine j \<noteq> [] \<longleftrightarrow> (\<exists>p \<in> set mine. pod_index E p = Some (int j))" for j
    by (auto simp: pods_at_def filter_empty_conv)
  show "pods_at E mine j \<noteq> [] \<Longrightarrow> j < slice_count E n mine"
    using b(1) unfolding at slice_count_def by force
  show "nat n \<le> slice_count E n mine" "1 \<le> slice_count E n mine" using b(2,3) by (simp_all add: slice_count_def)
  have "?c \<le> 2 ^ 31" by (rule slice_size_upper[OF E]) (use idx n in auto)
  then show "slice_count E n mine \<le> 2 ^ 31" by (simp add: slice_count_def)
  show "pods_at E mine (slice_count E n mine - 1) \<noteq> []" if "0 < n" "nat n < slice_count E n mine"
  proof (rule ccontr)
    assume "\<not> pods_at E mine (slice_count E n mine - 1) \<noteq> []"
    then have none: "pod_index E p \<noteq> Some (?c - 1)" if "p \<in> set mine" for p
      using at[of "slice_count E n mine - 1"] that b(3) by (auto simp: slice_count_def nat_diff_distrib)
    have "\<forall>p \<in> set mine. \<forall>i. pod_index E p = Some i \<longrightarrow> i < ?c - 1" using none b(1) by force
    then have "?c \<le> ?c - 1"
      by (rule slice_size_upper[OF E]) (use that \<open>?c \<le> 2 ^ 31\<close> in \<open>auto simp: slice_count_def\<close>)
    then show False by simp
  qed
qed

lemma round_next:
  assumes id: "pod_identity (r_ctl R)" and E: "pod_control_ok (r_ext R)" "max_int_ok (r_ext R)"
    and never: "rs_RestartPolicy spec \<noteq> RestartPolicyNever" and n: "rs_Replicas spec = Some n"
    and mine: "mine = reconciled_pods (r_ext R) spec rtype pods" "orderly (r_ext R) spec mine"
    and mine': "mine' = reconciled_pods (r_ext R) spec rtype pods'"
    and m: "m = slice_count (r_ext R) (sint n) mine"
    and round: "role_round R job rtype spec pods pods'"
  obtains kept news where "mine' = kept @ news" "distinct (map pod_key mine')"
    "list_all2 (lives_on (r_ext R) spec)
       (filter (\<lambda>p. pod_key p \<notin> (\<Union>j < m. removed (r_ext R) spec (sint n) (int j) (pods_at (r_ext R) mine j))) mine) kept"
    "list_all2 (\<lambda>j q. pod_index (r_ext R) q = Some (int j) \<and> pod_Phase q \<noteq> PodFailed) (filter (\<lambda>j. pods_at (r_ext R) mine j = []) [0..<m]) news"
proof -
  from round obtain job1 now js replicas tr job2 tr' where
    run: "ReconcilePods R now job1 js pods rtype (Some spec) replicas tr = Some (None, job2, tr')"
    and nxt: "next_pods (r_ext R) spec job1 (drop (length tr) tr') mine mine'" unfolding mine(1) mine' by (blast elim: role_roundE)
  have bound: "sint n < 2 ^ 31" using sint_range32(2)[of n] by simp
  have "indices_ok (r_ext R) mine" using mine(2) unfolding orderly_def indices_ok_def by force
  from ReconcilePods_exact[OF id E never n mine(1) this run] m obtain es where es: "tr' = tr @ es"
    "list_all2 (\<lambda>j p. wanted_pod (r_ctl R) (r_ext R) job1 (ToLower rtype) (itoa (int j)) p) (filter (\<lambda>j. pods_at (r_ext R) mine j = []) [0..<m]) (created es)"
    "set (deleted es) = (\<Union>j < m. removed (r_ext R) spec (sint n) (int j) (pods_at (r_ext R) mine j))" by auto
  let ?old = "filter (\<lambda>p. pod_key p \<notin> set (deleted es)) mine"
  let ?kept = "take (length ?old) mine'" and ?news = "drop (length ?old) mine'"
  have nx: "list_all2 (lives_on (r_ext R) spec) ?old ?kept" "list_all2 (comes_up job1) (created es) ?news" "distinct (map pod_key mine')"
    using nxt es(1) by (simp_all add: next_pods_def Let_def)
  have "list_all2 (\<lambda>j q. pod_index (r_ext R) q = Some (int j) \<and> pod_Phase q \<noteq> PodFailed) (filter (\<lambda>j. pods_at (r_ext R) mine j = []) [0..<m]) ?news"
    unfolding list_all2_conv_all_nth
  proof (intro conjI allI impI)
    let ?js = "filter (\<lambda>j. pods_at (r_ext R) mine j = []) [0..<m]"
    show len: "length ?js = length ?news" using es(2) nx(2) by (simp add: list_all2_lengthD)
    fix k assume k: "k < length ?js"
    have w: "wanted_pod (r_ctl R) (r_ext R) job1 (ToLower rtype) (itoa (int (?js ! k))) (created es ! k)"
      using es(2) k by (simp add: list_all2_conv_all_nth)
    have u: "comes_up job1 (created es ! k) (?news ! k)" using nx(2) k len by (simp add: list_all2_conv_all_nth)
    have "?js ! k < m" using nth_mem[OF k] by simp
    also have "m \<le> 2 ^ 31" using slice_count_bounds(3)[OF E(2) mine(2) bound] m by simp
    finally have "int (?js ! k) < 2 ^ 31" by simp
    from made_from_index(1)[OF w _ this] u
    show "pod_index (r_ext R) (?news ! k) = Some (int (?js ! k))" "pod_Phase (?news ! k) \<noteq> PodFailed"
      by (auto simp: comes_up_def)
  qed
  then show thesis using nx(1,3) es(3) by (intro that[of ?kept ?news]) simp_all
qed

lemma removed_mem: "x \<in> removed E spec n i sl \<Longrightarrow> \<exists>q. sl = [q] \<and> doomed E spec n i q \<and> x = pod_key q"
  by (auto simp: removed_def split: list.splits if_splits)

lemma removed_at:
  assumes o: "orderly E spec mine" and m: "\<And>j. pods_at E mine j \<noteq> [] \<Longrightarrow> j < m" and p: "pods_at E mine j = [p]"
  shows "pod_key p \<in> (\<Union>j < m. removed E spec n (int j) (pods_at E mine j)) \<longleftrightarrow> doomed E spec n (int j) p"
proof
  have mem: "q \<in> set mine \<and> pod_index E q = Some (int k)" if "pods_at E mine k = [q]" for k q
  proof -
    from that have "q \<in> set (pods_at E mine k)" by simp
    then show ?thesis by (simp add: pods_at_def)
  qed
  assume "pod_key p \<in> (\<Union>j < m. removed E spec n (int j) (pods_at E mine j))"
  then obtain k q where k: "pods_at E mine k = [q]" "doomed E spec n (int k) q" "pod_key q = pod_key p"
    by (auto dest: removed_mem)
  have "inj_on pod_key (set mine)" using o by (simp add: orderly_def distinct_map)
  with mem[OF k(1)] mem[OF p] k(3) have "q = p" by (meson inj_onD)
  with mem[OF k(1)] mem[OF p] have "k = j" by simp
  with k(2) \<open>q = p\<close> show "doomed E spec n (int j) p" by simp
next
  assume "doomed E spec n (int j) p"
  then show "pod_key p \<in> (\<Union>j < m. removed E spec n (int j) (pods_at E mine j))"
    using m[of j] p by (intro UN_I[of j]) (auto simp: removed_def)
qed

lemma pods_at_append: "pods_at E (xs @ ys) j = pods_at E xs j @ pods_at E ys j"
  by (simp add: pods_at_def)

lemma round_at:
  assumes id: "pod_identity (r_ctl R)" and E: "pod_control_ok (r_ext R)" "max_int_ok (r_ext R)"
    and never: "rs_RestartPolicy spec \<noteq> RestartPolicyNever" and n: "rs_Replicas spec = Some n"
    and mine: "mine = reconciled_pods (r_ext R) spec rtype pods" "orderly (r_ext R) spec mine"
    and mine': "mine' = reconciled_pods (r_ext R) spec rtype pods'"
    and m: "m = slice_count (r_ext R) (sint n) mine"
    and round: "role_round R job rtype spec pods pods'"
  shows "pods_at (r_ext R) mine j = [] \<Longrightarrow> j < m \<Longrightarrow> \<exists>q. pods_at (r_ext R) mine' j = [q] \<and> pod_Phase q \<noteq> PodFailed" (is "PROP ?gap")
    and "pods_at (r_ext R) mine j = [] \<Longrightarrow> m \<le> j \<Longrightarrow> pods_at (r_ext R) mine' j = []" (is "PROP ?beyond")
    and "pods_at (r_ext R) mine j = [p] \<Longrightarrow> doomed (r_ext R) spec (sint n) (int j) p \<Longrightarrow> pods_at (r_ext R) mine' j = []" (is "PROP ?gone")
    and "pods_at (r_ext R) mine j = [p] \<Longrightarrow> \<not> doomed (r_ext R) spec (sint n) (int j) p \<Longrightarrow>
      \<exists>q. pods_at (r_ext R) mine' j = [q] \<and> lives_on (r_ext R) spec p q" (is "PROP ?stays")
proof -
  let ?E = "r_ext R" and ?D = "\<Union>j < m. removed (r_ext R) spec (sint n) (int j) (pods_at (r_ext R) mine j)"
  have bound: "sint n < 2 ^ 31" using sint_range32(2)[of n] by simp
  have lt: "pods_at ?E mine j \<noteq> [] \<Longrightarrow> j < m" for j using slice_count_bounds(1)[OF E(2) mine(2) bound] m by simp
  obtain kept news where nx: "mine' = kept @ news" "list_all2 (lives_on ?E spec) (filter (\<lambda>p. pod_key p \<notin> ?D) mine) kept"
    "list_all2 (\<lambda>j q. pod_index ?E q = Some (int j) \<and> pod_Phase q \<noteq> PodFailed) (filter (\<lambda>j. pods_at ?E mine j = []) [0..<m]) news"
    by (rule round_next[OF id E never n mine mine' m round])
  have "list_all2 (lives_on ?E spec) (filter (\<lambda>p. pod_index ?E p = Some (int j)) (filter (\<lambda>p. pod_key p \<notin> ?D) mine)) (pods_at ?E kept j)"
    unfolding pods_at_def[of _ kept] using nx(2) by (rule list_all2_filter_same) (simp only: lives_on_index)
  then have kept: "list_all2 (lives_on ?E spec) (filter (\<lambda>p. pod_key p \<notin> ?D) (pods_at ?E mine j)) (pods_at ?E kept j)"
    unfolding pods_at_def[of _ mine j] filter_filter by (simp only: conj_commute)
  have news: "if j < m \<and> pods_at ?E mine j = [] then \<exists>q. pods_at ?E news j = [q] \<and> pod_Phase q \<noteq> PodFailed else pods_at ?E news j = []"
    using new_at[OF nx(3), of j] by (auto split: if_splits)
  have at: "pods_at ?E mine' j = pods_at ?E kept j @ pods_at ?E news j" unfolding nx(1) by (rule pods_at_append)
  show "PROP ?gap"
  proof -
    assume j: "pods_at ?E mine j = []" "j < m"
    have "pods_at ?E kept j = []" using kept unfolding j(1) by simp
    then show ?thesis using news at j by simp
  qed
  show "PROP ?beyond"
  proof -
    assume j: "pods_at ?E mine j = []" "m \<le> j"
    have "pods_at ?E kept j = []" using kept unfolding j(1) by simp
    then show ?thesis using news at j by simp
  qed
  have rem: "pod_key p \<in> ?D \<longleftrightarrow> doomed ?E spec (sint n) (int j) p" if "pods_at ?E mine j = [p]"
    by (rule removed_at[OF mine(2) lt that])
  have one: "filter (\<lambda>p. pod_key p \<notin> ?D) [p] = (if pod_key p \<in> ?D then [] else [p])" by (simp only: filter.simps not_not if_not_P) simp
  show "PROP ?gone"
  proof -
    assume j: "pods_at ?E mine j = [p]" "doomed ?E spec (sint n) (int j) p"
    have "filter (\<lambda>p. pod_key p \<notin> ?D) [p] = []" unfolding one using rem[OF j(1)] j(2) by (simp only: if_True)
    then have "pods_at ?E kept j = []" using kept unfolding j(1) by (simp only: list_all2_Nil)
    then show ?thesis using news at j(1) by simp
  qed
  show "PROP ?stays"
  proof -
    assume j: "pods_at ?E mine j = [p]" "\<not> doomed ?E spec (sint n) (int j) p"
    have "filter (\<lambda>p. pod_key p \<notin> ?D) [p] = [p]" unfolding one using rem[OF j(1)] j(2) by (simp only: if_False)
    then have "list_all2 (lives_on ?E spec) [p] (pods_at ?E kept j)" using kept unfolding j(1) by (simp only:)
    then show ?thesis using news at j(1) by (auto simp: list_all2_Cons1)
  qed
qed

lemma round_orderly:
  assumes id: "pod_identity (r_ctl R)" and E: "pod_control_ok (r_ext R)" "max_int_ok (r_ext R)"
    and never: "rs_RestartPolicy spec \<noteq> RestartPolicyNever" and n: "rs_Replicas spec = Some n"
    and mine: "mine = reconciled_pods (r_ext R) spec rtype pods" "orderly (r_ext R) spec mine"
    and mine': "mine' = reconciled_pods (r_ext R) spec rtype pods'"
    and round: "role_round R job rtype spec pods pods'"
  shows "orderly (r_ext R) spec mine'"
proof -
  let ?E = "r_ext R" and ?m = "slice_count (r_ext R) (sint n) mine"
  have bound: "sint n < 2 ^ 31" using sint_range32(2)[of n] by simp
  obtain kept news where nx: "mine' = kept @ news" "distinct (map pod_key mine')" "list_all2 (lives_on ?E spec)
       (filter (\<lambda>p. pod_key p \<notin> (\<Union>j < ?m. removed ?E spec (sint n) (int j) (pods_at ?E mine j))) mine) kept"
    "list_all2 (\<lambda>j q. pod_index ?E q = Some (int j) \<and> pod_Phase q \<noteq> PodFailed) (filter (\<lambda>j. pods_at ?E mine j = []) [0..<?m]) news"
    by (rule round_next[OF id E never n mine mine' refl round])
  have old: "\<exists>p \<in> set mine. lives_on ?E spec p q" if "q \<in> set kept" for q
    using list_all2_in_set2[OF nx(3) that] by auto
  have new: "\<exists>j < ?m. pod_index ?E q = Some (int j) \<and> pod_Phase q \<noteq> PodFailed" if "q \<in> set news" for q
  proof -
    let ?js = "filter (\<lambda>j. pods_at ?E mine j = []) [0..<?m]"
    from that obtain k where k: "k < length news" "news ! k = q" by (auto simp: in_set_conv_nth)
    with nx(4) have "k < length ?js" "pod_index ?E q = Some (int (?js ! k)) \<and> pod_Phase q \<noteq> PodFailed" by (auto simp: list_all2_conv_all_nth)
    with nth_mem[of k ?js] show ?thesis by auto
  qed
  have "0 \<le> i \<and> i < 2 ^ 31" if "q \<in> set mine'" "pod_index ?E q = Some i" for q i
  proof (cases "q \<in> set kept")
    case True
    from old[OF this] that mine(2) show ?thesis unfolding orderly_def by (metis lives_on_def pod_index_labels)
  next
    case False
    with that nx(1) new[of q] slice_count_bounds(3)[OF E(2) mine(2) bound] show ?thesis by fastforce
  qed
  moreover have "length (pods_at ?E mine' j) \<le> 1" for j
  proof -
    note at = round_at[OF id E never n mine mine' refl round, of j]
    have "length (pods_at ?E mine j) \<le> 1" using mine(2) by (simp add: orderly_def)
    then consider "pods_at ?E mine j = []" | p where "pods_at ?E mine j = [p]" by (cases "pods_at ?E mine j") auto
    then show ?thesis
    proof cases
      case 1
      with at(1,2) show ?thesis by (cases "j < ?m") auto
    next
      case (2 p)
      with at(3,4)[OF 2] show ?thesis by (cases "doomed ?E spec (sint n) (int j) p") auto
    qed
  qed
  moreover have "pod_restartable ?E spec q" if "q \<in> set mine'" "pod_Phase q = PodFailed" for q
    using that nx(1) old[of q] new[of q] mine(2) by (auto simp: orderly_def lives_on_def)
  ultimately show ?thesis using nx(2) unfolding orderly_def by blast
qed

section \<open>The role settles\<close>

definition healthy_at :: "ext \<Rightarrow> Pod list \<Rightarrow> nat \<Rightarrow> bool" where
  "healthy_at E mine j \<longleftrightarrow> (\<exists>p. pods_at E mine j = [p] \<and> pod_Phase p \<noteq> PodFailed)"

definition settled :: "ext \<Rightarrow> int \<Rightarrow> Pod list \<Rightarrow> bool" where
  "settled E n mine \<longleftrightarrow> (\<forall>j. if int j < n then healthy_at E mine j else pods_at E mine j = [])"

text \<open>The variant: as long as pods are out of range, the number of slices goes down.\<close>

lemma round_shrinks:
  assumes id: "pod_identity (r_ctl R)" and E: "pod_control_ok (r_ext R)" "max_int_ok (r_ext R)"
    and never: "rs_RestartPolicy spec \<noteq> RestartPolicyNever" and n: "rs_Replicas spec = Some n" "0 < sint n"
    and mine: "mine = reconciled_pods (r_ext R) spec rtype pods" "orderly (r_ext R) spec mine"
    and mine': "mine' = reconciled_pods (r_ext R) spec rtype pods'"
    and round: "role_round R job rtype spec pods pods'"
  shows "slice_count (r_ext R) (sint n) mine' \<le> max (nat (sint n)) (slice_count (r_ext R) (sint n) mine - 1)"
proof -
  let ?E = "r_ext R" and ?m = "slice_count (r_ext R) (sint n) mine"
  let ?b = "max (sint n) (int ?m - 1)"
  have bound: "sint n < 2 ^ 31" using sint_range32(2)[of n] by simp
  note at = round_at[OF id E never n(1) mine mine' refl round]
  note c = slice_count_bounds[OF E(2) mine(2) bound]
  have o': "orderly ?E spec mine'" by (rule round_orderly[OF id E never n(1) mine mine' round])
  have one: "\<exists>p. pods_at ?E mine j = [p]" if "pods_at ?E mine j \<noteq> []" for j
    using mine(2) that by (cases "pods_at ?E mine j") (auto simp: orderly_def dest: spec[of _ j])
  have "i < ?b" if q: "q \<in> set mine'" "pod_index ?E q = Some i" for q i
  proof -
    have "0 \<le> i" using o' q by (simp add: orderly_def)
    then have "q \<in> set (pods_at ?E mine' (nat i))" using q by (simp add: pods_at_def)
    then have here: "pods_at ?E mine' (nat i) \<noteq> []" by (cases "pods_at ?E mine' (nat i)") auto
    have "nat i < ?m" using here at(2)[of "nat i"] c(1)[of "nat i"] by fastforce
    moreover have "nat i \<noteq> ?m - 1" if more: "nat (sint n) < ?m"
    proof
      assume i: "nat i = ?m - 1"
      from one[OF c(5)[OF n(2) more]] obtain p where p: "pods_at ?E mine (?m - 1) = [p]" by blast
      have "doomed ?E spec (sint n) (int (?m - 1)) p" using more n(2) unfolding doomed_def by linarith
      from at(3)[OF p this] here i show False by simp
    qed
    ultimately show ?thesis using \<open>0 \<le> i\<close> by linarith
  qed
  moreover have "?b < 2 ^ 63" using bound c(3) by simp
  ultimately have "calculatePodSliceSize ?E mine' (sint n) \<le> ?b"
    using n(2) by (intro slice_size_upper[OF E(2)]) auto
  then have "int (slice_count ?E (sint n) mine') \<le> ?b" using n(2) unfolding slice_count_def[of _ _ mine'] by linarith
  then show ?thesis by linarith
qed

text \<open>In range, a failed pod goes in one round and its replacement comes in the next.\<close>

lemma round_repairs:
  assumes id: "pod_identity (r_ctl R)" and E: "pod_control_ok (r_ext R)" "max_int_ok (r_ext R)"
    and never: "rs_RestartPolicy spec \<noteq> RestartPolicyNever" and n: "rs_Replicas spec = Some n"
    and mine: "mine = reconciled_pods (r_ext R) spec rtype pods" "orderly (r_ext R) spec mine"
    and mine': "mine' = reconciled_pods (r_ext R) spec rtype pods'"
    and round: "role_round R job rtype spec pods pods'" and j: "int j < sint n"
  shows "pods_at (r_ext R) mine' j = [] \<or> healthy_at (r_ext R) mine' j"
    and "pods_at (r_ext R) mine j = [] \<or> healthy_at (r_ext R) mine j \<Longrightarrow> healthy_at (r_ext R) mine' j"
proof -
  let ?E = "r_ext R" and ?m = "slice_count (r_ext R) (sint n) mine"
  have bound: "sint n < 2 ^ 31" using sint_range32(2)[of n] by simp
  note at = round_at[OF id E never n(1) mine mine' refl round, of j]
  have "j < ?m" using slice_count_bounds(2)[OF E(2) mine(2) bound] j by linarith
  have gap: "healthy_at ?E mine' j" if "pods_at ?E mine j = []" using at(1)[OF that \<open>j < ?m\<close>] by (simp add: healthy_at_def)
  have fine: "healthy_at ?E mine' j" if "pods_at ?E mine j = [p]" "pod_Phase p \<noteq> PodFailed" for p
    using at(4)[OF that(1)] that(2) j by (auto simp: healthy_at_def doomed_def lives_on_def)
  have failed: "pods_at ?E mine' j = []" if "pods_at ?E mine j = [p]" "pod_Phase p = PodFailed" for p
  proof -
    have "p \<in> set (pods_at ?E mine j)" using that(1) by simp
    then have "pod_restartable ?E spec p" using mine(2) that(2) by (simp add: orderly_def pods_at_def)
    with at(3)[OF that(1)] that(2) show ?thesis by (simp add: doomed_def)
  qed
  have "length (pods_at ?E mine j) \<le> 1" using mine(2) by (simp add: orderly_def)
  then have "pods_at ?E mine j = [] \<or> (\<exists>p. pods_at ?E mine j = [p])" by (cases "pods_at ?E mine j") auto
  with gap fine failed show "pods_at ?E mine' j = [] \<or> healthy_at ?E mine' j" by blast
  show "healthy_at ?E mine' j" if "pods_at ?E mine j = [] \<or> healthy_at ?E mine j"
    using that gap fine by (auto simp: healthy_at_def)
qed

lemma rounds_progress:
  assumes id: "pod_identity (r_ctl R)" and E: "pod_control_ok (r_ext R)" "max_int_ok (r_ext R)"
    and never: "rs_RestartPolicy spec \<noteq> RestartPolicyNever" and n: "rs_Replicas spec = Some n" "0 < sint n"
    and o: "orderly (r_ext R) spec (reconciled_pods (r_ext R) spec rtype pods)"
    and rounds: "(role_round R job rtype spec ^^ k) pods pods'"
    and mine': "mine' = reconciled_pods (r_ext R) spec rtype pods'"
  shows "orderly (r_ext R) spec mine' \<and>
    slice_count (r_ext R) (sint n) mine' \<le> max (nat (sint n)) (slice_count (r_ext R) (sint n) (reconciled_pods (r_ext R) spec rtype pods) - k) \<and>
    (\<forall>j. int j < sint n \<longrightarrow> (1 \<le> k \<longrightarrow> pods_at (r_ext R) mine' j = [] \<or> healthy_at (r_ext R) mine' j) \<and> (2 \<le> k \<longrightarrow> healthy_at (r_ext R) mine' j))"
  using rounds mine'
proof (induction k arbitrary: pods' mine')
  case 0
  then show ?case using o by simp
next
  case (Suc k)
  let ?mine = "\<lambda>ps. reconciled_pods (r_ext R) spec rtype ps"
  from Suc.prems(1) obtain ps where ps: "(role_round R job rtype spec ^^ k) pods ps" and step: "role_round R job rtype spec ps pods'" by auto
  note IH = Suc.IH[OF ps refl]
  then have o1: "orderly (r_ext R) spec (?mine ps)" by blast
  note rep = round_repairs[OF id E never n(1) refl o1 Suc.prems(2) step]
  have "orderly (r_ext R) spec mine'" by (rule round_orderly[OF id E never n(1) refl o1 Suc.prems(2) step])
  moreover have "slice_count (r_ext R) (sint n) mine' \<le> max (nat (sint n)) (slice_count (r_ext R) (sint n) (?mine pods) - Suc k)"
    using round_shrinks[OF id E never n refl o1 Suc.prems(2) step] IH by auto
  moreover have "healthy_at (r_ext R) mine' j" if "int j < sint n" "2 \<le> Suc k" for j
    using rep(2)[OF that(1)] IH that by auto
  ultimately show ?case using rep(1) by blast
qed

lemma settled_quiet:
  assumes id: "pod_identity (r_ctl R)" and E: "pod_control_ok (r_ext R)" "max_int_ok (r_ext R)"
    and never: "rs_RestartPolicy spec \<noteq> RestartPolicyNever" and n: "rs_Replicas spec = Some n" "0 < sint n"
    and mine: "mine = reconciled_pods (r_ext R) spec rtype pods" "orderly (r_ext R) spec mine" "settled (r_ext R) (sint n) mine"
    and run: "ReconcilePods R now job js pods rtype (Some spec) replicas tr = Some (None, job', tr')"
  shows "created (drop (length tr) tr') = []" "deleted (drop (length tr) tr') = []"
proof -
  let ?E = "r_ext R" and ?m = "slice_count (r_ext R) (sint n) mine"
  have bound: "sint n < 2 ^ 31" using sint_range32(2)[of n] by simp
  note c = slice_count_bounds[OF E(2) mine(2) bound]
  have "\<not> nat (sint n) < ?m"
    using c(5)[OF n(2)] mine(3) by (auto simp: settled_def dest: spec[of _ "?m - 1"])
  then have at: "healthy_at ?E mine j" "int j < sint n" if "j < ?m" for j
    using that mine(3) by (auto simp: settled_def dest: spec[of _ j])
  have "indices_ok ?E mine" using mine(2) unfolding orderly_def indices_ok_def by force
  from ReconcilePods_exact[OF id E never n(1) mine(1) this run] obtain es where es: "tr' = tr @ es"
    "list_all2 (\<lambda>j p. wanted_pod (r_ctl R) ?E job (ToLower rtype) (itoa (int j)) p) (filter (\<lambda>j. pods_at ?E mine j = []) [0..<?m]) (created es)"
    "set (deleted es) = (\<Union>j < ?m. removed ?E spec (sint n) (int j) (pods_at ?E mine j))" by auto
  have "filter (\<lambda>j. pods_at ?E mine j = []) [0..<?m] = []" using at(1) by (force simp: filter_empty_conv healthy_at_def)
  with es(2) have "created es = []" by simp
  moreover have "removed ?E spec (sint n) (int j) (pods_at ?E mine j) = {}" if "j < ?m" for j
    using at[OF that] by (auto simp: healthy_at_def removed_def doomed_def)
  with es(3) have "deleted es = []" by simp
  ultimately show "created (drop (length tr) tr') = []" "deleted (drop (length tr) tr') = []" using es(1) by simp_all
qed

lemma rounds_settle:
  assumes id: "pod_identity (r_ctl R)" and E: "pod_control_ok (r_ext R)" "max_int_ok (r_ext R)"
    and never: "rs_RestartPolicy spec \<noteq> RestartPolicyNever" and n: "rs_Replicas spec = Some n" "0 < sint n"
    and o: "orderly (r_ext R) spec (reconciled_pods (r_ext R) spec rtype pods)"
    and k: "2 \<le> k" "slice_count (r_ext R) (sint n) (reconciled_pods (r_ext R) spec rtype pods) \<le> nat (sint n) + k"
    and rounds: "(role_round R job rtype spec ^^ k) pods pods'"
    and mine': "mine' = reconciled_pods (r_ext R) spec rtype pods'"
  shows "orderly (r_ext R) spec mine'" "settled (r_ext R) (sint n) mine'"
proof -
  note p = rounds_progress[OF id E never n o rounds mine']
  then show o': "orderly (r_ext R) spec mine'" by blast
  have bound: "sint n < 2 ^ 31" using sint_range32(2)[of n] by simp
  have "pods_at (r_ext R) mine' j = []" if "\<not> int j < sint n" for j
  proof (rule ccontr)
    assume "pods_at (r_ext R) mine' j \<noteq> []"
    from slice_count_bounds(1)[OF E(2) o' bound this] p k that show False by linarith
  qed
  with p k(1) show "settled (r_ext R) (sint n) mine'" by (auto simp: settled_def)
qed

section \<open>A round goes through\<close>

text \<open>
  The other half: when nothing the round relies on fails, it returns, and without an error. The framework configures the
  templates of the pods with an index below \<open>m\<close>, their start-up dependence can be set, and the API server accepts
  the creation and the deletion of pods.
\<close>

definition willing :: "Reconciler \<Rightarrow> AresJob \<Rightarrow> string \<Rightarrow> ReplicaSpec \<Rightarrow> int \<Rightarrow> bool" where
  "willing R job rt spec m \<longleftrightarrow>
     (\<forall>i b. 0 \<le> i \<longrightarrow> i < m \<longrightarrow>
        (\<exists>t1 t2. SetClusterSpec (r_ctl R) job (new_template (r_ctl R) job rt (itoa i) spec b) rt (itoa i) = Some (None, t1) \<and>
           SetDependence (r_conf R) (r_observers R) job (SetScheduler job (fst (setRestartPolicy rt t1 spec []))) rt = Some (None, t2))) \<and>
     (\<forall>tr ns p. \<exists>name. r_server R tr (PodsCreate ns p) = Inr name) \<and>
     (\<forall>tr ns n. \<exists>name. r_server R tr (DeletePod ns n) = Inr name)"

lemma CreateNewPod_succeeds:
  assumes id: "pod_identity (r_ctl R)" and E: "pod_control_ok (r_ext R)" and w: "willing R job rt spec m" "0 \<le> i" "i < m"
    and key: "KeyFunc (r_ext R) (job_Namespace job) (job_Name job) = Inr k"
  shows "\<exists>tr'. CreateNewPod R job rt (itoa i) spec b tr = Some (None, tr')"
proof -
  let ?t0 = "new_template (r_ctl R) job rt (itoa i) spec b"
  obtain t1 t4 where t1: "SetClusterSpec (r_ctl R) job ?t0 rt (itoa i) = Some (None, t1)"
    and dep: "SetDependence (r_conf R) (r_observers R) job (SetScheduler job (fst (setRestartPolicy rt t1 spec []))) rt = Some (None, t4)"
    using w unfolding willing_def by blast
  obtain t2 tr1 where t2: "setRestartPolicy rt t1 spec tr = (t2, tr1)" by fastforce
  have "fst (setRestartPolicy rt t1 spec []) = t2" using t2 by (simp add: setRestartPolicy_def Let_def split: if_splits)
  with dep have t4: "SetDependence (r_conf R) (r_observers R) job (SetScheduler job t2) rt = Some (None, t4)" by simp
  have "same_identity ?t0 t4"
    using pod_identity.keeps_identity[OF id t1] setRestartPolicy_identity[OF t2] SetScheduler_identity[of t2 job]
      SetDependence_identity[OF t4] same_identity_trans by blast
  then have "gm_get (pt_Labels t4) ReplicaTypeLabel = Some rt"
    using new_template_labels(1)[of "r_ctl R" job rt "itoa i" spec b] by (simp add: same_identity_def)
  then have len: "gm_len (pt_Labels t4) \<noteq> 0" by (auto simp: gm_get_def gm_len_def)
  obtain p0 where p0: "GetPodFromTemplate (r_ext R) t4 job (Some (GenOwnerReference (r_ext R) job)) = Inr p0"
    using E unfolding pod_control_ok_def by blast
  have lbl: "pt_Labels (np_Object p0) = pt_Labels t4"
    using E p0 unfolding pod_control_ok_def pods_from_templates_def by blast
  have "\<exists>tr3. CreatePodsWithControllerRef R (job_Namespace job) t4 job (Some (GenOwnerReference (r_ext R) job)) tr2 = (None, tr3)" for tr2
  proof -
    let ?pod = "p0\<lparr>np_Object := (np_Object p0)\<lparr>pt_GenerateName := pt_GenerateName t4\<rparr>\<rparr>"
    obtain name where "r_server R tr2 (PodsCreate (job_Namespace job) ?pod) = Inr name" using w unfolding willing_def by blast
    then show ?thesis using E p0 len lbl by (simp add: CreatePodsWithControllerRef_def createPods_def pod_control_ok_def Let_def)
  qed
  then obtain tr3 where tr3: "CreatePodsWithControllerRef R (job_Namespace job) t4 job (Some (GenOwnerReference (r_ext R) job))
     (tr1 @ [RaiseExpectations (GenExpectationPodsKey (r_ext R) k rt) 1 0]) = (None, tr3)" by blast
  then show ?thesis using key t1 t2 t4 by (simp add: CreateNewPod_def Let_def)
qed

lemma delete_and_expect_succeeds:
  assumes "willing R job rt spec' m"
  shows "\<exists>s'. delete_and_expect R key pod s = (None, s') \<and> validatedPods s' = validatedPods s"
proof -
  obtain name where "r_server R (loop_trace s) (DeletePod (pod_Namespace pod) (pod_Name pod)) = Inr name"
    using assms unfolding willing_def by blast
  then show ?thesis by (simp add: delete_and_expect_def answer_err_def Let_def)
qed

lemma reconcile_one_succeeds:
  assumes "willing R job rt spec' m"
  shows "\<exists>s'. reconcile_one R key spec n i pod s = (None, s') \<and> length (validatedPods s') \<le> length (validatedPods s) + 1"
proof -
  let ?del = "delete_and_expect R key pod"
  obtain s1 where s1: "(if i < 0 \<or> n \<le> i then ?del s else (None, s)) = (None, s1)" "validatedPods s1 = validatedPods s"
    using delete_and_expect_succeeds[OF assms, of key pod s] by (cases "i < 0 \<or> n \<le> i") auto
  let ?s2 = "s1\<lparr>loop_trace := loop_trace s1 @ [RecordEvent \<lparr>ev_Type = EventTypeNormal, ev_Reason = podFailedReason,
     ev_Message = ''Pod '' @ pod_Name pod @ '' is failed: '' @ GetPodFailedInfo pod\<rparr>]\<rparr>"
  obtain s3 where s3: "?del ?s2 = (None, s3)" "validatedPods s3 = validatedPods ?s2" using delete_and_expect_succeeds[OF assms] by blast
  show ?thesis using s1 s3 unfolding reconcile_one_def Let_def s1(1) by simp
qed

lemma reconcile_slice_succeeds:
  assumes "pod_identity (r_ctl R)" "pod_control_ok (r_ext R)" and w: "willing R job (ToLower rtype) spec m" "0 \<le> i" "i < m"
    and "KeyFunc (r_ext R) (job_Namespace job) (job_Name job) = Inr k" and phase: "Status_RolePhase (job_Status job) rtype = Some ph"
  shows "\<exists>s'. reconcile_slice R job key rtype spec replicas n i sl s = Some (None, s') \<and>
    length (validatedPods s') \<le> length (validatedPods s) + length sl"
proof -
  consider "sl = []" | pod where "sl = [pod]" | a b cs where "sl = a # b # cs" by (cases sl rule: list.exhaust[of _ thesis]; cases "tl sl") auto
  then show ?thesis
  proof cases
    case 1
    from CreateNewPod_succeeds[OF assms(1,2) w assms(6)] obtain tr where
      "CreateNewPod R job (ToLower rtype) (itoa i) spec (IsMasterRole (r_ctl R) replicas rtype i) (loop_trace s) = Some (None, tr)" by blast
    with 1 phase show ?thesis by (simp add: reconcile_slice_def Let_def)
  next
    case (2 pod)
    with reconcile_one_succeeds[OF w(1), of key spec n i pod s] show ?thesis by (auto simp: reconcile_slice_def)
  next
    case (3 a b cs)
    then show ?thesis by (simp add: reconcile_slice_def)
  qed
qed

lemma reconcile_slices_succeeds:
  assumes "pod_identity (r_ctl R)" "pod_control_ok (r_ext R)" "willing R job (ToLower rtype) spec m"
    "KeyFunc (r_ext R) (job_Namespace job) (job_Name job) = Inr k" "Status_RolePhase (job_Status job) rtype = Some ph"
    and "0 \<le> i" "i + int (length slices) \<le> max 0 m"
  shows "\<exists>s'. reconcile_slices R job key rtype spec replicas n i slices s = Some (None, s') \<and>
    length (validatedPods s') \<le> length (validatedPods s) + sum_list (map length slices)"
  using assms(6,7)
proof (induction slices arbitrary: i s)
  case (Cons sl slices)
  have "i < m" using Cons.prems by simp
  from reconcile_slice_succeeds[OF assms(1-3) Cons.prems(1) this assms(4,5)] obtain t where t: "reconcile_slice R job key rtype spec replicas n i sl s = Some (None, t)"
    "length (validatedPods t) \<le> length (validatedPods s) + length sl" by blast
  have "0 \<le> i + 1" "i + 1 + int (length slices) \<le> max 0 m" using Cons.prems by simp_all
  from Cons.IH[OF this, of t] t show ?case by (auto intro: order_trans)
qed simp

text \<open>Every pod is counted once.\<close>

lemma slices_length: "sum_list (map length (map (pods_at E pods) [0..<m])) \<le> length pods"
proof (induction pods)
  case (Cons p pods)
  have one: "sum_list (map (\<lambda>j. if pod_index E p = Some (int j) then 1 else 0) [0..<m]) \<le> (1 :: nat)"
  proof (cases "pod_index E p")
    case (Some i)
    have "sum_list (map (\<lambda>j. if i = int j then 1 else 0) [0..<m]) \<le> (1 :: nat) \<and>
        (i \<ge> int m \<longrightarrow> sum_list (map (\<lambda>j. if i = int j then 1 else 0) [0..<m]) = (0 :: nat))"
      by (induction m) auto
    with Some show ?thesis by simp
  qed simp
  have "sum_list (map length (map (pods_at E (p # pods)) [0..<m])) =
      sum_list (map (\<lambda>j. if pod_index E p = Some (int j) then 1 else 0) [0..<m]) + sum_list (map length (map (pods_at E pods) [0..<m]))"
    by (induction m) (simp_all add: pods_at_def)
  with one Cons show ?case by simp
qed (simp add: pods_at_def)

lemma parts_length: "length (left_pods E spec rtype pods) + length (reconciled_pods E spec rtype pods) \<le> length pods"
proof -
  let ?ps = "FilterPodsForReplicaType E pods (ToLower rtype)"
  have le: "length ?ps \<le> length pods" by (simp add: FilterPodsForReplicaType_def)
  have "length (filter P xs) + length (filter (\<lambda>x. \<not> P x) xs) = length xs" for P and xs :: "Pod list"
    by (rule sum_length_filter_compl)
  from this[of "\<lambda>p. pod_DeletionTimestamp p \<noteq> None" ?ps] le show ?thesis
    by (simp add: left_pods_def reconciled_pods_def Let_def FilterAlivePods_def FilterTerminatingPods_def FilterPods_def)
qed

section \<open>Properties\<close>

text \<open>
  C11. A round succeeds. Whatever pods a role has, fewer than \<open>2^31\<close> and with indices from 0 to below \<open>2^31\<close> (a negative index panics), when
  the framework configures the pods up to the largest index of the round, their start-up dependence can be set and the API server
  accepts the requests, reconciling its pods neither panics nor reports an error.
\<close>

theorem ReconcilePods_succeeds:
  assumes ctl: "pod_identity (r_ctl R)" and E: "pod_control_ok (r_ext R)" "max_int_ok (r_ext R)"
    and key: "KeyFunc (r_ext R) (job_Namespace job) (job_Name job) = Inr k" 
    and w: "willing R job (ToLower rtype) spec (calculatePodSliceSize (r_ext R) (reconciled_pods (r_ext R) spec rtype pods) (sint n))"
    and sp: "gm_ptr (spec_RoleSpecs (job_Spec job)) rtype = Some sp" "role_ReplicaSpec sp = Some spec" "rs_Replicas spec = Some n"
    and phase: "Status_RolePhase (job_Status job) rtype \<noteq> None"
    and idx: "\<forall>p \<in> set (reconciled_pods (r_ext R) spec rtype pods). \<forall>i. pod_index (r_ext R) p = Some i \<longrightarrow> 0 \<le> i \<and> i < 2 ^ 31"
    and len: "length pods < 2 ^ 31"
  shows "\<exists>job' tr'. ReconcilePods R now job (Some js) pods rtype (Some spec) replicas tr = Some (None, job', tr')"
proof -
  let ?mine = "reconciled_pods (r_ext R) spec rtype pods" and ?key = "GenExpectationPodsKey (r_ext R) k rtype"
  let ?slices = "map (pods_at (r_ext R) ?mine) [0..<nat (calculatePodSliceSize (r_ext R) ?mine (sint n))]"
  let ?s0 = "\<lparr>expectedCreation = 0, expectedDeletion = 0, validatedPods = left_pods (r_ext R) spec rtype pods, loop_trace = tr\<rparr>"
  let ?job1 = "job\<lparr>job_Status := (job_Status job)\<lparr>st_JobStatus := Some js\<rparr>\<rparr>"
  have "\<forall>p \<in> set ?mine. \<forall>i. pod_index (r_ext R) p = Some i \<longrightarrow> 0 \<le> i \<and> i < 2 ^ 63 - 1" using idx by force
  from GetPodSlices_run[OF E(2) this] have slices: "GetPodSlices (r_ext R) ?mine (sint n) = Some ?slices" .
  obtain ph where ph: "Status_RolePhase (job_Status job) rtype = Some ph" using phase by blast
  have "(0 :: int) \<le> 0" "0 + int (length ?slices) \<le> max 0 (calculatePodSliceSize (r_ext R) ?mine (sint n))" by simp_all
  from reconcile_slices_succeeds[OF ctl E(1) w key ph this] obtain s where
    s: "reconcile_slices R job ?key rtype spec replicas (sint n) 0 ?slices ?s0 = Some (None, s)"
    "length (validatedPods s) \<le> length (validatedPods ?s0) + sum_list (map length ?slices)" by blast
  have "length (validatedPods s) < 2 ^ 31"
    using s(2) slices_length[of "r_ext R" ?mine "nat (calculatePodSliceSize (r_ext R) ?mine (sint n))"]
      parts_length[of "r_ext R" spec rtype pods] len by simp
  moreover have "gm_ptr (spec_RoleSpecs (job_Spec ?job1)) rtype = Some sp" "st_JobStatus (job_Status ?job1) = Some js" by (simp_all add: sp(1))
  ultimately obtain job1 job2 evs where sync: "UpdateRoleReplicas (r_nodes R) ?job1 rtype (validatedPods s) = Some job1"
    "UpdateRolePhase (r_ext R) (r_nodes R) now job1 rtype (validatedPods s) = Some (job2, evs)"
    using role_sync_run[OF _ sp(2,3) _ _ refl, of ?job1 rtype js "validatedPods s" "r_nodes R" "r_ext R" now] by blast
  have "ReconcilePods R now job (Some js) pods rtype (Some spec) replicas tr = finish_pods R now job (Some js) rtype None s"
    using key sp(3) slices s(1) by (simp add: ReconcilePods_def reconciled_pods_def left_pods_def Let_def)
  moreover have "\<exists>job' tr'. finish_pods R now job (Some js) rtype None s = Some (None, job', tr')"
    using sync by (simp add: finish_pods_def Let_def)
  ultimately show ?thesis by simp
qed

text \<open>A pytorch job with the workers 0 and 5, of the two it asks for: the pods in between are set up by the framework and created.\<close>

definition pytorch_reconciler :: Reconciler where
  "pytorch_reconciler = framework_reconciler plain_reconciler (PytorchFramework plain_ext)"

definition pytorch_worker :: RoleSpec where
  "pytorch_worker = plain_role 2 [] [plain_container FrameworkPytorch []]"

definition pytorch_spec :: ReplicaSpec where
  "pytorch_spec = the (role_ReplicaSpec pytorch_worker)"

lemma pytorch_facts:
  "r_ext pytorch_reconciler = plain_ext" "r_ctl pytorch_reconciler = fw_controller (PytorchFramework plain_ext)"
  "gm_ptr (spec_RoleSpecs (job_Spec pytorch_job)) RoleWorker = Some pytorch_worker"
  "role_ReplicaSpec pytorch_worker = Some pytorch_spec" "rs_Replicas pytorch_spec = Some 2" "role_Dependence pytorch_worker = None"
  by (simp_all add: pytorch_reconciler_def framework_reconciler_def plain_reconciler_def pytorch_job_def pytorch_spec_def pytorch_worker_def
      plain_defs gm_ptr_def gm_get_def go_consts)

lemma pytorch_willing: "willing pytorch_reconciler pytorch_job (ToLower RoleWorker) pytorch_spec 6"
proof -
  have low: "ToLower RoleWorker = RoleWorker" by code_simp
  have ok: "roles_ok (spec_RoleSpecs (job_Spec pytorch_job))"
    by (simp add: pytorch_job_def plain_defs roles_ok_def gm_ok_def gm_keys_def go_consts)
  have port: "GetPort (Pytorch_names plain_ext) pytorch_job RoleMaster = Some (Inr 2222)" by code_simp
  have ctr: "ps_Containers (pt_Spec (new_template ctl job rt index pytorch_spec b)) \<noteq> []" for ctl job rt index b
    by (simp add: new_template_def pytorch_spec_def pytorch_worker_def plain_defs Let_def)
  have dep: "SetDependence c l pytorch_job t RoleWorker = Some (None, t)" for c l t
    by (simp add: SetDependence_def pytorch_facts)
  have srv: "r_server pytorch_reconciler tr e = Inr ''pod-x''" for tr e
    by (simp add: pytorch_reconciler_def framework_reconciler_def plain_reconciler_def)
  have "\<exists>t1. SetClusterSpec (r_ctl pytorch_reconciler) pytorch_job
      (new_template (r_ctl pytorch_reconciler) pytorch_job RoleWorker (itoa i) pytorch_spec b) RoleWorker (itoa i) = Some (None, t1)"
    if "0 \<le> i" "i < 6" for i b
  proof -
    have "(RoleWorker, nat i) \<in> master_and_workers 6" using that by (auto simp: master_and_workers_def nat_less_iff)
    from Pytorch_SetClusterSpec_run[OF ok port this _ ctr] that show ?thesis by (simp add: pytorch_facts PytorchFramework_def)
  qed
  then show ?thesis unfolding willing_def low by (auto simp: dep srv)
qed

theorem ReconcilePods_succeeds_witness:
  "\<exists>job' tr'. ReconcilePods pytorch_reconciler 7 pytorch_job (Some zero_JobStatus) [worker 0, worker 5] RoleWorker (Some pytorch_spec) None []
     = Some (None, job', tr')"
proof -
  have ctl: "pod_identity (r_ctl pytorch_reconciler)" unfolding pytorch_facts by (rule pytorch_pods.pod_identity_axioms)
  have E: "pod_control_ok (r_ext pytorch_reconciler)" "max_int_ok (r_ext pytorch_reconciler)"
    unfolding pytorch_facts by (rule plain_pod_control plain_max)+
  have key: "KeyFunc (r_ext pytorch_reconciler) (job_Namespace pytorch_job) (job_Name pytorch_job) = Inr ''ns/job''" by code_simp
  have phase: "Status_RolePhase (job_Status pytorch_job) RoleWorker \<noteq> None" by code_simp
  have mine: "reconciled_pods plain_ext pytorch_spec RoleWorker [worker 0, worker 5] = [worker 0, worker 5]" by code_simp
  have five: "pod_index plain_ext (worker 5) = Some 5" by code_simp
  have size: "calculatePodSliceSize plain_ext [worker 0, worker 5] (sint (2 :: int32)) = 6" by code_simp
  have w: "willing pytorch_reconciler pytorch_job (ToLower RoleWorker) pytorch_spec
      (calculatePodSliceSize (r_ext pytorch_reconciler)
        (reconciled_pods (r_ext pytorch_reconciler) pytorch_spec RoleWorker [worker 0, worker 5]) (sint (2 :: int32)))"
    unfolding pytorch_facts mine size by (rule pytorch_willing)
  have idx: "\<forall>p \<in> set (reconciled_pods (r_ext pytorch_reconciler) pytorch_spec RoleWorker [worker 0, worker 5]).
      \<forall>i. pod_index (r_ext pytorch_reconciler) p = Some i \<longrightarrow> 0 \<le> i \<and> i < 2 ^ 31"
    unfolding pytorch_facts mine by (simp add: worker_index five)
  show ?thesis
    by (rule ReconcilePods_succeeds[OF ctl E key w pytorch_facts(3-5) phase idx]) simp
qed

text \<open>
  C2. A role settles. Start with any pods, at most one per index and no negative index, of a role that restarts its failed pods; let rounds
  and the cluster alternate, and let no new pod fail: after \<open>k\<close> rounds, where \<open>k\<close> is at least two and at least the distance of the largest index from the replica
  count, there is exactly one pod per index below the replica count, none of them failed, and no pod beyond; and from then
  on a round asks for nothing.
\<close>

theorem role_settles:
  assumes ctl: "pod_identity (r_ctl R)" and E: "pod_control_ok (r_ext R)" "max_int_ok (r_ext R)"
    and spec: "rs_RestartPolicy spec \<noteq> RestartPolicyNever" "rs_Replicas spec = Some n" "0 < sint n"
    and start: "orderly (r_ext R) spec (reconciled_pods (r_ext R) spec rtype pods)"
    and k: "2 \<le> k" "slice_count (r_ext R) (sint n) (reconciled_pods (r_ext R) spec rtype pods) \<le> nat (sint n) + k"
    and rounds: "(role_round R job rtype spec ^^ k) pods pods'"
  shows "settled (r_ext R) (sint n) (reconciled_pods (r_ext R) spec rtype pods') \<and>
    (\<forall>now job1 js replicas tr job2 tr'. ReconcilePods R now job1 js pods' rtype (Some spec) replicas tr = Some (None, job2, tr') \<longrightarrow>
       created (drop (length tr) tr') = [] \<and> deleted (drop (length tr) tr') = [])"
proof -
  note arrived = rounds_settle[OF ctl E spec start k rounds refl]
  from arrived(2) settled_quiet[OF ctl E spec refl arrived] show ?thesis by blast
qed

text \<open>A role scaled down from four to two whose first pod has failed; the cluster starts what it is asked for.\<close>

definition restart_job :: AresJob where
  "restart_job =
     (let job = plain_job ''standalone'' [(RoleWorker, Some (plain_role 2 RestartPolicyOnFailure []))]
      in job\<lparr>job_Status := (job_Status job)\<lparr>st_JobStatus := Some zero_JobStatus\<rparr>\<rparr>)"

definition restart_spec :: ReplicaSpec where
  "restart_spec = the (role_ReplicaSpec (plain_role 2 RestartPolicyOnFailure []))"

definition messy :: "Pod list" where
  "messy = [worker 1, (worker 0)\<lparr>pod_Phase := PodFailed\<rparr>, worker 3]"

definition boots :: "string \<Rightarrow> effect list \<Rightarrow> Pod list" where
  "boots name es = map2 (\<lambda>i p. (plain_pod (name @ itoa (int i)) [] [] PodRunning)\<lparr>pod_Labels := pt_Labels (np_Object p), pod_Controller := np_Controller p\<rparr>)
     [0..<length (created es)] (created es)"

definition restart_round :: "Pod list \<Rightarrow> (go_error option \<times> AresJob \<times> effect list) option" where
  "restart_round pods = ReconcilePods plain_reconciler 7 restart_job (Some zero_JobStatus) pods RoleWorker (Some restart_spec) None []"

definition after_round :: "string \<Rightarrow> Pod list \<Rightarrow> Pod list" where
  "after_round name pods = (case restart_round pods of
     Some (None, job, es) \<Rightarrow> filter (\<lambda>p. pod_key p \<notin> set (deleted es)) pods @ boots name es | _ \<Rightarrow> [])"

lemma after_round_round:
  assumes "case restart_round pods of
     Some (None, job, es) \<Rightarrow> next_pods plain_ext restart_spec restart_job es (reconciled_pods plain_ext restart_spec RoleWorker pods)
       (reconciled_pods plain_ext restart_spec RoleWorker (after_round name pods)) | _ \<Rightarrow> False"
  shows "role_round plain_reconciler restart_job RoleWorker restart_spec pods (after_round name pods)"
  using assms unfolding restart_round_def
  by (auto simp: gap_facts split: option.splits intro!: role_round.round[OF refl refl])

theorem role_settles_witness:
  "settled plain_ext 2 (reconciled_pods plain_ext restart_spec RoleWorker (after_round ''b'' (after_round ''a'' messy)))"
proof -
  have ctl: "pod_identity (r_ctl plain_reconciler)" unfolding gap_facts by (rule base.pod_identity_axioms)
  have E: "pod_control_ok (r_ext plain_reconciler)" "max_int_ok (r_ext plain_reconciler)"
    unfolding gap_facts by (rule plain_pod_control plain_max)+
  have spec: "rs_RestartPolicy restart_spec \<noteq> RestartPolicyNever \<and> rs_Replicas restart_spec = Some 2 \<and> 0 < sint (2 :: int32)" by code_simp
  have mine: "reconciled_pods plain_ext restart_spec RoleWorker messy = messy" by code_simp
  have idx: "map (pod_index plain_ext) messy = [Some 1, Some 0, Some 3] \<and> distinct (map pod_key messy)
      \<and> list_all (\<lambda>p. pod_Phase p = PodFailed \<longrightarrow> pod_restartable plain_ext restart_spec p) messy" by code_simp
  have o: "orderly plain_ext restart_spec messy"
    using idx unfolding orderly_def messy_def by (auto simp: pods_at_def)
  have count: "slice_count plain_ext 2 messy = 4" by code_simp
  have "role_round plain_reconciler restart_job RoleWorker restart_spec messy (after_round ''a'' messy)"
    by (rule after_round_round) code_simp
  moreover have "role_round plain_reconciler restart_job RoleWorker restart_spec (after_round ''a'' messy) (after_round ''b'' (after_round ''a'' messy))"
    by (rule after_round_round) code_simp
  ultimately have "(role_round plain_reconciler restart_job RoleWorker restart_spec ^^ 2) messy (after_round ''b'' (after_round ''a'' messy))"
    by (auto simp: numeral_2_eq_2)
  with role_settles[OF ctl E, of restart_spec 2 RoleWorker messy 2 restart_job "after_round ''b'' (after_round ''a'' messy)"] spec o count
  show ?thesis by (simp add: gap_facts mine)
qed

end
