(* ===== verification/Cleanup.thy ===== *)
theory Cleanup
  imports Controller
begin

text \<open>
  The clean-up worker beside the rounds. \<open>setupCleanUpQueue\<close> starts a goroutine that repeats \<open>cleanupNextItem\<close>; rounds of \<open>Reconcile\<close> put
  finished jobs into its queue. A run is a sequence of moves of the two: the worker takes an item, the worker handles the item it has
  taken, a round takes place. An item may be put into the queue again while the worker handles it.

  The queue is client-go's. What the moves assume of it is its documentation: \<open>Get\<close> delivers an item that has been added and has
  not been delivered since, each once however often it was added, at a moment that is not fixed here, since the
  delays are the queue's; \<open>Forget\<close> and \<open>Done\<close> take nothing out of the queue.
\<close>

section \<open>Worker and rounds\<close>

type_synonym item = "string \<times> string"

definition added :: "effect list \<Rightarrow> item list" where
  "added es = concat (map (\<lambda>e. case e of
     CleanUpAddAfter ns name d \<Rightarrow> [(ns, name)] | CleanUpAddRateLimited ns name \<Rightarrow> [(ns, name)] | _ \<Rightarrow> []) es)"

record clean_state =
  cl_waiting :: "item set"
  cl_current :: "item option"
  cl_cache :: "Cache option"
  cl_trace :: "effect list"

text \<open>The calls that a move has made reach the queue.\<close>

definition enqueue :: "effect list \<Rightarrow> clean_state \<Rightarrow> clean_state" where
  "enqueue tr s = s\<lparr>cl_waiting := cl_waiting s \<union> set (added (drop (length (cl_trace s)) tr)), cl_trace := tr\<rparr>"

datatype move = Get item | Work World | Round World

text \<open>A round that panics ends the process, and with it the run.\<close>

fun clean_move :: "AresJobReconciler \<Rightarrow> Libs \<Rightarrow> move \<Rightarrow> clean_state \<Rightarrow> clean_state option" where
  "clean_move r L (Get k) s =
     (if cl_current s = None \<and> k \<in> cl_waiting s
      then Some (s\<lparr>cl_waiting := cl_waiting s - {k}, cl_current := Some k\<rparr>) else None)"
| "clean_move r L (Work W) s = do {
     k \<leftarrow> cl_current s;
     Some (enqueue (snd (cleanupNextItem r W (Some k) (cl_trace s))) (s\<lparr>cl_current := None\<rparr>)) }"
| "clean_move r L (Round W) s = do {
     (res, c, tr) \<leftarrow> Reconcile r W L (cl_cache s) (cl_trace s);
     Some (enqueue tr (s\<lparr>cl_cache := c\<rparr>)) }"

fun clean_run :: "AresJobReconciler \<Rightarrow> Libs \<Rightarrow> move list \<Rightarrow> clean_state \<Rightarrow> clean_state option" where
  "clean_run r L [] s = Some s"
| "clean_run r L (m # ms) s = do { s' \<leftarrow> clean_move r L m s; clean_run r L ms s' }"

text \<open>The clean-ups that are still to come.\<close>

definition owed :: "clean_state \<Rightarrow> item set" where
  "owed s = cl_waiting s \<union> set_option (cl_current s)"

section \<open>Handling one item\<close>

definition forget_item :: "item \<Rightarrow> effect list" where
  "forget_item k = [CleanUpForget (fst k) (snd k), CleanUpDone (fst k) (snd k)]"

text \<open>
  The item is settled: its job is gone, or of no known framework, or its pods and services, as listed, and its pod group have been
  deleted, every call with success.
\<close>

definition deleted_all :: "AresJobReconciler \<Rightarrow> World \<Rightarrow> AresJob \<Rightarrow> effect list \<Rightarrow> effect list \<Rightarrow> bool" where
  "deleted_all r W job tr es \<longleftrightarrow>
     (\<exists>pods services. w_pods W tr = Inr pods \<and>
        w_services W (tr @ map (\<lambda>pod. DeletePod (pod_Namespace pod) (pod_Name pod)) pods) = Inr services \<and>
        es = cleanup_plan job pods services \<and>
        (\<forall>n < length es. answer_err (r_server (c_Reconciler r) (tr @ take n es) (es ! n)) = None))"

definition item_settled :: "AresJobReconciler \<Rightarrow> World \<Rightarrow> item \<Rightarrow> effect list \<Rightarrow> effect list \<Rightarrow> bool" where
  "item_settled r W k tr tr' \<longleftrightarrow>
     (case GetJobFromInformerCache W tr of
        Inl err \<Rightarrow> IsNotFound err \<and> tr' = tr @ forget_item k
      | Inr job \<Rightarrow>
          if getFramework (c_Frameworks r) (spec_FrameworkType (job_Spec job)) = None then tr' = tr @ forget_item k
          else \<exists>es. deleted_all r W job tr es \<and> tr' = tr @ es @ forget_item k)"

lemma added_append [simp]: "added (es @ fs) = added es @ added fs"
  by (simp add: added_def)

lemma added_simps [simp]:
  "added [] = []" "added (CleanUpAddAfter ns name d # es) = (ns, name) # added es"
  "added (CleanUpAddRateLimited ns name # es) = (ns, name) # added es"
  "added (CleanUpForget ns name # es) = added es" "added (CleanUpDone ns name # es) = added es"
  by (simp_all add: added_def)

lemma added_AddAfter: "CleanUpAddAfter ns name d \<in> set es \<Longrightarrow> (ns, name) \<in> set (added es)"
  by (auto dest!: split_list)

lemma added_plan [simp]: "added (cleanup_plan job pods services) = []"
  by (auto simp: added_def cleanup_plan_def)

lemma added_forget [simp]: "added (forget_item k) = []"
  by (simp add: forget_item_def)

lemma call_all_grows: "call_all srv calls tr = (err, tr') \<Longrightarrow> \<exists>n. tr' = tr @ take n calls"
  using call_all_outcome[of srv calls tr err tr'] by (cases err) (auto intro: exI[of _ "length calls"])

lemma call_all_success:
  "call_all srv calls tr = (None, tr') \<Longrightarrow> tr' = tr @ calls \<and> (\<forall>n < length calls. answer_err (srv (tr @ take n calls) (calls ! n)) = None)"
proof (induction calls arbitrary: tr)
  case (Cons c calls)
  then have c: "answer_err (srv tr c) = None" by (auto split: option.splits)
  with Cons.prems have "call_all srv calls (tr @ [c]) = (None, tr')" by simp
  note IH = Cons.IH[OF this]
  have "answer_err (srv (tr @ take n (c # calls)) ((c # calls) ! n)) = None" if "n < length (c # calls)" for n
    using c IH that by (cases n) auto
  with IH show ?case by simp
qed simp

lemma CleanUpResources_success:
  assumes run: "CleanUpResources (framework_reconciler (c_Reconciler r) f) W job tr = (None, tr')"
  shows "\<exists>es. deleted_all r W job tr es \<and> tr' = tr @ es"
proof -
  let ?srv = "r_server (c_Reconciler r)"
  let ?dp = "\<lambda>pods. map (\<lambda>pod. DeletePod (pod_Namespace pod) (pod_Name pod)) pods"
  let ?ds = "\<lambda>svcs. map (\<lambda>svc. DeleteService (svc_Namespace svc) (svc_Name svc)) svcs"
  let ?g = "if EnableGangScheduling (job_Spec job) then [DeletePodGroup (job_Namespace job) (job_Name job)] else []"
  have srv: "r_server (framework_reconciler (c_Reconciler r) f) = ?srv" by (simp add: framework_reconciler_def)
  obtain pods where pods: "w_pods W tr = Inr pods" using run by (cases "w_pods W tr") (auto simp: CleanUpResources_def)
  obtain e1 tr1 where c1: "call_all ?srv (?dp pods) tr = (e1, tr1)" by fastforce
  have "e1 = None" using run pods c1 by (auto simp: CleanUpResources_def srv split: if_splits)
  with c1 call_all_success[of ?srv "?dp pods" tr tr1] have c1: "call_all ?srv (?dp pods) tr = (None, tr @ ?dp pods)" by simp
  obtain svcs where svcs: "w_services W (tr @ ?dp pods) = Inr svcs"
    using run pods c1 by (cases "w_services W (tr @ ?dp pods)") (auto simp: CleanUpResources_def srv)
  have "call_all ?srv (?ds svcs @ ?g) (tr @ ?dp pods) = (None, tr')"
    using run pods c1 svcs by (auto simp: CleanUpResources_def srv call_all_append Let_def split: prod.splits if_splits)
  with c1 have "call_all ?srv (cleanup_plan job pods svcs) tr = (None, tr')"
    by (simp add: cleanup_plan_def call_all_append)
  from call_all_success[OF this] pods svcs show ?thesis unfolding deleted_all_def by blast
qed

text \<open>Whatever happens, a clean-up only deletes.\<close>

fun deletion :: "effect \<Rightarrow> bool" where
  "deletion (DeletePod ns n) = True"
| "deletion (DeleteService ns n) = True"
| "deletion (DeletePodGroup ns n) = True"
| "deletion _ = False"

lemma call_all_only: "call_all srv calls tr = (err, tr') \<Longrightarrow> \<forall>e \<in> set calls. P e \<Longrightarrow> grows P tr tr'"
  using call_all_grows[of srv calls tr err tr'] by (auto intro!: grows_append dest: in_set_takeD)

lemma cleanup_plan_deletes: "\<forall>e \<in> set (cleanup_plan job pods services). deletion e"
  by (auto simp: cleanup_plan_def)

text \<open>The calls of a clean-up delete what the lists have returned, and the pod group of the job.\<close>

lemma CleanUpResources_only:
  assumes run: "CleanUpResources R W job tr = (err, tr')"
    and pods: "\<And>t pods pod. w_pods W t = Inr pods \<Longrightarrow> pod \<in> set pods \<Longrightarrow> P (DeletePod (pod_Namespace pod) (pod_Name pod))"
    and svcs: "\<And>t svcs svc. w_services W t = Inr svcs \<Longrightarrow> svc \<in> set svcs \<Longrightarrow> P (DeleteService (svc_Namespace svc) (svc_Name svc))"
    and group: "P (DeletePodGroup (job_Namespace job) (job_Name job))"
  shows "grows P tr tr'"
proof (cases "w_pods W tr")
  case (Inl e)
  with run show ?thesis by (simp add: CleanUpResources_def)
next
  case (Inr pods)
  let ?dp = "map (\<lambda>pod. DeletePod (pod_Namespace pod) (pod_Name pod)) pods"
  obtain e1 tr1 where c1: "call_all (r_server R) ?dp tr = (e1, tr1)" by fastforce
  from call_all_only[OF this, of P] have g1: "grows P tr tr1" using pods[OF Inr] by simp
  show ?thesis
  proof (cases "w_services W tr1")
    case (Inl e)
    with run Inr c1 g1 show ?thesis by (auto simp: CleanUpResources_def split: if_splits)
  next
    case ok: (Inr svcs)
    let ?ds = "map (\<lambda>svc. DeleteService (svc_Namespace svc) (svc_Name svc)) svcs"
    let ?g = "if EnableGangScheduling (job_Spec job) then [DeletePodGroup (job_Namespace job) (job_Name job)] else []"
    have "tr' = tr1 \<or> call_all (r_server R) (?ds @ ?g) tr1 = (err, tr')"
      using run Inr c1 ok by (auto simp: CleanUpResources_def call_all_append Let_def split: prod.splits if_splits)
    then show ?thesis
    proof
      assume "call_all (r_server R) (?ds @ ?g) tr1 = (err, tr')"
      then have "grows P tr1 tr'" by (rule call_all_only) (use svcs[OF ok] group in auto)
      with g1 show ?thesis by (rule grows_trans)
    qed (use g1 in simp)
  qed
qed

lemma CleanUpResources_deletes: "CleanUpResources R W job tr = (err, tr') \<Longrightarrow> grows deletion tr tr'"
  by (rule CleanUpResources_only) auto

lemma cleanupNextItem_outcome:
  "item_settled r W k tr (snd (cleanupNextItem r W (Some k) tr)) \<or>
     (\<exists>es. (\<forall>e \<in> set es. deletion e) \<and>
        snd (cleanupNextItem r W (Some k) tr) = tr @ es @ [CleanUpAddRateLimited (fst k) (snd k), CleanUpDone (fst k) (snd k)])"
proof (cases "GetJobFromInformerCache W tr")
  case (Inl e)
  then show ?thesis by (cases k) (simp add: cleanupNextItem_def item_settled_def forget_item_def)
next
  case (Inr job)
  let ?f = "getFramework (c_Frameworks r) (spec_FrameworkType (job_Spec job))"
  show ?thesis
  proof (cases ?f)
    case None
    with Inr show ?thesis by (cases k) (simp add: cleanupNextItem_def item_settled_def forget_item_def)
  next
    case (Some f)
    obtain err tr2 where c: "CleanUpResources (framework_reconciler (c_Reconciler r) f) W job tr = (err, tr2)" by fastforce
    show ?thesis
    proof (cases err)
      case None
      with c CleanUpResources_success obtain es where "deleted_all r W job tr es" "tr2 = tr @ es" by blast
      with Inr Some c None show ?thesis by (cases k) (auto simp: cleanupNextItem_def item_settled_def forget_item_def)
    next
      case (Some e)
      from CleanUpResources_deletes[OF c] obtain es where "tr2 = tr @ es" "\<forall>e \<in> set es. deletion e" by (auto simp: grows_def)
      with \<open>?f = Some f\<close> Some Inr c show ?thesis by (cases k) (auto simp: cleanupNextItem_def)
    qed
  qed
qed

section \<open>Runs\<close>

lemma owed_move:
  assumes "clean_move r L m s = Some s'" "k \<in> owed s"
  shows "k \<in> owed s' \<or> (\<exists>W. m = Work W \<and> cl_current s = Some k \<and> item_settled r W k (cl_trace s) (cl_trace s'))"
proof (cases m)
  case (Get k')
  with assms show ?thesis by (auto simp: owed_def split: if_splits)
next
  case (Round W)
  with assms show ?thesis by (auto simp: owed_def enqueue_def Option.bind_eq_Some_conv)
next
  case (Work W)
  with assms(1) obtain k' where k': "cl_current s = Some k'"
    and s': "s' = enqueue (snd (cleanupNextItem r W (Some k') (cl_trace s))) (s\<lparr>cl_current := None\<rparr>)"
    by (auto simp: Option.bind_eq_Some_conv)
  show ?thesis
  proof (cases "k = k'")
    case False
    with assms(2) k' s' show ?thesis by (auto simp: owed_def enqueue_def)
  next
    case True
    with cleanupNextItem_outcome[of r W k' "cl_trace s"] k' s' Work show ?thesis by (auto simp: owed_def enqueue_def)
  qed
qed

lemma owed_run:
  assumes "clean_run r L moves s = Some s'" "k \<in> owed s"
  shows "k \<in> owed s' \<or> (\<exists>before W after t t'. moves = before @ Work W # after \<and> clean_run r L before s = Some t \<and>
    clean_move r L (Work W) t = Some t' \<and> cl_current t = Some k \<and> item_settled r W k (cl_trace t) (cl_trace t'))"
  using assms
proof (induction moves arbitrary: s)
  case (Cons m moves)
  from Cons.prems(1) obtain u where u: "clean_move r L m s = Some u" "clean_run r L moves u = Some s'"
    by (auto simp: Option.bind_eq_Some_conv)
  from owed_move[OF u(1) Cons.prems(2)] show ?case
  proof (elim disjE exE conjE)
    assume "k \<in> owed u"
    from Cons.IH[OF u(2) this] show ?thesis
    proof (elim disjE exE conjE)
      fix before W after t t'
      assume "moves = before @ Work W # after" "clean_run r L before u = Some t" "clean_move r L (Work W) t = Some t'"
        "cl_current t = Some k" "item_settled r W k (cl_trace t) (cl_trace t')"
      then show ?thesis using u(1) by (intro disjI2 exI[of _ "m # before"] exI[of _ W] exI[of _ after] exI[of _ t] exI[of _ t']) simp
    qed simp
  next
    fix W assume "m = Work W" "cl_current s = Some k" "item_settled r W k (cl_trace s) (cl_trace u)"
    then show ?thesis using u(1) by (intro disjI2 exI[of _ "[]"] exI[of _ W] exI[of _ moves] exI[of _ s] exI[of _ u]) simp
  qed
qed simp

section \<open>Properties\<close>

text \<open>
  C16. No clean-up that was scheduled is lost. Once a round has put a finished job into the clean-up queue, then in every run of the
  worker beside further rounds of any jobs, whatever fails, the clean-up is still to come (waiting in the queue, or
  in the hands of the worker), or the worker has settled it since: it found the job gone or without a framework, or it listed the
  pods and services of the job and deleted all of them and the pod group, every call with success.
\<close>

theorem cleanup_not_lost:
  assumes "clean_move r L (Round W0) s0 = Some s"
    and "CleanUpAddAfter ns name d \<in> set (drop (length (cl_trace s0)) (cl_trace s))"
    and "clean_run r L moves s = Some s'"
  shows "(ns, name) \<in> owed s' \<or>
    (\<exists>before W after t t'. moves = before @ Work W # after \<and> clean_run r L before s = Some t \<and>
       clean_move r L (Work W) t = Some t' \<and> cl_current t = Some (ns, name) \<and> item_settled r W (ns, name) (cl_trace t) (cl_trace t'))"
proof (rule owed_run[OF assms(3)])
  from assms(1) have "cl_waiting s = cl_waiting s0 \<union> set (added (drop (length (cl_trace s0)) (cl_trace s)))"
    by (auto simp: enqueue_def Option.bind_eq_Some_conv)
  with added_AddAfter[OF assms(2)] show "(ns, name) \<in> owed s" by (simp add: owed_def)
qed

section \<open>Draining\<close>

definition cleanup_works :: "AresJobReconciler \<Rightarrow> World \<Rightarrow> AresJob \<Rightarrow> Pod list \<Rightarrow> Service list \<Rightarrow> bool" where
  "cleanup_works r W job pods services \<longleftrightarrow>
     (\<forall>tr. GetJobFromInformerCache W tr = Inr job \<and> w_pods W tr = Inr pods \<and> w_services W tr = Inr services) \<and>
     getFramework (c_Frameworks r) (spec_FrameworkType (job_Spec job)) \<noteq> None"

lemma call_all_works: "(\<forall>tr e. answer_err (srv tr e) = None) \<Longrightarrow> call_all srv calls tr = (None, tr @ calls)"
  by (induction calls arbitrary: tr) simp_all

lemma cleanupNextItem_works:
  assumes "cleanup_works r W job pods services" "\<forall>tr e. answer_err (r_server (c_Reconciler r) tr e) = None"
  shows "cleanupNextItem r W (Some k) tr = (True, tr @ cleanup_plan job pods services @ forget_item k)"
proof -
  from assms(1) obtain f where f: "getFramework (c_Frameworks r) (spec_FrameworkType (job_Spec job)) = Some f"
    and W: "GetJobFromInformerCache W tr = Inr job" "w_pods W tr = Inr pods" "\<And>tr. w_services W tr = Inr services"
    by (auto simp: cleanup_works_def)
  have "CleanUpResources (framework_reconciler (c_Reconciler r) f) W job tr = (None, tr @ cleanup_plan job pods services)"
    using CleanUpResources_plan[OF W(2,3)] call_all_works[OF assms(2)] by (simp add: framework_reconciler_def)
  with f W(1) show ?thesis by (cases k) (simp add: cleanupNextItem_def forget_item_def)
qed

lemma clean_item:
  assumes "cleanup_works r W job pods services" "\<forall>tr e. answer_err (r_server (c_Reconciler r) tr e) = None"
    and "cl_current s = None" "k \<in> cl_waiting s"
  shows "clean_run r L ([Get k, Work W] @ ms) s = clean_run r L ms
    (s\<lparr>cl_waiting := cl_waiting s - {k}, cl_trace := cl_trace s @ cleanup_plan job pods services @ forget_item k\<rparr>)"
  using assms(3,4) cleanupNextItem_works[OF assms(1,2), of k "cl_trace s"] by (cases s) (simp add: enqueue_def)

text \<open>
  C29. The clean-up queue drains. Once the job of every waiting item can be read, its pods and services can be listed and the
  API server accepts the deletions, the worker handles each item once, in whatever order the queue delivers them: afterwards nothing waits,
  every pod, service and pod group of these jobs has been deleted, and nothing else was called.
\<close>

theorem cleanup_drains:
  assumes "cl_current s = None" "distinct ks" "set ks = cl_waiting s"
    and "\<forall>k \<in> set ks. cleanup_works r (W k) (job k) (pods k) (services k)"
    and "\<forall>tr e. answer_err (r_server (c_Reconciler r) tr e) = None"
  shows "clean_run r L (concat (map (\<lambda>k. [Get k, Work (W k)]) ks)) s =
    Some (s\<lparr>cl_waiting := {}, cl_trace := cl_trace s @ concat (map (\<lambda>k. cleanup_plan (job k) (pods k) (services k) @ forget_item k) ks)\<rparr>)"
  using assms(1-4)
proof (induction ks arbitrary: s)
  case Nil
  then show ?case by simp
next
  case (Cons k ks)
  let ?t = "s\<lparr>cl_waiting := cl_waiting s - {k}, cl_trace := cl_trace s @ cleanup_plan (job k) (pods k) (services k) @ forget_item k\<rparr>"
  have "clean_run r L (concat (map (\<lambda>k. [Get k, Work (W k)]) (k # ks))) s = clean_run r L (concat (map (\<lambda>k. [Get k, Work (W k)]) ks)) ?t"
    using clean_item[OF _ assms(5) Cons.prems(1), of "W k" "job k" "pods k" "services k" k L] Cons.prems(3,4)
    by (auto simp del: clean_run.simps)
  moreover have "set ks = cl_waiting ?t" using Cons.prems(2,3) by auto
  ultimately show ?case using Cons.IH[of ?t] Cons.prems by simp
qed

section \<open>A finished job\<close>

definition finished_job :: AresJob where
  "finished_job = ready_job\<lparr>job_Status := (job_Status ready_job)\<lparr>st_Phase := JobPhaseSucceeded\<rparr>\<rparr>"

definition quiet_libs :: Libs where
  "quiet_libs = plain_libs\<lparr>JC_ReconcileJobs := (\<lambda>R job replicas js rp tr. Some (None, job, tr))\<rparr>"

definition finished_world :: World where
  "finished_world = (world_of finished_job)\<lparr>w_pods := \<lambda>tr. Inr [worker 0, worker 1], w_services := \<lambda>tr. Inr []\<rparr>"

definition broken_world :: World where
  "broken_world = finished_world\<lparr>w_pods := \<lambda>tr. Inl (Errorf ''timeout'')\<rparr>"

definition idle_worker :: clean_state where
  "idle_worker = \<lparr>cl_waiting = {}, cl_current = None, cl_cache = None, cl_trace = []\<rparr>"

text \<open>The first attempt fails, and the second settles the item.\<close>

definition two_attempts :: "move list" where
  "two_attempts = [Get (''ns'', ''job''), Work broken_world, Get (''ns'', ''job''), Work finished_world]"

lemma broken_unsettled: "\<not> item_settled plain_controller broken_world k tr tr'"
proof -
  have "GetJobFromInformerCache broken_world tr = Inr finished_job"
    by (simp add: GetJobFromInformerCache_def broken_world_def finished_world_def world_of_def)
  moreover have "spec_FrameworkType (job_Spec finished_job) = FrameworkStandalone" by code_simp
  moreover have "w_pods broken_world tr = Inl (Errorf ''timeout'')" by (simp add: broken_world_def)
  ultimately show ?thesis using plain_framework by (simp add: item_settled_def deleted_all_def)
qed

theorem cleanup_not_lost_witness:
  "\<exists>t t'. cl_current t = Some (''ns'', ''job'') \<and> clean_move plain_controller quiet_libs (Work finished_world) t = Some t' \<and>
     item_settled plain_controller finished_world (''ns'', ''job'') (cl_trace t) (cl_trace t')"
proof -
  let ?add = "\<lambda>e. case e of CleanUpAddAfter ns name d \<Rightarrow> ns = ''ns'' \<and> name = ''job'' | _ \<Rightarrow> False"
  have "case clean_move plain_controller quiet_libs (Round finished_world) idle_worker of
      None \<Rightarrow> False
    | Some s \<Rightarrow> list_ex ?add (drop (length (cl_trace idle_worker)) (cl_trace s)) \<and>
        (case clean_run plain_controller quiet_libs two_attempts s of None \<Rightarrow> False | Some s' \<Rightarrow> (''ns'', ''job'') \<notin> owed s')"
    by code_simp
  then obtain s e s' where round: "clean_move plain_controller quiet_libs (Round finished_world) idle_worker = Some s"
    and e: "e \<in> set (drop (length (cl_trace idle_worker)) (cl_trace s))" "?add e"
    and run: "clean_run plain_controller quiet_libs two_attempts s = Some s'" and none: "(''ns'', ''job'') \<notin> owed s'"
    by (auto simp: list_ex_iff simp del: clean_move.simps split: option.splits)
  from e(2) obtain d where "e = CleanUpAddAfter ''ns'' ''job'' d" by (auto split: effect.splits)
  with e(1) have "CleanUpAddAfter ''ns'' ''job'' d \<in> set (drop (length (cl_trace idle_worker)) (cl_trace s))" by simp
  from cleanup_not_lost[OF round this run] none obtain before W after t t' where
    m: "two_attempts = before @ Work W # after" and t: "clean_move plain_controller quiet_libs (Work W) t = Some t'"
      "cl_current t = Some (''ns'', ''job'')" "item_settled plain_controller W (''ns'', ''job'') (cl_trace t) (cl_trace t')" by blast
  have "Work W \<in> set two_attempts" unfolding m by (rule in_set_conv_decomp[THEN iffD2]) blast
  then have "W = broken_world \<or> W = finished_world" by (auto simp: two_attempts_def)
  with t broken_unsettled have "W = finished_world" by blast
  with t show ?thesis by blast
qed

theorem cleanup_drains_witness:
  "clean_run plain_controller quiet_libs [Get (''ns'', ''job''), Work finished_world] (idle_worker\<lparr>cl_waiting := {(''ns'', ''job'')}\<rparr>) =
     Some (idle_worker\<lparr>cl_trace := [DeletePod ''ns'' ''p0'', DeletePod ''ns'' ''p1'', CleanUpForget ''ns'' ''job'', CleanUpDone ''ns'' ''job'']\<rparr>)"
proof -
  let ?s = "idle_worker\<lparr>cl_waiting := {(''ns'', ''job'')}\<rparr>"
  have fw: "spec_FrameworkType (job_Spec finished_job) = FrameworkStandalone" by code_simp
  have plan: "cleanup_plan finished_job [worker 0, worker 1] [] = [DeletePod ''ns'' ''p0'', DeletePod ''ns'' ''p1'']" by code_simp
  have works: "\<forall>k \<in> set [(''ns'', ''job'')]. cleanup_works plain_controller finished_world finished_job [worker 0, worker 1] []"
    using fw plain_framework by (simp add: cleanup_works_def GetJobFromInformerCache_def finished_world_def world_of_def)
  have srv: "\<forall>tr e. answer_err (r_server (c_Reconciler plain_controller) tr e) = None"
    by (simp add: plain_controller_def plain_reconciler_def answer_err_def)
  have s: "cl_current ?s = None" "distinct [(''ns'', ''job'')]" "set [(''ns'', ''job'')] = cl_waiting ?s"
    by (simp_all add: idle_worker_def)
  from cleanup_drains[OF s works srv, of quiet_libs] plan show ?thesis
    by (simp add: idle_worker_def forget_item_def del: clean_run.simps)
qed

end
