(* ===== verification/Isolation.thy ===== *)
theory Isolation
  imports Cleanup Events
begin

text \<open>
  Jobs beside each other. The controller works on several jobs at a time, and their rounds share the role cache, the store of
  expectations, the clean-up queue and the API server. This theory shows that they do not get in each other's way: every call of a round
  belongs to the job of the round, so that the calls of other jobs, in whatever order they come between its own, leave its
  expectations, its objects and its clean-up alone.

  Kubeflow's \<open>ReconcileJobs\<close>, which calls back the pods, services and status of a job, is a parameter. What is assumed of it is its
  documentation: it acts through the interface of the controller and on the listed pods and services of the job
  (\<open>uses_interface\<close>). The same goes for the keys of the expectation store (\<open>keys_prefixed\<close>).
\<close>

section \<open>What belongs to a job\<close>

definition job_id :: "AresJob \<Rightarrow> item" where
  "job_id job = (job_Namespace job, job_Name job)"

text \<open>The expectation keys of the roles of a job.\<close>

definition own_key :: "ext \<Rightarrow> item \<Rightarrow> string \<Rightarrow> bool" where
  "own_key E i k \<longleftrightarrow> (\<exists>key role. KeyFunc E (fst i) (snd i) = Inr key \<and>
     (k = GenExpectationPodsKey E key role \<or> k = GenExpectationServicesKey E key role))"

definition own_ref :: "ext \<Rightarrow> item \<Rightarrow> OwnerReference \<Rightarrow> bool" where
  "own_ref E i ref \<longleftrightarrow> (\<exists>job. job_id job = i \<and> ref = GenOwnerReference E job)"

text \<open>The objects that the reads of a round have returned.\<close>

definition listed_pod :: "World \<Rightarrow> item \<Rightarrow> bool" where
  "listed_pod W k \<longleftrightarrow> (\<exists>tr pods pod. w_pods W tr = Inr pods \<and> pod \<in> set pods \<and> k = (pod_Namespace pod, pod_Name pod))"

definition listed_service :: "World \<Rightarrow> item \<Rightarrow> bool" where
  "listed_service W k \<longleftrightarrow> (\<exists>tr svcs svc. w_services W tr = Inr svcs \<and> svc \<in> set svcs \<and> k = (svc_Namespace svc, svc_Name svc))"

definition listed_group :: "World \<Rightarrow> item \<Rightarrow> bool" where
  "listed_group W k \<longleftrightarrow> (\<exists>tr pg. w_getPodGroup W tr = Inr pg \<and> k = (pg_Namespace pg, pg_Name pg))"

fun belongs :: "ext \<Rightarrow> World \<Rightarrow> item \<Rightarrow> effect \<Rightarrow> bool" where
  "belongs E W i (PodsCreate ns p) \<longleftrightarrow> ns = fst i \<and> (\<exists>ref. np_Controller p = Some ref \<and> own_ref E i ref)"
| "belongs E W i (DeletePod ns n) \<longleftrightarrow> listed_pod W (ns, n)"
| "belongs E W i (CreateService ns svc ref) \<longleftrightarrow> ns = fst i \<and> own_ref E i ref"
| "belongs E W i (DeleteService ns n) \<longleftrightarrow> listed_service W (ns, n)"
| "belongs E W i (DeletePodGroup ns n) \<longleftrightarrow> (ns, n) = i"
| "belongs E W i (RaiseExpectations k a d) \<longleftrightarrow> own_key E i k"
| "belongs E W i (CreationObserved k) \<longleftrightarrow> own_key E i k"
| "belongs E W i (DeletionObserved k) \<longleftrightarrow> own_key E i k"
| "belongs E W i (SetExpectations k a d) \<longleftrightarrow> own_key E i k"
| "belongs E W i (effect.DeleteExpectations k) \<longleftrightarrow> own_key E i k"
| "belongs E W i (RecordEvent ev) \<longleftrightarrow> True"
| "belongs E W i (PatchObject ns n p) \<longleftrightarrow> listed_pod W (ns, n) \<or> listed_group W (ns, n)"
| "belongs E W i (UpdateStatus job) \<longleftrightarrow> job_id job = i"
| "belongs E W i (UpdateJob job) \<longleftrightarrow> job_id job = i"
| "belongs E W i (effect.DeleteJob ns n) \<longleftrightarrow> (ns, n) = i"
| "belongs E W i (SyncPodGroup ns n m) \<longleftrightarrow> (ns, n) = i"
| "belongs E W i (CleanUpAddAfter ns n d) \<longleftrightarrow> (ns, n) = i"
| "belongs E W i (CleanUpAddRateLimited ns n) \<longleftrightarrow> (ns, n) = i"
| "belongs E W i (CleanUpForget ns n) \<longleftrightarrow> (ns, n) = i"
| "belongs E W i (CleanUpDone ns n) \<longleftrightarrow> (ns, n) = i"

abbreviation confined :: "ext \<Rightarrow> World \<Rightarrow> item \<Rightarrow> effect list \<Rightarrow> effect list \<Rightarrow> bool" where
  "confined E W i \<equiv> grows (belongs E W i)"

text \<open>The lists of different jobs have no pod in common: a pod has one controller, and the index has its name.\<close>

lemma listed_apart:
  assumes "lists_by_index E pods cl" "GetPodsForJob cl job = Inr ps" "GetPodsForJob cl job' = Inr ps'" "p \<in> set ps" "p \<in> set ps'"
  shows "job_id job = job_id job'"
proof -
  have *: "pod_Namespace p = job_Namespace j \<and> job_Name j \<in> set (IndexObjectOwner (pod_Controller p))"
    if "GetPodsForJob cl j = Inr qs" "p \<in> set qs" for j qs
  proof -
    have "GetPodsForJob cl j = Inr (filter (\<lambda>p. Some (job_Namespace j) = Some (pod_Namespace p) \<and> job_Name j \<in> set (pod_indexer E JobOwnerKey p)) pods)"
      using assms(1) by (simp add: lists_by_index_def GetPodsForJob_def)
    with that show ?thesis by (auto simp: pod_indexer_def)
  qed
  from *[OF assms(2,4)] *[OF assms(3,5)] show ?thesis
    by (cases "pod_Controller p") (auto simp: IndexObjectOwner_def job_id_def split: if_splits)
qed

section \<open>What kubeflow does\<close>

text \<open>
  The steps of the generic \<open>ReconcileJobs\<close>: the methods of the controller interface with the listed objects, deletions of listed pods
  and services and of the pod group through the controls, events, and changes of the status it holds.
\<close>

inductive kubeflow_acts :: "Reconciler \<Rightarrow> Framework \<Rightarrow> World \<Rightarrow> AresJob \<Rightarrow> effect list \<Rightarrow> AresJob \<Rightarrow> effect list \<Rightarrow> bool"
  for R f W job tr where
  start: "kubeflow_acts R f W job tr job tr"
| pods: "kubeflow_acts R f W job tr j t \<Longrightarrow> w_pods W t0 = Inr pods \<Longrightarrow>
    ReconcilePods R (w_now W) j js pods rtype spec replicas t = Some (err, j', t') \<Longrightarrow> kubeflow_acts R f W job tr j' t'"
| services: "kubeflow_acts R f W job tr j t \<Longrightarrow> w_services W t0 = Inr svcs \<Longrightarrow>
    fw_ReconcileServices f R j svcs rtype spec t = Some (err, t') \<Longrightarrow> kubeflow_acts R f W job tr j t'"
| update_status: "kubeflow_acts R f W job tr j t \<Longrightarrow>
    UpdateJobStatus R (w_now W) j js t = Some (j', t') \<Longrightarrow> kubeflow_acts R f W job tr j' t'"
| publish_status: "kubeflow_acts R f W job tr j t \<Longrightarrow>
    UpdateJobStatusInApiServer R j js t = Some (err, t') \<Longrightarrow> kubeflow_acts R f W job tr j t'"
| delete_job: "kubeflow_acts R f W job tr j t \<Longrightarrow> DeleteJob R j t = (err, t') \<Longrightarrow> kubeflow_acts R f W job tr j t'"
| delete_pod: "kubeflow_acts R f W job tr j t \<Longrightarrow> listed_pod W (ns, n) \<Longrightarrow> kubeflow_acts R f W job tr j (t @ [DeletePod ns n])"
| delete_service: "kubeflow_acts R f W job tr j t \<Longrightarrow> listed_service W (ns, n) \<Longrightarrow>
    kubeflow_acts R f W job tr j (t @ [DeleteService ns n])"
| sync_group: "kubeflow_acts R f W job tr j t \<Longrightarrow>
    kubeflow_acts R f W job tr j (t @ [SyncPodGroup (job_Namespace j) (job_Name j) m])"
| delete_group: "kubeflow_acts R f W job tr j t \<Longrightarrow>
    kubeflow_acts R f W job tr j (t @ [DeletePodGroup (job_Namespace j) (job_Name j)])"
| event: "kubeflow_acts R f W job tr j t \<Longrightarrow> kubeflow_acts R f W job tr j (t @ [RecordEvent ev])"
| set_status: "kubeflow_acts R f W job tr j t \<Longrightarrow> kubeflow_acts R f W job tr (j\<lparr>job_Status := st\<rparr>) t"

definition uses_interface :: "AresJobReconciler \<Rightarrow> Libs \<Rightarrow> World \<Rightarrow> bool" where
  "uses_interface r L W \<longleftrightarrow> (\<forall>f job replicas js rp tr err job' tr'.
     JC_ReconcileJobs L (framework_reconciler (c_Reconciler r) f) job replicas js rp tr = Some (err, job', tr') \<longrightarrow>
     kubeflow_acts (framework_reconciler (c_Reconciler r) f) f W job tr job' tr')"

text \<open>Defaulting by the scheme does not rename a job.\<close>

definition default_keeps_id :: "Libs \<Rightarrow> bool" where
  "default_keeps_id L \<longleftrightarrow> (\<forall>job. job_id (scheme_Default L job) = job_id job)"

section \<open>Pods\<close>

lemma job_id_status [simp]:
  "job_id (job\<lparr>job_Status := st\<rparr>) = job_id job" "job_id (job\<lparr>job_Spec := sp\<rparr>) = job_id job"
  "job_id (job\<lparr>job_Finalizers := fs\<rparr>) = job_id job"
  by (simp_all add: job_id_def)

lemma confined_events [simp]: "confined E W i tr (tr @ map RecordEvent evs)"
  by (rule grows_append) auto

lemma UpdateRoleReplicas_id: "UpdateRoleReplicas m job rtype pods = Some job' \<Longrightarrow> job_id job' = job_id job"
proof -
  have *: "mfold (\<lambda>pod job. updateReplicaStatus m job rtype pod) pods j = Some j' \<Longrightarrow> job_id j' = job_id j" for j j'
  proof (induction pods arbitrary: j)
    case (Cons pod pods)
    then obtain j1 where "updateReplicaStatus m j rtype pod = Some j1" "mfold (\<lambda>pod job. updateReplicaStatus m job rtype pod) pods j1 = Some j'"
      by (auto simp: Option.bind_eq_Some_conv)
    with Cons.IH[of j1] show ?case by (auto simp: updateReplicaStatus_def Option.bind_eq_Some_conv)
  qed simp
  assume "UpdateRoleReplicas m job rtype pods = Some job'"
  then obtain st j1 st' where "mfold (\<lambda>pod job. updateReplicaStatus m job rtype pod) pods (job\<lparr>job_Status := st\<rparr>) = Some j1"
    "job' = j1\<lparr>job_Status := st'\<rparr>" by (auto simp: UpdateRoleReplicas_def Let_def Option.bind_eq_Some_conv)
  with *[of "job\<lparr>job_Status := st\<rparr>" j1] show ?thesis by simp
qed

lemma UpdateRolePhase_id: "UpdateRolePhase E m now job rtype pods = Some (job', evs) \<Longrightarrow> job_id job' = job_id job"
  by (auto simp: UpdateRolePhase_def Let_def Option.bind_eq_Some_conv split: if_splits)

lemma finish_pods_id: "finish_pods R now job js rtype err s = Some (err', job', tr') \<Longrightarrow> job_id job' = job_id job"
  by (auto simp: finish_pods_def Let_def Option.bind_eq_Some_conv split: if_splits dest!: UpdateRoleReplicas_id UpdateRolePhase_id)

lemma CreateNewPod_confined:
  assumes "pod_identity (r_ctl R)" "pod_control_ok (r_ext R)" and run: "CreateNewPod R job rt index spec b tr = Some (err, tr')"
  shows "confined (r_ext R) W (job_id job) tr tr'"
proof (cases "KeyFunc (r_ext R) (job_Namespace job) (job_Name job)")
  case (Inl e)
  with run show ?thesis by (simp add: CreateNewPod_def)
next
  case (Inr key)
  let ?k = "GenExpectationPodsKey (r_ext R) key rt"
  have k: "own_key (r_ext R) (job_id job) ?k" using Inr by (auto simp: own_key_def job_id_def)
  have "pods_from_templates (r_ext R)" using assms(2) by (simp add: pod_control_ok_def)
  note eff = pod_identity.CreateNewPod_effects[OF assms(1) this refl run]
  have p: "belongs (r_ext R) W (job_id job) (PodsCreate ns p)" if "tr' = tr @ es" "PodsCreate ns p \<in> set es" for es ns p
  proof -
    from eff that have "ns = job_Namespace job" "wanted_pod (r_ctl R) (r_ext R) job rt index p" by (fastforce simp: grows_def)+
    then show ?thesis by (auto simp: wanted_pod_def own_ref_def job_id_def)
  qed
  from CreateNewPod_trace[OF assms(2) run Inr] show ?thesis
  proof (elim exE disjE conjE)
    fix evs assume "tr' = tr @ map RecordEvent evs"
    then show ?thesis by simp
  next
    fix evs assume "tr' = tr @ map RecordEvent evs @ [RaiseExpectations ?k 1 0, CreationObserved ?k]"
    with k show ?thesis by (auto intro!: grows_append)
  next
    fix evs q ev
    assume "tr' = tr @ map RecordEvent evs @ [RaiseExpectations ?k 1 0, PodsCreate (job_Namespace job) q, RecordEvent ev]
       @ (if err = None then [] else [CreationObserved ?k])"
    moreover from p[OF this, of "job_Namespace job" q] have "belongs (r_ext R) W (job_id job) (PodsCreate (job_Namespace job) q)" by simp
    ultimately show ?thesis using k by (auto simp del: belongs.simps(1) intro!: grows_append)
  qed
qed

lemma delete_and_expect_confined:
  assumes "delete_and_expect R key pod s = (err, s')" "own_key E i key" "listed_pod W (pod_Namespace pod, pod_Name pod)"
  shows "confined E W i (loop_trace s) (loop_trace s')"
  using assms by (auto simp: delete_and_expect_def Let_def split: option.splits intro!: grows_append)

lemma reconcile_one_confined:
  assumes run: "reconcile_one R key spec n idx pod s = (err, s')" and k: "own_key E i key" and pod: "listed_pod W (pod_Namespace pod, pod_Name pod)"
  shows "confined E W i (loop_trace s) (loop_trace s')"
proof -
  note del = delete_and_expect_confined[OF _ k pod, of R]
  obtain e1 s1 where d: "(if idx < 0 \<or> n \<le> idx then delete_and_expect R key pod s else (None, s)) = (e1, s1)" by fastforce
  then have g1: "confined E W i (loop_trace s) (loop_trace s1)" using del by (auto split: if_splits)
  let ?s2 = "s1\<lparr>loop_trace := loop_trace s1 @ [RecordEvent \<lparr>ev_Type = EventTypeNormal, ev_Reason = podFailedReason,
                  ev_Message = ''Pod '' @ pod_Name pod @ '' is failed: '' @ GetPodFailedInfo pod\<rparr>]\<rparr>"
  have g2: "confined E W i (loop_trace s) (loop_trace ?s2)" using grows_snoc[OF g1] by simp
  have "loop_trace s' = loop_trace s1 \<or> loop_trace s' = loop_trace ?s2 \<or> delete_and_expect R key pod ?s2 = (err, s')"
    using run d by (auto simp: reconcile_one_def Let_def split: if_splits)
  then show ?thesis
  proof (elim disjE)
    assume "delete_and_expect R key pod ?s2 = (err, s')"
    from grows_trans[OF g2 del[OF this]] show ?thesis .
  qed (use g1 g2 in simp_all)
qed

lemma reconcile_slices_confined:
  assumes id: "pod_identity (r_ctl R)" and E: "pod_control_ok (r_ext R)" and k: "own_key (r_ext R) (job_id job) key"
    and "reconcile_slices R job key rtype spec replicas n idx slices s = Some (err, s')"
    and "\<forall>sl \<in> set slices. \<forall>pod \<in> set sl. listed_pod W (pod_Namespace pod, pod_Name pod)"
  shows "confined (r_ext R) W (job_id job) (loop_trace s) (loop_trace s')"
  using assms(4,5)
proof (induction slices arbitrary: idx s)
  case (Cons sl slices)
  from Cons.prems(1) obtain e t where t: "reconcile_slice R job key rtype spec replicas n idx sl s = Some (e, t)"
    by (auto simp: Option.bind_eq_Some_conv)
  have one: "confined (r_ext R) W (job_id job) (loop_trace s) (loop_trace t)"
    using t
  proof (cases rule: reconcile_slice_cases)
    case (create b tr)
    from CreateNewPod_confined[OF id E create(3)] create(4) show ?thesis by simp
  next
    case (one pod)
    from reconcile_one_confined[OF one(2) k] one(1) Cons.prems(2) show ?thesis by simp
  qed simp_all
  show ?case
  proof (cases e)
    case None
    with Cons.prems(1) t have "reconcile_slices R job key rtype spec replicas n (idx + 1) slices t = Some (err, s')" by simp
    from grows_trans[OF one Cons.IH[OF this]] Cons.prems(2) show ?thesis by simp
  next
    case (Some x)
    with Cons.prems(1) t one show ?thesis by simp
  qed
qed simp

lemma GetPodSlices_members:
  assumes "GetPodSlices E pods n = Some slices" "sl \<in> set slices" "pod \<in> set sl"
  shows "pod \<in> set pods"
proof -
  have *: "\<Union> (set ` set ss') \<subseteq> \<Union> (set ` set ss) \<union> set ps" if "mfold (slice_step E) ps ss = Some ss'" for ps ss ss'
    using that
  proof (induction ps arbitrary: ss)
    case (Cons p ps)
    from Cons.prems obtain ss1 where s1: "slice_step E p ss = Some ss1" "mfold (slice_step E) ps ss1 = Some ss'"
      by (auto simp: Option.bind_eq_Some_conv)
    have "\<Union> (set ` set ss1) \<subseteq> \<Union> (set ` set ss) \<union> {p}"
    proof (cases "pod_index E p")
      case None
      with s1(1) show ?thesis by auto
    next
      case (Some j)
      with s1(1) obtain sl where "slice_at ss j = Some sl" "ss1 = ss[nat j := sl @ [p]]" by (auto simp: Option.bind_eq_Some_conv)
      moreover from this(1) have "sl \<in> set ss" by (auto simp: slice_at_def split: if_splits)
      ultimately show ?thesis using set_update_subset_insert[of ss "nat j" "sl @ [p]"] by fastforce
    qed
    with Cons.IH[OF s1(2)] show ?case by auto
  qed simp
  from assms(1) obtain m where "mfold (slice_step E) pods (replicate m []) = Some slices"
    by (auto simp: GetPodSlices_def Let_def Option.bind_eq_Some_conv split: if_splits)
  from *[OF this] assms(2,3) show ?thesis by auto
qed

lemma ReconcilePods_confined:
  assumes id: "pod_identity (r_ctl R)" and E: "pod_control_ok (r_ext R)"
    and run: "ReconcilePods R now job js pods rtype specp replicas tr = Some (err, job', tr')"
    and pods: "\<forall>pod \<in> set pods. listed_pod W (pod_Namespace pod, pod_Name pod)"
  shows "confined (r_ext R) W (job_id job) tr tr' \<and> job_id job' = job_id job"
proof (cases "KeyFunc (r_ext R) (job_Namespace job) (job_Name job)")
  case (Inl e)
  with run show ?thesis by (auto simp: ReconcilePods_def)
next
  case (Inr key)
  let ?k = "GenExpectationPodsKey (r_ext R) key rtype"
  from run Inr obtain spec n slices mine v e s where
    sl: "GetPodSlices (r_ext R) mine n = Some slices" and mine: "set mine \<subseteq> set pods"
    and loop: "reconcile_slices R job ?k rtype spec replicas n 0 slices
       \<lparr>expectedCreation = 0, expectedDeletion = 0, validatedPods = v, loop_trace = tr\<rparr> = Some (e, s)"
    and fin: "finish_pods R now job js rtype e s = Some (err, job', tr')"
    unfolding ReconcilePods_def Let_def
    by (auto simp: Option.bind_eq_Some_conv FilterPodsForReplicaType_def FilterAlivePods_def FilterPods_def split: if_splits)
  have k: "own_key (r_ext R) (job_id job) ?k" using Inr by (auto simp: own_key_def job_id_def)
  have "\<forall>sl \<in> set slices. \<forall>pod \<in> set sl. listed_pod W (pod_Namespace pod, pod_Name pod)"
    using GetPodSlices_members[OF sl] mine pods by blast
  from reconcile_slices_confined[OF id E k loop this] have "confined (r_ext R) W (job_id job) tr (loop_trace s)" by simp
  also have "confined (r_ext R) W (job_id job) \<dots> tr'" using finish_pods_trace[OF fin] by (rule grows_mono) auto
  finally show ?thesis using finish_pods_id[OF fin] by simp
qed

section \<open>Services and status\<close>

lemma ReconcileServices_confined:
  assumes "ReconcileServices R job svcs rtype specp tr = Some (err, tr')"
  shows "confined (r_ext R) W (job_id job) tr tr'"
proof (cases "tr' = tr")
  case False
  with assms obtain spec where run: "CreateNewSharedService R job rtype spec tr = Some (err, tr')"
    by (auto simp: ReconcileServices_def Let_def Option.bind_eq_Some_conv split: if_splits)
  show ?thesis
  proof (cases "KeyFunc (r_ext R) (job_Namespace job) (job_Name job)")
    case (Inl e)
    with run show ?thesis by (simp add: CreateNewSharedService_def)
  next
    case (Inr key)
    let ?k = "GenExpectationServicesKey (r_ext R) key (ToLower rtype)"
    have k: "own_key (r_ext R) (job_id job) ?k" using Inr by (auto simp: own_key_def job_id_def)
    have ref: "own_ref (r_ext R) (job_id job) (GenOwnerReference (r_ext R) job)" by (auto simp: own_ref_def)
    from run Inr obtain answer where answer: "GetPortsFromJob (r_ext R) (r_ctl R) spec = Some answer"
      by (auto simp: CreateNewSharedService_def Let_def Option.bind_eq_Some_conv)
    with run Inr False obtain ports where ports: "GetPortsFromJob (r_ext R) (r_ctl R) spec = Some (Inr ports)"
      by (cases answer) (auto simp: CreateNewSharedService_def Let_def)
    let ?call = "CreateService (job_Namespace job) (new_service (r_ctl R) job (ToLower rtype) ports) (GenOwnerReference (r_ext R) job)"
    have "tr' = tr @ [RaiseExpectations ?k 1 0, ?call] \<or> tr' = tr @ [RaiseExpectations ?k 1 0, ?call, CreationObserved ?k]"
      using run Inr ports by (cases "answer_err (r_server R (tr @ [RaiseExpectations ?k 1 0]) ?call)")
        (auto simp: CreateNewSharedService_def Let_def split: if_splits)
    with k ref show ?thesis by (auto simp: job_id_def intro!: grows_append)
  qed
qed simp

lemma SetJobPhase_id: "SetJobPhase now job ph = Some (job', evs) \<Longrightarrow> job_id job' = job_id job"
  by (auto simp: SetJobPhase_def Let_def Option.bind_eq_Some_conv split: if_splits)

lemma UpdatePhases_id:
  assumes run: "UpdatePhases E now job = Some (job', evs)"
  shows "job_id job' = job_id job"
proof -
  let ?s = "job_Status job"
  let ?s1 = "if st_Phase ?s = [] then ?s\<lparr>st_Phase := JobPhasePending\<rparr> else ?s"
  let ?policy = "case spec_JobPhasePolicy (job_Spec job) of None \<Rightarrow> zero_JobPhasePolicy | Some p \<Rightarrow> p"
  let ?job1 = "job\<lparr>job_Status := ?s1, job_Spec := (job_Spec job)\<lparr>spec_JobPhasePolicy := Some ?policy\<rparr>\<rparr>"
  from run obtain p where p: "GetJobPhase (st_Phase ?s1) ?policy (st_RoleStatuses ?s1) = Some p"
    unfolding UpdatePhases_def Let_def by (auto simp: Option.bind_eq_Some_conv)
  show ?thesis
  proof (cases "p = st_Phase ?s1")
    case True
    with run p have "job' = ?job1" unfolding UpdatePhases_def Let_def by simp
    then show ?thesis by (simp add: job_id_def)
  next
    case False
    with run p obtain st where "SetJobPhase now (?job1\<lparr>job_Status := st\<rparr>) p = Some (job', evs)"
      unfolding UpdatePhases_def Let_def by (auto simp: Option.bind_eq_Some_conv simp del: split_paired_Ex)
    from SetJobPhase_id[OF this] show ?thesis by (simp add: job_id_def)
  qed
qed

lemma UpdateJobStatus_confined:
  assumes "UpdateJobStatus R now job js tr = Some (job', tr')"
  shows "confined (r_ext R) W (job_id job) tr tr' \<and> job_id job' = job_id job"
proof -
  from assms obtain evs where "UpdatePhases (r_ext R) now (job\<lparr>job_Status := (job_Status job)\<lparr>st_JobStatus := js\<rparr>\<rparr>) = Some (job', evs)"
    "tr' = tr @ map RecordEvent evs" by (auto simp: UpdateJobStatus_def Option.bind_eq_Some_conv)
  with UpdatePhases_id[OF this(1)] show ?thesis by simp
qed

lemma UpdateJobStatusInApiServer_confined:
  "UpdateJobStatusInApiServer R job js tr = Some (err, tr') \<Longrightarrow> confined E W (job_id job) tr tr'"
  by (auto simp: UpdateJobStatusInApiServer_def Let_def Option.bind_eq_Some_conv intro!: grows_append)

lemma DeleteJob_confined: "DeleteJob R job tr = (err, tr') \<Longrightarrow> confined E W (job_id job) tr tr'"
  by (auto simp: DeleteJob_def Let_def job_id_def split: option.splits intro!: grows_append)

lemma kubeflow_confined:
  assumes "kubeflow_acts R f W job tr job' tr'" and id: "pod_identity (r_ctl R)" and E: "pod_control_ok (r_ext R)"
    and svc: "\<And>j svcs role spec t err t'. fw_ReconcileServices f R j svcs role spec t = Some (err, t') \<Longrightarrow>
      t' = t \<or> ReconcileServices R j svcs role spec t = Some (err, t')"
  shows "confined (r_ext R) W (job_id job) tr tr' \<and> job_id job' = job_id job"
  using assms(1)
proof induction
  case (pods j t t0 pods js rtype spec replicas err j' t')
  have "\<forall>pod \<in> set pods. listed_pod W (pod_Namespace pod, pod_Name pod)" using pods.hyps(2) by (auto simp: listed_pod_def)
  from ReconcilePods_confined[OF id E pods.hyps(3) this] pods.IH show ?case by (auto intro: grows_trans)
next
  case (services j t t0 svcs rtype spec err t')
  from svc[OF services.hyps(3)] ReconcileServices_confined[of R j svcs rtype spec t err t' W] services.IH show ?case by (auto intro: grows_trans)
next
  case (update_status j t js j' t')
  from UpdateJobStatus_confined[OF update_status.hyps(2)] update_status.IH show ?case by (auto intro: grows_trans)
next
  case (publish_status j t js err t')
  from UpdateJobStatusInApiServer_confined[OF publish_status.hyps(2)] publish_status.IH show ?case by (auto intro: grows_trans)
next
  case (delete_job j t err t')
  from DeleteJob_confined[OF delete_job.hyps(2)] delete_job.IH show ?case by (auto intro: grows_trans)
next
  case (sync_group j t m)
  then show ?case by (auto simp: job_id_def intro!: grows_snoc)
next
  case (delete_group j t)
  then show ?case by (auto simp: job_id_def intro!: grows_snoc)
qed (auto intro!: grows_snoc)

section \<open>Before and after\<close>

lemma sync_pods_confined:
  assumes "sync_pods srv ann pods tr = (err, tr')" "\<forall>pod \<in> set pods. listed_pod W (pod_Namespace pod, pod_Name pod)"
  shows "confined E W i tr tr'"
  using assms
proof (induction pods arbitrary: tr)
  case (Cons pod pods)
  let ?call = "PatchObject (pod_Namespace pod) (pod_Name pod)"
  obtain e sent where p: "patchMetadata (\<lambda>p. answer_err (srv tr (?call p))) ann (pod_Annotations pod) (pod_Labels pod) = (e, sent)" by fastforce
  let ?tr = "case sent of None \<Rightarrow> tr | Some p \<Rightarrow> tr @ [?call p]"
  have g: "confined E W i tr ?tr" using Cons.prems(2) by (auto split: option.split intro!: grows_append)
  from Cons.prems(1) p have "tr' = ?tr \<or> sync_pods srv ann pods ?tr = (err, tr')" by (auto simp: Let_def split: if_splits)
  then show ?case
  proof
    assume "sync_pods srv ann pods ?tr = (err, tr')"
    from grows_trans[OF g Cons.IH[OF this]] Cons.prems(2) show ?thesis by simp
  qed (use g in simp)
qed simp

lemma listed_groupI: "w_getPodGroup W tr = Inr pg \<Longrightarrow> listed_group W (pg_Namespace pg, pg_Name pg)"
  by (auto simp: listed_group_def)

lemma SyncFromJob_confined:
  assumes "SyncFromJob R W job tr = (err, tr')"
  shows "confined E W i tr tr'"
proof -
  obtain e tr1 where g: "SyncToPodGroup R W job tr = (e, tr1)" by fastforce
  then have 1: "confined E W i tr tr1"
    by (auto simp: SyncToPodGroup_def GetPodGroupForJob_def Let_def split: if_splits sum.splits prod.splits option.splits
        intro!: grows_append listed_groupI)
  from assms g have "tr' = tr1 \<or> SyncToPod R job (w_pods W tr1) tr1 = (err, tr')" by (auto simp: SyncFromJob_def split: if_splits)
  then show ?thesis
  proof
    assume s: "SyncToPod R job (w_pods W tr1) tr1 = (err, tr')"
    have "confined E W i tr1 tr'"
    proof (cases "w_pods W tr1")
      case (Inr pods)
      then have "\<forall>pod \<in> set pods. listed_pod W (pod_Namespace pod, pod_Name pod)" by (auto simp: listed_pod_def)
      with s Inr show ?thesis by (intro sync_pods_confined) (auto simp: SyncToPod_def)
    qed (use s in \<open>simp add: SyncToPod_def\<close>)
    with 1 show ?thesis by (rule grows_trans)
  qed (use 1 in simp)
qed

lemma updateScheduled_confined:
  assumes "updateScheduledByPodGroup R job pg tr = Some (u, job1, tr1)"
  shows "confined E W (job_id job) tr tr1 \<and> job_id job1 = job_id job"
  using assms
  by (auto simp: updateScheduledByPodGroup_def updateJobCondition_def condition_job_def Let_def Option.bind_eq_Some_conv
      split: if_splits prod.splits option.splits intro!: grows_append)

lemma checkEviction_id: "checkEviction E W job pg tr = Some (ev, job') \<Longrightarrow> job_id job' = job_id job"
  by (auto simp: checkEviction_def setEvictedCondition_def condition_job_def Let_def Option.bind_eq_Some_conv split: if_splits prod.splits)

lemma SyncFromPodGroup_confined:
  assumes run: "SyncFromPodGroup R W job tr = Some (action, job', tr')"
  shows "confined E W (job_id job) tr tr' \<and> job_id job' = job_id job"
proof (cases "EnableGangScheduling (job_Spec job) \<and> (\<exists>pg. GetPodGroupForJob W tr = Inr (Some pg))")
  case False
  with run show ?thesis by (auto simp: SyncFromPodGroup_def split: if_splits sum.splits option.splits)
next
  case True
  then obtain pg where pg: "EnableGangScheduling (job_Spec job)" "GetPodGroupForJob W tr = Inr (Some pg)" by blast
  with run obtain u job1 tr1 where u: "updateScheduledByPodGroup R job pg tr = Some (u, job1, tr1)"
    by (auto simp: SyncFromPodGroup_def Option.bind_eq_Some_conv)
  note c1 = updateScheduled_confined[OF u, of E W]
  show ?thesis
  proof (cases "u = Inr False")
    case False
    with run pg u have "job' = job1" "tr' = tr1" by (auto simp: SyncFromPodGroup_def split: sum.splits bool.splits)
    with c1 show ?thesis by simp
  next
    case uF: True
    with run pg u obtain e where e: "Evicted (job_Status job1) = Some e" by (auto simp: SyncFromPodGroup_def Option.bind_eq_Some_conv)
    show ?thesis
    proof (cases e)
      case True
      with run pg u uF e c1 show ?thesis by (auto simp: SyncFromPodGroup_def)
    next
      case False
      with run pg u uF e obtain ev job2 where ch: "checkEviction (r_ext R) W job1 pg tr1 = Some (ev, job2)"
        by (auto simp: SyncFromPodGroup_def Option.bind_eq_Some_conv)
      note id2 = checkEviction_id[OF ch]
      show ?thesis
      proof (cases "ev = Some True")
        case False
        with run pg u uF e \<open>\<not> e\<close> ch have "job' = job2" "tr' = tr1" by (auto simp: SyncFromPodGroup_def split: option.splits bool.splits)
        with c1 id2 show ?thesis by simp
      next
        case True
        with run pg u uF e \<open>\<not> e\<close> ch obtain job3 evs err where
          j3: "(if st_Phase (job_Status job2) \<noteq> JobPhaseFailed then SetJobPhase (w_now W) job2 JobPhaseFailed else Some (job2, [])) = Some (job3, evs)"
          and up: "UpdateJobStatusInApiServer R job3 (st_JobStatus (job_Status job3)) (tr1 @ map RecordEvent evs) = Some (err, tr')" and j': "job' = job3"
          by (auto simp: SyncFromPodGroup_def Option.bind_eq_Some_conv split: option.splits)
        have id3: "job_id job3 = job_id job1" using j3 id2 SetJobPhase_id by (auto split: if_splits)
        have "confined E W (job_id job) tr tr1" using c1 by simp
        also have "confined E W (job_id job) \<dots> (tr1 @ map RecordEvent evs)" by simp
        also have "confined E W (job_id job) \<dots> tr'" using UpdateJobStatusInApiServer_confined[OF up, of E W] id3 c1 by simp
        finally show ?thesis using j' id3 c1 by simp
      qed
    qed
  qed
qed

section \<open>The round\<close>

lemma setDefault_id:
  assumes "default_keeps_id L" "setDefault r L old job f tr = Some (res, job', tr')"
  shows "job_id job' = job_id job"
proof -
  from assms(2) obtain spec where "Default (r_ext (c_Reconciler r)) (scheme_Default L job\<lparr>job_Spec := spec\<rparr>) = Some job'"
    by (auto simp: setDefault_def Let_def Option.bind_eq_Some_conv split: if_splits option.splits)
  then have "job_id job' = job_id (scheme_Default L job)" by (auto simp: Default_Some_conv job_id_def)
  with assms(1) show ?thesis by (simp add: default_keeps_id_def)
qed

lemma setInvalidDefinition_confined: "confined E W (job_id job) tr (snd (setInvalidDefinition r job msg tr))"
  by (auto simp: setInvalidDefinition_def Let_def intro!: grows_append)

lemma validate_confined: "validate r job f tr = Some (err, tr') \<Longrightarrow> confined E W (job_id job) tr tr'"
  by (auto simp: validate_def Option.bind_eq_Some_conv setInvalidDefinition_confined split: option.splits)

lemma expectation_keys_own:
  "KeyFunc E (job_Namespace job) (job_Name job) = Inr key \<Longrightarrow> k \<in> set (expectation_keys E job key) \<Longrightarrow> own_key E (job_id job) k"
  by (auto simp: expectation_keys_def own_key_def job_id_def)

lemma CleanForJob_confined: "confined E W (job_id job) tr (CleanForJob E job tr)"
proof (cases "KeyFunc E (job_Namespace job) (job_Name job)")
  case (Inr key)
  then have "CleanForJob E job tr = tr @ map effect.DeleteExpectations (expectation_keys E job key)"
    by (simp add: CleanForJob_def Expectations.DeleteExpectations_def ExpectationsFuncApply_def apply_keys_append)
  with expectation_keys_own[OF Inr] show ?thesis by (auto intro!: grows_append)
qed (simp add: CleanForJob_def Expectations.DeleteExpectations_def ExpectationsFuncApply_def)

lemma ResetExpectations_confined:
  assumes "ResetExpectations R job tr = (err, tr')"
  shows "confined (r_ext R) W (job_id job) tr tr'"
proof (cases "KeyFunc (r_ext R) (job_Namespace job) (job_Name job)")
  case (Inr key)
  let ?f = "\<lambda>key tr. (answer_err (r_server R tr (SetExpectations key 0 0)), tr @ [SetExpectations key 0 0])"
  have *: "confined (r_ext R) W (job_id job) t t'"
    if "apply_keys ?f keys t = (e, t')" "\<forall>k \<in> set keys. own_key (r_ext R) (job_id job) k" for keys t e t'
    using that
  proof (induction keys arbitrary: t)
    case (Cons k keys)
    have g: "confined (r_ext R) W (job_id job) t (t @ [SetExpectations k 0 0])" using Cons.prems(2) by (auto intro!: grows_append)
    from Cons.prems(1) have "t' = t @ [SetExpectations k 0 0] \<or> apply_keys ?f keys (t @ [SetExpectations k 0 0]) = (e, t')"
      by (auto simp: Let_def split: if_splits)
    with g Cons.IH[of "t @ [SetExpectations k 0 0]"] Cons.prems(2) show ?case by (auto intro: grows_trans)
  qed simp
  from assms Inr have "apply_keys ?f (expectation_keys (r_ext R) job key) tr = (err, tr')"
    by (simp add: ResetExpectations_def ExpectationsFuncApply_def)
  with * expectation_keys_own[OF Inr] show ?thesis by blast
qed (use assms in \<open>simp add: ResetExpectations_def ExpectationsFuncApply_def\<close>)

lemma finalize_confined:
  assumes "finalize r job c tr = (err, c', tr')"
  shows "confined (r_ext (c_Reconciler r)) W (job_id job) tr tr'"
proof -
  let ?t = "CleanForJob (r_ext (c_Reconciler r)) job tr"
  from assms have "tr' = ?t \<or> (\<exists>fs. tr' = ?t @ [UpdateJob (job\<lparr>job_Finalizers := fs\<rparr>)])"
    by (auto simp: finalize_def Let_def split: if_splits prod.splits)
  with CleanForJob_confined[of "r_ext (c_Reconciler r)" W job tr] show ?thesis by (auto intro!: grows_snoc)
qed

lemma await_podgroup_confined:
  assumes "await_podgroup R W job (spec_RunPolicy (job_Spec job)) tr = Some (err, tr')"
  shows "confined E W' (job_id job) tr tr'"
proof (cases "EnableGangScheduling (job_Spec job) \<and> \<not> IsFinished (st_Phase (job_Status job))")
  case True
  with await_podgroup_outcome[OF assms] obtain n where "tr' = tr @ [SyncPodGroup (job_Namespace job) (job_Name job) n]" by metis
  then show ?thesis by (auto simp: job_id_def intro!: grows_append)
next
  case False
  from await_podgroup_off(2)[OF assms False] show ?thesis by simp
qed

lemma framework_ReconcileJobs_confined:
  assumes fw: "standard_frameworks r" "getFramework (c_Frameworks r) name = Some f" and E: "E = r_ext (c_Reconciler r)" "pod_control_ok E"
    and L: "uses_interface r L W"
    and run: "framework_ReconcileJobs r W L f job replicas js (spec_RunPolicy (job_Spec job)) tr = Some (err, job', tr')"
  shows "confined E W (job_id job) tr tr' \<and> job_id job' = job_id job"
proof -
  let ?R = "framework_reconciler (c_Reconciler r) f"
  have R: "r_ext ?R = E" "r_ctl ?R = fw_controller f" by (simp_all add: framework_reconciler_def E(1))
  have id: "pod_identity (r_ctl ?R)" using standard_framework_interfaces(3)[OF fw] R by simp
  show ?thesis
  proof (cases "fw_ReconcileJobs f")
    case (Some g)
    with standard_framework_services(4)[OF fw refl] have "g = Demo_ReconcileJobs" by simp
    with run Some show ?thesis by (auto simp: framework_ReconcileJobs_def Demo_ReconcileJobs_def)
  next
    case None
    with run have run: "ReconcileJobs ?R W (JC_ReconcileJobs L) job replicas js (spec_RunPolicy (job_Spec job)) tr = Some (err, job', tr')"
      by (simp add: framework_ReconcileJobs_def)
    then obtain e1 tr1 where a: "await_podgroup ?R W job (spec_RunPolicy (job_Spec job)) tr = Some (e1, tr1)"
      by (auto simp: ReconcileJobs_def Option.bind_eq_Some_conv)
    obtain e2 tr2 where x: "ResetExpectations ?R job tr1 = (e2, tr2)" by fastforce
    have 2: "confined E W (job_id job) tr tr1" "confined E W (job_id job) tr tr2"
      using await_podgroup_confined[OF a, of E W] ResetExpectations_confined[OF x, of W] R grows_trans by auto
    consider "job' = job" "tr' = tr1" | "job' = job" "tr' = tr2" | "JC_ReconcileJobs L ?R job replicas js (spec_RunPolicy (job_Spec job)) tr2 = Some (err, job', tr')"
      using run a x by (auto simp: ReconcileJobs_def split: if_splits option.splits)
    then show ?thesis
    proof cases
      case 3
      with L have "kubeflow_acts ?R f W job tr2 job' tr'" unfolding uses_interface_def by blast
      from kubeflow_confined[OF this id] standard_framework_services(3)[OF fw refl] R E(2) 2(2) show ?thesis
        by (auto intro: grows_trans)
    qed (use 2 in simp_all)
  qed
qed

lemma OnJobFinished_confined: "confined E W (job_id job) tr (OnJobFinished r now job tr)"
  by (auto simp: OnJobFinished_def Let_def job_id_def split: option.split intro!: grows_append)

lemma reconcile_failed_confined: "confined E W (job_id job) tr (snd (reconcile_failed r job err tr))"
  using setInvalidDefinition_confined by (auto simp: reconcile_failed_def split: option.split)

section \<open>The role cache\<close>

definition cached :: "Cache option \<Rightarrow> item \<Rightarrow> ReplicaType \<Rightarrow> RoleCache option" where
  "cached c i q = (case c of None \<Rightarrow> None | Some ch \<Rightarrow> cache_view (backend ch) (NamespacedNameToKey (fst i) (snd i)) q)"

text \<open>Namespaces have no dots, so that the keys of the cache tell jobs apart, although the names of jobs may have some.\<close>

definition others_kept :: "item \<Rightarrow> Cache option \<Rightarrow> Cache option \<Rightarrow> bool" where
  "others_kept i c c' \<longleftrightarrow> (\<forall>i' q. i' \<noteq> i \<longrightarrow> CHR ''.'' \<notin> set (fst i') \<longrightarrow> cached c' i' q = cached c i' q)"

lemma others_kept_refl [simp]: "others_kept i c c"
  by (simp add: others_kept_def)

lemma others_kept_trans: "others_kept i c c' \<Longrightarrow> others_kept i c' c'' \<Longrightarrow> others_kept i c c''"
  by (simp add: others_kept_def)

lemma cache_key_inj:
  assumes "NamespacedNameToKey ns n = NamespacedNameToKey ns' n'" "CHR ''.'' \<notin> set ns" "CHR ''.'' \<notin> set ns'"
  shows "(ns, n) = (ns', n')"
proof -
  have "ns @ CHR ''.'' # n = ns' @ CHR ''.'' # n'" using assms(1) by (simp add: NamespacedNameToKey_def)
  then have "split2 (CHR ''.'') (ns @ CHR ''.'' # n) = split2 (CHR ''.'') (ns' @ CHR ''.'' # n')" by (rule arg_cong)
  then have "[ns, n] = [ns', n']" unfolding split2_join[OF assms(2)] split2_join[OF assms(3)] .
  then show ?thesis by simp
qed

lemma others_keptI:
  assumes "CHR ''.'' \<notin> set (fst i)"
    and "\<And>k q. k \<noteq> NamespacedNameToKey (fst i) (snd i) \<Longrightarrow> cache_view (backend ch') k q = cache_view (backend ch) k q"
  shows "others_kept i (Some ch) (Some ch')"
  unfolding others_kept_def cached_def option.case
proof (intro allI impI)
  fix i' :: item and q
  assume "i' \<noteq> i" "CHR ''.'' \<notin> set (fst i')"
  have "NamespacedNameToKey (fst i') (snd i') \<noteq> NamespacedNameToKey (fst i) (snd i)"
  proof
    assume "NamespacedNameToKey (fst i') (snd i') = NamespacedNameToKey (fst i) (snd i)"
    from cache_key_inj[OF this \<open>CHR ''.'' \<notin> set (fst i')\<close> assms(1)] \<open>i' \<noteq> i\<close> show False by (simp add: prod_eq_iff)
  qed
  then show "cache_view (backend ch') (NamespacedNameToKey (fst i') (snd i')) q = cache_view (backend ch) (NamespacedNameToKey (fst i') (snd i')) q"
    by (rule assms(2))
qed

lemma SetRoleCache_frame:
  assumes "k \<noteq> key"
  shows "cache_view (backend (snd (SetRoleCache ch key q d))) k q' = cache_view (backend ch) k q'"
proof (cases "backend ch = None")
  case True
  then show ?thesis by (simp add: SetRoleCache_def Memory_SetRoleCache_def getSubCache_def)
next
  case False
  from rc.set_view[OF False] assms show ?thesis by simp
qed

lemma OnRolePhaseChanged_others:
  assumes "CHR ''.'' \<notin> set (job_Namespace job)" "OnRolePhaseChanged E c listed job role ph = Some (err, c')"
  shows "others_kept (job_id job) c c'"
proof (cases c)
  case None
  with assms(2) show ?thesis by (simp add: OnRolePhaseChanged_def)
next
  case (Some ch)
  let ?k = "NamespacedNameToKey (job_Namespace job) (job_Name job)"
  show ?thesis
  proof (cases listed)
    case (Inl e)
    with Some assms(2) show ?thesis by (simp add: OnRolePhaseChanged_def)
  next
    case (Inr pods)
    with Some assms(2) obtain d where "c' = Some (snd (SetRoleCache ch ?k role (Some d)))"
      by (auto simp: OnRolePhaseChanged_def Let_def Option.bind_eq_Some_conv case_prod_beta)
    with Some assms(1) show ?thesis by (auto simp: job_id_def SetRoleCache_frame intro!: others_keptI)
  qed
qed

lemma others_kept_delete:
  assumes "CHR ''.'' \<notin> set (fst i)" "deleteJobCache (fst i) (snd i) c = (err, c')"
  shows "others_kept i c c'"
proof (cases c)
  case (Some ch)
  let ?k = "NamespacedNameToKey (fst i) (snd i)"
  from assms(2) Some have "c' = Some (snd (DeleteJobCache ch ?k))" by (simp add: deleteJobCache_def case_prod_beta)
  with Some assms(1) show ?thesis by (auto simp: wrapper_snd Memory_Delete_view intro!: others_keptI)
qed (use assms in \<open>simp add: deleteJobCache_def\<close>)

lemma handle_roles_others:
  assumes "CHR ''.'' \<notin> set (job_Namespace job)" "handle_roles E W tr old job xs c = Some (err, c')"
  shows "others_kept (job_id job) c c'"
  using assms(2)
proof (induction xs arbitrary: c)
  case (Cons x xs)
  obtain role p where x: "x = (role, p)" by (cases x)
  from Cons.prems x obtain oldPhase s where p: "p = Some s"
    and oldp: "(case gm_get (st_RoleStatuses (job_Status old)) role of None \<Rightarrow> Some RolePhasePending
        | Some q \<Rightarrow> do { status \<leftarrow> q; Some (role_Phase status) }) = Some oldPhase"
    by (auto simp: Option.bind_eq_Some_conv)
  show ?case
  proof (cases "oldPhase = role_Phase s \<and> role_Phase s \<noteq> RolePhaseRunning")
    case True
    with Cons.prems x p oldp have "handle_roles E W tr old job xs c = Some (err, c')" by simp
    then show ?thesis by (rule Cons.IH)
  next
    case False
    with Cons.prems x p oldp obtain e c1 where o: "OnRolePhaseChanged E c (w_role_pods W tr role) job role (role_Phase s) = Some (e, c1)"
      by (auto simp: Option.bind_eq_Some_conv)
    note c1 = OnRolePhaseChanged_others[OF assms(1) o]
    show ?thesis
    proof (cases e)
      case None
      with Cons.prems x p oldp False o have "handle_roles E W tr old job xs c1 = Some (err, c')" by simp
      from others_kept_trans[OF c1 Cons.IH[OF this]] show ?thesis .
    next
      case (Some y)
      with Cons.prems x p oldp False o c1 show ?thesis by simp
    qed
  qed
qed simp

lemma HandleRolePhases_others:
  "CHR ''.'' \<notin> set (job_Namespace job) \<Longrightarrow> HandleRolePhases r W tr old job c = Some (err, c') \<Longrightarrow> others_kept (job_id job) c c'"
  by (auto simp: HandleRolePhases_def Option.bind_eq_Some_conv split: if_splits option.splits intro: handle_roles_others)

lemma finalize_others:
  assumes "CHR ''.'' \<notin> set (job_Namespace job)" "finalize r job c tr = (err, c', tr')"
  shows "others_kept (job_id job) c c'"
proof -
  obtain e c1 where d: "deleteJobCache (job_Namespace job) (job_Name job) c = (e, c1)" by fastforce
  with assms(2) have "c' = c \<or> c' = c1" by (auto simp: finalize_def Let_def split: if_splits)
  with others_kept_delete[of "job_id job" c e c1] d assms(1) show ?thesis by (auto simp: job_id_def)
qed

section \<open>A round keeps to its job\<close>

text \<open>Both together: the calls belong to the job, and the cache entries of other jobs stay.\<close>

definition keeps_to :: "ext \<Rightarrow> World \<Rightarrow> item \<Rightarrow> Cache option \<Rightarrow> effect list \<Rightarrow> Cache option \<Rightarrow> effect list \<Rightarrow> bool" where
  "keeps_to E W i c tr c' tr' \<longleftrightarrow> confined E W i tr tr' \<and> others_kept i c c'"

lemma reconcile_finish_keeps:
  assumes "CHR ''.'' \<notin> set (job_Namespace job)" "reconcile_finish r W aresjob job c tr = Some (res, c', tr')"
  shows "keeps_to E W (job_id job) c tr c' tr'"
proof -
  obtain e tr1 where s: "SyncFromJob (c_Reconciler r) W job tr = (e, tr1)" by fastforce
  note g1 = SyncFromJob_confined[OF s, of E "job_id job"]
  show ?thesis
  proof (cases e)
    case (Some x)
    with assms(2) s g1 show ?thesis by (simp add: reconcile_finish_def keeps_to_def)
  next
    case None
    with assms(2) s obtain e2 c2 where h: "HandleRolePhases r W tr1 aresjob job c = Some (e2, c2)"
      by (auto simp: reconcile_finish_def Option.bind_eq_Some_conv)
    from assms(2) s None h have "c' = c2" "tr' = tr1 \<or> tr' = OnJobFinished r (w_now W) job tr1"
      by (auto simp: reconcile_finish_def split: if_splits)
    with HandleRolePhases_others[OF assms(1) h] g1 grows_trans[OF g1 OnJobFinished_confined] show ?thesis by (auto simp: keeps_to_def)
  qed
qed

lemma reconcile_objects_keeps:
  assumes fw: "standard_frameworks r" "getFramework (c_Frameworks r) name = Some f" and E: "E = r_ext (c_Reconciler r)" "pod_control_ok E"
    and L: "uses_interface r L W" and dots: "CHR ''.'' \<notin> set (job_Namespace job)"
    and run: "reconcile_objects r W L f aresjob job c tr = Some (res, c', tr')"
  shows "keeps_to E W (job_id job) c tr c' tr'"
proof -
  from run obtain action job1 tr1 where s: "SyncFromPodGroup (c_Reconciler r) W job tr = Some (action, job1, tr1)"
    by (auto simp: reconcile_objects_def Option.bind_eq_Some_conv)
  from SyncFromPodGroup_confined[OF s] have g1: "confined E W (job_id job) tr tr1" and id1: "job_id job1 = job_id job" by blast+
  then have dots1: "CHR ''.'' \<notin> set (job_Namespace job1)" using dots by (simp add: job_id_def)
  have finish: "keeps_to E W (job_id job) c tr c' tr'"
    if "reconcile_finish r W aresjob j c t = Some (res, c', tr')" "job_id j = job_id job" "confined E W (job_id job) tr t" for j t
  proof -
    have "CHR ''.'' \<notin> set (job_Namespace j)" using that(2) dots by (simp add: job_id_def)
    from reconcile_finish_keeps[OF this that(1), of E] that(2,3) show ?thesis by (auto simp: keeps_to_def intro: grows_trans)
  qed
  show ?thesis
  proof (cases action)
    case (Inl e)
    with run s g1 show ?thesis by (simp add: reconcile_objects_def keeps_to_def)
  next
    case (Inr a)
    show ?thesis
    proof (cases a)
      case ActionBreak
      with run s Inr g1 show ?thesis by (simp add: reconcile_objects_def keeps_to_def)
    next
      case ActionSkip
      with run s Inr g1 id1 show ?thesis by (intro finish[of job1 tr1]) (simp_all add: reconcile_objects_def)
    next
      case ActionContinue
      with run s Inr obtain replicas js err job2 tr2 where
        f: "framework_ReconcileJobs r W L f job1 replicas js (spec_RunPolicy (job_Spec job1)) tr1 = Some (err, job2, tr2)"
        and rest: "(case err of Some e \<Rightarrow> (let (res, tr3) = reconcile_failed r job2 e tr2 in Some (res, c, tr3))
         | None \<Rightarrow> reconcile_finish r W aresjob job2 c tr2) = Some (res, c', tr')"
        by (auto simp: reconcile_objects_def Option.bind_eq_Some_conv)
      from framework_ReconcileJobs_confined[OF fw E L f] id1 g1
      have g2: "confined E W (job_id job) tr tr2" and id2: "job_id job2 = job_id job" by (auto intro: grows_trans)
      show ?thesis
      proof (cases err)
        case None
        with rest g2 id2 show ?thesis by (intro finish[of job2 tr2]) simp_all
      next
        case (Some e)
        with rest have "c' = c" "tr' = snd (reconcile_failed r job2 e tr2)" by (auto simp: case_prod_beta)
        with grows_trans[OF g2] reconcile_failed_confined[of E W job2 tr2 r e] id2 show ?thesis by (simp add: keeps_to_def)
      qed
    qed
  qed
qed

lemma Reconcile_keeps:
  assumes fw: "standard_frameworks r" and E: "E = r_ext (c_Reconciler r)" "pod_control_ok E"
    and L: "uses_interface r L W" "default_keeps_id L" and dots: "CHR ''.'' \<notin> set (job_Namespace aresjob)"
    and get: "w_getJob W tr = Inr aresjob" and run: "Reconcile r W L c tr = Some (res, c', tr')"
  shows "keeps_to E W (job_id aresjob) c tr c' tr'"
proof -
  note step = run[unfolded Reconcile_def get sum.case]
  show ?thesis
  proof (cases "job_DeletionTimestamp aresjob \<noteq> None \<or> IsInvalidDefinition (job_Status aresjob)")
    case True
    obtain err c1 tr1 where f: "finalize r aresjob c tr = (err, c1, tr1)" by (cases "finalize r aresjob c tr")
    from True step f have "tr' = tr1 \<and> c' = c1 \<or> tr' = tr \<and> c' = c" by (auto split: if_splits)
    with finalize_confined[OF f, of W] finalize_others[OF dots f] E(1) show ?thesis by (auto simp: keeps_to_def)
  next
    case live: False
    show ?thesis
    proof (cases "getFramework (c_Frameworks r) (spec_FrameworkType (job_Spec aresjob))")
      case None
      with step live setInvalidDefinition_confined show ?thesis by (auto simp: keeps_to_def)
    next
      case (Some f)
      with step live obtain upd job tr1 where d: "setDefault r L aresjob aresjob f tr = Some (upd, job, tr1)"
        by (auto simp: Option.bind_eq_Some_conv)
      note id = setDefault_id[OF L(2) d]
      have g1: "confined E W (job_id aresjob) tr tr1" using setDefault_outcome[OF d] id by (auto intro!: grows_append)
      show ?thesis
      proof (cases "upd = Inr False")
        case False
        with step live Some d setDefault_outcome[OF d] have "tr' = tr1" "c' = c" by auto
        with g1 show ?thesis by (simp add: keeps_to_def)
      next
        case True
        with step live Some d obtain err tr2 where v: "validate r job f tr1 = Some (err, tr2)"
          by (auto simp: Option.bind_eq_Some_conv)
        from validate_confined[OF v, of E W] g1 id have g2: "confined E W (job_id aresjob) tr tr2" by (auto intro: grows_trans)
        show ?thesis
        proof (cases "err = None \<and> SatisfiedExpectations (r_ext (c_Reconciler r)) (w_satisfied W tr2) job")
          case False
          with step live Some d True v have "tr' = tr2" "c' = c" by (auto split: if_splits)
          with g2 show ?thesis by (simp add: keeps_to_def)
        next
          case ok: True
          have "reconcile_objects r W L f aresjob job c tr2 = Some (res, c', tr')" using step live Some d True v ok by simp
          moreover have "CHR ''.'' \<notin> set (job_Namespace job)" using dots id by (simp add: job_id_def)
          ultimately have "keeps_to E W (job_id job) c tr2 c' tr'" using reconcile_objects_keeps[OF fw Some E L(1)] by blast
          with g2 id show ?thesis by (auto simp: keeps_to_def intro: grows_trans)
        qed
      qed
    qed
  qed
qed

text \<open>
  C5. A round keeps to its job. Whatever the API server answers, every call of a round is about the job that the round has read: pods and
  services are created in its namespace and owned by it, the pods, services and pod group that are deleted or patched are
  those the reads have returned for the job, expectations are those of its roles, and the status, the job and the item of the
  clean-up queue are its own. The role cache keeps the entries of all other jobs. Kubeflow's part of the round acts, as documented, through
  the interface of the controller.
\<close>

theorem Reconcile_confined:
  assumes "standard_frameworks r" "pod_control_ok (r_ext (c_Reconciler r))" "uses_interface r L W" "default_keeps_id L"
    and "w_getJob W tr = Inr job" "CHR ''.'' \<notin> set (job_Namespace job)"
    and "Reconcile r W L c tr = Some (res, c', tr')"
  shows "(\<exists>es. tr' = tr @ es \<and> (\<forall>e \<in> set es. belongs (r_ext (c_Reconciler r)) W (job_id job) e)) \<and>
    (\<forall>i q. i \<noteq> job_id job \<longrightarrow> CHR ''.'' \<notin> set (fst i) \<longrightarrow> cached c' i q = cached c i q)"
  using Reconcile_keeps[OF assms(1) refl assms(2,3,4,6,5,7)] unfolding keeps_to_def grows_def others_kept_def .

section \<open>Keys\<close>








section \<open>Calls beside a job\<close>








section \<open>Two jobs\<close>

text \<open>A world without pods, and a kubeflow that reconciles the pods of the workers.\<close>

definition empty_world :: World where
  "empty_world = (world_of ready_job)\<lparr>w_pods := \<lambda>tr. Inr []\<rparr>"

definition kubeflow_libs :: Libs where
  "kubeflow_libs = plain_libs\<lparr>JC_ReconcileJobs := (\<lambda>R job replicas js rp tr.
     ReconcilePods R (w_now empty_world) job (Some js) [] RoleWorker (gm_ptr replicas RoleWorker) replicas tr)\<rparr>"

definition other_job :: AresJob where
  "other_job = ready_job\<lparr>job_Name := ''other''\<rparr>"


lemma kubeflow_libs_ok: "uses_interface plain_controller kubeflow_libs empty_world" "default_keeps_id kubeflow_libs"
proof -
  have p: "w_pods empty_world [] = Inr []" by (simp add: empty_world_def)
  show "uses_interface plain_controller kubeflow_libs empty_world"
    unfolding uses_interface_def kubeflow_libs_def by (auto intro: kubeflow_acts.pods[OF kubeflow_acts.start p])
  show "default_keeps_id kubeflow_libs" by (simp add: default_keeps_id_def kubeflow_libs_def plain_libs_def)
qed


lemma plain_controller_ext: "r_ext (c_Reconciler plain_controller) = plain_ext"
  by (simp add: plain_controller_def plain_reconciler_def)

lemma ready_job_id: "job_id ready_job = (''ns'', ''job'')" "job_id other_job = (''ns'', ''other'')"
  by code_simp+

theorem Reconcile_confined_witness:
  "\<exists>res c es. Reconcile plain_controller empty_world kubeflow_libs None [] = Some (res, c, es) \<and> list_ex is_create es \<and>
     (\<forall>e \<in> set es. belongs plain_ext empty_world (''ns'', ''job'') e)"
proof -
  have "case Reconcile plain_controller empty_world kubeflow_libs None [] of
      Some (res, c, tr) \<Rightarrow> list_ex is_create tr | None \<Rightarrow> False" by code_simp
  then obtain res c tr where run: "Reconcile plain_controller empty_world kubeflow_libs None [] = Some (res, c, tr)" "list_ex is_create tr"
    by (auto split: option.splits)
  have E: "pod_control_ok (r_ext (c_Reconciler plain_controller))" unfolding plain_controller_ext by (rule plain_pod_control)
  have get: "w_getJob empty_world [] = Inr ready_job" by (simp add: empty_world_def world_of_def)
  have "CHR ''.'' \<notin> set (job_Namespace ready_job)" using ready_job_id(1) by (simp add: job_id_def)
  from Reconcile_confined[OF plain_standard E kubeflow_libs_ok get this run(1)] run show ?thesis
    unfolding plain_controller_ext ready_job_id(1) by auto
qed


end
