(* ===== verification/Deep_Copy.thy ===== *)
theory Deep_Copy
  imports Api_Types
begin

text \<open>
  The generated deep copies (api/v1/zz_generated.deepcopy.go). Everywhere else the job is a value; here it is what the program
  has, structs that point to other structs, arrays and maps in a heap. The heap is a list of cells and an address is an index
  into it, so that \<open>new\<close> and \<open>make\<close> append a cell. \<open>read_\<close> functions give the value of \<open>Api_Types\<close> that a struct stands for, \<open>refs_\<close>
  functions the cells it reaches. The locale \<open>deep_copy\<close> is the contract of a copy: it succeeds, keeps every old cell,
  stands for the same value and reaches new cells only. It is closed under pointers, arrays, maps and structs, and every
  generated function meets it. The theorem on \<open>AresJob.DeepCopy\<close> is what allows \<open>Reconcile\<close> to change the job it
  works on without touching the one in the cache of the informer.

  The structs of other modules (\<open>metav1.ObjectMeta\<close>, \<open>commonv1.RunPolicy\<close> and so on) are a type parameter; their own deep
  copies are parameters that are assumed to meet the contract. A slice stands for its whole array. The runtime may visit the entries of a
  map in any order, which changes addresses only; they are visited in the order of the list here.
\<close>

section \<open>The contract\<close>

locale layout =
  fixes read :: "'c list \<Rightarrow> 's \<Rightarrow> 'v option" and refs :: "'c list \<Rightarrow> 's \<Rightarrow> nat set"
  assumes refs_in: "read h s = Some v \<Longrightarrow> refs h s \<subseteq> {..<length h}"
    and frame: "read h s = Some v \<Longrightarrow> \<forall>a \<in> refs h s. a < length h' \<and> h' ! a = h ! a \<Longrightarrow> read h' s = Some v \<and> refs h' s = refs h s"
begin

lemma extend:
  assumes "read h s = Some v"
  shows "read (h @ new) s = Some v" "refs (h @ new) s = refs h s"
proof -
  have "\<forall>a \<in> refs h s. a < length (h @ new) \<and> (h @ new) ! a = h ! a" using refs_in[OF assms] by (auto simp: nth_append)
  from frame[OF assms this] show "read (h @ new) s = Some v" "refs (h @ new) s = refs h s" by simp_all
qed

lemma write_elsewhere:
  assumes "read h s = Some v" "a \<notin> refs h s"
  shows "read (h[a := c]) s = Some v" "refs (h[a := c]) s = refs h s"
proof -
  have "\<forall>b \<in> refs h s. b < length (h[a := c]) \<and> h[a := c] ! b = h ! b"
    using refs_in[OF assms(1)] assms(2) by (auto intro!: nth_list_update_neq)
  from frame[OF assms(1) this] show "read (h[a := c]) s = Some v" "refs (h[a := c]) s = refs h s" by simp_all
qed

end

locale deep_copy = layout read refs
  for read :: "'c list \<Rightarrow> 's \<Rightarrow> 'v option" and refs :: "'c list \<Rightarrow> 's \<Rightarrow> nat set" +
  fixes copy :: "'s \<Rightarrow> 'c list \<Rightarrow> ('s \<times> 'c list) option"
  assumes copies: "read h s = Some v \<Longrightarrow>
    \<exists>s' new. copy s h = Some (s', h @ new) \<and> read (h @ new) s' = Some v \<and> refs (h @ new) s' \<subseteq> {length h..<length h + length new}"

context deep_copy
begin

text \<open>The copy and the original do not see each other's changes.\<close>

lemma isolates:
  assumes "read h s = Some v"
  shows "\<exists>s' new. copy s h = Some (s', h @ new) \<and> read (h @ new) s' = Some v \<and>
     (\<forall>h'. take (length h) h' = h \<longrightarrow> read h' s = Some v) \<and>
     (\<forall>h'. length h \<le> length h' \<and> drop (length h) h' = new \<longrightarrow> read h' s' = Some v)"
proof -
  from copies[OF assms] obtain s' new where c: "copy s h = Some (s', h @ new)" "read (h @ new) s' = Some v"
    "refs (h @ new) s' \<subseteq> {length h..<length h + length new}" by blast
  have "read h' s = Some v" if "take (length h) h' = h" for h'
    using extend(1)[OF assms, of "drop (length h) h'"] that by (metis append_take_drop_id)
  moreover have "read h' s' = Some v" if h': "length h \<le> length h'" "drop (length h) h' = new" for h'
  proof -
    have "\<forall>a \<in> refs (h @ new) s'. a < length h' \<and> h' ! a = (h @ new) ! a"
    proof
      fix a assume "a \<in> refs (h @ new) s'"
      with c(3) have "a \<in> {length h..<length h + length new}" by blast
      then have a: "length h \<le> a" "a - length h < length new" by auto
      have "drop (length h) h' ! (a - length h) = h' ! a" using a(1) h'(1) by simp
      moreover have "length h' = length h + length new" using h' by auto
      ultimately show "a < length h' \<and> h' ! a = (h @ new) ! a" using a h'(2) by (simp add: nth_append)
    qed
    from frame[OF c(2) this] show ?thesis by simp
  qed
  ultimately show ?thesis using c by blast
qed

end

section \<open>How copies are put together\<close>

text \<open>A struct without pointers is copied by assigning it.\<close>

definition read_plain :: "'c list \<Rightarrow> 's \<Rightarrow> 's option" where
  "read_plain h s = Some s"

definition refs_plain :: "'c list \<Rightarrow> 's \<Rightarrow> nat set" where
  "refs_plain h s = {}"

definition assign :: "'s \<Rightarrow> 'c list \<Rightarrow> ('s \<times> 'c list) option" where
  "assign s h = Some (s, h)"

lemma plain_copy: "deep_copy read_plain refs_plain assign"
  by unfold_locales (auto simp: read_plain_def refs_plain_def assign_def)

text \<open>\<open>new\<close> and \<open>make\<close>: the address of a new, zeroed cell.\<close>

definition alloc :: "'c \<Rightarrow> 'c list \<Rightarrow> nat \<times> 'c list" where
  "alloc zero h = (length h, h @ [zero])"

definition fetch :: "('c \<Rightarrow> 's option) \<Rightarrow> 'c list \<Rightarrow> nat \<Rightarrow> 's option" where
  "fetch get h a = (if a < length h then get (h ! a) else None)"

text \<open>
  The generated code of a pointer, slice or map that is not nil: allocate, copy what it points to and store the copy.
\<close>

definition copy_ref :: "'c \<Rightarrow> ('c \<Rightarrow> 's option) \<Rightarrow> ('s \<Rightarrow> 'c) \<Rightarrow> ('s \<Rightarrow> 'c list \<Rightarrow> ('s \<times> 'c list) option)
     \<Rightarrow> nat option \<Rightarrow> 'c list \<Rightarrow> (nat option \<times> 'c list) option" where
  "copy_ref zero get put cp p h = (case p of
     None \<Rightarrow> Some (None, h)
   | Some a \<Rightarrow> do {
       inp \<leftarrow> fetch get h a;
       let (out, h1) = alloc zero h;
       (v, h2) \<leftarrow> cp inp h1;
       Some (Some out, h2[out := put v]) })"

definition read_ref :: "('c \<Rightarrow> 's option) \<Rightarrow> ('c list \<Rightarrow> 's \<Rightarrow> 'v option) \<Rightarrow> 'c list \<Rightarrow> nat option \<Rightarrow> 'v option option" where
  "read_ref get rd h p = (case p of None \<Rightarrow> Some None | Some a \<Rightarrow> do { s \<leftarrow> fetch get h a; v \<leftarrow> rd h s; Some (Some v) })"

definition refs_ref :: "('c \<Rightarrow> 's option) \<Rightarrow> ('c list \<Rightarrow> 's \<Rightarrow> nat set) \<Rightarrow> 'c list \<Rightarrow> nat option \<Rightarrow> nat set" where
  "refs_ref get rf h p = (case p of None \<Rightarrow> {} | Some a \<Rightarrow> insert a (case fetch get h a of None \<Rightarrow> {} | Some s \<Rightarrow> rf h s))"

lemma ref_layout:
  assumes L: "layout rd rf"
  shows "layout (read_ref get rd) (refs_ref get rf)"
proof
  fix h p v
  assume r: "read_ref get rd h p = Some v"
  show "refs_ref get rf h p \<subseteq> {..<length h}"
  proof (cases p)
    case (Some a)
    with r obtain s w where s: "fetch get h a = Some s" "rd h s = Some w" by (auto simp: read_ref_def Option.bind_eq_Some_conv)
    then have "a < length h" by (simp add: fetch_def split: if_splits)
    with Some s layout.refs_in[OF L s(2)] show ?thesis by (simp add: refs_ref_def)
  qed (simp add: refs_ref_def)
  fix h'
  assume same: "\<forall>a \<in> refs_ref get rf h p. a < length h' \<and> h' ! a = h ! a"
  show "read_ref get rd h' p = Some v \<and> refs_ref get rf h' p = refs_ref get rf h p"
  proof (cases p)
    case (Some a)
    with r obtain s w where s: "fetch get h a = Some s" "rd h s = Some w" "v = Some w" by (auto simp: read_ref_def Option.bind_eq_Some_conv)
    have "a < length h' \<and> h' ! a = h ! a" using same Some by (simp add: refs_ref_def)
    with s(1) have f: "fetch get h' a = Some s" by (simp add: fetch_def split: if_splits)
    have "\<forall>b \<in> rf h s. b < length h' \<and> h' ! b = h ! b" using same Some s(1) by (simp add: refs_ref_def)
    from layout.frame[OF L s(2) this] f s Some show ?thesis by (simp add: read_ref_def refs_ref_def)
  qed (use r in \<open>simp add: read_ref_def refs_ref_def\<close>)
qed

lemma ref_copy:
  assumes C: "deep_copy rd rf cp" and put: "\<And>s. get (put s) = Some s"
  shows "deep_copy (read_ref get rd) (refs_ref get rf) (copy_ref zero get put cp)"
proof -
  have L: "layout rd rf" using C by (simp add: deep_copy_def)
  have "deep_copy_axioms (read_ref get rd) (refs_ref get rf) (copy_ref zero get put cp)"
  proof
    fix h p v
    assume r: "read_ref get rd h p = Some v"
    show "\<exists>q new. copy_ref zero get put cp p h = Some (q, h @ new) \<and> read_ref get rd (h @ new) q = Some v \<and>
        refs_ref get rf (h @ new) q \<subseteq> {length h..<length h + length new}"
    proof (cases p)
      case (Some a)
      with r obtain s w where s: "fetch get h a = Some s" "rd h s = Some w" "v = Some w" by (auto simp: read_ref_def Option.bind_eq_Some_conv)
      from deep_copy.copies[OF C layout.extend(1)[OF L s(2), of "[zero]"]] obtain s' new where
        c: "cp s (h @ [zero]) = Some (s', (h @ [zero]) @ new)" "rd ((h @ [zero]) @ new) s' = Some w"
          "rf ((h @ [zero]) @ new) s' \<subseteq> {length (h @ [zero])..<length (h @ [zero]) + length new}" by blast
      let ?h = "h @ put s' # new"
      have upd: "((h @ [zero]) @ new)[length h := put s'] = ?h" by (simp add: list_update_append)
      have fresh: "length h \<notin> rf ((h @ [zero]) @ new) s'" using c(3) by auto
      note w = layout.write_elsewhere[OF L c(2) fresh, of "put s'", unfolded upd]
      have q: "fetch get ?h (length h) = Some s'" by (simp add: fetch_def put)
      show ?thesis
      proof (intro exI[of _ "Some (length h)"] exI[of _ "put s' # new"] conjI)
        show "copy_ref zero get put cp p h = Some (Some (length h), ?h)"
          using Some s(1) c(1) upd by (simp add: copy_ref_def alloc_def)
        show "read_ref get rd ?h (Some (length h)) = Some v" using q w(1) s(3) by (simp add: read_ref_def)
        show "refs_ref get rf ?h (Some (length h)) \<subseteq> {length h..<length h + length (put s' # new)}"
          using q w(2) c(3) by (auto simp: refs_ref_def)
      qed
    qed (use r in \<open>simp add: copy_ref_def read_ref_def refs_ref_def\<close>)
  qed
  with ref_layout[OF L] show ?thesis by (simp add: deep_copy_def)
qed

text \<open>Two parts of a struct, one after the other.\<close>

definition read_both :: "('c list \<Rightarrow> 's \<Rightarrow> 'v option) \<Rightarrow> ('c list \<Rightarrow> 't \<Rightarrow> 'w option) \<Rightarrow> 'c list \<Rightarrow> 's \<times> 't \<Rightarrow> ('v \<times> 'w) option" where
  "read_both rd1 rd2 h x = do { v \<leftarrow> rd1 h (fst x); w \<leftarrow> rd2 h (snd x); Some (v, w) }"

definition refs_both :: "('c list \<Rightarrow> 's \<Rightarrow> nat set) \<Rightarrow> ('c list \<Rightarrow> 't \<Rightarrow> nat set) \<Rightarrow> 'c list \<Rightarrow> 's \<times> 't \<Rightarrow> nat set" where
  "refs_both rf1 rf2 h x = rf1 h (fst x) \<union> rf2 h (snd x)"

definition copy_both :: "('s \<Rightarrow> 'c list \<Rightarrow> ('s \<times> 'c list) option) \<Rightarrow> ('t \<Rightarrow> 'c list \<Rightarrow> ('t \<times> 'c list) option)
    \<Rightarrow> 's \<times> 't \<Rightarrow> 'c list \<Rightarrow> (('s \<times> 't) \<times> 'c list) option" where
  "copy_both cp1 cp2 x h = do { (s, h1) \<leftarrow> cp1 (fst x) h; (t, h2) \<leftarrow> cp2 (snd x) h1; Some ((s, t), h2) }"

lemma both_layout:
  assumes L: "layout rd1 rf1" "layout rd2 rf2"
  shows "layout (read_both rd1 rd2) (refs_both rf1 rf2)"
proof
  fix h x v
  assume r: "read_both rd1 rd2 h x = Some v"
  then obtain v1 v2 where v: "rd1 h (fst x) = Some v1" "rd2 h (snd x) = Some v2" "v = (v1, v2)"
    by (auto simp: read_both_def Option.bind_eq_Some_conv)
  from layout.refs_in[OF L(1) v(1)] layout.refs_in[OF L(2) v(2)]
  show "refs_both rf1 rf2 h x \<subseteq> {..<length h}" by (simp add: refs_both_def)
  fix h'
  assume same: "\<forall>a \<in> refs_both rf1 rf2 h x. a < length h' \<and> h' ! a = h ! a"
  from layout.frame[OF L(1) v(1), of h'] layout.frame[OF L(2) v(2), of h'] same v(3)
  show "read_both rd1 rd2 h' x = Some v \<and> refs_both rf1 rf2 h' x = refs_both rf1 rf2 h x"
    by (simp add: read_both_def refs_both_def)
qed

lemma both_copy:
  assumes C: "deep_copy rd1 rf1 cp1" "deep_copy rd2 rf2 cp2"
  shows "deep_copy (read_both rd1 rd2) (refs_both rf1 rf2) (copy_both cp1 cp2)"
proof -
  have L: "layout rd1 rf1" "layout rd2 rf2" using C by (simp_all add: deep_copy_def)
  have "deep_copy_axioms (read_both rd1 rd2) (refs_both rf1 rf2) (copy_both cp1 cp2)"
  proof
    fix h x v
    assume r: "read_both rd1 rd2 h x = Some v"
    then obtain v1 v2 where v: "rd1 h (fst x) = Some v1" "rd2 h (snd x) = Some v2" "v = (v1, v2)"
      by (auto simp: read_both_def Option.bind_eq_Some_conv)
    from deep_copy.copies[OF C(1) v(1)] obtain s n1 where s: "cp1 (fst x) h = Some (s, h @ n1)" "rd1 (h @ n1) s = Some v1"
      "rf1 (h @ n1) s \<subseteq> {length h..<length h + length n1}" by blast
    from deep_copy.copies[OF C(2) layout.extend(1)[OF L(2) v(2), of n1]] obtain t n2 where
      t: "cp2 (snd x) (h @ n1) = Some (t, (h @ n1) @ n2)" "rd2 ((h @ n1) @ n2) t = Some v2"
      "rf2 ((h @ n1) @ n2) t \<subseteq> {length (h @ n1)..<length (h @ n1) + length n2}" by blast
    note e = layout.extend[OF L(1) s(2), of n2]
    show "\<exists>y new. copy_both cp1 cp2 x h = Some (y, h @ new) \<and> read_both rd1 rd2 (h @ new) y = Some v \<and>
        refs_both rf1 rf2 (h @ new) y \<subseteq> {length h..<length h + length new}"
      by (intro exI[of _ "(s, t)"] exI[of _ "n1 @ n2"]) (use s t e v(3) in \<open>auto simp: copy_both_def read_both_def refs_both_def\<close>)
  qed
  with both_layout[OF L] show ?thesis by (simp add: deep_copy_def)
qed

text \<open>A struct is copied by copying the parts of it that hold pointers; what is assigned with \<open>*out = *in\<close> is plain.\<close>

lemma struct_layout:
  assumes L: "layout rd rf"
    and rd': "\<And>h s. rd' h s = Option.bind (rd h (part s)) (val s)" and rf': "\<And>h s. rf' h s = rf h (part s)"
  shows "layout rd' rf'"
proof
  fix h s v
  assume r: "rd' h s = Some v"
  then obtain w where w: "rd h (part s) = Some w" "val s w = Some v" by (auto simp: rd' Option.bind_eq_Some_conv)
  from layout.refs_in[OF L w(1)] show "rf' h s \<subseteq> {..<length h}" by (simp add: rf')
  fix h' assume "\<forall>a \<in> rf' h s. a < length h' \<and> h' ! a = h ! a"
  with layout.frame[OF L w(1), of h'] w(2) show "rd' h' s = Some v \<and> rf' h' s = rf' h s" by (simp add: rd' rf')
qed

lemma struct_copy:
  assumes C: "deep_copy rd rf cp"
    and rd': "\<And>h s. rd' h s = Option.bind (rd h (part s)) (val s)" and rf': "\<And>h s. rf' h s = rf h (part s)"
    and cp': "\<And>s h. cp' s h = do { (t, h') \<leftarrow> cp (part s) h; Some (with_part s t, h') }"
    and lens: "\<And>s t. part (with_part s t) = t" "\<And>s t. val (with_part s t) = val s"
  shows "deep_copy rd' rf' cp'"
proof -
  have L: "layout rd rf" using C by (simp add: deep_copy_def)
  have "deep_copy_axioms rd' rf' cp'"
  proof
    fix h s v
    assume "rd' h s = Some v"
    then obtain w where w: "rd h (part s) = Some w" "val s w = Some v" by (auto simp: rd' Option.bind_eq_Some_conv)
    from deep_copy.copies[OF C w(1)] obtain t new where t: "cp (part s) h = Some (t, h @ new)" "rd (h @ new) t = Some w"
      "rf (h @ new) t \<subseteq> {length h..<length h + length new}" by blast
    then show "\<exists>s' new. cp' s h = Some (s', h @ new) \<and> rd' (h @ new) s' = Some v \<and> rf' (h @ new) s' \<subseteq> {length h..<length h + length new}"
      by (intro exI[of _ "with_part s t"] exI[of _ new]) (simp add: rd' rf' cp' lens w(2))
  qed
  with struct_layout[OF L rd' rf'] show ?thesis by (simp add: deep_copy_def)
qed

text \<open>The loop over an array or over the entries of a map.\<close>

fun copy_all :: "('s \<Rightarrow> 'c list \<Rightarrow> ('s \<times> 'c list) option) \<Rightarrow> 's list \<Rightarrow> 'c list \<Rightarrow> ('s list \<times> 'c list) option" where
  "copy_all cp [] h = Some ([], h)"
| "copy_all cp (x # xs) h = do { (y, h1) \<leftarrow> cp x h; (ys, h2) \<leftarrow> copy_all cp xs h1; Some (y # ys, h2) }"

definition read_all :: "('c list \<Rightarrow> 's \<Rightarrow> 'v option) \<Rightarrow> 'c list \<Rightarrow> 's list \<Rightarrow> 'v list option" where
  "read_all rd h xs = mmap (rd h) xs"

definition refs_all :: "('c list \<Rightarrow> 's \<Rightarrow> nat set) \<Rightarrow> 'c list \<Rightarrow> 's list \<Rightarrow> nat set" where
  "refs_all rf h xs = (\<Union>x \<in> set xs. rf h x)"

lemma all_layout:
  assumes L: "layout rd rf"
  shows "layout (read_all rd) (refs_all rf)"
proof
  fix h xs vs
  assume "read_all rd h xs = Some vs"
  then show "refs_all rf h xs \<subseteq> {..<length h}"
  proof (induction xs arbitrary: vs)
    case (Cons x xs)
    then obtain w ws where w: "rd h x = Some w" "read_all rd h xs = Some ws" by (auto simp: read_all_def Option.bind_eq_Some_conv)
    from layout.refs_in[OF L w(1)] Cons.IH[OF w(2)] show ?case by (simp add: refs_all_def)
  qed (simp add: refs_all_def)
next
  fix h xs vs h'
  assume "read_all rd h xs = Some vs" "\<forall>a \<in> refs_all rf h xs. a < length h' \<and> h' ! a = h ! a"
  then show "read_all rd h' xs = Some vs \<and> refs_all rf h' xs = refs_all rf h xs"
  proof (induction xs arbitrary: vs)
    case (Cons x xs)
    then obtain w ws where w: "rd h x = Some w" "read_all rd h xs = Some ws" "vs = w # ws" by (auto simp: read_all_def Option.bind_eq_Some_conv)
    from layout.frame[OF L w(1), of h'] Cons.prems(2) have "rd h' x = Some w \<and> rf h' x = rf h x" by (simp add: refs_all_def)
    moreover from Cons.IH[OF w(2)] Cons.prems(2) have "read_all rd h' xs = Some ws \<and> refs_all rf h' xs = refs_all rf h xs" by (simp add: refs_all_def)
    ultimately show ?case using w(3) by (simp add: read_all_def refs_all_def)
  qed (simp add: read_all_def refs_all_def)
qed

lemma all_copy:
  assumes C: "deep_copy rd rf cp"
  shows "deep_copy (read_all rd) (refs_all rf) (copy_all cp)"
proof -
  have L: "layout rd rf" using C by (simp add: deep_copy_def)
  note La = all_layout[OF L]
  have "deep_copy_axioms (read_all rd) (refs_all rf) (copy_all cp)"
  proof
    fix h xs vs
    assume "read_all rd h xs = Some vs"
    then show "\<exists>ys new. copy_all cp xs h = Some (ys, h @ new) \<and> read_all rd (h @ new) ys = Some vs \<and>
        refs_all rf (h @ new) ys \<subseteq> {length h..<length h + length new}"
    proof (induction xs arbitrary: vs h)
      case Nil
      then show ?case by (simp add: read_all_def refs_all_def)
    next
      case (Cons x xs)
      then obtain w ws where w: "rd h x = Some w" "read_all rd h xs = Some ws" "vs = w # ws"
        by (auto simp: read_all_def Option.bind_eq_Some_conv)
      from deep_copy.copies[OF C w(1)] obtain y n1 where y: "cp x h = Some (y, h @ n1)" "rd (h @ n1) y = Some w"
        "rf (h @ n1) y \<subseteq> {length h..<length h + length n1}" by blast
      from Cons.IH[OF layout.extend(1)[OF La w(2), of n1]] obtain ys n2 where
        ys: "copy_all cp xs (h @ n1) = Some (ys, (h @ n1) @ n2)" "read_all rd ((h @ n1) @ n2) ys = Some ws"
        "refs_all rf ((h @ n1) @ n2) ys \<subseteq> {length (h @ n1)..<length (h @ n1) + length n2}" by blast
      note e = layout.extend[OF L y(2), of n2]
      show ?case
        by (intro exI[of _ "y # ys"] exI[of _ "n1 @ n2"]) (use y ys e w(3) in \<open>auto simp: read_all_def refs_all_def\<close>)
    qed
  qed
  with La show ?thesis by (simp add: deep_copy_def)
qed

text \<open>The entries of a map: keys are assigned, values copied.\<close>

definition copy_entry :: "('s \<Rightarrow> 'c list \<Rightarrow> ('s \<times> 'c list) option) \<Rightarrow> 'k \<times> 's \<Rightarrow> 'c list \<Rightarrow> (('k \<times> 's) \<times> 'c list) option" where
  "copy_entry cp e h = do { (v, h1) \<leftarrow> cp (snd e) h; Some ((fst e, v), h1) }"

definition read_entry :: "('c list \<Rightarrow> 's \<Rightarrow> 'v option) \<Rightarrow> 'c list \<Rightarrow> 'k \<times> 's \<Rightarrow> ('k \<times> 'v) option" where
  "read_entry rd h e = do { v \<leftarrow> rd h (snd e); Some (fst e, v) }"

lemma entry_copy: "deep_copy rd rf cp \<Longrightarrow> deep_copy (read_entry rd) (\<lambda>h e. rf h (snd e)) (copy_entry cp)"
  by (rule struct_copy[where val = "\<lambda>e v. Some (fst e, v)" and part = snd and with_part = "\<lambda>e v. (fst e, v)"])
    (simp_all add: read_entry_def copy_entry_def)

lemmas copy_rules = plain_copy ref_copy both_copy all_copy entry_copy

section \<open>The structs of api/v1 in the heap\<close>

text \<open>Pointers, slices and maps are references that may be nil; \<open>'f\<close> is a struct of another module.\<close>

type_synonym ref = "nat option"

record h_BaguaSpec =
  hb_EnableElastic :: bool
  hb_MinReplicas :: ref
  hb_MaxReplicas :: ref

record h_FrameworkSpec =
  hf_Bagua :: ref
  hf_MPI :: ref
  hf_Tensorflow :: ref

record h_JobPhasePolicy =
  hj_Failed :: ref
  hj_Succeeded :: ref

record h_RolePhasePolicy =
  hp_Failed :: ref
  hp_Succeeded :: ref
  hp_NodeDownAsFailed :: bool

record h_DependenceSpec =
  hd_RoleNames :: ref
  hd_RolePhase :: RolePhase
  hd_MPIHostFile :: ref

record h_RoleSpec =
  hr_ReplicaSpec :: ref
  hr_RolePhasePolicy :: h_RolePhasePolicy
  hr_Controller :: string
  hr_Dependence :: ref

record 'f h_AresJobSpec =
  hs_TTLSecondsAfterFailed :: ref
  hs_RunPolicy :: 'f
  hs_AvailablePorts :: ref
  hs_FrameworkType :: string
  hs_Framework :: h_FrameworkSpec
  hs_RoleSpecs :: ref
  hs_JobPhasePolicy :: ref

record h_ReplicaStatus =
  hx_Common :: ref
  hx_Pending :: int32
  hx_Unknown :: int32
  hx_Terminating :: int32

record 'f h_RoleStatus =
  ht_Phase :: RolePhase
  ht_Reason :: string
  ht_Message :: string
  ht_LastTransitionTime :: 'f
  ht_ReplicaStatus :: h_ReplicaStatus

record 'f h_AresJobStatus =
  hu_JobStatus :: ref
  hu_RoleStatuses :: ref
  hu_Phase :: JobPhase
  hu_RunningTime :: ref

record 'f h_AresJob =
  ha_TypeMeta :: "string \<times> string"
  ha_ObjectMeta :: 'f
  ha_Spec :: "'f h_AresJobSpec"
  ha_Status :: "'f h_AresJobStatus"

record 'f h_AresJobList =
  hl_TypeMeta :: "string \<times> string"
  hl_ListMeta :: 'f
  hl_Items :: ref

datatype 'f cell =
    CZero
  | CInt32 (un_Int32: int32) | CString (un_String: string) | CInt32s (un_Int32s: "int32 list")
  | CStrings (un_Strings: "string list") | CSlices (un_Slices: "ref list")
  | CMap (un_Map: "(ReplicaType \<times> ref) list")
  | CForeign (un_Foreign: 'f) | CCommon (un_Common: CommonReplicaStatus)
  | CBaguaSpec (un_BaguaSpec: h_BaguaSpec) | CMPISpec (un_MPISpec: MPISpec) | CTensorflowSpec (un_TensorflowSpec: TensorflowSpec)
  | CFrameworkSpec (un_FrameworkSpec: h_FrameworkSpec)
  | CJobPhasePolicy (un_JobPhasePolicy: h_JobPhasePolicy) | CRolePhasePolicy (un_RolePhasePolicy: h_RolePhasePolicy)
  | CDependenceSpec (un_DependenceSpec: h_DependenceSpec) | CRoleSpec (un_RoleSpec: h_RoleSpec)
  | CAresJobSpec (un_AresJobSpec: "'f h_AresJobSpec")
  | CReplicaStatus (un_ReplicaStatus: h_ReplicaStatus) | CRoleStatus (un_RoleStatus: "'f h_RoleStatus")
  | CAresJobStatus (un_AresJobStatus: "'f h_AresJobStatus")
  | CAresJob (un_AresJob: "'f h_AresJob") | CAresJobs (un_AresJobs: "'f h_AresJob list")
  | CAresJobList (un_AresJobList: "'f h_AresJobList")

text \<open>A typed view of a cell.\<close>

definition view :: "('c \<Rightarrow> bool) \<Rightarrow> ('c \<Rightarrow> 's) \<Rightarrow> 'c \<Rightarrow> 's option" where
  "view is un c = (if is c then Some (un c) else None)"

section \<open>The structs of other modules\<close>

record object_meta =
  om_Name :: string
  om_Namespace :: string
  om_UID :: string
  om_Labels :: labels
  om_Annotations :: labels
  om_Finalizers :: "string list"
  om_DeletionTimestamp :: "int option"

datatype foreign_value =
    VReplicaSpec ReplicaSpec | VRunPolicy RunPolicy | VJobStatus JobStatus | VTime "int option" | VObjectMeta object_meta | VListMeta string

fun as_ReplicaSpec where "as_ReplicaSpec (VReplicaSpec v) = Some v" | "as_ReplicaSpec _ = None"
fun as_RunPolicy where "as_RunPolicy (VRunPolicy v) = Some v" | "as_RunPolicy _ = None"
fun as_JobStatus where "as_JobStatus (VJobStatus v) = Some v" | "as_JobStatus _ = None"
fun as_Time where "as_Time (VTime v) = Some v" | "as_Time _ = None"
fun as_ObjectMeta where "as_ObjectMeta (VObjectMeta v) = Some v" | "as_ObjectMeta _ = None"
fun as_ListMeta where "as_ListMeta (VListMeta v) = Some v" | "as_ListMeta _ = None"

record 'f foreign =
  f_read :: "'f cell list \<Rightarrow> 'f \<Rightarrow> foreign_value option"
  f_refs :: "'f cell list \<Rightarrow> 'f \<Rightarrow> nat set"
  f_DeepCopyInto :: "'f \<Rightarrow> 'f cell list \<Rightarrow> ('f \<times> 'f cell list) option"
  f_Time_DeepCopy :: "ref \<Rightarrow> 'f cell list \<Rightarrow> (ref \<times> 'f cell list) option"

abbreviation "get_Foreign \<equiv> view is_CForeign un_Foreign"

definition read_as :: "(foreign_value \<Rightarrow> 'v option) \<Rightarrow> 'f foreign \<Rightarrow> 'f cell list \<Rightarrow> 'f \<Rightarrow> 'v option" where
  "read_as as F h f = do { v \<leftarrow> f_read F h f; as v }"

text \<open>The copies of other modules meet the contract.\<close>

locale foreign_copies =
  fixes F :: "'f foreign"
  assumes struct_copies: "deep_copy (f_read F) (f_refs F) (f_DeepCopyInto F)"
    and time_copies: "deep_copy (read_ref get_Foreign (f_read F)) (refs_ref get_Foreign (f_refs F)) (f_Time_DeepCopy F)"

section \<open>zz_generated.deepcopy.go\<close>

text \<open>Pointers to scalars and flat structs, and slices of scalars.\<close>

abbreviation "ref_Int32 \<equiv> copy_ref CZero (view is_CInt32 un_Int32) CInt32 assign"
abbreviation "ref_String \<equiv> copy_ref CZero (view is_CString un_String) CString assign"
abbreviation "ref_Int32s \<equiv> copy_ref CZero (view is_CInt32s un_Int32s) CInt32s assign"
abbreviation "ref_Strings \<equiv> copy_ref CZero (view is_CStrings un_Strings) CStrings assign"
abbreviation "ref_Slices \<equiv> copy_ref CZero (view is_CSlices un_Slices) CSlices (copy_all ref_Strings)"
abbreviation "ref_MPISpec \<equiv> copy_ref CZero (view is_CMPISpec un_MPISpec) CMPISpec assign"
abbreviation "ref_TensorflowSpec \<equiv> copy_ref CZero (view is_CTensorflowSpec un_TensorflowSpec) CTensorflowSpec assign"
abbreviation "ref_Common \<equiv> copy_ref CZero (view is_CCommon un_Common) CCommon assign"
abbreviation "ref_Foreign F \<equiv> copy_ref CZero (view is_CForeign un_Foreign) CForeign (f_DeepCopyInto F)"

definition DeepCopyInto_BaguaSpec :: "h_BaguaSpec \<Rightarrow> 'f cell list \<Rightarrow> (h_BaguaSpec \<times> 'f cell list) option" where
  "DeepCopyInto_BaguaSpec inp h = do {
     let out = inp;
     (p, h) \<leftarrow> ref_Int32 (hb_MinReplicas inp) h;
     let out = out\<lparr>hb_MinReplicas := p\<rparr>;
     (p, h) \<leftarrow> ref_Int32 (hb_MaxReplicas inp) h;
     let out = out\<lparr>hb_MaxReplicas := p\<rparr>;
     Some (out, h) }"

definition DeepCopyInto_MPISpec :: "MPISpec \<Rightarrow> 'f cell list \<Rightarrow> (MPISpec \<times> 'f cell list) option" where
  "DeepCopyInto_MPISpec inp h = Some (inp, h)"

definition DeepCopyInto_TensorflowSpec :: "TensorflowSpec \<Rightarrow> 'f cell list \<Rightarrow> (TensorflowSpec \<times> 'f cell list) option" where
  "DeepCopyInto_TensorflowSpec inp h = Some (inp, h)"

definition DeepCopy_BaguaSpec :: "ref \<Rightarrow> 'f cell list \<Rightarrow> (ref \<times> 'f cell list) option" where
  "DeepCopy_BaguaSpec = copy_ref CZero (view is_CBaguaSpec un_BaguaSpec) CBaguaSpec DeepCopyInto_BaguaSpec"

definition DeepCopy_MPISpec :: "ref \<Rightarrow> 'f cell list \<Rightarrow> (ref \<times> 'f cell list) option" where
  "DeepCopy_MPISpec = copy_ref CZero (view is_CMPISpec un_MPISpec) CMPISpec DeepCopyInto_MPISpec"

definition DeepCopy_TensorflowSpec :: "ref \<Rightarrow> 'f cell list \<Rightarrow> (ref \<times> 'f cell list) option" where
  "DeepCopy_TensorflowSpec = copy_ref CZero (view is_CTensorflowSpec un_TensorflowSpec) CTensorflowSpec DeepCopyInto_TensorflowSpec"

definition DeepCopyInto_FrameworkSpec :: "h_FrameworkSpec \<Rightarrow> 'f cell list \<Rightarrow> (h_FrameworkSpec \<times> 'f cell list) option" where
  "DeepCopyInto_FrameworkSpec inp h = do {
     let out = inp;
     (p, h) \<leftarrow> copy_ref CZero (view is_CBaguaSpec un_BaguaSpec) CBaguaSpec DeepCopyInto_BaguaSpec (hf_Bagua inp) h;
     let out = out\<lparr>hf_Bagua := p\<rparr>;
     (p, h) \<leftarrow> ref_MPISpec (hf_MPI inp) h;
     let out = out\<lparr>hf_MPI := p\<rparr>;
     (p, h) \<leftarrow> ref_TensorflowSpec (hf_Tensorflow inp) h;
     let out = out\<lparr>hf_Tensorflow := p\<rparr>;
     Some (out, h) }"

definition DeepCopy_FrameworkSpec :: "ref \<Rightarrow> 'f cell list \<Rightarrow> (ref \<times> 'f cell list) option" where
  "DeepCopy_FrameworkSpec = copy_ref CZero (view is_CFrameworkSpec un_FrameworkSpec) CFrameworkSpec DeepCopyInto_FrameworkSpec"

definition DeepCopyInto_JobPhasePolicy :: "h_JobPhasePolicy \<Rightarrow> 'f cell list \<Rightarrow> (h_JobPhasePolicy \<times> 'f cell list) option" where
  "DeepCopyInto_JobPhasePolicy inp h = do {
     let out = inp;
     (p, h) \<leftarrow> ref_Slices (hj_Failed inp) h;
     let out = out\<lparr>hj_Failed := p\<rparr>;
     (p, h) \<leftarrow> ref_Slices (hj_Succeeded inp) h;
     let out = out\<lparr>hj_Succeeded := p\<rparr>;
     Some (out, h) }"

definition DeepCopy_JobPhasePolicy :: "ref \<Rightarrow> 'f cell list \<Rightarrow> (ref \<times> 'f cell list) option" where
  "DeepCopy_JobPhasePolicy = copy_ref CZero (view is_CJobPhasePolicy un_JobPhasePolicy) CJobPhasePolicy DeepCopyInto_JobPhasePolicy"

definition DeepCopyInto_RolePhasePolicy :: "h_RolePhasePolicy \<Rightarrow> 'f cell list \<Rightarrow> (h_RolePhasePolicy \<times> 'f cell list) option" where
  "DeepCopyInto_RolePhasePolicy inp h = do {
     let out = inp;
     (p, h) \<leftarrow> ref_String (hp_Failed inp) h;
     let out = out\<lparr>hp_Failed := p\<rparr>;
     (p, h) \<leftarrow> ref_String (hp_Succeeded inp) h;
     let out = out\<lparr>hp_Succeeded := p\<rparr>;
     Some (out, h) }"

definition DeepCopy_RolePhasePolicy :: "ref \<Rightarrow> 'f cell list \<Rightarrow> (ref \<times> 'f cell list) option" where
  "DeepCopy_RolePhasePolicy = copy_ref CZero (view is_CRolePhasePolicy un_RolePhasePolicy) CRolePhasePolicy DeepCopyInto_RolePhasePolicy"

definition DeepCopyInto_DependenceSpec :: "h_DependenceSpec \<Rightarrow> 'f cell list \<Rightarrow> (h_DependenceSpec \<times> 'f cell list) option" where
  "DeepCopyInto_DependenceSpec inp h = do {
     let out = inp;
     (p, h) \<leftarrow> ref_Strings (hd_RoleNames inp) h;
     let out = out\<lparr>hd_RoleNames := p\<rparr>;
     (p, h) \<leftarrow> ref_String (hd_MPIHostFile inp) h;
     let out = out\<lparr>hd_MPIHostFile := p\<rparr>;
     Some (out, h) }"

definition DeepCopy_DependenceSpec :: "ref \<Rightarrow> 'f cell list \<Rightarrow> (ref \<times> 'f cell list) option" where
  "DeepCopy_DependenceSpec = copy_ref CZero (view is_CDependenceSpec un_DependenceSpec) CDependenceSpec DeepCopyInto_DependenceSpec"

definition DeepCopyInto_RoleSpec :: "'f foreign \<Rightarrow> h_RoleSpec \<Rightarrow> 'f cell list \<Rightarrow> (h_RoleSpec \<times> 'f cell list) option" where
  "DeepCopyInto_RoleSpec F inp h = do {
     let out = inp;
     (p, h) \<leftarrow> ref_Foreign F (hr_ReplicaSpec inp) h;
     let out = out\<lparr>hr_ReplicaSpec := p\<rparr>;
     (pol, h) \<leftarrow> DeepCopyInto_RolePhasePolicy (hr_RolePhasePolicy inp) h;
     let out = out\<lparr>hr_RolePhasePolicy := pol\<rparr>;
     (p, h) \<leftarrow> copy_ref CZero (view is_CDependenceSpec un_DependenceSpec) CDependenceSpec DeepCopyInto_DependenceSpec (hr_Dependence inp) h;
     let out = out\<lparr>hr_Dependence := p\<rparr>;
     Some (out, h) }"

definition DeepCopy_RoleSpec :: "'f foreign \<Rightarrow> ref \<Rightarrow> 'f cell list \<Rightarrow> (ref \<times> 'f cell list) option" where
  "DeepCopy_RoleSpec F = copy_ref CZero (view is_CRoleSpec un_RoleSpec) CRoleSpec (DeepCopyInto_RoleSpec F)"

definition DeepCopyInto_AresJobSpec :: "'f foreign \<Rightarrow> 'f h_AresJobSpec \<Rightarrow> 'f cell list \<Rightarrow> ('f h_AresJobSpec \<times> 'f cell list) option" where
  "DeepCopyInto_AresJobSpec F inp h = do {
     let out = inp;
     (p, h) \<leftarrow> ref_Int32 (hs_TTLSecondsAfterFailed inp) h;
     let out = out\<lparr>hs_TTLSecondsAfterFailed := p\<rparr>;
     (f, h) \<leftarrow> f_DeepCopyInto F (hs_RunPolicy inp) h;
     let out = out\<lparr>hs_RunPolicy := f\<rparr>;
     (p, h) \<leftarrow> ref_Int32s (hs_AvailablePorts inp) h;
     let out = out\<lparr>hs_AvailablePorts := p\<rparr>;
     (fw, h) \<leftarrow> DeepCopyInto_FrameworkSpec (hs_Framework inp) h;
     let out = out\<lparr>hs_Framework := fw\<rparr>;
     (p, h) \<leftarrow> copy_ref CZero (view is_CMap un_Map) CMap
        (copy_all (copy_entry (copy_ref CZero (view is_CRoleSpec un_RoleSpec) CRoleSpec (DeepCopyInto_RoleSpec F)))) (hs_RoleSpecs inp) h;
     let out = out\<lparr>hs_RoleSpecs := p\<rparr>;
     (p, h) \<leftarrow> copy_ref CZero (view is_CJobPhasePolicy un_JobPhasePolicy) CJobPhasePolicy DeepCopyInto_JobPhasePolicy (hs_JobPhasePolicy inp) h;
     let out = out\<lparr>hs_JobPhasePolicy := p\<rparr>;
     Some (out, h) }"

definition DeepCopy_AresJobSpec :: "'f foreign \<Rightarrow> ref \<Rightarrow> 'f cell list \<Rightarrow> (ref \<times> 'f cell list) option" where
  "DeepCopy_AresJobSpec F = copy_ref CZero (view is_CAresJobSpec un_AresJobSpec) CAresJobSpec (DeepCopyInto_AresJobSpec F)"

definition DeepCopyInto_ReplicaStatus :: "h_ReplicaStatus \<Rightarrow> 'f cell list \<Rightarrow> (h_ReplicaStatus \<times> 'f cell list) option" where
  "DeepCopyInto_ReplicaStatus inp h = do {
     let out = inp;
     (p, h) \<leftarrow> ref_Common (hx_Common inp) h;
     let out = out\<lparr>hx_Common := p\<rparr>;
     Some (out, h) }"

definition DeepCopy_ReplicaStatus :: "ref \<Rightarrow> 'f cell list \<Rightarrow> (ref \<times> 'f cell list) option" where
  "DeepCopy_ReplicaStatus = copy_ref CZero (view is_CReplicaStatus un_ReplicaStatus) CReplicaStatus DeepCopyInto_ReplicaStatus"

definition DeepCopyInto_RoleStatus :: "'f foreign \<Rightarrow> 'f h_RoleStatus \<Rightarrow> 'f cell list \<Rightarrow> ('f h_RoleStatus \<times> 'f cell list) option" where
  "DeepCopyInto_RoleStatus F inp h = do {
     let out = inp;
     (t, h) \<leftarrow> f_DeepCopyInto F (ht_LastTransitionTime inp) h;
     let out = out\<lparr>ht_LastTransitionTime := t\<rparr>;
     (st, h) \<leftarrow> DeepCopyInto_ReplicaStatus (ht_ReplicaStatus inp) h;
     let out = out\<lparr>ht_ReplicaStatus := st\<rparr>;
     Some (out, h) }"

definition DeepCopy_RoleStatus :: "'f foreign \<Rightarrow> ref \<Rightarrow> 'f cell list \<Rightarrow> (ref \<times> 'f cell list) option" where
  "DeepCopy_RoleStatus F = copy_ref CZero (view is_CRoleStatus un_RoleStatus) CRoleStatus (DeepCopyInto_RoleStatus F)"

definition DeepCopyInto_AresJobStatus :: "'f foreign \<Rightarrow> 'f h_AresJobStatus \<Rightarrow> 'f cell list \<Rightarrow> ('f h_AresJobStatus \<times> 'f cell list) option" where
  "DeepCopyInto_AresJobStatus F inp h = do {
     let out = inp;
     (p, h) \<leftarrow> ref_Foreign F (hu_JobStatus inp) h;
     let out = out\<lparr>hu_JobStatus := p\<rparr>;
     (p, h) \<leftarrow> copy_ref CZero (view is_CMap un_Map) CMap
        (copy_all (copy_entry (copy_ref CZero (view is_CRoleStatus un_RoleStatus) CRoleStatus (DeepCopyInto_RoleStatus F)))) (hu_RoleStatuses inp) h;
     let out = out\<lparr>hu_RoleStatuses := p\<rparr>;
     (p, h) \<leftarrow> (if hu_RunningTime inp \<noteq> None then f_Time_DeepCopy F (hu_RunningTime inp) h else Some (None, h));
     let out = out\<lparr>hu_RunningTime := p\<rparr>;
     Some (out, h) }"

definition DeepCopy_AresJobStatus :: "'f foreign \<Rightarrow> ref \<Rightarrow> 'f cell list \<Rightarrow> (ref \<times> 'f cell list) option" where
  "DeepCopy_AresJobStatus F = copy_ref CZero (view is_CAresJobStatus un_AresJobStatus) CAresJobStatus (DeepCopyInto_AresJobStatus F)"

definition DeepCopyInto_AresJob :: "'f foreign \<Rightarrow> 'f h_AresJob \<Rightarrow> 'f cell list \<Rightarrow> ('f h_AresJob \<times> 'f cell list) option" where
  "DeepCopyInto_AresJob F inp h = do {
     let out = inp;
     let out = out\<lparr>ha_TypeMeta := ha_TypeMeta inp\<rparr>;
     (f, h) \<leftarrow> f_DeepCopyInto F (ha_ObjectMeta inp) h;
     let out = out\<lparr>ha_ObjectMeta := f\<rparr>;
     (sp, h) \<leftarrow> DeepCopyInto_AresJobSpec F (ha_Spec inp) h;
     let out = out\<lparr>ha_Spec := sp\<rparr>;
     (st, h) \<leftarrow> DeepCopyInto_AresJobStatus F (ha_Status inp) h;
     let out = out\<lparr>ha_Status := st\<rparr>;
     Some (out, h) }"

definition DeepCopy_AresJob :: "'f foreign \<Rightarrow> ref \<Rightarrow> 'f cell list \<Rightarrow> (ref \<times> 'f cell list) option" where
  "DeepCopy_AresJob F = copy_ref CZero (view is_CAresJob un_AresJob) CAresJob (DeepCopyInto_AresJob F)"

definition DeepCopyObject_AresJob :: "'f foreign \<Rightarrow> ref \<Rightarrow> 'f cell list \<Rightarrow> (ref \<times> 'f cell list) option" where
  "DeepCopyObject_AresJob F p h = do { (c, h) \<leftarrow> DeepCopy_AresJob F p h; Some (if c \<noteq> None then c else None, h) }"

definition DeepCopyInto_AresJobList :: "'f foreign \<Rightarrow> 'f h_AresJobList \<Rightarrow> 'f cell list \<Rightarrow> ('f h_AresJobList \<times> 'f cell list) option" where
  "DeepCopyInto_AresJobList F inp h = do {
     let out = inp;
     let out = out\<lparr>hl_TypeMeta := hl_TypeMeta inp\<rparr>;
     (f, h) \<leftarrow> f_DeepCopyInto F (hl_ListMeta inp) h;
     let out = out\<lparr>hl_ListMeta := f\<rparr>;
     (p, h) \<leftarrow> copy_ref CZero (view is_CAresJobs un_AresJobs) CAresJobs (copy_all (DeepCopyInto_AresJob F)) (hl_Items inp) h;
     let out = out\<lparr>hl_Items := p\<rparr>;
     Some (out, h) }"

definition DeepCopy_AresJobList :: "'f foreign \<Rightarrow> ref \<Rightarrow> 'f cell list \<Rightarrow> (ref \<times> 'f cell list) option" where
  "DeepCopy_AresJobList F = copy_ref CZero (view is_CAresJobList un_AresJobList) CAresJobList (DeepCopyInto_AresJobList F)"

definition DeepCopyObject_AresJobList :: "'f foreign \<Rightarrow> ref \<Rightarrow> 'f cell list \<Rightarrow> (ref \<times> 'f cell list) option" where
  "DeepCopyObject_AresJobList F p h = do { (c, h) \<leftarrow> DeepCopy_AresJobList F p h; Some (if c \<noteq> None then c else None, h) }"

section \<open>The values in the heap\<close>

definition slice_val :: "'a list option \<Rightarrow> 'a list" where
  "slice_val p = (case p of None \<Rightarrow> [] | Some xs \<Rightarrow> xs)"

abbreviation "rd_Int32 \<equiv> read_ref (view is_CInt32 un_Int32) read_plain"
abbreviation "rf_Int32 \<equiv> refs_ref (view is_CInt32 un_Int32) refs_plain"
abbreviation "rd_String \<equiv> read_ref (view is_CString un_String) read_plain"
abbreviation "rf_String \<equiv> refs_ref (view is_CString un_String) refs_plain"
abbreviation "rd_Int32s \<equiv> read_ref (view is_CInt32s un_Int32s) read_plain"
abbreviation "rf_Int32s \<equiv> refs_ref (view is_CInt32s un_Int32s) refs_plain"
abbreviation "rd_Strings \<equiv> read_ref (view is_CStrings un_Strings) read_plain"
abbreviation "rf_Strings \<equiv> refs_ref (view is_CStrings un_Strings) refs_plain"
abbreviation "rd_MPISpec \<equiv> read_ref (view is_CMPISpec un_MPISpec) read_plain"
abbreviation "rf_MPISpec \<equiv> refs_ref (view is_CMPISpec un_MPISpec) refs_plain"
abbreviation "rd_TensorflowSpec \<equiv> read_ref (view is_CTensorflowSpec un_TensorflowSpec) read_plain"
abbreviation "rf_TensorflowSpec \<equiv> refs_ref (view is_CTensorflowSpec un_TensorflowSpec) refs_plain"
abbreviation "rd_Common \<equiv> read_ref (view is_CCommon un_Common) read_plain"
abbreviation "rf_Common \<equiv> refs_ref (view is_CCommon un_Common) refs_plain"
abbreviation "rd_Slices \<equiv> read_ref (view is_CSlices un_Slices) (read_all rd_Strings)"
abbreviation "rf_Slices \<equiv> refs_ref (view is_CSlices un_Slices) (refs_all rf_Strings)"
abbreviation "rd_Foreign F \<equiv> read_ref (view is_CForeign un_Foreign) (f_read F)"
abbreviation "rf_Foreign F \<equiv> refs_ref (view is_CForeign un_Foreign) (f_refs F)"

lemma flat_copies:
  "deep_copy rd_Int32 rf_Int32 ref_Int32"
  "deep_copy rd_String rf_String ref_String"
  "deep_copy rd_Int32s rf_Int32s ref_Int32s"
  "deep_copy rd_Strings rf_Strings ref_Strings"
  "deep_copy rd_MPISpec rf_MPISpec ref_MPISpec"
  "deep_copy rd_TensorflowSpec rf_TensorflowSpec ref_TensorflowSpec"
  "deep_copy rd_Common rf_Common ref_Common"
  by (rule ref_copy[OF plain_copy]; simp add: view_def)+

lemma slices_copy: "deep_copy rd_Slices rf_Slices ref_Slices"
  by (rule ref_copy[OF all_copy[OF flat_copies(4)]]) (simp add: view_def)

fun value_BaguaSpec where
  "value_BaguaSpec s (v0, v1) = Some \<lparr>EnableElastic = hb_EnableElastic s, MinReplicas = v0, MaxReplicas = v1\<rparr>"

definition read_BaguaSpec :: "'f cell list \<Rightarrow> h_BaguaSpec \<Rightarrow> BaguaSpec option" where
  "read_BaguaSpec h s = do { v \<leftarrow> read_both rd_Int32 rd_Int32 h (hb_MinReplicas s, hb_MaxReplicas s); value_BaguaSpec s v }"

definition refs_BaguaSpec :: "'f cell list \<Rightarrow> h_BaguaSpec \<Rightarrow> nat set" where
  "refs_BaguaSpec h s = refs_both rf_Int32 rf_Int32 h (hb_MinReplicas s, hb_MaxReplicas s)"

fun value_FrameworkSpec where
  "value_FrameworkSpec s (v0, (v1, v2)) = Some \<lparr>fw_Bagua = v0, fw_MPI = v1, fw_Tensorflow = v2\<rparr>"

definition read_FrameworkSpec :: "'f cell list \<Rightarrow> h_FrameworkSpec \<Rightarrow> FrameworkSpec option" where
  "read_FrameworkSpec h s = do { v \<leftarrow> read_both (read_ref (view is_CBaguaSpec un_BaguaSpec) read_BaguaSpec) (read_both rd_MPISpec rd_TensorflowSpec) h (hf_Bagua s, (hf_MPI s, hf_Tensorflow s)); value_FrameworkSpec s v }"

definition refs_FrameworkSpec :: "'f cell list \<Rightarrow> h_FrameworkSpec \<Rightarrow> nat set" where
  "refs_FrameworkSpec h s = refs_both (refs_ref (view is_CBaguaSpec un_BaguaSpec) refs_BaguaSpec) (refs_both rf_MPISpec rf_TensorflowSpec) h (hf_Bagua s, (hf_MPI s, hf_Tensorflow s))"

fun value_JobPhasePolicy where
  "value_JobPhasePolicy s (v0, v1) = Some \<lparr>jpp_Failed = map slice_val (slice_val v0), jpp_Succeeded = map slice_val (slice_val v1)\<rparr>"

definition read_JobPhasePolicy :: "'f cell list \<Rightarrow> h_JobPhasePolicy \<Rightarrow> JobPhasePolicy option" where
  "read_JobPhasePolicy h s = do { v \<leftarrow> read_both rd_Slices rd_Slices h (hj_Failed s, hj_Succeeded s); value_JobPhasePolicy s v }"

definition refs_JobPhasePolicy :: "'f cell list \<Rightarrow> h_JobPhasePolicy \<Rightarrow> nat set" where
  "refs_JobPhasePolicy h s = refs_both rf_Slices rf_Slices h (hj_Failed s, hj_Succeeded s)"

fun value_RolePhasePolicy where
  "value_RolePhasePolicy s (v0, v1) = Some \<lparr>rpp_Failed = v0, rpp_Succeeded = v1, rpp_NodeDownAsFailed = hp_NodeDownAsFailed s\<rparr>"

definition read_RolePhasePolicy :: "'f cell list \<Rightarrow> h_RolePhasePolicy \<Rightarrow> RolePhasePolicy option" where
  "read_RolePhasePolicy h s = do { v \<leftarrow> read_both rd_String rd_String h (hp_Failed s, hp_Succeeded s); value_RolePhasePolicy s v }"

definition refs_RolePhasePolicy :: "'f cell list \<Rightarrow> h_RolePhasePolicy \<Rightarrow> nat set" where
  "refs_RolePhasePolicy h s = refs_both rf_String rf_String h (hp_Failed s, hp_Succeeded s)"

fun value_DependenceSpec where
  "value_DependenceSpec s (v0, v1) = Some \<lparr>dep_RoleNames = slice_val v0, dep_RolePhase = hd_RolePhase s, dep_MPIHostFile = v1\<rparr>"

definition read_DependenceSpec :: "'f cell list \<Rightarrow> h_DependenceSpec \<Rightarrow> DependenceSpec option" where
  "read_DependenceSpec h s = do { v \<leftarrow> read_both rd_Strings rd_String h (hd_RoleNames s, hd_MPIHostFile s); value_DependenceSpec s v }"

definition refs_DependenceSpec :: "'f cell list \<Rightarrow> h_DependenceSpec \<Rightarrow> nat set" where
  "refs_DependenceSpec h s = refs_both rf_Strings rf_String h (hd_RoleNames s, hd_MPIHostFile s)"

fun value_ReplicaStatus where
  "value_ReplicaStatus s v0 = Some \<lparr>rst_Common = v0, rst_Pending = hx_Pending s, rst_Unknown = hx_Unknown s, rst_Terminating = hx_Terminating s\<rparr>"

definition read_ReplicaStatus :: "'f cell list \<Rightarrow> h_ReplicaStatus \<Rightarrow> ReplicaStatus option" where
  "read_ReplicaStatus h s = do { v \<leftarrow> rd_Common h (hx_Common s); value_ReplicaStatus s v }"

definition refs_ReplicaStatus :: "'f cell list \<Rightarrow> h_ReplicaStatus \<Rightarrow> nat set" where
  "refs_ReplicaStatus h s = rf_Common h (hx_Common s)"

text \<open>A pointer to a struct of another module, read as the type it has.\<close>

definition opt_as :: "(foreign_value \<Rightarrow> 'v option) \<Rightarrow> foreign_value option \<Rightarrow> 'v option option" where
  "opt_as as p = (case p of None \<Rightarrow> Some None | Some v \<Rightarrow> map_option Some (as v))"

fun value_RoleSpec where
  "value_RoleSpec s (v0, (v1, v2)) = do {
     rs \<leftarrow> opt_as as_ReplicaSpec v0;
     Some \<lparr>role_ReplicaSpec = rs, role_RolePhasePolicy = v1, role_Controller = hr_Controller s, role_Dependence = v2\<rparr> }"

definition read_RoleSpec :: "'f foreign \<Rightarrow> 'f cell list \<Rightarrow> h_RoleSpec \<Rightarrow> RoleSpec option" where
  "read_RoleSpec F h s = do { v \<leftarrow> read_both (rd_Foreign F) (read_both read_RolePhasePolicy (read_ref (view is_CDependenceSpec un_DependenceSpec) read_DependenceSpec)) h (hr_ReplicaSpec s, (hr_RolePhasePolicy s, hr_Dependence s)); value_RoleSpec s v }"

definition refs_RoleSpec :: "'f foreign \<Rightarrow> 'f cell list \<Rightarrow> h_RoleSpec \<Rightarrow> nat set" where
  "refs_RoleSpec F h s = refs_both (rf_Foreign F) (refs_both refs_RolePhasePolicy (refs_ref (view is_CDependenceSpec un_DependenceSpec) refs_DependenceSpec)) h (hr_ReplicaSpec s, (hr_RolePhasePolicy s, hr_Dependence s))"

fun value_AresJobSpec where
  "value_AresJobSpec s (v0, (v1, (v2, (v3, (v4, v5))))) = do {
     run \<leftarrow> as_RunPolicy v1;
     Some \<lparr>spec_TTLSecondsAfterFailed = v0, spec_RunPolicy = run, spec_AvailablePorts = slice_val v2, spec_FrameworkType = hs_FrameworkType s,
       spec_Framework = v3, spec_RoleSpecs = v4, spec_JobPhasePolicy = v5\<rparr> }"

definition read_AresJobSpec :: "'f foreign \<Rightarrow> 'f cell list \<Rightarrow> 'f h_AresJobSpec \<Rightarrow> AresJobSpec option" where
  "read_AresJobSpec F h s = do { v \<leftarrow> read_both rd_Int32 (read_both (f_read F) (read_both rd_Int32s (read_both read_FrameworkSpec (read_both (read_ref (view is_CMap un_Map) (read_all (read_entry (read_ref (view is_CRoleSpec un_RoleSpec) (read_RoleSpec F))))) (read_ref (view is_CJobPhasePolicy un_JobPhasePolicy) read_JobPhasePolicy))))) h (hs_TTLSecondsAfterFailed s, (hs_RunPolicy s, (hs_AvailablePorts s, (hs_Framework s, (hs_RoleSpecs s, hs_JobPhasePolicy s))))); value_AresJobSpec s v }"

definition refs_AresJobSpec :: "'f foreign \<Rightarrow> 'f cell list \<Rightarrow> 'f h_AresJobSpec \<Rightarrow> nat set" where
  "refs_AresJobSpec F h s = refs_both rf_Int32 (refs_both (f_refs F) (refs_both rf_Int32s (refs_both refs_FrameworkSpec (refs_both (refs_ref (view is_CMap un_Map) (refs_all (\<lambda>h e. refs_ref (view is_CRoleSpec un_RoleSpec) (refs_RoleSpec F) h (snd e)))) (refs_ref (view is_CJobPhasePolicy un_JobPhasePolicy) refs_JobPhasePolicy))))) h (hs_TTLSecondsAfterFailed s, (hs_RunPolicy s, (hs_AvailablePorts s, (hs_Framework s, (hs_RoleSpecs s, hs_JobPhasePolicy s)))))"

fun value_RoleStatus where
  "value_RoleStatus s (v0, v1) = do {
     time \<leftarrow> as_Time v0;
     Some \<lparr>role_Phase = ht_Phase s, role_Reason = ht_Reason s, role_Message = ht_Message s, role_LastTransitionTime = time, role_ReplicaStatus = v1\<rparr> }"

definition read_RoleStatus :: "'f foreign \<Rightarrow> 'f cell list \<Rightarrow> 'f h_RoleStatus \<Rightarrow> RoleStatus option" where
  "read_RoleStatus F h s = do { v \<leftarrow> read_both (f_read F) read_ReplicaStatus h (ht_LastTransitionTime s, ht_ReplicaStatus s); value_RoleStatus s v }"

definition refs_RoleStatus :: "'f foreign \<Rightarrow> 'f cell list \<Rightarrow> 'f h_RoleStatus \<Rightarrow> nat set" where
  "refs_RoleStatus F h s = refs_both (f_refs F) refs_ReplicaStatus h (ht_LastTransitionTime s, ht_ReplicaStatus s)"

fun value_AresJobStatus where
  "value_AresJobStatus s (v0, (v1, v2)) = do {
     js \<leftarrow> opt_as as_JobStatus v0;
     time \<leftarrow> opt_as as_Time v2;
     Some \<lparr>st_JobStatus = js, st_RoleStatuses = v1, st_Phase = hu_Phase s, st_RunningTime = (case time of None \<Rightarrow> None | Some t \<Rightarrow> t)\<rparr> }"

definition read_AresJobStatus :: "'f foreign \<Rightarrow> 'f cell list \<Rightarrow> 'f h_AresJobStatus \<Rightarrow> AresJobStatus option" where
  "read_AresJobStatus F h s = do { v \<leftarrow> read_both (rd_Foreign F) (read_both (read_ref (view is_CMap un_Map) (read_all (read_entry (read_ref (view is_CRoleStatus un_RoleStatus) (read_RoleStatus F))))) (rd_Foreign F)) h (hu_JobStatus s, (hu_RoleStatuses s, hu_RunningTime s)); value_AresJobStatus s v }"

definition refs_AresJobStatus :: "'f foreign \<Rightarrow> 'f cell list \<Rightarrow> 'f h_AresJobStatus \<Rightarrow> nat set" where
  "refs_AresJobStatus F h s = refs_both (rf_Foreign F) (refs_both (refs_ref (view is_CMap un_Map) (refs_all (\<lambda>h e. refs_ref (view is_CRoleStatus un_RoleStatus) (refs_RoleStatus F) h (snd e)))) (rf_Foreign F)) h (hu_JobStatus s, (hu_RoleStatuses s, hu_RunningTime s))"

fun value_AresJob where
  "value_AresJob s (v0, (v1, v2)) = do {
     m \<leftarrow> as_ObjectMeta v0;
     Some \<lparr>job_Name = om_Name m, job_Namespace = om_Namespace m, job_UID = om_UID m, job_Labels = om_Labels m, job_Annotations = om_Annotations m,
       job_Finalizers = om_Finalizers m, job_DeletionTimestamp = om_DeletionTimestamp m, job_Spec = v1, job_Status = v2\<rparr> }"

definition read_AresJob :: "'f foreign \<Rightarrow> 'f cell list \<Rightarrow> 'f h_AresJob \<Rightarrow> AresJob option" where
  "read_AresJob F h s = do { v \<leftarrow> read_both (f_read F) (read_both (read_AresJobSpec F) (read_AresJobStatus F)) h (ha_ObjectMeta s, (ha_Spec s, ha_Status s)); value_AresJob s v }"

definition refs_AresJob :: "'f foreign \<Rightarrow> 'f cell list \<Rightarrow> 'f h_AresJob \<Rightarrow> nat set" where
  "refs_AresJob F h s = refs_both (f_refs F) (refs_both (refs_AresJobSpec F) (refs_AresJobStatus F)) h (ha_ObjectMeta s, (ha_Spec s, ha_Status s))"

fun value_AresJobList where
  "value_AresJobList s (v0, v1) = do {
     m \<leftarrow> as_ListMeta v0;
     Some (m, slice_val v1) }"

definition read_AresJobList :: "'f foreign \<Rightarrow> 'f cell list \<Rightarrow> 'f h_AresJobList \<Rightarrow> (string \<times> AresJob list) option" where
  "read_AresJobList F h s = do { v \<leftarrow> read_both (f_read F) (read_ref (view is_CAresJobs un_AresJobs) (read_all (read_AresJob F))) h (hl_ListMeta s, hl_Items s); value_AresJobList s v }"

definition refs_AresJobList :: "'f foreign \<Rightarrow> 'f cell list \<Rightarrow> 'f h_AresJobList \<Rightarrow> nat set" where
  "refs_AresJobList F h s = refs_both (f_refs F) (refs_ref (view is_CAresJobs un_AresJobs) (refs_all (refs_AresJob F))) h (hl_ListMeta s, hl_Items s)"

section \<open>Every generated copy meets the contract\<close>

lemma BaguaSpec_copy: "deep_copy read_BaguaSpec refs_BaguaSpec DeepCopyInto_BaguaSpec"
  by (rule struct_copy[OF both_copy[OF flat_copies(1) flat_copies(1)], where part = "\<lambda>s. (hb_MinReplicas s, hb_MaxReplicas s)" and
      val = value_BaguaSpec and with_part = "\<lambda>s t. s\<lparr>hb_MinReplicas := fst t, hb_MaxReplicas := snd t\<rparr>"])
    (auto simp: read_BaguaSpec_def refs_BaguaSpec_def DeepCopyInto_BaguaSpec_def copy_both_def Let_def fun_eq_iff split: Option.bind_splits prod.splits)

lemma FrameworkSpec_copy: "deep_copy read_FrameworkSpec refs_FrameworkSpec DeepCopyInto_FrameworkSpec"
proof -
  have b: "deep_copy (read_ref (view is_CBaguaSpec un_BaguaSpec) read_BaguaSpec) (refs_ref (view is_CBaguaSpec un_BaguaSpec) refs_BaguaSpec)
      (copy_ref CZero (view is_CBaguaSpec un_BaguaSpec) CBaguaSpec DeepCopyInto_BaguaSpec)"
    by (rule ref_copy[OF BaguaSpec_copy]) (simp add: view_def)
  show ?thesis
  by (rule struct_copy[OF both_copy[OF b both_copy[OF flat_copies(5) flat_copies(6)]], where part = "\<lambda>s. (hf_Bagua s, (hf_MPI s, hf_Tensorflow s))" and
      val = value_FrameworkSpec and with_part = "\<lambda>s t. s\<lparr>hf_Bagua := fst t, hf_MPI := fst (snd t), hf_Tensorflow := snd (snd t)\<rparr>"])
    (auto simp: read_FrameworkSpec_def refs_FrameworkSpec_def DeepCopyInto_FrameworkSpec_def copy_both_def Let_def fun_eq_iff split: Option.bind_splits prod.splits)
qed

lemma JobPhasePolicy_copy: "deep_copy read_JobPhasePolicy refs_JobPhasePolicy DeepCopyInto_JobPhasePolicy"
  by (rule struct_copy[OF both_copy[OF slices_copy slices_copy], where part = "\<lambda>s. (hj_Failed s, hj_Succeeded s)" and
      val = value_JobPhasePolicy and with_part = "\<lambda>s t. s\<lparr>hj_Failed := fst t, hj_Succeeded := snd t\<rparr>"])
    (auto simp: read_JobPhasePolicy_def refs_JobPhasePolicy_def DeepCopyInto_JobPhasePolicy_def copy_both_def Let_def fun_eq_iff split: Option.bind_splits prod.splits)

lemma RolePhasePolicy_copy: "deep_copy read_RolePhasePolicy refs_RolePhasePolicy DeepCopyInto_RolePhasePolicy"
  by (rule struct_copy[OF both_copy[OF flat_copies(2) flat_copies(2)], where part = "\<lambda>s. (hp_Failed s, hp_Succeeded s)" and
      val = value_RolePhasePolicy and with_part = "\<lambda>s t. s\<lparr>hp_Failed := fst t, hp_Succeeded := snd t\<rparr>"])
    (auto simp: read_RolePhasePolicy_def refs_RolePhasePolicy_def DeepCopyInto_RolePhasePolicy_def copy_both_def Let_def fun_eq_iff split: Option.bind_splits prod.splits)

lemma DependenceSpec_copy: "deep_copy read_DependenceSpec refs_DependenceSpec DeepCopyInto_DependenceSpec"
  by (rule struct_copy[OF both_copy[OF flat_copies(4) flat_copies(2)], where part = "\<lambda>s. (hd_RoleNames s, hd_MPIHostFile s)" and
      val = value_DependenceSpec and with_part = "\<lambda>s t. s\<lparr>hd_RoleNames := fst t, hd_MPIHostFile := snd t\<rparr>"])
    (auto simp: read_DependenceSpec_def refs_DependenceSpec_def DeepCopyInto_DependenceSpec_def copy_both_def Let_def fun_eq_iff split: Option.bind_splits prod.splits)

lemma ReplicaStatus_copy: "deep_copy read_ReplicaStatus refs_ReplicaStatus DeepCopyInto_ReplicaStatus"
  by (rule struct_copy[OF flat_copies(7), where part = "\<lambda>s. hx_Common s" and
      val = value_ReplicaStatus and with_part = "\<lambda>s t. s\<lparr>hx_Common := t\<rparr>"])
    (auto simp: read_ReplicaStatus_def refs_ReplicaStatus_def DeepCopyInto_ReplicaStatus_def copy_both_def Let_def fun_eq_iff split: Option.bind_splits prod.splits)

lemma nil_guard:
  assumes C: "deep_copy (read_ref get rd) (refs_ref get rf) cp"
  shows "deep_copy (read_ref get rd) (refs_ref get rf) (\<lambda>p h. if p \<noteq> None then cp p h else Some (None, h))"
proof -
  have "deep_copy_axioms (read_ref get rd) (refs_ref get rf) (\<lambda>p h. if p \<noteq> None then cp p h else Some (None, h))"
  proof
    fix h p v
    assume r: "read_ref get rd h p = Some v"
    show "\<exists>q new. (if p \<noteq> None then cp p h else Some (None, h)) = Some (q, h @ new) \<and> read_ref get rd (h @ new) q = Some v \<and>
        refs_ref get rf (h @ new) q \<subseteq> {length h..<length h + length new}"
    proof (cases p)
      case None
      with r show ?thesis by (simp add: read_ref_def refs_ref_def)
    next
      case (Some a)
      with deep_copy.copies[OF C r] show ?thesis by simp
    qed
  qed
  with C show ?thesis by (simp add: deep_copy_def)
qed

context foreign_copies
begin

lemma foreign_ref_copy: "deep_copy (rd_Foreign F) (rf_Foreign F) (ref_Foreign F)"
  by (rule ref_copy[OF struct_copies]) (simp add: view_def)

lemma RoleSpec_copy: "deep_copy (read_RoleSpec F) (refs_RoleSpec F) (DeepCopyInto_RoleSpec F)"
proof -
  have dep: "deep_copy (read_ref (view is_CDependenceSpec un_DependenceSpec) read_DependenceSpec) (refs_ref (view is_CDependenceSpec un_DependenceSpec) refs_DependenceSpec) (copy_ref CZero (view is_CDependenceSpec un_DependenceSpec) CDependenceSpec DeepCopyInto_DependenceSpec)"
    by (rule ref_copy[OF DependenceSpec_copy]) (simp add: view_def)
  show ?thesis
    by (rule struct_copy[OF both_copy[OF foreign_ref_copy both_copy[OF RolePhasePolicy_copy dep]], where part = "\<lambda>s. (hr_ReplicaSpec s, (hr_RolePhasePolicy s, hr_Dependence s))" and
        val = value_RoleSpec and with_part = "\<lambda>s t. s\<lparr>hr_ReplicaSpec := fst t, hr_RolePhasePolicy := fst (snd t), hr_Dependence := snd (snd t)\<rparr>"])
      (auto simp: read_RoleSpec_def refs_RoleSpec_def DeepCopyInto_RoleSpec_def copy_both_def Let_def fun_eq_iff split: Option.bind_splits prod.splits)
qed

lemma AresJobSpec_copy: "deep_copy (read_AresJobSpec F) (refs_AresJobSpec F) (DeepCopyInto_AresJobSpec F)"
proof -
  have role: "deep_copy (read_ref (view is_CRoleSpec un_RoleSpec) (read_RoleSpec F)) (refs_ref (view is_CRoleSpec un_RoleSpec) (refs_RoleSpec F)) (copy_ref CZero (view is_CRoleSpec un_RoleSpec) CRoleSpec (DeepCopyInto_RoleSpec F))"
    by (rule ref_copy[OF RoleSpec_copy]) (simp add: view_def)
  have roles: "deep_copy (read_ref (view is_CMap un_Map) (read_all (read_entry (read_ref (view is_CRoleSpec un_RoleSpec) (read_RoleSpec F))))) (refs_ref (view is_CMap un_Map) (refs_all (\<lambda>h e. refs_ref (view is_CRoleSpec un_RoleSpec) (refs_RoleSpec F) h (snd e)))) (copy_ref CZero (view is_CMap un_Map) CMap (copy_all (copy_entry (copy_ref CZero (view is_CRoleSpec un_RoleSpec) CRoleSpec (DeepCopyInto_RoleSpec F)))))"
    by (rule ref_copy[OF all_copy[OF entry_copy[OF role]]]) (simp add: view_def)
  have policy: "deep_copy (read_ref (view is_CJobPhasePolicy un_JobPhasePolicy) read_JobPhasePolicy) (refs_ref (view is_CJobPhasePolicy un_JobPhasePolicy) refs_JobPhasePolicy) (copy_ref CZero (view is_CJobPhasePolicy un_JobPhasePolicy) CJobPhasePolicy DeepCopyInto_JobPhasePolicy)"
    by (rule ref_copy[OF JobPhasePolicy_copy]) (simp add: view_def)
  show ?thesis
    by (rule struct_copy[OF both_copy[OF flat_copies(1) both_copy[OF struct_copies both_copy[OF flat_copies(3) both_copy[OF FrameworkSpec_copy both_copy[OF roles policy]]]]], where part = "\<lambda>s. (hs_TTLSecondsAfterFailed s, (hs_RunPolicy s, (hs_AvailablePorts s, (hs_Framework s, (hs_RoleSpecs s, hs_JobPhasePolicy s)))))" and
        val = value_AresJobSpec and with_part = "\<lambda>s t. s\<lparr>hs_TTLSecondsAfterFailed := fst t, hs_RunPolicy := fst (snd t), hs_AvailablePorts := fst (snd (snd t)), hs_Framework := fst (snd (snd (snd t))), hs_RoleSpecs := fst (snd (snd (snd (snd t)))), hs_JobPhasePolicy := snd (snd (snd (snd (snd t))))\<rparr>"])
      (auto simp: read_AresJobSpec_def refs_AresJobSpec_def DeepCopyInto_AresJobSpec_def copy_both_def Let_def fun_eq_iff split: Option.bind_splits prod.splits)
qed

lemma RoleStatus_copy: "deep_copy (read_RoleStatus F) (refs_RoleStatus F) (DeepCopyInto_RoleStatus F)"
proof -
  show ?thesis
    by (rule struct_copy[OF both_copy[OF struct_copies ReplicaStatus_copy], where part = "\<lambda>s. (ht_LastTransitionTime s, ht_ReplicaStatus s)" and
        val = value_RoleStatus and with_part = "\<lambda>s t. s\<lparr>ht_LastTransitionTime := fst t, ht_ReplicaStatus := snd t\<rparr>"])
      (auto simp: read_RoleStatus_def refs_RoleStatus_def DeepCopyInto_RoleStatus_def copy_both_def Let_def fun_eq_iff split: Option.bind_splits prod.splits)
qed

lemma AresJobStatus_copy: "deep_copy (read_AresJobStatus F) (refs_AresJobStatus F) (DeepCopyInto_AresJobStatus F)"
proof -
  have role: "deep_copy (read_ref (view is_CRoleStatus un_RoleStatus) (read_RoleStatus F)) (refs_ref (view is_CRoleStatus un_RoleStatus) (refs_RoleStatus F)) (copy_ref CZero (view is_CRoleStatus un_RoleStatus) CRoleStatus (DeepCopyInto_RoleStatus F))"
    by (rule ref_copy[OF RoleStatus_copy]) (simp add: view_def)
  have roles: "deep_copy (read_ref (view is_CMap un_Map) (read_all (read_entry (read_ref (view is_CRoleStatus un_RoleStatus) (read_RoleStatus F))))) (refs_ref (view is_CMap un_Map) (refs_all (\<lambda>h e. refs_ref (view is_CRoleStatus un_RoleStatus) (refs_RoleStatus F) h (snd e)))) (copy_ref CZero (view is_CMap un_Map) CMap (copy_all (copy_entry (copy_ref CZero (view is_CRoleStatus un_RoleStatus) CRoleStatus (DeepCopyInto_RoleStatus F)))))"
    by (rule ref_copy[OF all_copy[OF entry_copy[OF role]]]) (simp add: view_def)
  show ?thesis
    by (rule struct_copy[OF both_copy[OF foreign_ref_copy both_copy[OF roles nil_guard[OF time_copies]]], where part = "\<lambda>s. (hu_JobStatus s, (hu_RoleStatuses s, hu_RunningTime s))" and
        val = value_AresJobStatus and with_part = "\<lambda>s t. s\<lparr>hu_JobStatus := fst t, hu_RoleStatuses := fst (snd t), hu_RunningTime := snd (snd t)\<rparr>"])
      (auto simp: read_AresJobStatus_def refs_AresJobStatus_def DeepCopyInto_AresJobStatus_def copy_both_def Let_def fun_eq_iff split: Option.bind_splits prod.splits)
qed

lemma AresJob_copy: "deep_copy (read_AresJob F) (refs_AresJob F) (DeepCopyInto_AresJob F)"
proof -
  show ?thesis
    by (rule struct_copy[OF both_copy[OF struct_copies both_copy[OF AresJobSpec_copy AresJobStatus_copy]], where part = "\<lambda>s. (ha_ObjectMeta s, (ha_Spec s, ha_Status s))" and
        val = value_AresJob and with_part = "\<lambda>s t. s\<lparr>ha_ObjectMeta := fst t, ha_Spec := fst (snd t), ha_Status := snd (snd t)\<rparr>"])
      (auto simp: read_AresJob_def refs_AresJob_def DeepCopyInto_AresJob_def copy_both_def Let_def fun_eq_iff split: Option.bind_splits prod.splits)
qed

lemma AresJobList_copy: "deep_copy (read_AresJobList F) (refs_AresJobList F) (DeepCopyInto_AresJobList F)"
proof -
  have items: "deep_copy (read_ref (view is_CAresJobs un_AresJobs) (read_all (read_AresJob F))) (refs_ref (view is_CAresJobs un_AresJobs) (refs_all (refs_AresJob F))) (copy_ref CZero (view is_CAresJobs un_AresJobs) CAresJobs (copy_all (DeepCopyInto_AresJob F)))"
    by (rule ref_copy[OF all_copy[OF AresJob_copy]]) (simp add: view_def)
  show ?thesis
    by (rule struct_copy[OF both_copy[OF struct_copies items], where part = "\<lambda>s. (hl_ListMeta s, hl_Items s)" and
        val = value_AresJobList and with_part = "\<lambda>s t. s\<lparr>hl_ListMeta := fst t, hl_Items := snd t\<rparr>"])
      (auto simp: read_AresJobList_def refs_AresJobList_def DeepCopyInto_AresJobList_def copy_both_def Let_def fun_eq_iff split: Option.bind_splits prod.splits)
qed

end

section \<open>Properties\<close>

text \<open>The job that a pointer refers to, and the cells that it reaches.\<close>

definition job_at :: "'f foreign \<Rightarrow> 'f cell list \<Rightarrow> ref \<Rightarrow> AresJob option option" where
  "job_at F = read_ref (view is_CAresJob un_AresJob) (read_AresJob F)"

definition job_cells :: "'f foreign \<Rightarrow> 'f cell list \<Rightarrow> ref \<Rightarrow> nat set" where
  "job_cells F = refs_ref (view is_CAresJob un_AresJob) (refs_AresJob F)"

definition jobs_at :: "'f foreign \<Rightarrow> 'f cell list \<Rightarrow> ref \<Rightarrow> (string \<times> AresJob list) option option" where
  "jobs_at F = read_ref (view is_CAresJobList un_AresJobList) (read_AresJobList F)"

definition jobs_cells :: "'f foreign \<Rightarrow> 'f cell list \<Rightarrow> ref \<Rightarrow> nat set" where
  "jobs_cells F = refs_ref (view is_CAresJobList un_AresJobList) (refs_AresJobList F)"

sublocale foreign_copies \<subseteq> job: deep_copy "job_at F" "job_cells F" "DeepCopy_AresJob F"
  unfolding job_at_def job_cells_def DeepCopy_AresJob_def by (rule ref_copy[OF AresJob_copy]) (simp add: view_def)

sublocale foreign_copies \<subseteq> jobs: deep_copy "jobs_at F" "jobs_cells F" "DeepCopy_AresJobList F"
  unfolding jobs_at_def jobs_cells_def DeepCopy_AresJobList_def by (rule ref_copy[OF AresJobList_copy]) (simp add: view_def)

context foreign_copies
begin

lemmas job_isolates = job.isolates
lemmas jobs_isolates = jobs.isolates

text \<open>\<open>DeepCopyObject\<close> only turns the pointer into an interface value.\<close>

lemma DeepCopyObject_eq:
  "DeepCopyObject_AresJob F p h = DeepCopy_AresJob F p h" "DeepCopyObject_AresJobList F p h = DeepCopy_AresJobList F p h"
  by (auto simp: DeepCopyObject_AresJob_def DeepCopyObject_AresJobList_def split: Option.bind_split)

end

text \<open>Copies of other modules as a concrete program would have them: a struct that is flat, or points to a flat one.\<close>

datatype box = Flat foreign_value | Boxed nat

definition box_read :: "box cell list \<Rightarrow> box \<Rightarrow> foreign_value option" where
  "box_read h f = (case f of Flat v \<Rightarrow> Some v
     | Boxed a \<Rightarrow> (case fetch get_Foreign h a of Some (Flat v) \<Rightarrow> Some v | _ \<Rightarrow> None))"

definition box_refs :: "box cell list \<Rightarrow> box \<Rightarrow> nat set" where
  "box_refs h f = (case f of Flat v \<Rightarrow> {} | Boxed a \<Rightarrow> {a})"

definition box_copy :: "box \<Rightarrow> box cell list \<Rightarrow> (box \<times> box cell list) option" where
  "box_copy f h = (case f of Flat v \<Rightarrow> Some (f, h)
     | Boxed a \<Rightarrow> do { x \<leftarrow> fetch get_Foreign h a; Some (Boxed (length h), h @ [CForeign x]) })"

definition boxes :: "box foreign" where
  "boxes = \<lparr>f_read = box_read, f_refs = box_refs, f_DeepCopyInto = box_copy, f_Time_DeepCopy = copy_ref CZero get_Foreign CForeign box_copy\<rparr>"

lemma box_copies: "deep_copy box_read box_refs box_copy"
proof
  fix h f v
  assume r: "box_read h f = Some v"
  show "box_refs h f \<subseteq> {..<length h}"
    using r by (auto simp: box_read_def box_refs_def fetch_def split: box.splits option.splits if_splits)
  show "\<exists>g new. box_copy f h = Some (g, h @ new) \<and> box_read (h @ new) g = Some v \<and> box_refs (h @ new) g \<subseteq> {length h..<length h + length new}"
  proof (cases f)
    case (Flat w)
    with r show ?thesis by (simp add: box_read_def box_refs_def box_copy_def)
  next
    case (Boxed a)
    with r have a: "fetch get_Foreign h a = Some (Flat v)" by (auto simp: box_read_def split: option.splits box.splits)
    then show ?thesis
      by (intro exI[of _ "Boxed (length h)"] exI[of _ "[CForeign (Flat v)]"])
        (simp add: Boxed box_copy_def box_read_def box_refs_def fetch_def view_def)
  qed
next
  fix h f v h'
  assume r: "box_read h f = Some v" "\<forall>a \<in> box_refs h f. a < length h' \<and> h' ! a = h ! a"
  then show "box_read h' f = Some v \<and> box_refs h' f = box_refs h f"
    by (auto simp: box_read_def box_refs_def fetch_def split: box.splits option.splits if_splits)
qed

interpretation boxed: foreign_copies boxes
  by (rule foreign_copies.intro) (simp_all add: boxes_def box_copies ref_copy[OF box_copies] view_def)

text \<open>
  C17. Deep copies are independent. \<open>DeepCopy\<close> of a job succeeds, changes no cell that was there, and its result stands for the
  same job; whatever is changed outside the cells that were there before leaves the original alone, and whatever is changed in them leaves the
  copy alone.
\<close>

theorem DeepCopy_AresJob_isolates:
  assumes "foreign_copies F" "job_at F h p = Some v"
  shows "\<exists>q new. DeepCopy_AresJob F p h = Some (q, h @ new) \<and> job_at F (h @ new) q = Some v \<and>
     (\<forall>h'. take (length h) h' = h \<longrightarrow> job_at F h' p = Some v) \<and>
     (\<forall>h'. length h \<le> length h' \<and> drop (length h) h' = new \<longrightarrow> job_at F h' q = Some v)"
  using assms by (rule foreign_copies.job_isolates)

text \<open>A job with one role, laid out in seven cells; two structs of other modules are boxed.\<close>

definition small_heap :: "box cell list" where
  "small_heap =
    [CForeign (Flat (VObjectMeta \<lparr>om_Name = ''job'', om_Namespace = ''ns'', om_UID = ''uid'', om_Labels = Some [(''a'', ''b'')], om_Annotations = None,
       om_Finalizers = [], om_DeletionTimestamp = None\<rparr>)),
     CForeign (Flat (VReplicaSpec (the (role_ReplicaSpec (plain_role 2 RestartPolicyNever []))))),
     CStrings [RoleWorker],
     CDependenceSpec \<lparr>hd_RoleNames = Some 2, hd_RolePhase = RolePhaseRunning, hd_MPIHostFile = None\<rparr>,
     CRoleSpec \<lparr>hr_ReplicaSpec = Some 1, hr_RolePhasePolicy = \<lparr>hp_Failed = None, hp_Succeeded = None, hp_NodeDownAsFailed = False\<rparr>,
       hr_Controller = [], hr_Dependence = Some 3\<rparr>,
     CMap [(RoleLauncher, Some 4), (RoleWorker, None)],
     CAresJob \<lparr>ha_TypeMeta = (''ares.io/v1'', ''AresJob''), ha_ObjectMeta = Boxed 0,
       ha_Spec = \<lparr>hs_TTLSecondsAfterFailed = None, hs_RunPolicy = Flat (VRunPolicy \<lparr>rp_CleanPodPolicy = None, rp_SchedulingPolicy = None\<rparr>),
         hs_AvailablePorts = None, hs_FrameworkType = ''standalone'',
         hs_Framework = \<lparr>hf_Bagua = None, hf_MPI = None, hf_Tensorflow = None\<rparr>, hs_RoleSpecs = Some 5, hs_JobPhasePolicy = None\<rparr>,
       ha_Status = \<lparr>hu_JobStatus = None, hu_RoleStatuses = None, hu_Phase = [], hu_RunningTime = None\<rparr>\<rparr>]"

definition small_job :: AresJob where
  "small_job = the (the (job_at boxes small_heap (Some 6)))"

theorem DeepCopy_AresJob_isolates_witness:
  "\<exists>q new. DeepCopy_AresJob boxes (Some 6) small_heap = Some (q, small_heap @ new) \<and> job_at boxes (small_heap @ new) q = Some (Some small_job) \<and>
     job_Name small_job = ''job'' \<and> job_at boxes (small_heap @ [CZero]) (Some 6) = Some (Some small_job)"
proof -
  have "case job_at boxes small_heap (Some 6) of Some (Some job) \<Rightarrow> job_Name job = ''job'' | _ \<Rightarrow> False" by code_simp
  then have j: "job_at boxes small_heap (Some 6) = Some (Some small_job)" "job_Name small_job = ''job''"
    by (auto simp: small_job_def split: option.splits)
  from DeepCopy_AresJob_isolates[OF boxed.foreign_copies_axioms j(1)] obtain q new where
    "DeepCopy_AresJob boxes (Some 6) small_heap = Some (q, small_heap @ new)" "job_at boxes (small_heap @ new) q = Some (Some small_job)"
    "\<forall>h'. take (length small_heap) h' = small_heap \<longrightarrow> job_at boxes h' (Some 6) = Some (Some small_job)" by blast
  with j(2) show ?thesis by (intro exI[of _ q] exI[of _ new]) simp
qed

end
