(* ===== verification/Spec2Isabelle.thy ===== *)
theory Spec2Isabelle
  imports Startup Convergence Isolation Deep_Copy
begin

text \<open>
  A verification of the Ares operator, a Kubernetes operator that runs distributed machine-learning jobs.

  \<^bold>\<open>The program.\<close> A job is a custom resource \<open>AresJob\<close> with one spec per role and one framework (\<open>src/api/v1\<close>). The controller
  (\<open>src/controllers\<close>) is called with the name of a job whenever the job, one of its objects or a node changes. One round
  (\<open>Reconcile\<close>) finalizes a deleted job, writes defaults back, validates, waits until the creations and deletions of earlier rounds
  have been observed, follows the pod group of a gang-scheduled job, and then lets the framework of the job (\<open>src/frameworks\<close>)
  reconcile pods and services through the common machinery of \<open>src/reconciler\<close>. The phases of the roles are counted from
  the pods, the phase of the job from its roles. Pods that have to wait for other roles get an init container that polls the role
  cache (\<open>src/cache\<close>) through the observer, an HTTP server (\<open>src/observer\<close>). Finished jobs are deleted after their time to live.

  \<^bold>\<open>How the model is built.\<close> Structs are records and Go maps are association lists or nil (\<open>gomap\<close>), so that an iteration has an order and
  a theorem about any such list holds for every order of the visit. A panic is the value \<open>None\<close> of an operation that can panic; Go
  errors are values of \<open>go_error\<close> in a sum. \<open>int32\<close> values are words; \<open>int\<close> and durations are integers with
  \<open>wrap64\<close> written out where the source adds or multiplies. Every call to the API server, to the expectation store, to the recorder and to a
  queue is an element of a trace of effects: an operation takes the trace so far and returns it extended, and the server is a
  function from the trace and the call to an answer, so that the theorems hold for every server, however it fails.
  The loops of the source run over finite data and are structural recursions or folds: there is no fuel.

  \<^bold>\<open>What is a parameter.\<close> The record \<open>ext\<close> (\<open>Api_Types\<close>) holds the third-party functions the sources call (kubeflow's label names, keys and
  condition updates, label selectors, finalizer helpers, templates); \<open>Libs\<close> (\<open>Controller\<close>) holds scheme defaulting and kubeflow's generic
  \<open>ReconcileJobs\<close>; \<open>World\<close> (\<open>Podgroups\<close>) holds the answers to reads and the clock. What a theorem needs of them is a named predicate that
  states documented behaviour (\<open>conditions_recorded\<close>, \<open>owner_refs_ok\<close>, \<open>selectors_ok\<close>, \<open>finalizers_ok\<close>, \<open>pods_from_templates\<close>,
  \<open>lists_by_index\<close>, \<open>keys_prefixed\<close>, for kubeflow's \<open>ReconcileJobs\<close> \<open>uses_interface\<close>, for its store of expectations \<open>documented_store\<close>, which counts
  and lets entries expire, and for gin's middleware \<open>recovers\<close>); \<open>plain_ext\<close> is an instance that satisfies those on \<open>ext\<close>. \<open>foreign\<close> (\<open>Deep_Copy\<close>) holds the deep copies of other modules, with
  the locale \<open>foreign_copies\<close> as their contract, and \<open>process\<close> (\<open>Startup\<close>) the answers to the calls of a start.

  \<^bold>\<open>The theories\<close>, in the order in which they build on each other:
    \<^item> \<open>Go_Prelude\<close>: Go maps, slices, decimal conversion, string functions, \<open>sort.Slice\<close>, wrap-around; \<open>Errors\<close>: \<open>reconciler/errors.go\<close>.
    \<^item> \<open>Api_Types\<close>: \<open>api/v1\<close>, its types, constants and methods. \<open>Webhook\<close>: \<open>aresjob_webhook.go\<close> and \<open>utils/validation.go\<close>; defaulting
      establishes well-formed roles, settles, and validation accepts exactly the declared conditions.
    \<^item> \<open>Metadata\<close>: \<open>metadata/\<close> and \<open>reconciler/metadata.go\<close>; one patch makes job-level metadata agree.
    \<^item> \<open>Node_Manager\<close>: \<open>reconciler/node/manager.go\<close>; a node is down exactly when last seen unhealthy.
    \<^item> \<open>Role_Cache\<close>: \<open>cache/\<close>; the interface as the locale \<open>role_cache\<close>, interpreted on the memory backend and on the wrapper; histories refine a map.
    \<^item> \<open>Reconciler_Utils\<close>: \<open>reconciler/utils.go\<close>; pods are sorted by numeric index although only lengths and bytes are compared.
    \<^item> \<open>Phases\<close>: \<open>reconciler/phase.go\<close>; role phases are the specification over pod counts, job phases that over role phases, and neither goes back.
    \<^item> \<open>Conf\<close>: \<open>conf/type.go\<close> and \<open>reconciler/cache.go\<close>. \<open>Dependence\<close>: \<open>reconciler/dependence.go\<close>, the waiting init containers.
    \<^item> \<open>Cluster\<close>: objects, effects and the environment of \<open>reconciler/reconciler.go\<close>, with \<open>reconciler/control/pod.go\<close>.
    \<^item> \<open>Pods\<close>: \<open>reconciler/pod.go\<close>; the calls a round makes, that gaps are filled, that a complete role is left alone.
    \<^item> \<open>Services\<close>: \<open>reconciler/service.go\<close>. \<open>Expectations\<close>: \<open>reconciler/expectation.go\<close>; a gate that opens exactly when all requests are
      observed or the entry has expired.
    \<^item> \<open>Framework_Common\<close>, \<open>Simple_Frameworks\<close>, \<open>Go_Encoding\<close>, \<open>Pytorch\<close>, \<open>Tensorflow\<close>, \<open>Dask\<close>, \<open>Bagua\<close>, \<open>Frameworks\<close>: \<open>frameworks/\<close>.
      What the controller relies on are the locales \<open>framework_defaults\<close> (\<open>Framework_Common\<close>) and \<open>pod_identity\<close> (\<open>Pods\<close>), which every
      framework interprets. Ranks are a bijection onto the world, ports are shared without overlap, and \<open>TF_CONFIG\<close> describes the
      whole cluster or, with dynamic workers, exactly the part of it that the role gets; what pods of further roles are told is stated too.
    \<^item> \<open>Podgroups\<close>: \<open>reconciler/podgroup.go\<close>; eviction is final. \<open>Jobs\<close>: \<open>reconciler/job.go\<close>; clean-up and the gate of gang scheduling.
    \<^item> \<open>Controller\<close>: \<open>controllers/aresjob_controller.go\<close> and \<open>controllers/job.go\<close>; a round touches objects only for a ready job, defaulting
      terminates, role phases are published, clean-ups are scheduled without overflow, finalization leaves nothing behind.
    \<^item> \<open>Events\<close>: \<open>controllers/event_handler.go\<close>, \<open>controllers/index.go\<close> and the indexed lists; requested pods are found again.
    \<^item> \<open>Observer\<close>: \<open>observer/\<close>; it answers what the operator itself publishes, with the right status, also when a handler panics.
    \<^item> \<open>Convergence\<close>: rounds over the pods of a role in a row, as a step relation between the pods of one round and the next; a role that
      may restart its pods settles on one healthy pod per index, with the number of slices as the variant, and a round goes through
      when nothing that it calls fails.
    \<^item> \<open>Cleanup\<close>: the goroutine of \<open>setupCleanUpQueue\<close> beside rounds, as interleaved moves; no scheduled clean-up is lost, whatever fails, and
      the queue drains once nothing fails any more.
    \<^item> \<open>Isolation\<close>: jobs beside each other; every call of a round belongs to the job of the round, and whatever calls other jobs make in
      between, in any order, a job finds its expectations as they were and its objects and its clean-up untouched.
    \<^item> \<open>Startup\<close>: \<open>cmd/\<close>, \<open>SetupWithManager\<close> of the controller and of the observer; a start is a sequence of calls that ends at the first
      error, and a manager that starts has everything registered, so that the lists of \<open>Events\<close> answer.
    \<^item> \<open>Deep_Copy\<close>: \<open>zz_generated.deepcopy.go\<close> over an explicit heap; the locale \<open>deep_copy\<close> is the contract of a copy, and every generated
      function meets it when those of other modules do. It is what lets the other theories treat the job of a round as a value.
    \<^item> This theory: services lead to the pods they are made for, for every registered framework.

  \<^bold>\<open>Bounds.\<close> Replica counts and indices are assumed below \<open>2 ^ 31\<close> where pods are counted or indices are parsed, clocks below \<open>2 ^ 62\<close>
  nanoseconds where a delay is computed, lengths of slices below \<open>2 ^ 63\<close>: these are the ranges of \<open>int32\<close> replicas, of the clock until
  the year 2116 and of a Go \<open>int\<close>, and they keep the modelled arithmetic within its width.

  \<^bold>\<open>Not modelled.\<close> What lies inside controller-runtime, client-go, kubeflow, cobra and gin: the start-up code only decides which of their calls
  are made, and that is modelled. Of the clean-up queue only its documented delivery is assumed (\<open>Cleanup\<close>), not its delays.
  Logging, the printing of options, the set-up of the logger, the registration of the types in the scheme, and the stubs of \<open>utils/fake\<close>.
  Rounds for different jobs run concurrently in the program. Each definition is one round of one job whose reads may depend in any way on
  what has happened; \<open>jobs_isolated\<close> is about calls in any order, \<open>Cleanup\<close> interleaves whole rounds with the worker. The operations of
  the shared state are modelled one after the other. The node registry holds a lock around each of its operations. The role cache has no lock: it is a
  plain Go map that up to ten rounds use at a time, and what the Go runtime does when two of them touch it at once is not modelled.
\<close>

section \<open>Names that meet\<close>

lemma ReconcileServices_new:
  assumes "ReconcileServices R job services role (Some spec) tr = Some (err, tr')" "CreateService ns svc ref \<in> set (drop (length tr) tr')"
  shows "ns = job_Namespace job \<and> (\<exists>ports. svc = new_service (r_ctl R) job (ToLower role) ports)"
proof -
  from assms have "CreateNewSharedService R job role spec tr = Some (err, tr')"
    by (auto simp: ReconcileServices_def Let_def split: if_splits)
  from CreateNewSharedService_effects[OF this] assms(2) show ?thesis by (auto split: if_splits)
qed

text \<open>
  C14. Services lead to pods. For every registered framework, a service it has made for a role and a pod that is requested for an
  index of that role meet: both are in the namespace of the job, every entry of the service's selector is a label of the pod, the
  service bears the name of the pod's subdomain, and so the domain name that the operator hands out for that index is
  the host name of this pod under that service.
\<close>

theorem services_reach_pods:
  assumes "standard_frameworks r" "getFramework (c_Frameworks r) name = Some f" "R = framework_reconciler (c_Reconciler r) f"
    and "pods_from_templates (r_ext R)"
    and "fw_ReconcileServices f R job services role (Some spec) tr = Some (err, tr')" "CreateService ns svc ref \<in> set (drop (length tr) tr')"
    and "CreateNewPod R job (ToLower role) (itoa i) pspec b tr2 = Some (err2, tr2')" "PodsCreate ns2 p \<in> set (drop (length tr2) tr2')"
  shows "ns = job_Namespace job \<and> ns2 = job_Namespace job \<and>
    (\<forall>(k, v) \<in> set (gm_entries (svc_Selector svc)). gm_get (pt_Labels (np_Object p)) k = Some v) \<and>
    svc_Name svc = ps_Subdomain (pt_Spec (np_Object p)) \<and>
    GetPodDomainName (r_ext R) (job_Name job) (job_Namespace job) (ToLower role) i =
      ps_Hostname (pt_Spec (np_Object p)) @ ''.'' @ svc_Name svc @ ''.'' @ ns @ ''.svc.cluster.local''"
proof -
  have R: "r_ext R = r_ext (c_Reconciler r)" "r_ctl R = fw_controller f" using assms(3) by (simp_all add: framework_reconciler_def)
  note names = standard_framework_services(1,2)[OF assms(1,2) refl, folded R(1)]
  have id: "pod_identity (fw_controller f)" using standard_framework_interfaces[OF assms(1,2)] by blast
  from standard_framework_services(3)[OF assms(1,2) refl assms(5)] assms(6)
  have "ReconcileServices R job services role (Some spec) tr = Some (err, tr')" by auto
  from ReconcileServices_new[OF this assms(6)] obtain ports where
    svc: "ns = job_Namespace job" "svc = new_service (fw_controller f) job (ToLower role) ports" using R(2) by auto
  from pod_identity.CreateNewPod_effects[OF id assms(4) R(2) assms(7)] assms(8)
  have w: "ns2 = job_Namespace job" "wanted_pod (fw_controller f) (r_ext R) job (ToLower role) (itoa i) p" by (fastforce simp: grows_def)+
  have "set (AList.update ReplicaTypeLabel (ToLower role) (GenLabels (fw_controller f) (job_Name job)))
      \<subseteq> insert (ReplicaTypeLabel, ToLower role) (set (GenLabels (fw_controller f) (job_Name job)))"
    by (auto simp: GenLabels_def)
  then have "\<forall>(k, v) \<in> set (gm_entries (svc_Selector svc)). gm_get (pt_Labels (np_Object p)) k = Some v"
    using w(2) svc(2) new_service_selector(1)[of "fw_controller f" job "ToLower role" ports] by (auto simp: wanted_pod_def)
  then show ?thesis
    using svc w names new_service_selector(2)[of "fw_controller f" job "ToLower role" ports]
    by (simp add: wanted_pod_def GetPodDomainName_def GetServiceDomainName_def)
qed

definition custom_reconciler :: Reconciler where
  "custom_reconciler = framework_reconciler plain_reconciler (CustomFramework plain_ext)"

fun is_service :: "effect \<Rightarrow> bool" where
  "is_service (CreateService ns svc ref) = True"
| "is_service _ = False"

theorem services_reach_pods_witness:
  "\<exists>err tr ns svc ref err2 tr2 ns2 p. fw_ReconcileServices (CustomFramework plain_ext) custom_reconciler two_workers [] RoleWorker (Some served_spec) [] = Some (err, tr) \<and>
     CreateService ns svc ref \<in> set tr \<and>
     CreateNewPod custom_reconciler two_workers (ToLower RoleWorker) (itoa 0) worker_spec False [] = Some (err2, tr2) \<and>
     PodsCreate ns2 p \<in> set tr2 \<and> svc_Name svc = ps_Subdomain (pt_Spec (np_Object p)) \<and>
     (\<forall>(k, v) \<in> set (gm_entries (svc_Selector svc)). gm_get (pt_Labels (np_Object p)) k = Some v)"
proof -
  let ?f = "CustomFramework plain_ext" and ?R = custom_reconciler
  let ?svcs = "fw_ReconcileServices ?f ?R two_workers [] RoleWorker (Some served_spec) []"
  let ?pods = "CreateNewPod ?R two_workers (ToLower RoleWorker) (itoa 0) worker_spec False []"
  have "map_of registrations FrameworkCustom = Some CustomFramework" by (simp add: registrations_def go_consts)
  then have f: "getFramework (c_Frameworks plain_controller) FrameworkCustom = Some ?f"
    using getFramework_setup[of Factory plain_ext FrameworkCustom] framework_names_distinct
    by (simp add: plain_controller_def Factory_registrations)
  have R: "?R = framework_reconciler (c_Reconciler plain_controller) ?f" by (simp add: plain_controller_def custom_reconciler_def)
  have E: "pods_from_templates (r_ext ?R)"
    using plain_pods_from_templates by (simp add: custom_reconciler_def framework_reconciler_def plain_reconciler_def)
  have "case ?svcs of Some (_, tr) \<Rightarrow> list_ex is_service tr | None \<Rightarrow> False" by code_simp
  then obtain err tr ns svc ref where s: "?svcs = Some (err, tr)" "CreateService ns svc ref \<in> set tr"
    by (auto simp: list_ex_iff split: option.splits elim!: is_service.elims)
  have "case ?pods of Some (_, tr) \<Rightarrow> list_ex is_create tr | None \<Rightarrow> False" by code_simp
  then obtain err2 tr2 ns2 p where p: "?pods = Some (err2, tr2)" "PodsCreate ns2 p \<in> set tr2"
    by (auto simp: list_ex_iff split: option.splits elim!: is_create.elims)
  from services_reach_pods[OF plain_standard f R E s(1) _ p(1), of ns svc ref ns2 p] s(2) p(2)
  have "svc_Name svc = ps_Subdomain (pt_Spec (np_Object p))"
    "\<forall>(k, v) \<in> set (gm_entries (svc_Selector svc)). gm_get (pt_Labels (np_Object p)) k = Some v" by simp_all
  with s p show ?thesis by blast
qed

end
